(* ===== verification/Prelude.thy ===== *)
theory Prelude
  imports Main "HOL-Library.Word"
begin

text \<open>
  Shared vocabulary of the development: the machine types of the C and C++ sources, the
  result type in which undefined behaviour and exceptions are values, reads from C
  buffers through an index variable, little and big endian composition of bytes, and the
  effects (packets sent, transfers resubmitted, records logged, lines printed) that the
  handlers of the stack perform.
\<close>

unbundle bit_operations_syntax

section \<open>Machine types\<close>

type_synonym u8 = "8 word"
type_synonym u16 = "16 word"
type_synonym u32 = "32 word"
type_synonym u64 = "64 word"
type_synonym bytes = "u8 list"

section \<open>Results\<close>

text \<open>
  \<open>Out_Of_Bounds\<close>: an access outside an array (undefined behaviour in the sources);
  \<open>Indeterminate\<close>: the use of a variable that was never initialised;
  \<open>Thrown n\<close>: \<open>throw n\<close>; \<open>Thrown_Text s\<close>: a thrown string literal;
  \<open>Out_Of_Range\<close>: \<open>std::out_of_range\<close>, thrown by the checked \<open>at\<close> of the containers;
  \<open>Null_Pointer\<close>: a call or an access through a null pointer.
\<close>

datatype cerror =
    Out_Of_Bounds
  | Indeterminate
  | Thrown int
  | Thrown_Text string
  | Out_Of_Range
  | Null_Pointer

type_synonym 'a res = "cerror + 'a"

text \<open>Sequencing: a failed statement ends the function.\<close>

fun andthen :: "'a res \<Rightarrow> ('a \<Rightarrow> 'b res) \<Rightarrow> 'b res" where
  "andthen (Inl e) f = Inl e"
| "andthen (Inr x) f = f x"

lemma andthen_eq_Inr:
  "andthen m f = Inr y \<longleftrightarrow> (\<exists>x. m = Inr x \<and> f x = Inr y)"
  by (cases m) auto

lemma andthen_assoc:
  "andthen (andthen m f) g = andthen m (\<lambda>x. andthen (f x) g)"
  by (cases m) auto

lemma andthen_cong [fundef_cong]:
  "m = m' \<Longrightarrow> (\<And>x. m' = Inr x \<Longrightarrow> f x = f' x) \<Longrightarrow> andthen m f = andthen m' f'"
  by (cases m') auto

lemma andthen_Inr_right [simp]: "andthen m Inr = m"
  by (cases m) simp_all

text \<open>Used with \<open>cong:\<close> this evaluates a sequence of statements from the front.\<close>

lemma andthen_weak_cong: "m = m' \<Longrightarrow> andthen m f = andthen m' f"
  by simp

section \<open>Reading C buffers\<close>

text \<open>\<open>fetch b i\<close> is the read \<open>b[i]\<close> of an array that holds \<open>length b\<close> bytes.\<close>

definition fetch :: "bytes \<Rightarrow> nat \<Rightarrow> u8 res" where
  "fetch b i = (if i < length b then Inr (b ! i) else Inl Out_Of_Bounds)"

text \<open>\<open>next_byte b idx\<close> is \<open>b[idx++]\<close> for an index of type \<open>uint8_t\<close>, which wraps at 256.\<close>

definition next_byte :: "bytes \<Rightarrow> u8 \<Rightarrow> (u8 \<times> u8) res" where
  "next_byte b idx = andthen (fetch b (unat idx)) (\<lambda>v. Inr (v, idx + 1))"

text \<open>\<open>next_byte_int b idx\<close> is \<open>b[idx++]\<close> for an index of type \<open>int\<close>.\<close>

definition next_byte_int :: "bytes \<Rightarrow> int \<Rightarrow> (u8 \<times> int) res" where
  "next_byte_int b idx =
     (if 0 \<le> idx then andthen (fetch b (nat idx)) (\<lambda>v. Inr (v, idx + 1)) else Inl Out_Of_Bounds)"

lemma fetch_Inr [simp]: "i < length b \<Longrightarrow> fetch b i = Inr (b ! i)"
  by (simp add: fetch_def)

lemma fetch_oob [simp]: "length b \<le> i \<Longrightarrow> fetch b i = Inl Out_Of_Bounds"
  by (simp add: fetch_def)

lemma fetch_append [simp]:
  "fetch (xs @ ys) (length xs + i) = fetch ys i"
  by (simp add: fetch_def nth_append)

lemma next_byte_Inr [simp]: "unat idx < length b \<Longrightarrow> next_byte b idx = Inr (b ! unat idx, idx + 1)"
  by (simp add: next_byte_def)

lemma next_byte_oob [simp]: "length b \<le> unat idx \<Longrightarrow> next_byte b idx = Inl Out_Of_Bounds"
  by (simp add: next_byte_def)

lemma next_byte_int_Inr [simp]:
  "0 \<le> idx \<Longrightarrow> nat idx < length b \<Longrightarrow> next_byte_int b idx = Inr (b ! nat idx, idx + 1)"
  by (simp add: next_byte_int_def)

text \<open>\<open>holds_at b p bs\<close>: the bytes \<open>bs\<close> stand in the buffer from position \<open>p\<close> on.\<close>

definition holds_at :: "bytes \<Rightarrow> nat \<Rightarrow> bytes \<Rightarrow> bool" where
  "holds_at b p bs \<longleftrightarrow> p + length bs \<le> length b \<and> take (length bs) (drop p b) = bs"

lemma holds_at_Cons:
  "holds_at b p (x # bs) \<longleftrightarrow> p < length b \<and> b ! p = x \<and> holds_at b (Suc p) bs"
proof (cases "p < length b")
  case True
  then have "drop p b = b ! p # drop (Suc p) b" by (simp add: Cons_nth_drop_Suc)
  then show ?thesis using True by (auto simp: holds_at_def)
qed (auto simp: holds_at_def)

lemma holds_at_Nil [simp]: "holds_at b p [] \<longleftrightarrow> p \<le> length b"
  by (simp add: holds_at_def)

lemma holds_at_append:
  "holds_at b p (xs @ ys) \<longleftrightarrow> holds_at b p xs \<and> holds_at b (p + length xs) ys"
proof (induction xs arbitrary: p)
  case Nil
  then show ?case by (auto simp: holds_at_def)
qed (auto simp: holds_at_Cons)

lemma holds_at_fetch: "holds_at b p bs \<Longrightarrow> i < length bs \<Longrightarrow> fetch b (p + i) = Inr (bs ! i)"
proof (induction bs arbitrary: p i)
  case (Cons x bs)
  show ?case
  proof (cases i)
    case (Suc j)
    then show ?thesis using Cons.IH [of "Suc p" j] Cons.prems by (auto simp: holds_at_Cons)
  qed (use Cons.prems in \<open>auto simp: holds_at_Cons\<close>)
qed simp

lemma holds_at_middle: "holds_at (xs @ ys @ zs) (length xs) ys"
  by (simp add: holds_at_def)

text \<open>
  Loops that print a range of a buffer: \<open>fetch_up b lo n\<close> reads \<open>b[lo]\<close> up to
  \<open>b[lo + n - 1]\<close>, \<open>fetch_down\<close> the same bytes from the last to the first.
\<close>

fun fetch_up :: "bytes \<Rightarrow> nat \<Rightarrow> nat \<Rightarrow> bytes res" where
  "fetch_up b lo 0 = Inr []"
| "fetch_up b lo (Suc n) =
     andthen (fetch b lo) (\<lambda>v. andthen (fetch_up b (Suc lo) n) (\<lambda>vs. Inr (v # vs)))"

fun fetch_down :: "bytes \<Rightarrow> nat \<Rightarrow> nat \<Rightarrow> bytes res" where
  "fetch_down b lo 0 = Inr []"
| "fetch_down b lo (Suc n) =
     andthen (fetch b (lo + n)) (\<lambda>v. andthen (fetch_down b lo n) (\<lambda>vs. Inr (v # vs)))"

lemma fetch_numeral:
  "fetch_up b lo (numeral w) =
     andthen (fetch b lo) (\<lambda>v. andthen (fetch_up b (Suc lo) (pred_numeral w)) (\<lambda>vs. Inr (v # vs)))"
  "fetch_down b lo (numeral w) =
     andthen (fetch b (lo + pred_numeral w)) (\<lambda>v.
       andthen (fetch_down b lo (pred_numeral w)) (\<lambda>vs. Inr (v # vs)))"
  by (simp_all add: numeral_eq_Suc)

lemma fetch_up_holds: "holds_at b lo bs \<Longrightarrow> fetch_up b lo (length bs) = Inr bs"
  by (induction bs arbitrary: lo) (auto simp: holds_at_Cons)

lemma fetch_down_holds: "holds_at b lo bs \<Longrightarrow> fetch_down b lo (length bs) = Inr (rev bs)"
proof (induction bs rule: rev_induct)
  case (snoc x bs)
  then show ?case
    using holds_at_fetch [OF snoc.prems, of "length bs"] by (simp add: holds_at_append)
qed simp

lemma fetch_down_in_range:
  assumes "lo + n \<le> length b"
  shows "fetch_down b lo n = Inr (rev (take n (drop lo b)))"
proof -
  have "length (take n (drop lo b)) = n" using assms by simp
  then show ?thesis
    using fetch_down_holds [of b lo "take n (drop lo b)"] assms by (simp add: holds_at_def)
qed

lemma fetch_up_in_range:
  assumes "lo + n \<le> length b"
  shows "fetch_up b lo n = Inr (take n (drop lo b))"
proof -
  have "length (take n (drop lo b)) = n" using assms by simp
  then show ?thesis
    using fetch_up_holds [of b lo "take n (drop lo b)"] assms by (simp add: holds_at_def)
qed

lemma fetch_up_too_far: "length b < lo + n \<Longrightarrow> 0 < n \<Longrightarrow> fetch_up b lo n = Inl Out_Of_Bounds"
proof (induction n arbitrary: lo)
  case (Suc n)
  then show ?case by (cases "lo < length b") (simp_all add: fetch_def)
qed simp

section \<open>Composing and splitting multi-byte values\<close>

text \<open>
  \<open>join16 hi lo\<close> is \<open>(hi << 8) + lo\<close> stored in a \<open>uint16_t\<close>: both bytes are promoted to
  \<open>int\<close>, so nothing is lost. \<open>join8 hi lo\<close> is the same expression stored in a
  \<open>uint8_t\<close>, which keeps the low byte only.
\<close>

definition join16 :: "u8 \<Rightarrow> u8 \<Rightarrow> u16" where
  "join16 hi lo = push_bit 8 (ucast hi) + ucast lo"

definition join8 :: "u8 \<Rightarrow> u8 \<Rightarrow> u8" where
  "join8 hi lo = ucast (join16 hi lo)"

definition low8 :: "u16 \<Rightarrow> u8" where
  "low8 x = ucast (x AND 0xFF)"

definition high8 :: "u16 \<Rightarrow> u8" where
  "high8 x = ucast (drop_bit 8 x)"

lemma unat_u8_less [simp]: "unat (x :: u8) < 256"
  using unsigned_less [of x] by simp

lemma unat_u16_less [simp]: "unat (x :: u16) < 65536"
  using unsigned_less [of x] by simp

lemma unat_ucast_u8: "unat (ucast (x :: u16) :: u8) = unat x mod 256"
  by (simp add: unsigned_ucast_eq take_bit_eq_mod)

lemma unat_ucast_u16: "unat (ucast (x :: u8) :: u16) = unat x"
proof -
  have "unat x < 65536" using unat_u8_less [of x] by linarith
  then show ?thesis by (simp add: unsigned_ucast_eq take_bit_eq_mod)
qed

lemma unat_join16: "unat (join16 hi lo) = 256 * unat hi + unat lo"
proof -
  have "256 * unat hi + unat lo < 65536"
    using unat_u8_less [of hi] unat_u8_less [of lo] by linarith
  moreover have "unat (push_bit 8 (ucast hi :: u16)) = 256 * unat hi mod 65536"
    by (simp add: push_bit_eq_mult unat_word_ariths unat_ucast_u16 mult.commute)
  ultimately show ?thesis
    by (simp add: join16_def unat_word_ariths unat_ucast_u16)
qed

lemma join8_low [simp]: "join8 hi lo = lo"
proof -
  have "unat (ucast (join16 hi lo) :: u8) = unat lo"
    by (simp add: unat_ucast_u8 unat_join16)
  then show ?thesis by (simp add: join8_def unsigned_word_eqI)
qed

lemma unat_low8: "unat (low8 x) = unat x mod 256"
proof -
  have "x AND 255 = take_bit 8 x" by (simp add: take_bit_eq_mask mask_eq_exp_minus_1)
  moreover have "unat (take_bit 8 x) = unat x mod 256"
    by (simp only: unsigned_take_bit_eq) (simp add: take_bit_eq_mod)
  ultimately show ?thesis
    by (simp only: low8_def unat_ucast_u8) simp
qed

lemma unat_high8: "unat (high8 x) = unat x div 256"
proof -
  have "unat x div 256 < 256" using unat_u16_less [of x] by linarith
  moreover have "unat (drop_bit 8 x) = unat x div 256"
    by (simp only: unat_drop_bit_eq) (simp add: drop_bit_eq_div)
  ultimately show ?thesis by (simp only: high8_def unat_ucast_u8) simp
qed

lemma join16_high_low [simp]: "join16 (high8 x) (low8 x) = x"
proof -
  have "unat (join16 (high8 x) (low8 x)) = unat x"
    by (simp add: unat_join16 unat_high8 unat_low8)
  then show ?thesis by (simp add: unsigned_word_eqI)
qed

lemma low8_join16 [simp]: "low8 (join16 hi lo) = lo"
proof -
  have "unat (low8 (join16 hi lo)) = unat lo"
    by (simp add: unat_low8 unat_join16)
  then show ?thesis by (simp add: unsigned_word_eqI)
qed

lemma high8_join16 [simp]: "high8 (join16 hi lo) = hi"
proof -
  have "unat (high8 (join16 hi lo)) = unat hi"
    by (simp add: unat_high8 unat_join16)
  then show ?thesis by (simp add: unsigned_word_eqI)
qed

lemma join16_eq_iff: "join16 h l = join16 h' l' \<longleftrightarrow> h = h' \<and> l = l'"
  by (metis high8_join16 low8_join16)

section \<open>Packets assembled in a zeroed buffer\<close>

text \<open>
  The senders fill a local array of 1024 zero bytes from index 0 (\<open>buffer[idx++] = ...\<close>)
  and pass its address with a size. \<open>packet_of n ws\<close> is what the callee sees: the first
  \<open>n\<close> bytes of the array after the bytes \<open>ws\<close> were stored.
\<close>

definition packet_of :: "nat \<Rightarrow> bytes \<Rightarrow> bytes" where
  "packet_of n ws = take n (ws @ replicate (1024 - length ws) 0)"

lemma packet_of_exact [simp]: "packet_of (length ws) ws = ws"
  by (simp add: packet_of_def)

lemma length_packet_of: "length ws \<le> 1024 \<Longrightarrow> n \<le> 1024 \<Longrightarrow> length (packet_of n ws) = n"
  by (simp add: packet_of_def)

section \<open>Lengths inside a packet\<close>

text \<open>
  An HCI command: two bytes of opcode, the number of parameter bytes, the parameters. An ACL
  packet: two bytes of handle and flags, the length of the data, the L2CAP length, the
  channel, the payload; on the signaling channel the payload is a code, an identifier and
  the length of the rest. All lengths are little endian.
\<close>

definition command_lengths_ok :: "bytes \<Rightarrow> bool" where
  "command_lengths_ok p \<longleftrightarrow> 3 \<le> length p \<and> unat (p ! 2) = length p - 3"

definition acl_lengths_ok :: "bytes \<Rightarrow> bool" where
  "acl_lengths_ok p \<longleftrightarrow> 8 \<le> length p \<and> unat (join16 (p ! 3) (p ! 2)) = length p - 4 \<and>
     unat (join16 (p ! 5) (p ! 4)) = length p - 8"

definition signal_lengths_ok :: "bytes \<Rightarrow> bool" where
  "signal_lengths_ok p \<longleftrightarrow> acl_lengths_ok p \<and> 12 \<le> length p \<and>
     unat (join16 (p ! 11) (p ! 10)) = length p - 12"

definition command_opcode :: "bytes \<Rightarrow> u16" where
  "command_opcode p = join16 (p ! 1) (p ! 0)"

section \<open>Effects\<close>

text \<open>
  What a handler does to the world, in order. \<open>Print label args\<close> is a line of output,
  recorded by what it announces and the numbers it prints (the layout of the line is not
  kept); \<open>Sleep ms\<close> a pause; \<open>Cmd_Out p\<close> and \<open>Acl_Out p\<close> a packet handed to
  \<open>usb_send_cmd_packet\<close> and \<open>usb_send_acl_packet\<close>; \<open>Resubmit\<close> the call
  \<open>libusb_submit_transfer(transfer)\<close> on the transfer being handled; \<open>Log_Packet t p\<close> a
  record appended to the packet log by \<open>write_packet\<close>; \<open>Store_Keys f\<close> the link key
  database written to its file, whose content is then \<open>f\<close>.
\<close>

datatype effect =
    Print string "int list"
  | Sleep nat
  | Cmd_Out bytes
  | Acl_Out bytes
  | Resubmit
  | Log_Packet u8 bytes
  | Store_Keys bytes

text \<open>The packets sent, in order.\<close>

fun cmds_of :: "effect list \<Rightarrow> bytes list" where
  "cmds_of [] = []"
| "cmds_of (Cmd_Out p # es) = p # cmds_of es"
| "cmds_of (_ # es) = cmds_of es"

fun acls_of :: "effect list \<Rightarrow> bytes list" where
  "acls_of [] = []"
| "acls_of (Acl_Out p # es) = p # acls_of es"
| "acls_of (_ # es) = acls_of es"

lemma cmds_of_append [simp]: "cmds_of (xs @ ys) = cmds_of xs @ cmds_of ys"
  by (induction xs rule: cmds_of.induct) auto

lemma acls_of_append [simp]: "acls_of (xs @ ys) = acls_of xs @ acls_of ys"
  by (induction xs rule: acls_of.induct) auto

text \<open>The number of times the handled transfer is given back to libusb.\<close>

definition resubmits :: "effect list \<Rightarrow> nat" where
  "resubmits es = count_list es Resubmit"

lemma resubmits_simps [simp]:
  "resubmits [] = 0"
  "resubmits (e # es) = (if e = Resubmit then Suc (resubmits es) else resubmits es)"
  "resubmits (xs @ ys) = resubmits xs + resubmits ys"
  by (auto simp: resubmits_def)

end
