(* ===== verification/Libusb.thy ===== *)
theory Libusb
  imports Prelude
begin

text \<open>
  What the programs use of \<open>libusb.h\<close> in source form: the codes of transfers and
  descriptors, the record of a transfer, the descriptors of a device, and the inline
  functions that fill a control setup packet and the three kinds of transfers. The
  functions that are only declared there (submission, event handling, opening a device)
  are parameters of the theories that call them.
\<close>

section \<open>Codes\<close>

datatype libusb_transfer_status =
    LIBUSB_TRANSFER_COMPLETED
  | LIBUSB_TRANSFER_ERROR
  | LIBUSB_TRANSFER_TIMED_OUT
  | LIBUSB_TRANSFER_CANCELLED
  | LIBUSB_TRANSFER_STALL
  | LIBUSB_TRANSFER_NO_DEVICE
  | LIBUSB_TRANSFER_OVERFLOW
  | Other_Status int

definition LIBUSB_TRANSFER_TYPE_CONTROL :: u8 where "LIBUSB_TRANSFER_TYPE_CONTROL = 0"
definition LIBUSB_TRANSFER_TYPE_ISOCHRONOUS :: u8 where "LIBUSB_TRANSFER_TYPE_ISOCHRONOUS = 1"
definition LIBUSB_TRANSFER_TYPE_BULK :: u8 where "LIBUSB_TRANSFER_TYPE_BULK = 2"
definition LIBUSB_TRANSFER_TYPE_INTERRUPT :: u8 where "LIBUSB_TRANSFER_TYPE_INTERRUPT = 3"

definition LIBUSB_REQUEST_TYPE_CLASS :: u8 where "LIBUSB_REQUEST_TYPE_CLASS = push_bit 5 1"
definition LIBUSB_RECIPIENT_INTERFACE :: u8 where "LIBUSB_RECIPIENT_INTERFACE = 1"

definition LIBUSB_TRANSFER_FREE_BUFFER :: u8 where "LIBUSB_TRANSFER_FREE_BUFFER = push_bit 1 1"

definition LIBUSB_SUCCESS :: int where "LIBUSB_SUCCESS = 0"
definition LIBUSB_ERROR_BUSY :: int where "LIBUSB_ERROR_BUSY = -6"

definition LIBUSB_CONTROL_SETUP_SIZE :: nat where "LIBUSB_CONTROL_SETUP_SIZE = 8"

lemmas libusb_codes =
  LIBUSB_TRANSFER_TYPE_CONTROL_def LIBUSB_TRANSFER_TYPE_ISOCHRONOUS_def
  LIBUSB_TRANSFER_TYPE_BULK_def LIBUSB_TRANSFER_TYPE_INTERRUPT_def
  LIBUSB_REQUEST_TYPE_CLASS_def LIBUSB_RECIPIENT_INTERFACE_def
  LIBUSB_TRANSFER_FREE_BUFFER_def LIBUSB_SUCCESS_def LIBUSB_ERROR_BUSY_def
  LIBUSB_CONTROL_SETUP_SIZE_def

section \<open>Descriptors\<close>

text \<open>
  The members that the programs read. An array of descriptors is a list, whose length is
  the count that the enclosing descriptor declares.
\<close>

record endpoint_descriptor =
  bEndpointAddress :: u8
  bmAttributes :: u8

record interface_descriptor =
  endpoint_array :: "endpoint_descriptor list"

record usb_interface =
  altsetting :: "interface_descriptor list"

record config_descriptor =
  interface_array :: "usb_interface list"

record device_descriptor =
  idVendor :: u16
  idProduct :: u16
  iProduct :: u8

section \<open>Transfers\<close>

text \<open>
  The members of \<open>struct libusb_transfer\<close> that the programs set or read. The device handle
  and the user data are not looked into; the callback is the name of the function.
\<close>

record libusb_transfer =
  flags :: u8
  endpoint :: u8
  ttype :: u8
  timeout :: nat
  status :: libusb_transfer_status
  tlength :: int
  actual_length :: int
  callback :: string
  tbuffer :: bytes

section \<open>The setup packet\<close>

text \<open>\<open>libusb_cpu_to_le16\<close>: the two bytes of the result in the order of the memory.\<close>

definition libusb_cpu_to_le16 :: "u16 \<Rightarrow> bytes" where
  "libusb_cpu_to_le16 x = [low8 x, high8 x]"

definition setup_packet :: "u8 \<Rightarrow> u8 \<Rightarrow> u16 \<Rightarrow> u16 \<Rightarrow> u16 \<Rightarrow> bytes" where
  "setup_packet bmRequestType bRequest wValue wIndex wLength =
     [bmRequestType, bRequest] @ libusb_cpu_to_le16 wValue @ libusb_cpu_to_le16 wIndex
       @ libusb_cpu_to_le16 wLength"

text \<open>\<open>libusb_fill_control_setup\<close>: the packet overwrites the start of the buffer.\<close>

definition libusb_fill_control_setup ::
  "bytes \<Rightarrow> u8 \<Rightarrow> u8 \<Rightarrow> u16 \<Rightarrow> u16 \<Rightarrow> u16 \<Rightarrow> bytes res" where
  "libusb_fill_control_setup buf bmRequestType bRequest wValue wIndex wLength =
     (if LIBUSB_CONTROL_SETUP_SIZE \<le> length buf
      then Inr (setup_packet bmRequestType bRequest wValue wIndex wLength
                  @ drop LIBUSB_CONTROL_SETUP_SIZE buf)
      else Inl Out_Of_Bounds)"

text \<open>The member \<open>wLength\<close> of a setup packet, in host byte order.\<close>

definition setup_wLength :: "bytes \<Rightarrow> u16 res" where
  "setup_wLength buf = andthen (fetch buf 6) (\<lambda>lo. andthen (fetch buf 7) (\<lambda>hi. Inr (join16 hi lo)))"

section \<open>Filling transfers\<close>

definition libusb_fill_control_transfer ::
  "libusb_transfer \<Rightarrow> bytes \<Rightarrow> string \<Rightarrow> nat \<Rightarrow> libusb_transfer res" where
  "libusb_fill_control_transfer t buf cb tmo =
     andthen (setup_wLength buf) (\<lambda>n.
       Inr (t\<lparr>endpoint := 0, ttype := LIBUSB_TRANSFER_TYPE_CONTROL, timeout := tmo,
              tbuffer := buf,
              tlength := int (LIBUSB_CONTROL_SETUP_SIZE + unat n), callback := cb\<rparr>))"

definition libusb_fill_bulk_transfer ::
  "libusb_transfer \<Rightarrow> u8 \<Rightarrow> bytes \<Rightarrow> int \<Rightarrow> string \<Rightarrow> nat \<Rightarrow> libusb_transfer" where
  "libusb_fill_bulk_transfer t ep buf n cb tmo =
     t\<lparr>endpoint := ep, ttype := LIBUSB_TRANSFER_TYPE_BULK, timeout := tmo, tbuffer := buf,
       tlength := n, callback := cb\<rparr>"

definition libusb_fill_interrupt_transfer ::
  "libusb_transfer \<Rightarrow> u8 \<Rightarrow> bytes \<Rightarrow> int \<Rightarrow> string \<Rightarrow> nat \<Rightarrow> libusb_transfer" where
  "libusb_fill_interrupt_transfer t ep buf n cb tmo =
     t\<lparr>endpoint := ep, ttype := LIBUSB_TRANSFER_TYPE_INTERRUPT, timeout := tmo, tbuffer := buf,
       tlength := n, callback := cb\<rparr>"

lemma length_setup_packet [simp]: "length (setup_packet a b c d e) = 8"
  by (simp add: setup_packet_def libusb_cpu_to_le16_def)

lemma setup_wLength_packet [simp]: "setup_wLength (setup_packet a b c d n @ rest) = Inr n"
  by (simp add: setup_wLength_def setup_packet_def libusb_cpu_to_le16_def)

end
