(* ===== verification/Scan_Endpoints.thy ===== *)
theory Scan_Endpoints
  imports Libusb
begin

text \<open>
  \<open>scan_for_bt_endpoints\<close> of \<open>main.c\<close> (and its copy in \<open>hci_test.cpp\<close>): the choice of the
  endpoints for events, ACL data and SCO data from the active configuration of a device.
  The loop with its \<open>continue\<close> guards is proved to choose, for each purpose, the first
  endpoint of the right type and direction.
\<close>

section \<open>The code\<close>

text \<open>The static variables that hold the addresses; 0 means not found.\<close>

record bt_endpoints =
  event_in_addr :: int
  acl_in_addr :: int
  acl_out_addr :: int
  sco_out_addr :: int
  sco_in_addr :: int

definition no_endpoints :: bt_endpoints where
  "no_endpoints = \<lparr>event_in_addr = 0, acl_in_addr = 0, acl_out_addr = 0, sco_out_addr = 0,
     sco_in_addr = 0\<rparr>"

text \<open>The switch in the body of the inner loop; a \<open>continue\<close> leaves the state as it is.\<close>

definition scan_endpoint :: "endpoint_descriptor \<Rightarrow> bt_endpoints \<Rightarrow> bt_endpoints" where
  "scan_endpoint e a =
     (let kind = bmAttributes e AND 0x03; addr = bEndpointAddress e in
      if kind = LIBUSB_TRANSFER_TYPE_INTERRUPT then
        (if event_in_addr a \<noteq> 0 then a else a\<lparr>event_in_addr := uint addr\<rparr>)
      else if kind = LIBUSB_TRANSFER_TYPE_BULK then
        (if addr AND 0x80 \<noteq> 0 then
           (if acl_in_addr a \<noteq> 0 then a else a\<lparr>acl_in_addr := uint addr\<rparr>)
         else
           (if acl_out_addr a \<noteq> 0 then a else a\<lparr>acl_out_addr := uint addr\<rparr>))
      else if kind = LIBUSB_TRANSFER_TYPE_ISOCHRONOUS then
        (if addr AND 0x80 \<noteq> 0 then
           (if sco_in_addr a \<noteq> 0 then a else a\<lparr>sco_in_addr := uint addr\<rparr>)
         else
           (if sco_out_addr a \<noteq> 0 then a else a\<lparr>sco_out_addr := uint addr\<rparr>))
      else a)"

text \<open>The two loops. Only the first alternate setting of an interface is looked at.\<close>

fun scan_interfaces :: "usb_interface list \<Rightarrow> bt_endpoints \<Rightarrow> bt_endpoints res" where
  "scan_interfaces [] a = Inr a"
| "scan_interfaces (i # is) a =
     (case altsetting i of
        [] \<Rightarrow> Inl Out_Of_Bounds
      | s # _ \<Rightarrow> scan_interfaces is (fold scan_endpoint (endpoint_array s) a))"

text \<open>
  The whole function; \<open>config\<close> is the outcome of \<open>libusb_get_active_config_descriptor\<close>, a
  negative code or the descriptor. The addresses are reset before anything can fail.
\<close>

definition scan_for_bt_endpoints ::
  "int + config_descriptor \<Rightarrow> (int \<times> bt_endpoints) res" where
  "scan_for_bt_endpoints config =
     (case config of
        Inl r \<Rightarrow> Inr (r, no_endpoints)
      | Inr c \<Rightarrow> andthen (scan_interfaces (interface_array c) no_endpoints) (\<lambda>a. Inr (0, a)))"

section \<open>What it chooses\<close>

definition kind_of :: "endpoint_descriptor \<Rightarrow> u8" where
  "kind_of e = bmAttributes e AND 0x03"

definition is_in :: "endpoint_descriptor \<Rightarrow> bool" where
  "is_in e \<longleftrightarrow> bEndpointAddress e AND 0x80 \<noteq> 0"

text \<open>The address of the first endpoint that satisfies \<open>P\<close>, 0 if there is none.\<close>

definition first_address :: "(endpoint_descriptor \<Rightarrow> bool) \<Rightarrow> endpoint_descriptor list \<Rightarrow> int" where
  "first_address P es =
     (case filter (\<lambda>e. P e \<and> bEndpointAddress e \<noteq> 0) es of
        [] \<Rightarrow> 0 | e # _ \<Rightarrow> uint (bEndpointAddress e))"

definition chosen :: "endpoint_descriptor list \<Rightarrow> bt_endpoints" where
  "chosen es =
     \<lparr>event_in_addr = first_address (\<lambda>e. kind_of e = LIBUSB_TRANSFER_TYPE_INTERRUPT) es,
      acl_in_addr = first_address (\<lambda>e. kind_of e = LIBUSB_TRANSFER_TYPE_BULK \<and> is_in e) es,
      acl_out_addr = first_address (\<lambda>e. kind_of e = LIBUSB_TRANSFER_TYPE_BULK \<and> \<not> is_in e) es,
      sco_out_addr = first_address (\<lambda>e. kind_of e = LIBUSB_TRANSFER_TYPE_ISOCHRONOUS \<and> \<not> is_in e) es,
      sco_in_addr = first_address (\<lambda>e. kind_of e = LIBUSB_TRANSFER_TYPE_ISOCHRONOUS \<and> is_in e) es\<rparr>"

definition endpoints_of :: "config_descriptor \<Rightarrow> endpoint_descriptor list" where
  "endpoints_of c = concat (map (\<lambda>i. endpoint_array (hd (altsetting i))) (interface_array c))"

lemma first_address_snoc:
  "first_address P (es @ [e]) =
     (if first_address P es \<noteq> 0 then first_address P es
      else if P e then uint (bEndpointAddress e) else 0)"
proof (cases "filter (\<lambda>e. P e \<and> bEndpointAddress e \<noteq> 0) es")
  case Nil
  then show ?thesis by (simp add: first_address_def)
next
  case (Cons f fs)
  then have "f \<in> set (filter (\<lambda>e. P e \<and> bEndpointAddress e \<noteq> 0) es)" by simp
  then have "uint (bEndpointAddress f) \<noteq> 0" by (simp add: uint_0_iff)
  then show ?thesis using Cons by (simp add: first_address_def)
qed

lemma first_address_Nil [simp]: "first_address P [] = 0"
  by (simp add: first_address_def)

lemma scan_endpoint_chosen: "scan_endpoint e (chosen es) = chosen (es @ [e])"
  by (auto simp: scan_endpoint_def chosen_def first_address_snoc kind_of_def is_in_def Let_def
      libusb_codes)

lemma fold_scan_chosen: "fold scan_endpoint fs (chosen es) = chosen (es @ fs)"
  by (induction fs arbitrary: es) (auto simp: scan_endpoint_chosen)

lemma scan_interfaces_chosen:
  "\<forall>i \<in> set is. altsetting i \<noteq> [] \<Longrightarrow>
   scan_interfaces is (chosen es) =
     Inr (chosen (es @ concat (map (\<lambda>i. endpoint_array (hd (altsetting i))) is)))"
  by (induction "is" arbitrary: es) (auto simp: fold_scan_chosen split: list.splits)

text \<open>
  C38. On a configuration whose interfaces all have an alternate setting,
  \<open>scan_for_bt_endpoints\<close> returns 0 and chooses for events the first interrupt endpoint, for
  ACL and SCO data in each direction the first bulk and the first isochronous endpoint of
  that direction, in the order of the interfaces; an address stays 0 if there is none.
\<close>

theorem scan_chooses_first:
  assumes "\<forall>i \<in> set (interface_array c). altsetting i \<noteq> []"
  shows "scan_for_bt_endpoints (Inr c) = Inr (0, chosen (endpoints_of c))"
proof -
  have "no_endpoints = chosen []" by (simp add: no_endpoints_def chosen_def)
  then show ?thesis
    using scan_interfaces_chosen [OF assms, of "[]"]
    by (simp add: scan_for_bt_endpoints_def endpoints_of_def)
qed

text \<open>The configuration of a Bluetooth dongle: an ACL interface and an SCO interface.\<close>

definition dongle_config :: config_descriptor where
  "dongle_config = \<lparr>interface_array =
     [\<lparr>altsetting = [\<lparr>endpoint_array =
         [\<lparr>bEndpointAddress = 0x81, bmAttributes = 3\<rparr>, \<lparr>bEndpointAddress = 0x82, bmAttributes = 2\<rparr>,
          \<lparr>bEndpointAddress = 0x02, bmAttributes = 2\<rparr>]\<rparr>]\<rparr>,
      \<lparr>altsetting = [\<lparr>endpoint_array =
         [\<lparr>bEndpointAddress = 0x83, bmAttributes = 1\<rparr>, \<lparr>bEndpointAddress = 0x03, bmAttributes = 1\<rparr>]\<rparr>]\<rparr>]\<rparr>"

lemma scan_chooses_first_witness:
  "scan_for_bt_endpoints (Inr dongle_config) =
     Inr (0, \<lparr>event_in_addr = 0x81, acl_in_addr = 0x82, acl_out_addr = 0x02,
              sco_out_addr = 0x03, sco_in_addr = 0x83\<rparr>)"
  using scan_chooses_first [of dongle_config]
  by (simp add: dongle_config_def endpoints_of_def chosen_def first_address_def kind_of_def
      is_in_def libusb_codes)

end
