(* ===== verification/Usb_Send.thy ===== *)
theory Usb_Send
  imports Libusb
begin

text \<open>
  \<open>usb_send_cmd_packet\<close> of \<open>main.c\<close>: an HCI command is copied behind a control setup packet
  into a static buffer, a control transfer is filled and submitted. The result of the
  first \<open>libusb_submit_transfer\<close> is a parameter.
\<close>

section \<open>The code\<close>

text \<open>The static variables: \<open>hci_cmd_buffer\<close>, \<open>command_out_transfer\<close>, \<open>usb_command_active\<close>.\<close>

record sender =
  hci_cmd_buffer :: bytes
  command_out_transfer :: libusb_transfer
  usb_command_active :: int

definition cmd_buffer_size :: nat where
  "cmd_buffer_size = 3 + 256 + LIBUSB_CONTROL_SETUP_SIZE"

text \<open>\<open>memcpy(buf + pos, packet, size)\<close>.\<close>

definition copy_in :: "bytes \<Rightarrow> nat \<Rightarrow> bytes \<Rightarrow> bytes res" where
  "copy_in buf pos p =
     (if pos + length p \<le> length buf then Inr (take pos buf @ p @ drop (pos + length p) buf)
      else Inl Out_Of_Bounds)"

text \<open>
  \<open>usb_send_cmd_packet(packet, size)\<close> for a packet of \<open>size\<close> bytes: the state after it, the
  transfers submitted, in order, and the returned value. When the submission fails, the
  code submits the same transfer once more and ignores the result.
\<close>

definition usb_send_cmd_packet ::
  "bytes \<Rightarrow> int \<Rightarrow> sender \<Rightarrow> (int \<times> libusb_transfer list \<times> sender) res" where
  "usb_send_cmd_packet packet submit_result s =
     andthen (libusb_fill_control_setup (hci_cmd_buffer s)
                (LIBUSB_REQUEST_TYPE_CLASS OR LIBUSB_RECIPIENT_INTERFACE) 0 0 0
                (word_of_nat (length packet))) (\<lambda>buf.
     andthen (copy_in buf LIBUSB_CONTROL_SETUP_SIZE packet) (\<lambda>buf.
     andthen (libusb_fill_control_transfer (command_out_transfer s) buf ''async_callback'' 0)
       (\<lambda>t.
     let t = t\<lparr>flags := LIBUSB_TRANSFER_FREE_BUFFER\<rparr>;
         s = s\<lparr>hci_cmd_buffer := buf, command_out_transfer := t, usb_command_active := 1\<rparr>
     in if submit_result < 0
        then Inr (-1, [t, t], s\<lparr>usb_command_active := 0\<rparr>)
        else Inr (0, [t], s))))"

section \<open>What is put on the bus\<close>

text \<open>The bytes of the data stage that libusb takes from a control transfer.\<close>

definition sent_bytes :: "libusb_transfer \<Rightarrow> bytes" where
  "sent_bytes t = take (nat (tlength t)) (tbuffer t)"

definition hci_setup :: "nat \<Rightarrow> bytes" where
  "hci_setup n = setup_packet 0x21 0 0 0 (word_of_nat n)"

lemma copy_in_front:
  "length pre = pos \<Longrightarrow> pos + length p \<le> pos + length rest \<Longrightarrow>
   copy_in (pre @ rest) pos p = Inr (pre @ p @ drop (length p) rest)"
  by (simp add: copy_in_def)

text \<open>The transfer that is submitted for a packet and the state that is left.\<close>

definition command_transfer :: "bytes \<Rightarrow> sender \<Rightarrow> libusb_transfer" where
  "command_transfer p s = (command_out_transfer s)
     \<lparr>endpoint := 0, ttype := LIBUSB_TRANSFER_TYPE_CONTROL, timeout := 0,
      tbuffer := hci_setup (length p) @ p @ drop (8 + length p) (hci_cmd_buffer s),
      tlength := int (8 + length p), callback := ''async_callback'',
      flags := LIBUSB_TRANSFER_FREE_BUFFER\<rparr>"

definition after_send :: "bytes \<Rightarrow> int \<Rightarrow> sender \<Rightarrow> sender" where
  "after_send p r s = s\<lparr>hci_cmd_buffer := tbuffer (command_transfer p s),
     command_out_transfer := command_transfer p s,
     usb_command_active := (if r < 0 then 0 else 1)\<rparr>"

lemma command_transfer_simps:
  "tbuffer (command_transfer p s) = hci_setup (length p) @ p @ drop (8 + length p) (hci_cmd_buffer s)"
  "tlength (command_transfer p s) = int (8 + length p)"
  by (simp_all add: command_transfer_def)

lemma length_hci_setup [simp]: "length (hci_setup n) = 8"
  by (simp add: hci_setup_def)

lemma setup_wLength_hci [simp]: "setup_wLength (hci_setup n @ rest) = Inr (word_of_nat n)"
  by (simp add: hci_setup_def)

lemma send_step:
  assumes "length (hci_cmd_buffer s) = cmd_buffer_size" and "length p \<le> 259"
  shows "usb_send_cmd_packet p r s =
      Inr (if r < 0 then -1 else 0,
           if r < 0 then [command_transfer p s, command_transfer p s] else [command_transfer p s],
           after_send p r s)"
proof -
  let ?buf = "hci_cmd_buffer s"
  have len: "length ?buf = 267" using assms(1) by (simp add: cmd_buffer_size_def libusb_codes)
  have copy: "copy_in (hci_setup (length p) @ drop 8 ?buf) 8 p =
      Inr (hci_setup (length p) @ p @ drop (8 + length p) ?buf)"
    using copy_in_front [of "hci_setup (length p)" 8 p "drop 8 ?buf"] len assms(2)
    by (simp add: libusb_codes add.commute)
  have fill: "libusb_fill_control_setup ?buf
      (LIBUSB_REQUEST_TYPE_CLASS OR LIBUSB_RECIPIENT_INTERFACE) 0 0 0 (word_of_nat (length p))
      = Inr (hci_setup (length p) @ drop 8 ?buf)"
    using len by (simp add: libusb_fill_control_setup_def hci_setup_def libusb_codes)
  have "uint (word_of_nat (length p) :: u16) = int (length p)"
    using assms(2) by (simp add: unsigned_of_nat take_bit_eq_mod)
  then show ?thesis
    by (simp add: usb_send_cmd_packet_def fill copy libusb_fill_control_transfer_def Let_def
        LIBUSB_CONTROL_SETUP_SIZE_def command_transfer_def after_send_def)
qed

lemma sent_bytes_command [simp]: "sent_bytes (command_transfer p s) = hci_setup (length p) @ p"
proof -
  have "nat (int (8 + length p)) = 8 + length p" by simp
  then have "sent_bytes (command_transfer p s) = take (8 + length p) ((hci_setup (length p) @ p)
      @ drop (8 + length p) (hci_cmd_buffer s))"
    by (simp only: sent_bytes_def command_transfer_simps append_assoc)
  then show ?thesis by simp
qed

lemma length_after_send:
  "length (hci_cmd_buffer s) = cmd_buffer_size \<Longrightarrow> length p \<le> 259 \<Longrightarrow>
   length (hci_cmd_buffer (after_send p r s)) = cmd_buffer_size"
  by (simp add: after_send_def command_transfer_def cmd_buffer_size_def libusb_codes)

text \<open>
  C22. A command of at most 259 bytes (a header and 256 parameters) reaches the bus as it
  is: the static buffer is never overrun, the control transfer announces exactly the
  length of the command, and the bytes submitted are the class request for the interface
  followed by the command. A failed submission is reported as -1 and repeated once, with
  the same transfer, and \<open>usb_command_active\<close> tells the two cases apart.
\<close>

theorem send_cmd_puts_packet_on_bus:
  assumes "length (hci_cmd_buffer s) = cmd_buffer_size" and "length p \<le> 259"
  shows "\<exists>t s'. usb_send_cmd_packet p r s =
      Inr (if r < 0 then -1 else 0, if r < 0 then [t, t] else [t], s') \<and>
    sent_bytes t = [0x21, 0, 0, 0, 0, 0, low8 (word_of_nat (length p)), high8 (word_of_nat (length p))] @ p \<and>
    endpoint t = 0 \<and> ttype t = LIBUSB_TRANSFER_TYPE_CONTROL \<and>
    length (hci_cmd_buffer s') = cmd_buffer_size \<and>
    usb_command_active s' = (if r < 0 then 0 else 1)"
proof -
  let ?t = "command_transfer p s" and ?s = "after_send p r s"
  have "hci_setup (length p) = [0x21, 0, 0, 0, 0, 0, low8 (word_of_nat (length p)),
      high8 (word_of_nat (length p))]"
    by (simp add: hci_setup_def setup_packet_def libusb_cpu_to_le16_def low8_def high8_def)
  then have "sent_bytes ?t = [0x21, 0, 0, 0, 0, 0, low8 (word_of_nat (length p)),
      high8 (word_of_nat (length p))] @ p" by simp
  moreover have "length (hci_cmd_buffer ?s) = cmd_buffer_size" using length_after_send [OF assms] .
  ultimately show ?thesis
    using send_step [OF assms, of r]
    by (intro exI [of _ ?t] exI [of _ ?s]) (simp add: after_send_def command_transfer_def)
qed

text \<open>A fresh sender; the packet is the HCI reset.\<close>

definition idle_sender :: sender where
  "idle_sender = \<lparr>hci_cmd_buffer = replicate 267 0,
     command_out_transfer = \<lparr>flags = 0, endpoint = 0, ttype = 0, timeout = 0,
       status = LIBUSB_TRANSFER_COMPLETED, tlength = 0, actual_length = 0, callback = '''',
       tbuffer = []\<rparr>,
     usb_command_active = 0\<rparr>"

lemma send_cmd_puts_packet_on_bus_witness:
  "\<exists>t s'. usb_send_cmd_packet [0x03, 0x0C, 0x00] 0 idle_sender = Inr (0, [t], s') \<and>
    sent_bytes t = [0x21, 0, 0, 0, 0, 0, 3, 0, 0x03, 0x0C, 0x00] \<and> usb_command_active s' = 1"
  using send_cmd_puts_packet_on_bus [of idle_sender "[0x03, 0x0C, 0x00]" 0]
  by (auto simp: idle_sender_def cmd_buffer_size_def libusb_codes low8_def high8_def)

section \<open>The status of a transfer\<close>

text \<open>The line that \<open>print_transfer_status\<close> prints.\<close>

definition print_transfer_status :: "libusb_transfer \<Rightarrow> string" where
  "print_transfer_status lut =
     (case status lut of
        LIBUSB_TRANSFER_COMPLETED \<Rightarrow> ''LIBUSB_TRANSFER_COMPLETED''
      | LIBUSB_TRANSFER_CANCELLED \<Rightarrow> ''LIBUSB_TRANSFER_CANCELLED''
      | LIBUSB_TRANSFER_NO_DEVICE \<Rightarrow> ''USB: device was disconnected''
      | LIBUSB_TRANSFER_OVERFLOW \<Rightarrow> ''USB: device sent more data than requested''
      | LIBUSB_TRANSFER_TIMED_OUT \<Rightarrow> ''USB: transfer timed out''
      | LIBUSB_TRANSFER_STALL \<Rightarrow> ''USB: halt condition detected (stalled)''
      | LIBUSB_TRANSFER_ERROR \<Rightarrow> ''USB: transfer failed''
      | Other_Status n \<Rightarrow> ''USB: received unknown transfer status'')"

text \<open>The line tells the status, up to the number of an unknown one.\<close>

lemma printed_status:
  "print_transfer_status s = print_transfer_status t \<longleftrightarrow>
     status s = status t \<or> (\<exists>m n. status s = Other_Status m \<and> status t = Other_Status n)"
  by (cases "status s"; cases "status t") (simp_all add: print_transfer_status_def)

end
