(* ===== verification/Main_Events.thy ===== *)
theory Main_Events
  imports Libusb
begin

text \<open>
  \<open>dump_hci_event\<close> of \<open>main.c\<close>: the interpretation of the buffer of a completed transfer, with
  the answers it sends at once. One definition per case of the switch over the event code. The
  lines without a value that only mark a place in the code (\<open>"A"\<close> to \<open>"D"\<close>) are left out.

  Two of the cases read an index variable that was never initialised: \<open>int idx = 0;\<close> stands
  in the body of a switch behind an earlier label, so a jump to a later label enters the
  scope of that variable without running the initialiser. The value that the variable
  happens to hold is the parameter \<open>g\<close> of the definitions below.
\<close>

section \<open>Constants\<close>

definition HCI_EVENT_CODE_COMMAND_COMPLETE :: u8 where "HCI_EVENT_CODE_COMMAND_COMPLETE = 0x0E"
definition HCI_EVENT_TRANSFER_COMPLETE :: u8 where "HCI_EVENT_TRANSFER_COMPLETE = 0x21"
definition HCI_Set_Event_Mask :: u16 where "HCI_Set_Event_Mask = 0x0c01"
definition HCI_Reset :: u16 where "HCI_Reset = 0x0c03"
definition HCI_Write_Local_Name :: u16 where "HCI_Write_Local_Name = 0x0c13"
definition HCI_Read_Local_Name :: u16 where "HCI_Read_Local_Name = 0x0c14"
definition HCI_Write_Page_Timeout :: u16 where "HCI_Write_Page_Timeout = 0x0c18"
definition HCI_Read_Scan_Enable :: u16 where "HCI_Read_Scan_Enable = 0x0c19"
definition HCI_Write_Scan_Enable :: u16 where "HCI_Write_Scan_Enable = 0x0c1A"
definition HCI_Write_Class_of_Device :: u16 where "HCI_Write_Class_of_Device = 0x0c24"
definition HCI_Write_Inquiry_Mode :: u16 where "HCI_Write_Inquiry_Mode = 0x0c45"
definition HCI_Write_Extended_Inquiry_Response :: u16 where
  "HCI_Write_Extended_Inquiry_Response = 0x0c52"
definition HCI_Write_Simple_Pairing_Mode :: u16 where "HCI_Write_Simple_Pairing_Mode = 0x0c56"
definition HCI_Read_Local_Version_Information :: u16 where
  "HCI_Read_Local_Version_Information = 0x1001"
definition HCI_Read_Local_Supported_Commands :: u16 where
  "HCI_Read_Local_Supported_Commands = 0x1002"
definition HCI_Read_Local_Supported_Features :: u16 where
  "HCI_Read_Local_Supported_Features = 0x1003"
definition HCI_Read_Buffer_Size :: u16 where "HCI_Read_Buffer_Size = 0x1005"
definition HCI_Read_BD_ADDR :: u16 where "HCI_Read_BD_ADDR = 0x1009"
definition LE_Read_Buffer_Size :: u16 where "LE_Read_Buffer_Size = 0x2002"

lemmas opcode_defs =
  HCI_Set_Event_Mask_def HCI_Reset_def HCI_Write_Local_Name_def HCI_Read_Local_Name_def
  HCI_Write_Page_Timeout_def HCI_Read_Scan_Enable_def HCI_Write_Scan_Enable_def
  HCI_Write_Class_of_Device_def HCI_Write_Inquiry_Mode_def
  HCI_Write_Extended_Inquiry_Response_def HCI_Write_Simple_Pairing_Mode_def
  HCI_Read_Local_Version_Information_def HCI_Read_Local_Supported_Commands_def
  HCI_Read_Local_Supported_Features_def HCI_Read_Buffer_Size_def HCI_Read_BD_ADDR_def
  LE_Read_Buffer_Size_def

text \<open>\<open>uint32_t wait\<close>, in milliseconds.\<close>

definition wait :: nat where "wait = 20"

text \<open>
  The end of every branch that sends: a pause, the first \<open>n\<close> bytes of the zeroed local
  buffer after \<open>ws\<close> was stored, and the transfer is submitted again.
\<close>

definition send_command :: "nat \<Rightarrow> bytes \<Rightarrow> effect list" where
  "send_command n ws = [Sleep wait, Cmd_Out (packet_of n ws), Resubmit]"

lemma effects_of_send [simp]:
  "cmds_of (send_command n ws) = [packet_of n ws]"
  "resubmits (send_command n ws) = 1"
  by (simp_all add: send_command_def)

section \<open>Events about connections\<close>

text \<open>LE META: the fields are read, only the address is printed.\<close>

definition le_meta_event :: "bytes \<Rightarrow> u8 \<Rightarrow> effect list res" where
  "le_meta_event b idx =
     andthen (next_byte b idx) (\<lambda>(parameter_total_length, idx).
     andthen (next_byte b idx) (\<lambda>(sub_event_code, idx).
     andthen (next_byte b idx) (\<lambda>(num_reports, idx).
     andthen (next_byte b idx) (\<lambda>(event_type, idx).
     andthen (next_byte b idx) (\<lambda>(address_type, idx).
     andthen (fetch_down b (unat idx) 6) (\<lambda>address.
       Inr [Print ''parameter_total_length'' [uint parameter_total_length],
            Print ''BD_ADDR'' (map uint address)]))))))"

definition connection_complete_event :: "bytes \<Rightarrow> u8 \<Rightarrow> effect list res" where
  "connection_complete_event b idx =
     andthen (next_byte b idx) (\<lambda>(parameter_total_length, idx).
     andthen (next_byte b idx) (\<lambda>(result_code, idx).
     andthen (next_byte b idx) (\<lambda>(connection_handle_0, idx).
     andthen (next_byte b idx) (\<lambda>(connection_handle_1, idx).
     andthen (fetch_down b (unat idx) 6) (\<lambda>address.
     let idx = idx + 6 in
     andthen (next_byte b idx) (\<lambda>(acl_connection_data_channels, idx).
     andthen (next_byte b idx) (\<lambda>(encryption_mode, idx).
       Inr [Print ''result_code'' [uint result_code],
            (if result_code = 0 then Print ''success'' []
             else if result_code = 0x10 then Print ''CONNECTION ACCEPT TIMEOUT EXCEEDED'' []
             else Print ''Unknown error code'' [uint result_code]),
            Print ''connection_handle'' [uint connection_handle_1, uint connection_handle_0],
            Print ''BD_ADDR'' (map uint address),
            Print ''Link Type'' [uint acl_connection_data_channels],
            Print ''Encryption Mode'' [uint encryption_mode]])))))))"

text \<open>
  The connection request is accepted with a command whose address is written in the code;
  the address of the requesting device is only printed.
\<close>

definition accept_connection_bytes :: bytes where
  "accept_connection_bytes = [0x09, 0x04, 0x07, 0xab, 0x8a, 0x0f, 0xa3, 0x5f, 0x70, 0x01]"

definition connection_request_event :: "bytes \<Rightarrow> u8 \<Rightarrow> effect list res" where
  "connection_request_event b idx =
     andthen (next_byte b idx) (\<lambda>(parameter_total_length, idx).
     andthen (fetch_down b (unat idx) 6) (\<lambda>address.
     let idx = idx + 6 in
     andthen (next_byte b idx) (\<lambda>(class_of_device_0, idx).
     andthen (next_byte b idx) (\<lambda>(class_of_device_1, idx).
     andthen (next_byte b idx) (\<lambda>(class_of_device_2, idx).
     andthen (next_byte b idx) (\<lambda>(acl_connection_data_channels, idx).
       Inr ([Print ''BD_ADDR'' (map uint address),
             Print ''class_of_device''
               [uint class_of_device_2, uint class_of_device_1, uint class_of_device_0],
             Print ''Link Type'' [uint acl_connection_data_channels]]
            @ send_command (length accept_connection_bytes) accept_connection_bytes)))))))"

section \<open>L2CAP packets\<close>

text \<open>
  The 16 bit fields of the packet are stored in variables of type \<open>uint8_t\<close>, which keep the
  low byte: \<open>join8\<close>.
\<close>

text \<open>The connection response: our channel is always 0x0040, the identifier always 4.\<close>

definition connection_response_bytes :: "u8 \<Rightarrow> u8 \<Rightarrow> bytes" where
  "connection_response_bytes scid_lower scid_upper =
     [0x0b, 0x00, 0x10, 0x00, 0x0c, 0x00, 0x01, 0x00, 0x03, 0x04, 0x08, 0x00, 0x40, 0x00,
      scid_lower, scid_upper, 0x00, 0x00, 0x00, 0x00]"

definition l2cap_connection_request :: "bytes \<Rightarrow> u8 \<Rightarrow> effect list res" where
  "l2cap_connection_request b idx =
     andthen (next_byte b idx) (\<lambda>(l2cap_source_cid_lower, idx).
     andthen (next_byte b idx) (\<lambda>(l2cap_source_cid_upper, idx).
       Inr ([Print ''l2cap_source_cid'' [uint (join8 l2cap_source_cid_upper l2cap_source_cid_lower)]]
            @ send_command 20 (connection_response_bytes l2cap_source_cid_lower
                                 l2cap_source_cid_upper))))"

text \<open>
  The information request. The response is stored from the stale index \<open>g\<close> on, and the
  index after the last byte is passed as the size.
\<close>

definition information_response_bytes :: bytes where
  "information_response_bytes =
     [0x0b, 0x00, 0x10, 0x00, 0x0c, 0x00, 0x01, 0x00, 0x0b, 0x02, 0x08, 0x00, 0x02, 0x00, 0x00,
      0x00, 0x80, 0x02, 0x00, 0x00]"

definition l2cap_information_request :: "int \<Rightarrow> u8 \<Rightarrow> effect list res" where
  "l2cap_information_request g information_type =
     (if information_type = 0x02 then
        (if 0 \<le> g \<and> g + 20 \<le> 1024 then
           Inr ([Print ''extended features mask'' []]
                @ send_command (nat g + 20) (replicate (nat g) 0 @ information_response_bytes))
         else Inl Out_Of_Bounds)
      else if information_type = 0x03 then Inr [Print ''information type 3'' []]
      else Inr [])"

definition l2cap_configure_request :: "u8 \<Rightarrow> effect list res" where
  "l2cap_configure_request information_type =
     Inr (if information_type = 0x02 then [Print ''extended features mask'' []]
          else if information_type = 0x03 then [Print ''information type 3'' []]
          else [])"

definition l2cap_event :: "int \<Rightarrow> bytes \<Rightarrow> u8 \<Rightarrow> effect list res" where
  "l2cap_event g b idx =
     andthen (next_byte b idx) (\<lambda>(header_byte_2, idx).
     andthen (next_byte b idx) (\<lambda>(data_total_length_lower, idx).
     andthen (next_byte b idx) (\<lambda>(data_total_length_upper, idx).
     andthen (next_byte b idx) (\<lambda>(l2cap_length_lower, idx).
     andthen (next_byte b idx) (\<lambda>(l2cap_length_upper, idx).
     andthen (next_byte b idx) (\<lambda>(signaling_channel_lower, idx).
     andthen (next_byte b idx) (\<lambda>(signaling_channel_upper, idx).
     andthen (next_byte b idx) (\<lambda>(l2cap_command_code, idx).
     andthen (next_byte b idx) (\<lambda>(l2cap_command_identifier, idx).
     andthen (next_byte b idx) (\<lambda>(command_length_lower, idx).
     andthen (next_byte b idx) (\<lambda>(command_length_upper, idx).
     andthen (next_byte b idx) (\<lambda>(information_type_lower, idx).
     andthen (next_byte b idx) (\<lambda>(information_type_upper, idx).
     let information_type = join8 information_type_upper information_type_lower in
     andthen (if l2cap_command_code = 0x02 then l2cap_connection_request b idx
              else if l2cap_command_code = 0x04 then l2cap_configure_request information_type
              else if l2cap_command_code = 0x0A then l2cap_information_request g information_type
              else Inr [Print ''l2cap_command_code: UNKNOWN'' [uint l2cap_command_code]]) (\<lambda>es.
       Inr ([Print ''data_total_length'' [uint (join8 data_total_length_upper data_total_length_lower)],
             Print ''l2cap_length'' [uint (join8 l2cap_length_upper l2cap_length_lower)],
             Print ''l2cap_signaling_channel''
               [uint (join8 signaling_channel_upper signaling_channel_lower)],
             Print ''l2cap_command_code'' [uint l2cap_command_code],
             Print ''l2cap_command_identifier'' [uint l2cap_command_identifier],
             Print ''l2cap_command_length'' [uint (join8 command_length_upper command_length_lower)],
             Print ''l2cap_information_type'' [uint information_type]] @ es)))))))))))))))"

section \<open>Command complete\<close>

text \<open>
  Every read of this case goes through the stale index. Multi-byte values are printed as
  they are composed in an \<open>int\<close>.
\<close>

definition next_word_int :: "bytes \<Rightarrow> int \<Rightarrow> (int \<times> int) res" where
  "next_word_int b idx =
     andthen (next_byte_int b idx) (\<lambda>(lower, idx).
     andthen (next_byte_int b idx) (\<lambda>(upper, idx). Inr (uint (join16 upper lower), idx)))"

definition read_scan_enable_response :: "bytes \<Rightarrow> int \<Rightarrow> effect list res" where
  "read_scan_enable_response b idx =
     andthen (next_byte_int b idx) (\<lambda>(status, idx).
     andthen (next_byte_int b idx) (\<lambda>(temp, idx).
       Inr [Print ''Response to HCI_Read_Scan_Enable'' [], Print ''status'' [uint status],
            (if temp = 0 then Print ''No Scans enabled.'' []
             else if temp = 1 then Print ''Inquiry Scan enabled + Page Scan disabled.'' []
             else if temp = 2 then Print ''Inquiry Scan disabled. + Page Scan enabled.'' []
             else if temp = 3 then Print ''Inquiry Scan enabled. + Page Scan enabled.'' []
             else Print ''Reserved.'' [])]))"

definition read_local_version_response :: "bytes \<Rightarrow> int \<Rightarrow> effect list res" where
  "read_local_version_response b idx =
     andthen (next_byte_int b idx) (\<lambda>(status, idx).
     andthen (next_byte_int b idx) (\<lambda>(hci_version, idx).
     andthen (next_word_int b idx) (\<lambda>(hci_revision, idx).
     andthen (next_byte_int b idx) (\<lambda>(lmp_version, idx).
     andthen (next_word_int b idx) (\<lambda>(manufacturer_name, idx).
     andthen (next_word_int b idx) (\<lambda>(lmp_subversion, idx).
       Inr [Print ''Response to HCI_Read_Local_Version_Information'' [],
            Print ''status'' [uint status], Print ''HCI Version'' [uint hci_version],
            Print ''HCI Revision'' [hci_revision], Print ''LMP Version'' [uint lmp_version],
            Print ''Manufacturer_Name'' [manufacturer_name],
            Print ''LMP Subversion'' [lmp_subversion]]))))))"

text \<open>
  \<open>printf(transfer->buffer + idx)\<close>: the device chooses the format string. The output up to
  the terminating zero; a conversion specification other than \<open>%%\<close> has no argument to
  convert, which is undefined.
\<close>

fun printf_text :: "bytes \<Rightarrow> bytes res" where
  "printf_text [] = Inl Out_Of_Bounds"
| "printf_text [c] = (if c = 0 then Inr [] else Inl Out_Of_Bounds)"
| "printf_text (c # d # cs) =
     (if c = 0 then Inr []
      else if c = 0x25 then
        (if d = 0x25 then andthen (printf_text cs) (\<lambda>r. Inr (c # r)) else Inl Indeterminate)
      else andthen (printf_text (d # cs)) (\<lambda>r. Inr (c # r)))"

definition read_local_name_response :: "bytes \<Rightarrow> int \<Rightarrow> effect list res" where
  "read_local_name_response b idx =
     andthen (next_byte_int b idx) (\<lambda>(status, idx).
     andthen (printf_text (drop (nat idx) b)) (\<lambda>name.
       Inr [Print ''Response to HCI_Read_Local_Name'' [], Print ''status'' [uint status],
            Print ''DeviceLocalName'' (map uint name)]))"

definition supported_commands_response :: "bytes \<Rightarrow> int \<Rightarrow> int \<Rightarrow> effect list res" where
  "supported_commands_response b actual_len idx =
     andthen (next_byte_int b idx) (\<lambda>(status, idx).
     andthen (fetch_up b (nat idx) (nat (actual_len - idx))) (\<lambda>commands.
       Inr [Print ''Response to HCI_Read_Local_Supported_Commands'' [],
            Print ''status'' [uint status],
            Print ''Local supported commands'' (map uint commands)]))"

text \<open>The bits of a byte from the lowest on, each printed with its name.\<close>

definition feature_lines :: "string list \<Rightarrow> u8 \<Rightarrow> effect list" where
  "feature_lines names temp =
     map (\<lambda>(i, name). Print name [of_bool (bit temp i)]) (zip [0..<8] names)"

definition lmp_features_0 :: "string list" where
  "lmp_features_0 = [''3-slot packets'', ''5-slot packets'', ''Encryption'', ''Slot Offset'',
     ''Timing Accuracy'', ''Role Switch'', ''Hold Mode'', ''Sniff Mode'']"

definition lmp_features_1 :: "string list" where
  "lmp_features_1 = [''Park Mode'', ''Power Control Requests'',
     ''Channel Quality Driven Data Rate'', ''SCO Link'', ''HV2 packets'', ''HV3 packets'',
     ''u-law Log Synchronous Data'', ''A-law Log Synchronous Data'']"

definition supported_features_response :: "bytes \<Rightarrow> int \<Rightarrow> effect list res" where
  "supported_features_response b idx =
     andthen (next_byte_int b idx) (\<lambda>(status, idx).
     andthen (next_byte_int b idx) (\<lambda>(temp0, idx).
     andthen (next_byte_int b idx) (\<lambda>(temp1, idx).
       Inr ([Print ''Response to HCI_Read_Local_Supported_Commands'' [],
             Print ''status'' [uint status]]
            @ feature_lines lmp_features_0 temp0 @ feature_lines lmp_features_1 temp1))))"

definition read_buffer_size_response :: "bytes \<Rightarrow> int \<Rightarrow> effect list res" where
  "read_buffer_size_response b idx =
     andthen (next_byte_int b idx) (\<lambda>(status, idx).
     andthen (next_word_int b idx) (\<lambda>(acl_length, idx).
     andthen (next_byte_int b idx) (\<lambda>(sco_length, idx).
     andthen (next_word_int b idx) (\<lambda>(acl_packets, idx).
     andthen (next_word_int b idx) (\<lambda>(sco_packets, idx).
       Inr [Print ''Response to HCI_Read_Buffer_Size'' [], Print ''status'' [uint status],
            Print ''Host ACL Data Packet Length in bytes'' [acl_length],
            Print ''Host SCO Data Packet Length in bytes'' [uint sco_length],
            Print ''Host Total Num ACL Data Packets'' [acl_packets],
            Print ''Host Total Num SCO Data Packets'' [sco_packets]])))))"

text \<open>The address is printed from the last byte received down to the index.\<close>

definition read_bd_addr_response :: "bytes \<Rightarrow> int \<Rightarrow> int \<Rightarrow> effect list res" where
  "read_bd_addr_response b actual_len idx =
     andthen (next_byte_int b idx) (\<lambda>(status, idx).
     andthen (fetch_down b (nat idx) (nat (actual_len - idx))) (\<lambda>address.
       Inr [Print ''Response to HCI_Read_BD_ADDR'' [], Print ''status'' [uint status],
            Print ''BD_ADDR'' (map uint address)]))"

definition le_read_buffer_size_response :: "bytes \<Rightarrow> int \<Rightarrow> effect list res" where
  "le_read_buffer_size_response b idx =
     andthen (next_byte_int b idx) (\<lambda>(status, idx).
     andthen (next_word_int b idx) (\<lambda>(packet_length, idx).
     andthen (next_byte_int b idx) (\<lambda>(packets, idx).
       Inr [Print ''Response to LE_Read_Buffer_Size'' [], Print ''status'' [uint status],
            Print ''LE ACL Data Packet Length'' [packet_length],
            Print ''Total Number LE ACL Data Packets'' [uint packets]])))"

text \<open>The commands whose response is only acknowledged with a line.\<close>

definition acknowledged :: "(u16 \<times> string) list" where
  "acknowledged =
     [(HCI_Write_Page_Timeout, ''Response to HCI_Write_Page_Timeout''),
      (HCI_Write_Class_of_Device, ''Response to HCI_Write_Class_of_Device''),
      (HCI_Write_Local_Name, ''Response to HCI_Write_Local_Name''),
      (HCI_Write_Extended_Inquiry_Response, ''Response to HCI_Write_Extended_Inquiry_Response''),
      (HCI_Write_Inquiry_Mode, ''Response to HCI_Write_Inquiry_Mode''),
      (HCI_Write_Scan_Enable, ''Response to HCI_Write_Scan_Enable''),
      (HCI_Write_Simple_Pairing_Mode, ''Response to HCI_Write_Simple_Pairing_Mode''),
      (HCI_Set_Event_Mask, ''Response to HCI_Set_Event_Mask''),
      (HCI_Reset, ''Response to HCI_Reset'')]"

definition command_response :: "u16 \<Rightarrow> bytes \<Rightarrow> int \<Rightarrow> int \<Rightarrow> effect list res" where
  "command_response opcode b actual_len idx =
     (case map_of acknowledged opcode of
        Some line \<Rightarrow> Inr [Print line []]
      | None \<Rightarrow>
          if opcode = HCI_Read_Scan_Enable then read_scan_enable_response b idx
          else if opcode = HCI_Read_Local_Version_Information then read_local_version_response b idx
          else if opcode = HCI_Read_Local_Name then read_local_name_response b idx
          else if opcode = HCI_Read_Local_Supported_Commands then
            supported_commands_response b actual_len idx
          else if opcode = HCI_Read_Local_Supported_Features then supported_features_response b idx
          else if opcode = HCI_Read_Buffer_Size then read_buffer_size_response b idx
          else if opcode = HCI_Read_BD_ADDR then read_bd_addr_response b actual_len idx
          else if opcode = LE_Read_Buffer_Size then le_read_buffer_size_response b idx
          else Inr [Print ''Response to UNKNOWN command'' []])"

definition command_complete_event :: "int \<Rightarrow> libusb_transfer \<Rightarrow> effect list res" where
  "command_complete_event g t =
     (let b = tbuffer t in
      andthen (next_byte_int b g) (\<lambda>(parameter_total_length, idx).
      andthen (next_byte_int b idx) (\<lambda>(num_HCI_command_packets, idx).
      andthen (next_byte_int b idx) (\<lambda>(code_lower, idx).
      andthen (next_byte_int b idx) (\<lambda>(code_upper, idx).
      andthen (command_response (join16 code_upper code_lower) b (actual_length t) idx) (\<lambda>es.
        Inr ([Print ''transfer->length'' [tlength t],
              Print ''transfer->actual_length'' [actual_length t]] @ es)))))))"

section \<open>The dispatch\<close>

text \<open>\<open>dump_hci_event(transfer)\<close>, with the stale value \<open>g\<close> of the uninitialised index.\<close>

definition dump_hci_event :: "int \<Rightarrow> libusb_transfer \<Rightarrow> effect list res" where
  "dump_hci_event g t =
     (let b = tbuffer t in
      andthen (next_byte b 0) (\<lambda>(event_code, idx).
        if event_code = 0x3E then le_meta_event b idx
        else if event_code = HCI_EVENT_TRANSFER_COMPLETE then
          Inr [Print ''HCI_EVENT_TRANSFER_COMPLETE'' []]
        else if event_code = 0x03 then connection_complete_event b idx
        else if event_code = 0x0B then l2cap_event g b idx
        else if event_code = 0x04 then connection_request_event b idx
        else if event_code = HCI_EVENT_CODE_COMMAND_COMPLETE then command_complete_event g t
        else Inr [Print ''Unknown event code'' [uint event_code]]))"

end
