(* ===== verification/Main_Events_Props.thy ===== *)
theory Main_Events_Props
  imports Main_Events
begin

text \<open>
  What \<open>dump_hci_event\<close> guarantees: which events are answered and with what, that a transfer is
  given back to libusb exactly when an answer is sent, that the handler stays inside its
  buffers when the stale index does, and what the stale index does to the interpretation of
  a command complete event.
\<close>

section \<open>Answers\<close>

text \<open>An answer is one command and one resubmission, or neither.\<close>

definition answers_once :: "effect list \<Rightarrow> bool" where
  "answers_once es \<longleftrightarrow> length (cmds_of es) = resubmits es \<and> resubmits es \<le> 1"

lemma answers_once_quiet: "cmds_of es = [] \<Longrightarrow> resubmits es = 0 \<Longrightarrow> answers_once es"
  by (simp add: answers_once_def)

lemma feature_lines_quiet [simp]:
  "cmds_of (feature_lines ns v) = []" "resubmits (feature_lines ns v) = 0"
proof -
  have "cmds_of (map (\<lambda>(i, name). Print name [of_bool (bit v i)]) ps) = []
      \<and> resubmits (map (\<lambda>(i, name). Print name [of_bool (bit v i)]) ps) = 0" for ps
    by (induction ps) auto
  then show "cmds_of (feature_lines ns v) = []" "resubmits (feature_lines ns v) = 0"
    by (simp_all add: feature_lines_def)
qed

lemma command_response_quiet:
  "command_response opcode b n idx = Inr es \<Longrightarrow> cmds_of es = [] \<and> resubmits es = 0"
  by (auto simp: command_response_def read_scan_enable_response_def
      read_local_version_response_def read_local_name_response_def supported_commands_response_def
      supported_features_response_def read_buffer_size_response_def read_bd_addr_response_def
      le_read_buffer_size_response_def andthen_eq_Inr split: option.splits if_splits)

lemma l2cap_event_answers_once: "l2cap_event g b idx = Inr es \<Longrightarrow> answers_once es"
  by (auto simp: l2cap_event_def l2cap_connection_request_def l2cap_configure_request_def
      l2cap_information_request_def andthen_eq_Inr answers_once_def split: if_splits)

text \<open>
  Whatever arrives, \<open>dump_hci_event\<close> sends at most one command, and it gives the transfer
  back to libusb exactly when it sends one.
\<close>

lemma dump_answers_once:
  assumes a: "dump_hci_event g t = Inr es"
  shows "answers_once es"
proof -
  obtain c where b: "next_byte (tbuffer t) 0 = Inr (c, 1)"
    using a by (cases "tbuffer t") (auto simp: dump_hci_event_def)
  consider (le) "le_meta_event (tbuffer t) 1 = Inr es"
    | (cc) "connection_complete_event (tbuffer t) 1 = Inr es"
    | (l2) "l2cap_event g (tbuffer t) 1 = Inr es"
    | (cr) "connection_request_event (tbuffer t) 1 = Inr es"
    | (co) "command_complete_event g t = Inr es"
    | (p) l ns where "es = [Print l ns]"
    using a b by (auto simp: dump_hci_event_def Let_def HCI_EVENT_TRANSFER_COMPLETE_def
        HCI_EVENT_CODE_COMMAND_COMPLETE_def split: if_splits)
  then show ?thesis
  proof cases
    case le
    then show ?thesis by (auto simp: le_meta_event_def andthen_eq_Inr answers_once_def)
  next
    case cc
    then show ?thesis
      by (auto simp: connection_complete_event_def andthen_eq_Inr answers_once_def)
  next
    case l2
    then show ?thesis by (rule l2cap_event_answers_once)
  next
    case cr
    then show ?thesis
      by (auto simp: connection_request_event_def andthen_eq_Inr answers_once_def)
  next
    case co
    then show ?thesis
      by (auto simp: command_complete_event_def Let_def andthen_eq_Inr answers_once_def
          dest!: command_response_quiet)
  next
    case p
    then show ?thesis by (simp add: answers_once_def)
  qed
qed


text \<open>A transfer as it is handed to the callback.\<close>

definition completed_transfer :: "bytes \<Rightarrow> int \<Rightarrow> libusb_transfer" where
  "completed_transfer b n = \<lparr>flags = 0, endpoint = 0x81, ttype = 3, timeout = 0,
     status = LIBUSB_TRANSFER_COMPLETED, tlength = 1699, actual_length = n,
     callback = ''async_callback'', tbuffer = b\<rparr>"

lemma completed_transfer_simps [simp]:
  "tbuffer (completed_transfer b n) = b" "actual_length (completed_transfer b n) = n"
  "tlength (completed_transfer b n) = 1699"
  "status (completed_transfer b n) = LIBUSB_TRANSFER_COMPLETED"
  by (simp_all add: completed_transfer_def)

lemma dump_answers_once_witness:
  "answers_once ([Print ''BD_ADDR'' [6, 5, 4, 3, 2, 1], Print ''class_of_device'' [9, 8, 7],
      Print ''Link Type'' [1]]
    @ send_command (length accept_connection_bytes) accept_connection_bytes)"
  by (rule dump_answers_once [of 0 "completed_transfer [4, 10, 1, 2, 3, 4, 5, 6, 7, 8, 9, 1] 12"])
    (simp add: dump_hci_event_def connection_request_event_def Let_def fetch_numeral
      HCI_EVENT_TRANSFER_COMPLETE_def)

text \<open>
  A connection request is always accepted, with a well formed HCI command (opcode
  0x0409, seven parameter bytes) that names one device, 70:5F:A3:0F:8A:AB, and not the
  device that asked: the command is the same for every address, class and link type.
\<close>

lemma connection_request_accepts_fixed_device:
  assumes "holds_at (tbuffer t) 0 ([0x04, len] @ address @ [c0, c1, c2, link])"
    and "length address = 6"
  shows "\<exists>es. dump_hci_event g t = Inr es \<and>
    cmds_of es = [accept_connection_bytes] \<and>
    Print ''BD_ADDR'' (map uint (rev address)) \<in> set es"
proof -
  have h: "holds_at (tbuffer t) 0 [0x04, len]" "holds_at (tbuffer t) 2 address"
    "holds_at (tbuffer t) 8 [c0, c1, c2, link]"
    using assms by (simp_all add: holds_at_append holds_at_Cons numeral_2_eq_2)
  have "fetch_down (tbuffer t) 2 6 = Inr (rev address)"
    using fetch_down_holds [OF h(2)] assms(2) by simp
  then show ?thesis
    using h(1,3) by (simp add: dump_hci_event_def connection_request_event_def Let_def holds_at_Cons
        HCI_EVENT_TRANSFER_COMPLETE_def)
qed

lemma connection_request_accepts_fixed_device_witness:
  "\<exists>es. dump_hci_event 0 (completed_transfer [4, 10, 1, 2, 3, 4, 5, 6, 7, 8, 9, 1] 12) = Inr es \<and>
    cmds_of es = [accept_connection_bytes] \<and> Print ''BD_ADDR'' [6, 5, 4, 3, 2, 1] \<in> set es"
  using connection_request_accepts_fixed_device
    [of "completed_transfer [4, 10, 1, 2, 3, 4, 5, 6, 7, 8, 9, 1] 12" 10 "[1, 2, 3, 4, 5, 6]" 7 8 9 1 0]
  by (simp add: holds_at_def)

text \<open>
  A connection request on the signaling channel is answered with a connection response
  whose three length fields are right and which returns the source channel of the request
  to the peer. The identifier of the response is 4 and our channel 0x0040, whatever the
  identifier of the request was.
\<close>

lemma l2cap_connection_request_answered:
  assumes "holds_at (tbuffer t) 0
    [0x0B, h2, dl, du, ll, lu, cl, cu, 0x02, ident, nl, nu, pl, pu, scid_l, scid_u]"
  shows "\<exists>es p. dump_hci_event g t = Inr es \<and> cmds_of es = [p] \<and> signal_lengths_ok p \<and>
    p ! 8 = 0x03 \<and> p ! 9 = 0x04 \<and> join16 (p ! 13) (p ! 12) = 0x0040 \<and>
    join16 (p ! 15) (p ! 14) = join16 scid_u scid_l"
proof -
  note n = holds_at_fetch [OF assms]
  note at = n [of 0, simplified] n [of 1, simplified] n [of 2, simplified, folded numeral_2_eq_2]
    n [of 3, simplified] n [of 4, simplified] n [of 5, simplified] n [of 6, simplified]
    n [of 7, simplified] n [of 8, simplified] n [of 9, simplified] n [of 10, simplified]
    n [of 11, simplified] n [of 12, simplified] n [of 13, simplified] n [of 14, simplified]
    n [of 15, simplified]
  let ?p = "connection_response_bytes scid_l scid_u"
  have len: "length ?p = 20" by (simp add: connection_response_bytes_def)
  have "\<exists>es. dump_hci_event g t = Inr es \<and> cmds_of es = [packet_of (length ?p) ?p]"
    unfolding len using at
    by (simp add: dump_hci_event_def l2cap_event_def l2cap_connection_request_def next_byte_def
        Let_def HCI_EVENT_TRANSFER_COMPLETE_def)
  moreover have "signal_lengths_ok ?p" "?p ! 8 = 0x03" "?p ! 9 = 0x04"
    "join16 (?p ! 13) (?p ! 12) = 0x0040" "join16 (?p ! 15) (?p ! 14) = join16 scid_u scid_l"
    by (simp_all add: connection_response_bytes_def signal_lengths_ok_def acl_lengths_ok_def
        unat_join16 join16_def)
  ultimately show ?thesis unfolding packet_of_exact by blast
qed

definition connect_sdp_packet :: bytes where
  "connect_sdp_packet = [0x0B, 0x20, 0x0C, 0, 0x08, 0, 0x01, 0, 0x02, 0x07, 0x04, 0, 0x01, 0, 0x44, 0]"

lemma l2cap_connection_request_answered_witness:
  "\<exists>es p. dump_hci_event 0 (completed_transfer connect_sdp_packet 16) = Inr es \<and>
    cmds_of es = [p] \<and> signal_lengths_ok p \<and> p ! 9 = 0x04 \<and>
    join16 (p ! 15) (p ! 14) = join16 0x00 0x44"
  using l2cap_connection_request_answered [of "completed_transfer connect_sdp_packet 16"
      "0x20" "0x0C" 0 "0x08" 0 1 0 "0x07" "0x04" 0 1 0 "0x44" 0 0]
  by (auto simp: connect_sdp_packet_def holds_at_def)

section \<open>The stale index\<close>

lemmas command_complete_defs =
  dump_hci_event_def command_complete_event_def HCI_EVENT_TRANSFER_COMPLETE_def
  HCI_EVENT_CODE_COMMAND_COMPLETE_def

text \<open>No opcode of the switch has the upper byte 0x09.\<close>

lemma opcode_09_unknown:
  "command_response (join16 0x09 lo) b n idx = Inr [Print ''Response to UNKNOWN command'' []]"
proof -
  have "high8 (join16 0x09 lo) = 0x09" by simp
  then have "join16 0x09 lo \<noteq> x" if "high8 x \<noteq> 0x09" for x using that by metis
  then show ?thesis
    by (simp add: command_response_def acknowledged_def opcode_defs high8_def)
qed

text \<open>
  What \<open>dump_hci_event\<close> makes of a command complete event depends on the value that the
  uninitialised index happens to hold. On the response that carries the address of the
  controller, the value 1 gives the address, in reverse order; the value 0 makes the same
  bytes an unknown command; a negative value or one past the buffer is an access outside
  the buffer.
\<close>

lemma command_complete_depends_on_stale_index:
  assumes b: "holds_at (tbuffer t) 0 ([0x0E, len, n, 0x09, 0x10, st] @ address)"
    and len: "length address = 6" and act: "actual_length t = 12"
  shows "(\<exists>es. dump_hci_event 1 t = Inr es \<and> Print ''BD_ADDR'' (map uint (rev address)) \<in> set es) \<and>
    (\<exists>es. dump_hci_event 0 t = Inr es \<and> last es = Print ''Response to UNKNOWN command'' []) \<and>
    (\<forall>g. g < 0 \<or> length (tbuffer t) \<le> nat g \<longrightarrow> dump_hci_event g t = Inl Out_Of_Bounds)"
proof -
  have h: "holds_at (tbuffer t) 0 [0x0E, len, n, 0x09, 0x10, st]" "holds_at (tbuffer t) 6 address"
    using b unfolding holds_at_append by (simp_all add: numeral_eq_Suc)
  note n = holds_at_fetch [OF h(1)]
  note at = n [of 0, simplified] n [of 1, simplified] n [of 2, simplified, folded numeral_2_eq_2]
    n [of 3, simplified] n [of 4, simplified] n [of 5, simplified]
  have addr: "fetch_down (tbuffer t) 6 6 = Inr (rev address)"
    using fetch_down_holds [OF h(2)] len by simp
  have op: "join16 0x10 0x09 = HCI_Read_BD_ADDR" by (simp add: join16_def HCI_Read_BD_ADDR_def)
  have "\<exists>es. dump_hci_event 1 t = Inr es \<and> Print ''BD_ADDR'' (map uint (rev address)) \<in> set es"
    using at addr act
    by (simp add: command_complete_defs Let_def next_byte_def next_byte_int_def op
        command_response_def acknowledged_def opcode_defs read_bd_addr_response_def)
  moreover have
    "\<exists>es. dump_hci_event 0 t = Inr es \<and> last es = Print ''Response to UNKNOWN command'' []"
    using at
    by (simp add: command_complete_defs Let_def next_byte_def next_byte_int_def opcode_09_unknown)
  moreover have "dump_hci_event g t = Inl Out_Of_Bounds" if "g < 0 \<or> length (tbuffer t) \<le> nat g" for g
    using h(1) that
    by (auto simp: command_complete_defs Let_def holds_at_Cons next_byte_int_def)
  ultimately show ?thesis by blast
qed


text \<open>The response of a controller with the address 96:0E:7D:70:F3:5C.\<close>

definition bd_addr_packet :: bytes where
  "bd_addr_packet = [0x0E, 0x0A, 0x01, 0x09, 0x10, 0x00, 0x5C, 0xF3, 0x70, 0x7D, 0x0E, 0x96]"

lemma command_complete_depends_on_stale_index_witness:
  "(\<exists>es. dump_hci_event 1 (completed_transfer bd_addr_packet 12) = Inr es \<and>
      Print ''BD_ADDR'' [0x96, 0x0E, 0x7D, 0x70, 0xF3, 0x5C] \<in> set es) \<and>
   dump_hci_event 4096 (completed_transfer bd_addr_packet 12) = Inl Out_Of_Bounds"
  using command_complete_depends_on_stale_index [of "completed_transfer bd_addr_packet 12"
      "0x0A" 1 0 "[0x5C, 0xF3, 0x70, 0x7D, 0x0E, 0x96]"]
  by (simp add: holds_at_def bd_addr_packet_def)

section \<open>Staying inside the buffers\<close>

text \<open>
  The buffer of an event transfer has 1699 bytes and the local answer buffer 1024, so a
  stale index of at most 1000 leads nowhere outside.
\<close>

lemma next_byte_1699:
  "length b = 1699 \<Longrightarrow> next_byte b idx = Inr (b ! unat idx, idx + 1)"
proof -
  assume "length b = 1699"
  then have "unat idx < length b" using unat_u8_less [of idx] by linarith
  then show ?thesis by simp
qed

lemma fetch_down_1699: "length b = 1699 \<Longrightarrow> \<exists>bs. fetch_down b (unat (idx :: u8)) 6 = Inr bs"
proof -
  assume "length b = 1699"
  then have "unat idx + 6 \<le> length b" using unat_u8_less [of idx] by linarith
  then show ?thesis by (simp add: fetch_down_in_range)
qed

lemma next_byte_int_1699:
  "length b = 1699 \<Longrightarrow> 0 \<le> i \<Longrightarrow> i < 1699 \<Longrightarrow> next_byte_int b i = Inr (b ! nat i, i + 1)"
  by simp

lemma command_response_safe:
  assumes "length b = 1699" and "0 \<le> i" and "i \<le> 1004" and "n \<le> 1699"
    and "opcode \<noteq> HCI_Read_Local_Name"
  shows "\<exists>es. command_response opcode b n i = Inr es"
proof -
  have "nat (i + 1) + nat (n - (i + 1)) \<le> length b" using assms by linarith
  then have range: "\<exists>es. read_bd_addr_response b n i = Inr es"
    "\<exists>es. supported_commands_response b n i = Inr es"
    using assms
    by (simp_all add: read_bd_addr_response_def supported_commands_response_def
        next_byte_int_1699 fetch_up_in_range fetch_down_in_range)
  have bytes: "\<exists>es. read_scan_enable_response b i = Inr es"
    "\<exists>es. read_local_version_response b i = Inr es"
    "\<exists>es. supported_features_response b i = Inr es"
    "\<exists>es. read_buffer_size_response b i = Inr es"
    "\<exists>es. le_read_buffer_size_response b i = Inr es"
    using assms
    by (simp_all add: read_scan_enable_response_def read_local_version_response_def
        supported_features_response_def read_buffer_size_response_def next_word_int_def
        le_read_buffer_size_response_def next_byte_int_1699)
  show ?thesis
    using assms(5) range bytes
    by (cases "map_of acknowledged opcode") (auto simp: command_response_def)
qed

lemma command_complete_safe:
  assumes "length (tbuffer t) = 1699" and "0 \<le> g" and "g \<le> 1000" and "actual_length t \<le> 1699"
    and "join16 (tbuffer t ! nat (g + 3)) (tbuffer t ! nat (g + 2)) \<noteq> HCI_Read_Local_Name"
  shows "\<exists>es. command_complete_event g t = Inr es"
proof -
  obtain es where "command_response (join16 (tbuffer t ! nat (3 + g)) (tbuffer t ! nat (2 + g)))
      (tbuffer t) (actual_length t) (4 + g) = Inr es"
    using command_response_safe [OF assms(1) _ _ assms(4,5), of "4 + g"] assms(2,3)
    by (auto simp: add.commute)
  then show ?thesis
    using assms(1-3) by (simp add: command_complete_event_def Let_def next_byte_int_1699)
qed

lemma l2cap_event_safe:
  assumes "length b = 1699" and "0 \<le> g" and "g \<le> 1000"
  shows "\<exists>es. l2cap_event g b idx = Inr es"
  using assms
  by (simp add: l2cap_event_def l2cap_connection_request_def l2cap_configure_request_def
      l2cap_information_request_def next_byte_1699 Let_def)

text \<open>
  As long as the stale index is between 0 and 1000, \<open>dump_hci_event\<close> handles every
  completed transfer without leaving a buffer, whatever the 1699 bytes are, except a
  response to Read Local Name, whose text it uses as a format.
\<close>

lemma dump_stays_in_buffers:
  assumes "length (tbuffer t) = 1699" and "0 \<le> g" and "g \<le> 1000" and "actual_length t \<le> 1699"
    and "tbuffer t ! 0 = 0x0E \<longrightarrow>
      join16 (tbuffer t ! nat (g + 3)) (tbuffer t ! nat (g + 2)) \<noteq> HCI_Read_Local_Name"
  shows "\<exists>es. dump_hci_event g t = Inr es"
proof -
  let ?b = "tbuffer t"
  have start: "next_byte ?b 0 = Inr (?b ! 0, 1)" using next_byte_1699 [OF assms(1), of 0] by simp
  have "\<exists>es. le_meta_event ?b 1 = Inr es" "\<exists>es. connection_complete_event ?b 1 = Inr es"
    "\<exists>es. connection_request_event ?b 1 = Inr es"
    using assms(1) fetch_down_1699 [OF assms(1)]
    by (auto simp: le_meta_event_def connection_complete_event_def connection_request_event_def
        next_byte_1699 Let_def fetch_down_in_range)
  then show ?thesis
    using start assms l2cap_event_safe [OF assms(1-3), of 1] command_complete_safe [OF assms(1-4)]
    by (auto simp: dump_hci_event_def HCI_EVENT_CODE_COMMAND_COMPLETE_def Let_def)
qed

lemma dump_stays_in_buffers_witness:
  "\<exists>es. dump_hci_event 1 (completed_transfer (bd_addr_packet @ replicate 1687 0) 12) = Inr es"
  by (rule dump_stays_in_buffers)
    (simp_all add: bd_addr_packet_def join16_def opcode_defs)

end
