(* ===== verification/Init_Script.thy ===== *)
theory Init_Script
  imports Main_Events
begin

text \<open>
  \<open>async_callback\<close> of \<open>main.c\<close>: the callback of every transfer. It counts the completed
  transfers and sends the next command of the initialisation at fixed counts. The script
  is the table of these counts, with the size passed to \<open>usb_send_cmd_packet\<close> and the bytes
  stored into the zeroed buffer.
\<close>

section \<open>The script\<close>

type_synonym script = "(int \<times> nat \<times> bytes) list"

definition script_read_information :: script where
  "script_read_information =
     [(2, 3, [0x01, 0x10, 0x00]),
      (4, 3, [0x14, 0x0c, 0x00]),
      (6, 3, [0x02, 0x10, 0x00]),
      (8, 3, [0x09, 0x10, 0x00])]"

definition script_read_buffers :: script where
  "script_read_buffers =
     [(10, 3, [0x05, 0x10, 0x00]),
      (12, 3, [0x03, 0x10, 0x00]),
      (14, 11, [0x01, 0x0C, 0x08, 0xFF, 0xFF, 0xFF, 0xFF, 0xFF, 0xFF, 0xFF, 0x3F]),
      (16, 3, [0x02, 0x20, 0x00])]"

definition script_scan :: script where
  "script_scan =
     [(18, 3, [0x19, 0x0C, 0x00]),
      (20, 10, [0x0b, 0x20, 0x07, 0x01, 0xe0, 0x01, 0x30, 0x00, 0x00, 0x00])]"

definition script_pairing :: script where
  "script_pairing =
     [(22, 4, [0x56, 0x0c, 0x01, 0x01]),
      (24, 5, [0x18, 0x0c, 0x02, 0x00, 0x60]),
      (26, 6, [0x24, 0x0c, 0x03, 0x0c, 0x02, 0x7a])]"

text \<open>The local name, padded with zeros to 248 bytes.\<close>

definition script_local_name :: script where
  "script_local_name =
     [(28, 251, [0x13, 0x0c, 0xf8,
        0x57, 0x46, 0x42, 0x20, 0x43, 0x6f, 0x75, 0x6e, 0x74, 0x65, 0x72, 0x20,
        0x35, 0x43, 0x3a, 0x46, 0x33, 0x3a, 0x37, 0x30, 0x3a, 0x37, 0x44, 0x3a,
        0x30, 0x45, 0x3a, 0x39, 0x36])]"

text \<open>The extended inquiry response, which carries the name again.\<close>

definition script_inquiry_response :: script where
  "script_inquiry_response =
     [(30, 244, [0x52, 0x0c, 0xf1, 0x00, 0x1e, 0x09,
        0x57, 0x46, 0x42, 0x20, 0x43, 0x6f, 0x75, 0x6e, 0x74, 0x65, 0x72, 0x20,
        0x35, 0x43, 0x3a, 0x46, 0x33, 0x3a, 0x37, 0x30, 0x3a, 0x37, 0x44, 0x3a,
        0x30, 0x45, 0x3a, 0x39, 0x36])]"

definition script_enable :: script where
  "script_enable =
     [(32, 4, [0x45, 0x0c, 0x01, 0x00]),
      (34, 4, [0x1a, 0x0c, 0x01, 0x03]),
      (36, 4, [0x5b, 0x0c, 0x01, 0x01]),
      (38, 8, [0x1c, 0xfc, 0x05, 0x01, 0x00, 0x00, 0x00, 0x00])]"

definition main_script :: script where
  "main_script = script_read_information @ script_read_buffers @ script_scan @ script_pairing
     @ script_local_name @ script_inquiry_response @ script_enable"

lemmas script_defs =
  main_script_def script_read_information_def script_read_buffers_def script_scan_def
  script_pairing_def script_local_name_def script_inquiry_response_def script_enable_def

text \<open>The sequence of \<open>if (transfer_completed == k)\<close> statements.\<close>

fun run_script :: "script \<Rightarrow> int \<Rightarrow> effect list" where
  "run_script [] n = []"
| "run_script ((k, len, ws) # rest) n =
     (if n = k then send_command len ws else []) @ run_script rest n"

section \<open>The callback\<close>

text \<open>
  \<open>async_callback(transfer)\<close> with the stale index \<open>g\<close> of \<open>dump_hci_event\<close>: the effects and the
  new value of \<open>transfer_completed\<close>. The nested call of \<open>libusb_handle_events_timeout\<close> at the
  start is not modelled: it dispatches other transfers, one callback after the other.
\<close>

definition async_callback ::
  "int \<Rightarrow> libusb_transfer \<Rightarrow> int \<Rightarrow> (effect list \<times> int) res" where
  "async_callback g t transfer_completed =
     (if status t = LIBUSB_TRANSFER_COMPLETED then
        andthen (fetch_up (tbuffer t) 0 (nat (actual_length t))) (\<lambda>raw.
        andthen (dump_hci_event g t) (\<lambda>es.
          let transfer_completed = transfer_completed + 1 in
          Inr ([Print ''<<<'' (map uint raw)] @ es
               @ [Print ''transfer_completed'' [transfer_completed]]
               @ run_script main_script transfer_completed, transfer_completed)))
      else if status t = LIBUSB_TRANSFER_STALL then
        Inr ([Print ''Transfer stalled, trying again'' []], transfer_completed)
      else
        Inr ([Print ''not data -> resubmit transfer'' [uint (endpoint t), actual_length t], Resubmit],
             transfer_completed))"

section \<open>What the script sends\<close>

text \<open>The command packets of the script, in order.\<close>

definition script_packets :: "bytes list" where
  "script_packets = map (\<lambda>(k, len, ws). packet_of len ws) main_script"

lemma length_script [simp]: "length script_packets = 19"
  by (simp add: script_packets_def script_defs)

text \<open>The 29 characters of the device name.\<close>

definition device_name :: bytes where
  "device_name = map (\<lambda>c. word_of_nat (of_char c)) ''WFB Counter 5C:F3:70:7D:0E:96''"

text \<open>
  The commands of the initialisation. Each is well formed: its length byte counts
  exactly the parameter bytes that are passed to \<open>usb_send_cmd_packet\<close>, padding included,
  and it fits the command buffer of 259 bytes. In order they identify the controller, set
  the event mask, read the LE buffer size and the scan mode, set the LE scan parameters and
  configure pairing, timeout, class, name and scanning. The local name and the name in the
  extended inquiry response are the same 29 characters, padded with zeros to the declared
  length, and the inquiry response announces the name with the length 30, one for the type.
\<close>

lemma initialisation_script:
  "list_all (\<lambda>p. command_lengths_ok p \<and> length p \<le> 259) script_packets \<and>
   map command_opcode script_packets =
    [HCI_Read_Local_Version_Information, HCI_Read_Local_Name, HCI_Read_Local_Supported_Commands,
     HCI_Read_BD_ADDR, HCI_Read_Buffer_Size, HCI_Read_Local_Supported_Features,
     HCI_Set_Event_Mask, LE_Read_Buffer_Size, HCI_Read_Scan_Enable, 0x200b,
     HCI_Write_Simple_Pairing_Mode, HCI_Write_Page_Timeout, HCI_Write_Class_of_Device,
     HCI_Write_Local_Name, HCI_Write_Extended_Inquiry_Response, HCI_Write_Inquiry_Mode,
     HCI_Write_Scan_Enable, 0x0c5b, 0xfc1c] \<and>
   script_packets ! 13 = [0x13, 0x0c, 0xf8] @ device_name @ replicate 219 0 \<and>
   script_packets ! 14 =
     [0x52, 0x0c, 0xf1, 0x00, word_of_nat (Suc (length device_name)), 0x09] @ device_name
       @ replicate 209 0"
proof (intro conjI)
  show "list_all (\<lambda>p. command_lengths_ok p \<and> length p \<le> 259) script_packets"
    by (simp add: script_packets_def script_defs command_lengths_ok_def packet_of_def)
  show "map command_opcode script_packets =
    [HCI_Read_Local_Version_Information, HCI_Read_Local_Name, HCI_Read_Local_Supported_Commands,
     HCI_Read_BD_ADDR, HCI_Read_Buffer_Size, HCI_Read_Local_Supported_Features,
     HCI_Set_Event_Mask, LE_Read_Buffer_Size, HCI_Read_Scan_Enable, 0x200b,
     HCI_Write_Simple_Pairing_Mode, HCI_Write_Page_Timeout, HCI_Write_Class_of_Device,
     HCI_Write_Local_Name, HCI_Write_Extended_Inquiry_Response, HCI_Write_Inquiry_Mode,
     HCI_Write_Scan_Enable, 0x0c5b, 0xfc1c]"
    by (simp add: script_packets_def script_defs command_opcode_def packet_of_def opcode_defs
        join16_def)
qed (simp_all add: script_packets_def script_defs packet_of_def device_name_def)

text \<open>
  The script as a function of the count: one command at each even count from 2 to 38, and
  the transfer given back once; nothing at any other count.
\<close>

lemma run_main_script:
  "run_script main_script n =
     (if even n \<and> 2 \<le> n \<and> n \<le> 38 then
        [Sleep wait, Cmd_Out (script_packets ! nat (n div 2 - 1)), Resubmit]
      else [])"
proof (cases "even n \<and> 2 \<le> n \<and> n \<le> 38")
  case True
  then have "(n = 2 \<or> n = 4 \<or> n = 6 \<or> n = 8 \<or> n = 10) \<or> (n = 12 \<or> n = 14 \<or> n = 16 \<or> n = 18 \<or> n = 20)
      \<or> (n = 22 \<or> n = 24 \<or> n = 26 \<or> n = 28 \<or> n = 30) \<or> (n = 32 \<or> n = 34 \<or> n = 36 \<or> n = 38)"
    by presburger
  then show ?thesis
    by (elim disjE) (simp_all add: script_defs script_packets_def send_command_def)
next
  case False
  then have "n \<noteq> 2" "n \<noteq> 4" "n \<noteq> 6" "n \<noteq> 8" "n \<noteq> 10" "n \<noteq> 12" "n \<noteq> 14" "n \<noteq> 16" "n \<noteq> 18"
    "n \<noteq> 20" "n \<noteq> 22" "n \<noteq> 24" "n \<noteq> 26" "n \<noteq> 28" "n \<noteq> 30" "n \<noteq> 32" "n \<noteq> 34" "n \<noteq> 36" "n \<noteq> 38"
    by auto
  then show ?thesis using False by (simp add: script_defs)
qed

end
