(* ===== verification/Main_Driver.thy ===== *)
theory Main_Driver
  imports Init_Script Usb_Send Main_Events_Props
begin

text \<open>
  The initialisation of the controller as a transition system: the callback of \<open>main.c\<close>
  between libusb, which holds the submitted transfers, and the controller, which answers
  every command with one command complete event. The order in which the completion of a
  command transfer and the arrival of its event are reported is left open.
\<close>

section \<open>The state\<close>

text \<open>
  \<open>completed\<close> is \<open>transfer_completed\<close>; \<open>event_pool\<close> the number of event transfers that libusb
  holds; \<open>command_pending\<close> whether libusb holds the one command transfer; \<open>responses\<close> the
  events that the controller has still to deliver; \<open>sent\<close> the commands accepted so far.
\<close>

record driver =
  completed :: int
  event_pool :: nat
  command_pending :: bool
  responses :: nat
  sent :: "bytes list"

datatype transfer_kind = Command_Transfer | Event_Transfer

text \<open>
  The effects of the callback on libusb. Submitting a transfer that is already submitted
  fails with \<open>LIBUSB_ERROR_BUSY\<close> and changes nothing; a command transfer that is submitted
  again sends its buffer, which still holds the last command.
\<close>

definition submit_command :: "bytes \<Rightarrow> driver \<Rightarrow> driver" where
  "submit_command p d =
     (if command_pending d then d
      else d\<lparr>command_pending := True, sent := sent d @ [p], responses := responses d + 1\<rparr>)"

fun perform :: "transfer_kind \<Rightarrow> effect \<Rightarrow> driver \<Rightarrow> driver" where
  "perform k (Cmd_Out p) d = submit_command p d"
| "perform Event_Transfer Resubmit d = d\<lparr>event_pool := event_pool d + 1\<rparr>"
| "perform Command_Transfer Resubmit d = submit_command (last (sent d)) d"
| "perform k e d = d"

definition perform_all :: "transfer_kind \<Rightarrow> effect list \<Rightarrow> driver \<Rightarrow> driver" where
  "perform_all k es d = fold (perform k) es d"

text \<open>
  What the callback finds in the two kinds of transfers: the buffer of a command transfer
  starts with the setup packet, an event transfer holds a command complete event.
\<close>

definition command_done_transfer :: "libusb_transfer \<Rightarrow> bool" where
  "command_done_transfer t \<longleftrightarrow> status t = LIBUSB_TRANSFER_COMPLETED \<and> fetch (tbuffer t) 0 = Inr 0x21"

definition command_complete_transfer :: "libusb_transfer \<Rightarrow> bool" where
  "command_complete_transfer t \<longleftrightarrow>
     status t = LIBUSB_TRANSFER_COMPLETED \<and> fetch (tbuffer t) 0 = Inr 0x0E"

inductive driver_step :: "driver \<Rightarrow> driver \<Rightarrow> bool" where
  command_done:
    "command_pending d \<Longrightarrow> command_done_transfer t \<Longrightarrow>
     async_callback g t (completed d) = Inr (es, n) \<Longrightarrow>
     driver_step d (perform_all Command_Transfer es (d\<lparr>command_pending := False, completed := n\<rparr>))"
| event_done:
    "responses d = Suc r \<Longrightarrow> event_pool d = Suc p \<Longrightarrow> command_complete_transfer t \<Longrightarrow>
     async_callback g t (completed d) = Inr (es, n) \<Longrightarrow>
     driver_step d (perform_all Event_Transfer es
       (d\<lparr>responses := r, event_pool := p, completed := n\<rparr>))"

inductive_cases driver_stepE: "driver_step d d'"

text \<open>After \<open>find_dev\<close>: three event transfers submitted and the reset command sent.\<close>

definition reset_command :: bytes where
  "reset_command = [0x03, 0x0C, 0x00]"

definition driver_init :: driver where
  "driver_init = \<lparr>completed = 0, event_pool = 3, command_pending = True, responses = 1,
     sent = [reset_command]\<rparr>"

abbreviation reachable :: "driver \<Rightarrow> bool" where
  "reachable \<equiv> driver_step\<^sup>*\<^sup>* driver_init"

section \<open>What a callback does to the state\<close>

lemma perform_all_append [simp]:
  "perform_all k (xs @ ys) d = perform_all k ys (perform_all k xs d)"
  by (simp add: perform_all_def)

lemma perform_quiet:
  "cmds_of es = [] \<Longrightarrow> resubmits es = 0 \<Longrightarrow> perform_all k es d = d"
proof (induction es arbitrary: d)
  case Nil
  then show ?case by (simp add: perform_all_def)
next
  case (Cons e es)
  then have "cmds_of es = []" "resubmits es = 0" "perform k e d = d"
    by (cases e; cases k; simp)+
  then show ?case using Cons.IH by (simp add: perform_all_def)
qed

lemma dump_command_quiet:
  "fetch (tbuffer t) 0 = Inr 0x21 \<Longrightarrow>
   dump_hci_event g t = Inr [Print ''HCI_EVENT_TRANSFER_COMPLETE'' []]"
  by (simp add: dump_hci_event_def next_byte_def HCI_EVENT_TRANSFER_COMPLETE_def Let_def)

lemma dump_response_quiet:
  "fetch (tbuffer t) 0 = Inr 0x0E \<Longrightarrow> dump_hci_event g t = Inr es \<Longrightarrow>
   cmds_of es = [] \<and> resubmits es = 0"
  by (auto simp: dump_hci_event_def next_byte_def HCI_EVENT_TRANSFER_COMPLETE_def
      HCI_EVENT_CODE_COMMAND_COMPLETE_def Let_def command_complete_event_def andthen_eq_Inr
      dest!: command_response_quiet)

text \<open>Of the effects of such a callback only those of the script reach libusb.\<close>

lemma callback_performs_script:
  assumes "async_callback g t n = Inr (es, n')"
    and "command_done_transfer t \<or> command_complete_transfer t"
  shows "n' = n + 1" and "perform_all k es d = perform_all k (run_script main_script (n + 1)) d"
proof -
  have "status t = LIBUSB_TRANSFER_COMPLETED"
    using assms(2) by (auto simp: command_done_transfer_def command_complete_transfer_def)
  then obtain raw ds where cb: "dump_hci_event g t = Inr ds" "n' = n + 1"
    "es = [Print ''<<<'' raw] @ ds @ [Print ''transfer_completed'' [n + 1]]
       @ run_script main_script (n + 1)"
    using assms(1) by (auto simp: async_callback_def andthen_eq_Inr Let_def)
  have "cmds_of ds = [] \<and> resubmits ds = 0"
    using assms(2) cb(1) dump_command_quiet [of t g] dump_response_quiet [of t g ds]
    by (auto simp: command_done_transfer_def command_complete_transfer_def)
  then have "perform_all k ([Print ''<<<'' raw] @ ds @ [Print ''transfer_completed'' [n + 1]]) d = d" for d
    by (intro perform_quiet) auto
  then show "n' = n + 1" "perform_all k es d = perform_all k (run_script main_script (n + 1)) d"
    using cb(2,3) by (simp_all add: perform_all_def)
qed

lemma script_idle: "odd n \<or> 38 < n \<Longrightarrow> perform_all k (run_script main_script n) d = d"
  by (auto simp: run_main_script perform_all_def)

lemma script_event:
  assumes "\<not> command_pending d" and "even n" and "2 \<le> n" and "n \<le> 38"
  shows "perform_all Event_Transfer (run_script main_script n) d =
    d\<lparr>command_pending := True, sent := sent d @ [script_packets ! nat (n div 2 - 1)],
      responses := responses d + 1, event_pool := event_pool d + 1\<rparr>"
  using assms by (simp add: run_main_script perform_all_def submit_command_def)

lemma script_command:
  assumes "\<not> command_pending d" and "even n" and "2 \<le> n" and "n \<le> 38"
  shows "perform_all Command_Transfer (run_script main_script n) d =
    d\<lparr>command_pending := True, sent := sent d @ [script_packets ! nat (n div 2 - 1)],
      responses := responses d + 1\<rparr>"
  using assms by (simp add: run_main_script perform_all_def submit_command_def)

section \<open>The invariant of the initialisation\<close>

text \<open>Completions still to come for the commands sent so far.\<close>

definition outstanding :: "driver \<Rightarrow> nat" where
  "outstanding d = of_bool (command_pending d) + responses d"

definition all_commands :: "bytes list" where
  "all_commands = reset_command # script_packets"

definition driver_inv :: "driver \<Rightarrow> bool" where
  "driver_inv d \<longleftrightarrow>
     1 \<le> length (sent d) \<and> length (sent d) \<le> 20 \<and>
     sent d = take (length (sent d)) all_commands \<and>
     completed d + int (outstanding d) = 2 * int (length (sent d)) \<and>
     responses d \<le> 1 \<and>
     (outstanding d = 0 \<longrightarrow> length (sent d) = 20)"

lemma length_all_commands [simp]: "length all_commands = 20"
  by (simp add: all_commands_def)

lemma take_next_command:
  assumes "sent d = take (length (sent d)) all_commands" and "1 \<le> length (sent d)"
    and "length (sent d) < 20"
  shows "sent d @ [script_packets ! (length (sent d) - 1)] = take (Suc (length (sent d))) all_commands"
  using assms by (cases "length (sent d)") (simp_all add: all_commands_def take_Suc_conv_app_nth)

text \<open>One completion less to come: either nothing happens or the next command is sent.\<close>

lemma driver_inv_completion:
  assumes inv: "driver_inv d" and "outstanding d = Suc (outstanding d1)"
    and same: "sent d1 = sent d" "completed d1 = completed d + 1" "responses d1 \<le> 1"
  shows "driver_inv (perform_all k (run_script main_script (completed d1)) d1)"
proof -
  let ?k = "length (sent d)"
  have count: "completed d1 + int (outstanding d1) = 2 * int ?k"
    using inv assms(2) same by (simp add: driver_inv_def)
  have "outstanding d \<le> 2"
    using inv by (cases "command_pending d") (auto simp: driver_inv_def outstanding_def)
  then have u: "outstanding d1 \<le> 1" using assms(2) by simp
  show ?thesis
  proof (cases "outstanding d1 = 0 \<and> ?k < 20")
    case True
    then have n: "completed d1 = 2 * int ?k" "even (completed d1)" "2 \<le> completed d1"
      "completed d1 \<le> 38" "\<not> command_pending d1" "responses d1 = 0"
      using count inv by (auto simp: driver_inv_def outstanding_def split: if_splits)
    have "nat (completed d1 div 2 - 1) = ?k - 1" using n(1) by simp
    then show ?thesis
      using inv True n(1,6) same(1) take_next_command [of d] script_event [OF n(5,2,3,4)]
        script_command [OF n(5,2,3,4)]
      by (cases k) (simp_all add: driver_inv_def outstanding_def)
  next
    case False
    have "odd (completed d1) \<or> 38 < completed d1"
    proof (cases "outstanding d1 = 0")
      case True
      then show ?thesis using False count by simp
    next
      case one: False
      then have "completed d1 = 2 * int ?k - 1" using u count by simp
      then show ?thesis by simp
    qed
    then have "perform_all k (run_script main_script (completed d1)) d1 = d1" by (rule script_idle)
    then show ?thesis
      using inv count same False by (auto simp: driver_inv_def)
  qed
qed

lemma driver_inv_step:
  assumes "driver_inv d" and "driver_step d d'"
  shows "driver_inv d'"
  using assms(2)
proof (cases rule: driver_step.cases)
  case (command_done t g es n)
  let ?d1 = "d\<lparr>command_pending := False, completed := n\<rparr>"
  have cb: "n = completed d + 1"
    "perform_all Command_Transfer es ?d1 = perform_all Command_Transfer (run_script main_script n) ?d1"
    using callback_performs_script [OF command_done(4)] command_done(3) by simp_all
  show ?thesis
    using driver_inv_completion [OF assms(1), of ?d1 Command_Transfer] cb command_done(1,2) assms(1)
    by (simp add: outstanding_def driver_inv_def)
next
  case (event_done r p t g es n)
  let ?d1 = "d\<lparr>responses := r, event_pool := p, completed := n\<rparr>"
  have cb: "n = completed d + 1"
    "perform_all Event_Transfer es ?d1 = perform_all Event_Transfer (run_script main_script n) ?d1"
    using callback_performs_script [OF event_done(5)] event_done(4) by simp_all
  show ?thesis
    using driver_inv_completion [OF assms(1), of ?d1 Event_Transfer] cb event_done(1,2) assms(1)
    by (simp add: outstanding_def driver_inv_def)
qed

lemma driver_inv_reachable: "reachable d \<Longrightarrow> driver_inv d"
proof (induction rule: rtranclp_induct)
  case base
  then show ?case
    by (simp add: driver_inv_def driver_init_def outstanding_def all_commands_def)
qed (rule driver_inv_step)

text \<open>
  C10. In every reachable state of the initialisation, whatever the order of completions, the
  commands accepted by libusb are a prefix of the reset followed by the script, in order
  and without repetition; a command is only sent when the one before is both completed and
  answered; and the counter of completed transfers is twice the number of commands less
  the completions still to come.
\<close>

theorem initialisation_in_order:
  assumes "reachable d"
  shows "sent d = take (length (sent d)) all_commands \<and> responses d \<le> 1 \<and>
    completed d = 2 * int (length (sent d)) - of_bool (command_pending d) - int (responses d)"
  using driver_inv_reachable [OF assms] by (simp add: driver_inv_def outstanding_def)

section \<open>Progress and deadlock\<close>

lemma command_done_possible:
  "\<exists>g t es. command_done_transfer t \<and> async_callback g t n = Inr (es, n + 1)"
proof -
  let ?t = "completed_transfer [0x21] 0"
  have "command_done_transfer ?t" by (simp add: command_done_transfer_def)
  moreover have "dump_hci_event 0 ?t = Inr [Print ''HCI_EVENT_TRANSFER_COMPLETE'' []]"
    by (rule dump_command_quiet) simp
  then have "\<exists>es. async_callback 0 ?t n = Inr (es, n + 1)"
    by (simp add: async_callback_def Let_def)
  ultimately show ?thesis by blast
qed

lemma command_complete_possible:
  "\<exists>g t es. command_complete_transfer t \<and> async_callback g t n = Inr (es, n + 1)"
proof -
  let ?t = "completed_transfer [0x0E, 4, 1, 0x03, 0x0C, 0] 6"
  have "command_complete_transfer ?t" by (simp add: command_complete_transfer_def)
  moreover have "\<exists>es. dump_hci_event 1 ?t = Inr es"
    by (simp add: command_complete_defs Let_def command_response_def acknowledged_def
        opcode_defs join16_def)
  then have "\<exists>es. async_callback 1 ?t n = Inr (es, n + 1)"
    by (auto simp: async_callback_def Let_def fetch_numeral)
  ultimately show ?thesis by blast
qed

lemma step_command:
  assumes "command_pending d"
  shows "driver_step d (perform_all Command_Transfer (run_script main_script (completed d + 1))
    (d\<lparr>command_pending := False, completed := completed d + 1\<rparr>))"
proof -
  obtain g t es where "command_done_transfer t" "async_callback g t (completed d) = Inr (es, completed d + 1)"
    using command_done_possible by blast
  then show ?thesis
    using driver_step.command_done [OF assms] callback_performs_script(2) by fastforce
qed

lemma step_event:
  assumes "responses d = Suc r" and "event_pool d = Suc p"
  shows "driver_step d (perform_all Event_Transfer (run_script main_script (completed d + 1))
    (d\<lparr>responses := r, event_pool := p, completed := completed d + 1\<rparr>))"
proof -
  obtain g t es where "command_complete_transfer t" "async_callback g t (completed d) = Inr (es, completed d + 1)"
    using command_complete_possible by blast
  then show ?thesis
    using driver_step.event_done [OF assms] callback_performs_script(2) by fastforce
qed


text \<open>The state between two commands, with \<open>k\<close> commands sent and \<open>e\<close> event transfers left.\<close>

definition between :: "nat \<Rightarrow> nat \<Rightarrow> driver" where
  "between k e = \<lparr>completed = 2 * int k - 2, event_pool = e, command_pending = True,
     responses = 1, sent = take k all_commands\<rparr>"

lemma between_init: "driver_init = between 1 3"
  by (simp add: driver_init_def between_def all_commands_def)

lemma take_next: "k < 20 \<Longrightarrow> 1 \<le> k \<Longrightarrow>
  take k all_commands @ [script_packets ! (k - 1)] = take (Suc k) all_commands"
  using take_next_command [of "between k 0"] by (simp add: between_def min_def)

text \<open>The command is reported as completed first: the event transfer is given back.\<close>

lemma command_first:
  assumes "1 \<le> k" and "k < 20"
  shows "driver_step\<^sup>*\<^sup>* (between k (Suc e)) (between (Suc k) (Suc e))"
proof -
  let ?d1 = "\<lparr>completed = 2 * int k - 1, event_pool = Suc e, command_pending = False,
     responses = 1, sent = take k all_commands\<rparr>"
  have "odd (2 * int k - 1)" by simp
  then have "driver_step (between k (Suc e)) ?d1"
    using step_command [of "between k (Suc e)"] script_idle [of "2 * int k - 1"]
    by (simp add: between_def)
  moreover have "driver_step ?d1 (between (Suc k) (Suc e))"
  proof -
    let ?d2 = "?d1\<lparr>responses := 0, event_pool := e, completed := 2 * int k\<rparr>"
    have "nat (int k - 1) = k - 1" by simp
    then have "perform_all Event_Transfer (run_script main_script (2 * int k)) ?d2 =
        between (Suc k) (Suc e)"
      using script_event [of ?d2 "2 * int k"] assms take_next [OF assms(2,1)]
      by (simp add: between_def)
    then show ?thesis using step_event [of ?d1 0 e] by simp
  qed
  ultimately show ?thesis by (meson converse_rtranclp_into_rtranclp rtranclp.rtrancl_refl)
qed

text \<open>The event is reported first: the command transfer is given back, the event is not.\<close>

lemma event_first:
  assumes "1 \<le> k" and "k < 20"
  shows "driver_step\<^sup>*\<^sup>* (between k (Suc e)) (between (Suc k) e)"
proof -
  let ?d1 = "\<lparr>completed = 2 * int k - 1, event_pool = e, command_pending = True,
     responses = 0, sent = take k all_commands\<rparr>"
  have "odd (2 * int k - 1)" by simp
  then have "driver_step (between k (Suc e)) ?d1"
    using step_event [of "between k (Suc e)" 0 e] script_idle [of "2 * int k - 1"]
    by (simp add: between_def)
  moreover have "driver_step ?d1 (between (Suc k) e)"
  proof -
    let ?d2 = "?d1\<lparr>command_pending := False, completed := 2 * int k\<rparr>"
    have "nat (int k - 1) = k - 1" by simp
    then have "perform_all Command_Transfer (run_script main_script (2 * int k)) ?d2 =
        between (Suc k) e"
      using script_command [of ?d2 "2 * int k"] assms take_next [OF assms(2,1)]
      by (simp add: between_def)
    then show ?thesis using step_command [of ?d1] by simp
  qed
  ultimately show ?thesis by (meson converse_rtranclp_into_rtranclp rtranclp.rtrancl_refl)
qed

lemma commands_first: "k < 20 \<Longrightarrow> reachable (between (Suc k) 3)"
proof (induction k)
  case 0
  then show ?case by (simp add: between_init)
next
  case (Suc k)
  then show ?case
    using command_first [of "Suc k" 2] by (auto intro: rtranclp_trans simp: numeral_3_eq_3)
qed

text \<open>
  If each command is reported as completed before its event arrives, the whole
  initialisation is carried out: a state is reachable in which the reset and all 19
  commands of the script have been sent, and all three event transfers are in use.
\<close>

lemma initialisation_completes:
  "\<exists>d. reachable d \<and> sent d = reset_command # script_packets \<and> event_pool d = 3"
  using commands_first [of 19]
  by (intro exI [of _ "between 20 3"]) (simp add: between_def all_commands_def)

text \<open>The state behind the last command of the script is one of those of the invariant.\<close>

lemma initialisation_in_order_witness:
  "\<exists>d. reachable d \<and> length (sent d) = 20 \<and> sent d = take 20 all_commands \<and> responses d \<le> 1 \<and>
     completed d = 40 - of_bool (command_pending d) - int (responses d)"
proof -
  have d: "reachable (between 20 3)" "length (sent (between 20 3)) = 20"
    using commands_first [of 19] by (simp_all add: between_def all_commands_def)
  show ?thesis
    using initialisation_in_order [OF d(1)] d by (intro exI [of _ "between 20 3"]) simp
qed

text \<open>
  If the event of a command arrives before the completion of the command transfer is
  reported, the event transfer is lost: after three such commands libusb holds none any
  more, and the initialisation is stuck with four commands sent and a response that is
  never received.
\<close>

lemma initialisation_can_get_stuck:
  "\<exists>d. reachable d \<and> length (sent d) = 4 \<and> responses d = 1 \<and> (\<nexists>d'. driver_step d d')"
proof -
  let ?d = "\<lparr>completed = 7, event_pool = 0, command_pending = False, responses = 1,
    sent = take 4 all_commands\<rparr>"
  have "driver_step\<^sup>*\<^sup>* (between 1 3) (between 4 0)"
    using event_first [of 1 2] event_first [of 2 1] event_first [of 3 0]
    by (auto intro: rtranclp_trans simp: eval_nat_numeral)
  then have "reachable (between 4 0)" by (simp add: between_init)
  moreover have "driver_step (between 4 0) ?d"
    using step_command [of "between 4 0"] script_idle [of 7] by (simp add: between_def)
  ultimately have "reachable ?d" by (rule rtranclp.rtrancl_into_rtrancl)
  moreover have "\<not> driver_step ?d d'" for d'
    by (auto elim: driver_stepE)
  ultimately show ?thesis by (intro exI [of _ ?d]) simp
qed

end
