(* ===== verification/Main_Program.thy ===== *)
theory Main_Program
  imports Scan_Endpoints Main_Driver
begin

text \<open>
  \<open>find_dev\<close> and \<open>main\<close> of \<open>main.c\<close>: the search for the ASUS BT400 dongle, the claim of its
  interface, the allocation and submission of the transfers, the reset command and the
  event loop. libusb and the devices are parameters; the model is the sequence of calls
  that the program makes and how it ends.
\<close>

section \<open>The environment\<close>

text \<open>What libusb reports about one device of the list.\<close>

record device =
  descriptor :: "int + device_descriptor"
  open_result :: int
  configuration :: "int + config_descriptor"

text \<open>The results of the other calls, the results of loops by the index of the round.\<close>

record environment =
  init_result :: int
  list_result :: int
  claim_result :: int
  event_alloc_ok :: "nat \<Rightarrow> bool"
  acl_alloc_ok :: "nat \<Rightarrow> bool"
  event_submit :: "nat \<Rightarrow> int"
  acl_submit :: "nat \<Rightarrow> int"

text \<open>
  The calls. Those that go through the global \<open>handle\<close> carry its value: \<open>None\<close> is the null
  pointer, \<open>Some i\<close> the handle of the \<open>i\<close>-th device of the list.
\<close>

datatype usb_call =
    Usb_Init
  | Get_Device_List
  | Get_Device_Descriptor nat
  | Open_Device nat
  | Get_String "nat option" u8
  | Scan nat
  | Reset_Device "nat option"
  | Set_Configuration "nat option" int
  | Claim_Interface "nat option" int
  | Release_Interface "nat option" int
  | Close_Device "nat option"
  | Alloc_Transfer
  | Submit_Interrupt "nat option" int
  | Submit_Bulk "nat option" int
  | Command bytes
  | Pause nat
  | Handle_Events
  | Free_Device_List
  | Usb_Exit

text \<open>How \<open>find_dev\<close> ends: in the event loop, giving up after an error, or without a dongle.\<close>

datatype outcome = Event_Loop | Gave_Up | No_Device

section \<open>The code\<close>

definition EVENT_IN_BUFFER_COUNT :: nat where "EVENT_IN_BUFFER_COUNT = 3"
definition ACL_IN_BUFFER_COUNT :: nat where "ACL_IN_BUFFER_COUNT = 3"

text \<open>The cleanup of the error branches behind the claim of the interface.\<close>

definition give_up :: "nat option \<Rightarrow> usb_call list" where
  "give_up h = [Release_Interface h 0, Close_Device h, Usb_Exit]"

text \<open>\<open>for (c = 0; c < n; c++)\<close> over allocations; \<open>False\<close> if one of them failed.\<close>

fun alloc_loop :: "(nat \<Rightarrow> bool) \<Rightarrow> nat list \<Rightarrow> usb_call list \<times> bool" where
  "alloc_loop ok [] = ([], True)"
| "alloc_loop ok (c # cs) =
     (if ok c then (let (calls, r) = alloc_loop ok cs in (Alloc_Transfer # calls, r))
      else ([Alloc_Transfer], False))"

text \<open>The loops over submissions: any result other than 0 is an error.\<close>

fun submit_loop :: "usb_call \<Rightarrow> (nat \<Rightarrow> int) \<Rightarrow> nat list \<Rightarrow> usb_call list \<times> bool" where
  "submit_loop call result [] = ([], True)"
| "submit_loop call result (c # cs) =
     (if result c \<noteq> 0 then ([call], False)
      else (let (calls, r) = submit_loop call result cs in (call # calls, r)))"

text \<open>
  The branch for the BT400: the calls and whether the event loop is entered. The two
  allocations for outgoing transfers are not checked.
\<close>

definition attach_device ::
  "environment \<Rightarrow> nat option \<Rightarrow> bt_endpoints \<Rightarrow> usb_call list \<times> outcome" where
  "attach_device w h a =
     (let start = [Reset_Device h, Pause 1000, Set_Configuration h 1, Pause 1000, Claim_Interface h 0]
      in if claim_result w \<noteq> 0 then (start @ [Close_Device h, Usb_Exit], Gave_Up)
      else
        (let start = start @ [Pause 1000];
             (events, ok) = alloc_loop (event_alloc_ok w) [0..<EVENT_IN_BUFFER_COUNT];
             start = start @ events
         in if \<not> ok then (start @ give_up h, Gave_Up)
         else
           (let (acls, ok) = alloc_loop (acl_alloc_ok w) [0..<ACL_IN_BUFFER_COUNT];
                start = start @ acls
            in if \<not> ok then (start @ give_up h, Gave_Up)
            else
              (let (events, ok) = submit_loop (Submit_Interrupt h (event_in_addr a))
                     (event_submit w) [0..<EVENT_IN_BUFFER_COUNT];
                   start = start @ [Alloc_Transfer, Alloc_Transfer] @ events
               in if \<not> ok then (start @ give_up h, Gave_Up)
               else
                 (let (acls, ok) = submit_loop (Submit_Bulk h (acl_in_addr a))
                        (acl_submit w) [0..<ACL_IN_BUFFER_COUNT];
                      start = start @ acls
                  in if \<not> ok then (start @ give_up h, Gave_Up)
                  else (start @ [Command reset_command, Pause 30, Handle_Events], Event_Loop))))))"

text \<open>
  The loop of \<open>find_dev\<close> over the list of devices, from the \<open>i\<close>-th on; \<open>h\<close> is the global
  handle, which keeps its value when a device cannot be opened. The result of the scan is
  ignored.
\<close>

fun find_dev ::
  "environment \<Rightarrow> nat \<Rightarrow> nat option \<Rightarrow> device list \<Rightarrow> (usb_call list \<times> outcome) res" where
  "find_dev w i h [] = Inr ([], No_Device)"
| "find_dev w i h (dev # devs) =
     (case descriptor dev of
        Inl r \<Rightarrow> Inr ([Get_Device_Descriptor i, Usb_Exit], Gave_Up)
      | Inr desc \<Rightarrow>
          (let opened = (open_result dev = LIBUSB_SUCCESS);
               h = (if opened then Some i else h);
               calls = [Get_Device_Descriptor i, Open_Device i]
                 @ (if opened then [Get_String h (iProduct desc)] else []) @ [Scan i]
           in andthen (scan_for_bt_endpoints (configuration dev)) (\<lambda>(r, a).
             if idVendor desc = 0x0b05 \<and> idProduct desc = 0x17cb then
               (let (more, out) = attach_device w h a in Inr (calls @ more, out))
             else
               andthen (find_dev w (Suc i) h devs) (\<lambda>(more, out). Inr (calls @ more, out)))))"

text \<open>
  \<open>main\<close>: the calls, how the search ended (if it began), and the returned value; \<open>None\<close>
  while the event loop runs.
\<close>

definition main ::
  "environment \<Rightarrow> device list \<Rightarrow> (usb_call list \<times> outcome option \<times> int option) res" where
  "main w devs =
     (if init_result w < 0 then Inr ([Usb_Init], None, Some (init_result w))
      else if list_result w < 0 then
        Inr ([Usb_Init, Get_Device_List, Usb_Exit], None, Some (list_result w))
      else andthen (find_dev w 0 None devs) (\<lambda>(calls, out).
        if out = Event_Loop then Inr ([Usb_Init, Get_Device_List] @ calls, Some out, None)
        else Inr ([Usb_Init, Get_Device_List] @ calls @ [Free_Device_List, Usb_Exit], Some out, Some 0)))"

section \<open>Entering the event loop\<close>

lemma alloc_loop_ok: "alloc_loop ok cs = (calls, True) \<Longrightarrow> calls = replicate (length cs) Alloc_Transfer"
  by (induction cs arbitrary: calls) (auto split: if_splits prod.splits)

lemma submit_loop_ok: "submit_loop call res cs = (calls, True) \<Longrightarrow> calls = replicate (length cs) call"
  by (induction cs arbitrary: calls) (auto split: if_splits prod.splits)

definition setup_calls :: "nat option \<Rightarrow> usb_call list" where
  "setup_calls h =
     [Reset_Device h, Pause 1000, Set_Configuration h 1, Pause 1000, Claim_Interface h 0, Pause 1000]
     @ replicate 8 Alloc_Transfer"

definition start_calls :: "nat option \<Rightarrow> bt_endpoints \<Rightarrow> usb_call list" where
  "start_calls h a =
     replicate 3 (Submit_Interrupt h (event_in_addr a)) @ replicate 3 (Submit_Bulk h (acl_in_addr a))
     @ [Command reset_command, Pause 30, Handle_Events]"

lemma attach_event_loop:
  "attach_device w h a = (calls, Event_Loop) \<Longrightarrow> calls = setup_calls h @ start_calls h a"
  by (auto simp: attach_device_def Let_def setup_calls_def start_calls_def
      EVENT_IN_BUFFER_COUNT_def ACL_IN_BUFFER_COUNT_def numeral_eq_Suc
      dest!: alloc_loop_ok submit_loop_ok split: if_splits prod.splits)

definition is_bt400 :: "device \<Rightarrow> bool" where
  "is_bt400 dev \<longleftrightarrow>
     (\<exists>desc. descriptor dev = Inr desc \<and> idVendor desc = 0x0b05 \<and> idProduct desc = 0x17cb)"

text \<open>
  What the search calls for the \<open>i\<close>-th device, and the global handle after the devices of a
  list of positions: a device that cannot be opened leaves it as it was.
\<close>

definition look_at :: "device list \<Rightarrow> nat \<Rightarrow> usb_call list" where
  "look_at devs i =
     [Get_Device_Descriptor i, Open_Device i]
     @ (case descriptor (devs ! i) of
          Inr desc \<Rightarrow> if open_result (devs ! i) = 0 then [Get_String (Some i) (iProduct desc)] else []
        | Inl _ \<Rightarrow> [])
     @ [Scan i]"

definition last_opened :: "device list \<Rightarrow> nat option \<Rightarrow> nat list \<Rightarrow> nat option" where
  "last_opened devs h js =
     fold (\<lambda>j h. if open_result (devs ! j) = 0 then Some j else h) js h"

text \<open>The \<open>k\<close>-th device is the first BT400 of the list from the \<open>i\<close>-th device on.\<close>

definition first_bt400 :: "device list \<Rightarrow> nat \<Rightarrow> nat \<Rightarrow> bool" where
  "first_bt400 devs i k \<longleftrightarrow>
     i \<le> k \<and> k < length devs \<and> is_bt400 (devs ! k) \<and> (\<forall>j. i \<le> j \<and> j < k \<longrightarrow> \<not> is_bt400 (devs ! j))"

lemma first_bt400_here: "i < length devs \<Longrightarrow> is_bt400 (devs ! i) \<Longrightarrow> first_bt400 devs i i"
  by (auto simp: first_bt400_def)

lemma first_bt400_later:
  "first_bt400 devs (Suc i) k \<Longrightarrow> \<not> is_bt400 (devs ! i) \<Longrightarrow> first_bt400 devs i k"
  by (auto simp: first_bt400_def) (metis le_antisym not_less_eq_eq)

lemma drop_is_Cons: "drop i xs = y # ys \<Longrightarrow> i < length xs \<and> xs ! i = y \<and> ys = drop (Suc i) xs"
  by (metis Cons_nth_drop_Suc drop_all leI list.discI list.inject)

lemma find_dev_event_loop:
  "find_dev w i h devs = Inr (calls, Event_Loop) \<Longrightarrow> devs = drop i all \<Longrightarrow>
   \<exists>k h' r a. first_bt400 all i k \<and> h' = last_opened all h [i..<Suc k] \<and>
     scan_for_bt_endpoints (configuration (all ! k)) = Inr (r, a) \<and>
     calls = concat (map (look_at all) [i..<Suc k]) @ setup_calls h' @ start_calls h' a"
proof (induction w i h devs arbitrary: calls rule: find_dev.induct)
  case (1 w i h)
  then show ?case by simp
next
  case (2 w i h dev devs)
  obtain desc where desc: "descriptor dev = Inr desc"
    using "2.prems"(1) by (auto split: sum.splits)
  have i: "i < length all" "all ! i = dev" "devs = drop (Suc i) all"
    using drop_is_Cons [OF "2.prems"(2) [symmetric]] by simp_all
  let ?h = "if open_result dev = LIBUSB_SUCCESS then Some i else h"
  let ?pre = "[Get_Device_Descriptor i, Open_Device i]
    @ (if open_result dev = LIBUSB_SUCCESS then [Get_String ?h (iProduct desc)] else []) @ [Scan i]"
  have pre: "look_at all i = ?pre" using i desc by (simp add: look_at_def LIBUSB_SUCCESS_def)
  have h: "last_opened all h (i # js) = last_opened all ?h js" for js
    using i by (simp add: last_opened_def LIBUSB_SUCCESS_def)
  obtain r a where scan: "scan_for_bt_endpoints (configuration dev) = Inr (r, a)"
    using "2.prems"(1) desc by (auto simp: andthen_eq_Inr Let_def)
  show ?case
  proof (cases "idVendor desc = 0x0b05 \<and> idProduct desc = 0x17cb")
    case True
    obtain more where at: "attach_device w ?h a = (more, Event_Loop)" "calls = ?pre @ more"
      using "2.prems"(1) desc scan True by (auto simp: Let_def split: prod.splits)
    have "first_bt400 all i i"
      using True desc i by (intro first_bt400_here) (auto simp: is_bt400_def)
    moreover have "?h = last_opened all h [i..<Suc i]" by (simp add: last_opened_def i LIBUSB_SUCCESS_def)
    ultimately show ?thesis
      using attach_event_loop [OF at(1)] at(2) scan i pre
      by (intro exI [of _ i] exI [of _ ?h] exI [of _ r] exI [of _ a]) simp
  next
    case False
    obtain more where rest: "find_dev w (Suc i) ?h devs = Inr (more, Event_Loop)" "calls = ?pre @ more"
      using "2.prems"(1) desc scan False by (auto simp: andthen_eq_Inr Let_def split: prod.splits)
    obtain k h' r' a' where later: "first_bt400 all (Suc i) k" "h' = last_opened all ?h [Suc i..<Suc k]"
      "scan_for_bt_endpoints (configuration (all ! k)) = Inr (r', a')"
      "more = concat (map (look_at all) [Suc i..<Suc k]) @ setup_calls h' @ start_calls h' a'"
      using "2.IH" [OF desc refl refl refl scan refl False rest(1) i(3)] by blast
    have "\<not> is_bt400 (all ! i)" using False desc i by (auto simp: is_bt400_def)
    with later(1) have first: "first_bt400 all i k" by (rule first_bt400_later)
    then have "[i..<Suc k] = i # [Suc i..<Suc k]"
      by (simp add: first_bt400_def upt_conv_Cons)
    then show ?thesis
      using first later(2-4) rest(2) pre h
      by (intro exI [of _ k] exI [of _ h'] exI [of _ r'] exI [of _ a']) simp
  qed
qed

text \<open>
  C35. When \<open>main\<close> reaches its event loop, it has made exactly these calls, in this order:
  it has initialised libusb and taken the list of devices; for every device up to the first
  with the vendor and product of the BT400 it has read the descriptor, tried to open it,
  read its product name if that succeeded, and scanned its endpoints; then it has reset and
  configured a device and claimed its interface, allocated eight transfers, submitted three
  interrupt transfers on the event endpoint and three bulk transfers on the incoming ACL
  endpoint that the scan of the BT400 chose, and sent the HCI reset. The handle of all of
  this is that of the last device that could be opened, the BT400 itself if it could.
\<close>

theorem event_loop_is_set_up:
  assumes "main w devs = Inr (calls, Some Event_Loop, r)"
  shows "\<exists>k h s a. r = None \<and> first_bt400 devs 0 k \<and>
    h = last_opened devs None [0..<Suc k] \<and> (open_result (devs ! k) = 0 \<longrightarrow> h = Some k) \<and>
    scan_for_bt_endpoints (configuration (devs ! k)) = Inr (s, a) \<and>
    calls = [Usb_Init, Get_Device_List] @ concat (map (look_at devs) [0..<Suc k])
      @ [Reset_Device h, Pause 1000, Set_Configuration h 1, Pause 1000,
         Claim_Interface h 0, Pause 1000] @ replicate 8 Alloc_Transfer
      @ replicate 3 (Submit_Interrupt h (event_in_addr a))
      @ replicate 3 (Submit_Bulk h (acl_in_addr a))
      @ [Command [0x03, 0x0C, 0x00], Pause 30, Handle_Events]"
proof -
  obtain more where fd: "find_dev w 0 None devs = Inr (more, Event_Loop)"
    and calls: "calls = [Usb_Init, Get_Device_List] @ more" "r = None"
    using assms by (auto simp: main_def andthen_eq_Inr split: if_splits)
  obtain k h s a where "first_bt400 devs 0 k" "h = last_opened devs None [0..<Suc k]"
    "scan_for_bt_endpoints (configuration (devs ! k)) = Inr (s, a)"
    "more = concat (map (look_at devs) [0..<Suc k]) @ setup_calls h @ start_calls h a"
    using find_dev_event_loop [OF fd, of devs] by auto
  moreover from this(2) have "open_result (devs ! k) = 0 \<longrightarrow> h = Some k"
    by (simp add: last_opened_def)
  ultimately show ?thesis
    using calls
    by (intro exI [of _ k] exI [of _ h] exI [of _ s] exI [of _ a])
      (simp add: setup_calls_def start_calls_def reset_command_def)
qed

text \<open>An environment in which nothing fails, and a machine with one BT400.\<close>

definition working_environment :: environment where
  "working_environment = \<lparr>init_result = 0, list_result = 1, claim_result = 0,
     event_alloc_ok = (\<lambda>c. True), acl_alloc_ok = (\<lambda>c. True), event_submit = (\<lambda>c. 0),
     acl_submit = (\<lambda>c. 0)\<rparr>"

definition bt400 :: device where
  "bt400 = \<lparr>descriptor = Inr \<lparr>idVendor = 0x0b05, idProduct = 0x17cb, iProduct = 2\<rparr>,
     open_result = 0, configuration = Inr dongle_config\<rparr>"

text \<open>A keyboard, which can be opened too.\<close>

definition keyboard :: device where
  "keyboard = \<lparr>descriptor = Inr \<lparr>idVendor = 0x046d, idProduct = 0xc31c, iProduct = 2\<rparr>,
     open_result = 0, configuration = Inr dongle_config\<rparr>"

definition dongle_endpoints :: bt_endpoints where
  "dongle_endpoints = \<lparr>event_in_addr = 0x81, acl_in_addr = 0x82, acl_out_addr = 0x02,
     sco_out_addr = 0x03, sco_in_addr = 0x83\<rparr>"

lemma scan_dongle: "scan_for_bt_endpoints (Inr dongle_config) = Inr (0, dongle_endpoints)"
  by (simp add: scan_for_bt_endpoints_def dongle_config_def scan_endpoint_def Let_def
      no_endpoints_def libusb_codes dongle_endpoints_def)

lemma attach_working:
  "attach_device working_environment h a = (setup_calls h @ start_calls h a, Event_Loop)"
  by (simp add: attach_device_def working_environment_def setup_calls_def start_calls_def
      EVENT_IN_BUFFER_COUNT_def ACL_IN_BUFFER_COUNT_def numeral_eq_Suc Let_def)

lemma working_results [simp]:
  "init_result working_environment = 0" "list_result working_environment = 1"
  by (simp_all add: working_environment_def)

text \<open>The program passes over the keyboard and takes the BT400 behind it.\<close>

lemma event_loop_is_set_up_witness:
  "\<exists>calls. main working_environment [keyboard, bt400] = Inr (calls, Some Event_Loop, None) \<and>
     calls = [Usb_Init, Get_Device_List,
         Get_Device_Descriptor 0, Open_Device 0, Get_String (Some 0) 2, Scan 0,
         Get_Device_Descriptor 1, Open_Device 1, Get_String (Some 1) 2, Scan 1,
         Reset_Device (Some 1), Pause 1000, Set_Configuration (Some 1) 1, Pause 1000,
         Claim_Interface (Some 1) 0, Pause 1000] @ replicate 8 Alloc_Transfer
       @ replicate 3 (Submit_Interrupt (Some 1) 0x81)
       @ replicate 3 (Submit_Bulk (Some 1) 0x82)
       @ [Command [0x03, 0x0C, 0x00], Pause 30, Handle_Events]"
proof -
  have "\<exists>calls. main working_environment [keyboard, bt400] = Inr (calls, Some Event_Loop, None)"
    by (simp add: main_def keyboard_def bt400_def scan_dongle attach_working
        LIBUSB_SUCCESS_def Let_def)
  then obtain calls where m: "main working_environment [keyboard, bt400] =
    Inr (calls, Some Event_Loop, None)" by blast
  obtain k h r a where c: "first_bt400 [keyboard, bt400] 0 k"
    "h = last_opened [keyboard, bt400] None [0..<Suc k]"
    "scan_for_bt_endpoints (configuration ([keyboard, bt400] ! k)) = Inr (r, a)"
    "calls = [Usb_Init, Get_Device_List] @ concat (map (look_at [keyboard, bt400]) [0..<Suc k])
      @ [Reset_Device h, Pause 1000, Set_Configuration h 1, Pause 1000,
         Claim_Interface h 0, Pause 1000] @ replicate 8 Alloc_Transfer
      @ replicate 3 (Submit_Interrupt h (event_in_addr a))
      @ replicate 3 (Submit_Bulk h (acl_in_addr a))
      @ [Command [0x03, 0x0C, 0x00], Pause 30, Handle_Events]"
    using event_loop_is_set_up [OF m] by (elim exE conjE) (rule that)
  have "\<not> is_bt400 keyboard" by (simp add: is_bt400_def keyboard_def)
  with c(1) have k: "k = 1" by (cases k) (auto simp: first_bt400_def less_Suc_eq)
  have a: "a = dongle_endpoints"
    using c(3) k by (simp add: bt400_def scan_dongle)
  have looks: "look_at [keyboard, bt400] 0 = [Get_Device_Descriptor 0, Open_Device 0, Get_String (Some 0) 2, Scan 0]"
    "look_at [keyboard, bt400] 1 = [Get_Device_Descriptor 1, Open_Device 1, Get_String (Some 1) 2, Scan 1]"
    by (simp_all add: look_at_def keyboard_def bt400_def)
  have ks: "[0..<Suc k] = [0, 1]" using k by (simp add: upt_rec)
  have h: "h = Some 1" using c(2) unfolding ks by (simp add: last_opened_def bt400_def)
  have "calls = [Usb_Init, Get_Device_List,
         Get_Device_Descriptor 0, Open_Device 0, Get_String (Some 0) 2, Scan 0,
         Get_Device_Descriptor 1, Open_Device 1, Get_String (Some 1) 2, Scan 1,
         Reset_Device (Some 1), Pause 1000, Set_Configuration (Some 1) 1, Pause 1000,
         Claim_Interface (Some 1) 0, Pause 1000] @ replicate 8 Alloc_Transfer
       @ replicate 3 (Submit_Interrupt (Some 1) 0x81)
       @ replicate 3 (Submit_Bulk (Some 1) 0x82)
       @ [Command [0x03, 0x0C, 0x00], Pause 30, Handle_Events]"
    unfolding c(4) h ks a list.map looks concat.simps
    by (simp only: append.simps append_Nil2) (simp add: dongle_endpoints_def)
  with m show ?thesis by blast
qed

section \<open>Leaving the program\<close>

definition exits :: "usb_call list \<Rightarrow> nat" where
  "exits calls = count_list calls Usb_Exit"

lemma exits_simps [simp]:
  "exits [] = 0"
  "exits (c # cs) = (if c = Usb_Exit then Suc (exits cs) else exits cs)"
  "exits (xs @ ys) = exits xs + exits ys"
  by (simp_all add: exits_def)

lemma exits_alloc [simp]: "exits (fst (alloc_loop ok cs)) = 0"
  by (induction cs) (auto split: prod.splits)

lemma exits_submit: "call \<noteq> Usb_Exit \<Longrightarrow> exits (fst (submit_loop call res cs)) = 0"
  by (induction cs) (auto split: prod.splits)

lemma exits_loops:
  "alloc_loop ok cs = (calls, r) \<Longrightarrow> exits calls = 0"
  "submit_loop (Submit_Interrupt h x) res cs = (calls, r) \<Longrightarrow> exits calls = 0"
  "submit_loop (Submit_Bulk h x) res cs = (calls, r) \<Longrightarrow> exits calls = 0"
  using exits_alloc [of ok cs] exits_submit [of "Submit_Interrupt h x" res cs]
    exits_submit [of "Submit_Bulk h x" res cs] by auto

lemma exits_attach:
  "attach_device w h a = (calls, out) \<Longrightarrow>
   out \<noteq> No_Device \<and> exits calls = (if out = Gave_Up then 1 else 0)"
  by (auto simp: attach_device_def Let_def give_up_def dest!: exits_loops
      split: if_splits prod.splits)

lemma exits_find_dev:
  "find_dev w i h devs = Inr (calls, out) \<Longrightarrow> exits calls = (if out = Gave_Up then 1 else 0)"
proof (induction w i h devs arbitrary: calls rule: find_dev.induct)
  case (1 w i h)
  then show ?case by auto
next
  case (2 w i h dev devs)
  then show ?case
    by (fastforce simp: andthen_eq_Inr Let_def dest!: exits_attach
        split: sum.splits if_splits prod.splits)
qed

text \<open>
  How often \<open>main\<close> calls \<open>libusb_exit\<close>: once when no dongle was found or the device list
  could not be had, never when it stays in the event loop, but twice whenever
  \<open>find_dev\<close> gives up after an error.
\<close>

lemma main_exits:
  assumes "main w devs = Inr (calls, out, r)"
  shows "count_list calls Usb_Exit =
    (case out of
       Some Gave_Up \<Rightarrow> 2
     | Some No_Device \<Rightarrow> 1
     | Some Event_Loop \<Rightarrow> 0
     | None \<Rightarrow> if init_result w < 0 then 0 else 1)"
  using assms exits_find_dev [of w 0 None devs]
  by (auto simp: main_def andthen_eq_Inr exits_def split: if_splits outcome.splits)

text \<open>The interface of the dongle cannot be claimed.\<close>

lemma main_exits_witness:
  "\<exists>calls. main (working_environment\<lparr>claim_result := -6\<rparr>) [bt400] = Inr (calls, Some Gave_Up, Some 0) \<and>
     count_list calls Usb_Exit = 2"
proof -
  have "\<exists>a. scan_for_bt_endpoints (Inr dongle_config) = Inr (0, a)"
    by (simp add: scan_for_bt_endpoints_def dongle_config_def)
  then obtain calls where m: "main (working_environment\<lparr>claim_result := -6\<rparr>) [bt400]
      = Inr (calls, Some Gave_Up, Some 0)"
    by (auto simp: main_def working_environment_def bt400_def LIBUSB_SUCCESS_def attach_device_def
        Let_def)
  then show ?thesis using main_exits [OF m] by auto
qed

section \<open>The handle of the dongle\<close>

lemma claims_loops:
  "alloc_loop ok cs = (calls, r) \<Longrightarrow> Claim_Interface h' i \<notin> set calls"
  "submit_loop (Submit_Interrupt h x) res cs = (calls, r) \<Longrightarrow> Claim_Interface h' i \<notin> set calls"
  "submit_loop (Submit_Bulk h x) res cs = (calls, r) \<Longrightarrow> Claim_Interface h' i \<notin> set calls"
  by (induction cs arbitrary: calls r; auto split: if_splits prod.splits)+

lemma attach_claims:
  assumes "attach_device w h a = (calls, out)"
  shows "Reset_Device h \<in> set calls" and "Claim_Interface h 0 \<in> set calls"
    and "h' \<noteq> h \<Longrightarrow> Claim_Interface h' 0 \<notin> set calls"
  using assms
  by (auto simp: attach_device_def Let_def give_up_def dest!: claims_loops
      split: if_splits prod.splits)

text \<open>
  The result of opening the dongle is not looked at before it is used. When the BT400
  comes after another device that could be opened and cannot be opened itself, it is that
  other device that is reset, configured and claimed.
\<close>

lemma dongle_not_opened_uses_other_handle:
  assumes "\<not> is_bt400 other" and "descriptor other = Inr desc" and "open_result other = 0"
    and "is_bt400 dongle" and "open_result dongle < 0"
    and "\<exists>a. scan_for_bt_endpoints (configuration other) = Inr a"
    and "\<exists>a. scan_for_bt_endpoints (configuration dongle) = Inr a"
  shows "\<exists>calls out. find_dev w 0 None [other, dongle] = Inr (calls, out) \<and>
    Reset_Device (Some 0) \<in> set calls \<and> Claim_Interface (Some 0) 0 \<in> set calls \<and>
    Claim_Interface (Some 1) 0 \<notin> set calls"
proof -
  obtain ddesc where dd: "descriptor dongle = Inr ddesc" "idVendor ddesc = 0x0b05"
    "idProduct ddesc = 0x17cb" using assms(4) by (auto simp: is_bt400_def)
  have "\<not> (idVendor desc = 0x0b05 \<and> idProduct desc = 0x17cb)"
    using assms(1,2) by (auto simp: is_bt400_def)
  then show ?thesis
    using assms(2,3,5,6,7) dd
    by (auto simp: LIBUSB_SUCCESS_def Let_def attach_claims split: prod.splits)
qed

text \<open>A keyboard, and a BT400 that the user may not open.\<close>

lemma dongle_not_opened_uses_other_handle_witness:
  "\<exists>calls out. find_dev working_environment 0 None [keyboard, bt400\<lparr>open_result := -3\<rparr>] =
      Inr (calls, out) \<and> Reset_Device (Some 0) \<in> set calls"
proof -
  have "\<exists>a. scan_for_bt_endpoints (Inr dongle_config) = Inr a"
    by (simp add: scan_for_bt_endpoints_def dongle_config_def)
  then show ?thesis
    using dongle_not_opened_uses_other_handle
      [of keyboard "\<lparr>idVendor = 0x046d, idProduct = 0xc31c, iProduct = 2\<rparr>"
        "bt400\<lparr>open_result := -3\<rparr>" working_environment]
    by (auto simp: keyboard_def bt400_def is_bt400_def)
qed

end
