(* ===== verification/Rfcomm_Fcs.thy ===== *)
theory Rfcomm_Fcs
  imports Prelude
begin

text \<open>
  The frame check sequence of RFCOMM (\<open>hci_test.cpp\<close>): the 256 entry reversed CRC table,
  the loop over it, and the two checksums (two header bytes for UIH frames, three for
  SABM, UA and the other frames). The table driven routine is proved equal to the bit by
  bit CRC of GSM 07.10, and the check that a receiver makes is proved to accept every
  header to which its own checksum was appended.
\<close>

definition ng_btsocket_rfcomm_crc_table :: "u8 list" where
  "ng_btsocket_rfcomm_crc_table = [
    0x00, 0x91, 0xe3, 0x72, 0x07, 0x96, 0xe4, 0x75,
    0x0e, 0x9f, 0xed, 0x7c, 0x09, 0x98, 0xea, 0x7b,
    0x1c, 0x8d, 0xff, 0x6e, 0x1b, 0x8a, 0xf8, 0x69,
    0x12, 0x83, 0xf1, 0x60, 0x15, 0x84, 0xf6, 0x67,
    0x38, 0xa9, 0xdb, 0x4a, 0x3f, 0xae, 0xdc, 0x4d,
    0x36, 0xa7, 0xd5, 0x44, 0x31, 0xa0, 0xd2, 0x43,
    0x24, 0xb5, 0xc7, 0x56, 0x23, 0xb2, 0xc0, 0x51,
    0x2a, 0xbb, 0xc9, 0x58, 0x2d, 0xbc, 0xce, 0x5f,
    0x70, 0xe1, 0x93, 0x02, 0x77, 0xe6, 0x94, 0x05,
    0x7e, 0xef, 0x9d, 0x0c, 0x79, 0xe8, 0x9a, 0x0b,
    0x6c, 0xfd, 0x8f, 0x1e, 0x6b, 0xfa, 0x88, 0x19,
    0x62, 0xf3, 0x81, 0x10, 0x65, 0xf4, 0x86, 0x17,
    0x48, 0xd9, 0xab, 0x3a, 0x4f, 0xde, 0xac, 0x3d,
    0x46, 0xd7, 0xa5, 0x34, 0x41, 0xd0, 0xa2, 0x33,
    0x54, 0xc5, 0xb7, 0x26, 0x53, 0xc2, 0xb0, 0x21,
    0x5a, 0xcb, 0xb9, 0x28, 0x5d, 0xcc, 0xbe, 0x2f,
    0xe0, 0x71, 0x03, 0x92, 0xe7, 0x76, 0x04, 0x95,
    0xee, 0x7f, 0x0d, 0x9c, 0xe9, 0x78, 0x0a, 0x9b,
    0xfc, 0x6d, 0x1f, 0x8e, 0xfb, 0x6a, 0x18, 0x89,
    0xf2, 0x63, 0x11, 0x80, 0xf5, 0x64, 0x16, 0x87,
    0xd8, 0x49, 0x3b, 0xaa, 0xdf, 0x4e, 0x3c, 0xad,
    0xd6, 0x47, 0x35, 0xa4, 0xd1, 0x40, 0x32, 0xa3,
    0xc4, 0x55, 0x27, 0xb6, 0xc3, 0x52, 0x20, 0xb1,
    0xca, 0x5b, 0x29, 0xb8, 0xcd, 0x5c, 0x2e, 0xbf,
    0x90, 0x01, 0x73, 0xe2, 0x97, 0x06, 0x74, 0xe5,
    0x9e, 0x0f, 0x7d, 0xec, 0x99, 0x08, 0x7a, 0xeb,
    0x8c, 0x1d, 0x6f, 0xfe, 0x8b, 0x1a, 0x68, 0xf9,
    0x82, 0x13, 0x61, 0xf0, 0x85, 0x14, 0x66, 0xf7,
    0xa8, 0x39, 0x4b, 0xda, 0xaf, 0x3e, 0x4c, 0xdd,
    0xa6, 0x37, 0x45, 0xd4, 0xa1, 0x30, 0x42, 0xd3,
    0xb4, 0x25, 0x57, 0xc6, 0xb3, 0x22, 0x50, 0xc1,
    0xba, 0x2b, 0x59, 0xc8, 0xbd, 0x2c, 0x5e, 0xcf
  ]"

text \<open>
  \<open>while (length--) crc = table[crc ^ *data++];\<close> over the bytes that \<open>data\<close> points to.
\<close>

fun crc_loop :: "u8 \<Rightarrow> bytes \<Rightarrow> nat \<Rightarrow> u8 res" where
  "crc_loop crc data 0 = Inr crc"
| "crc_loop crc [] (Suc n) = Inl Out_Of_Bounds"
| "crc_loop crc (d # data) (Suc n) =
     crc_loop (ng_btsocket_rfcomm_crc_table ! unat (crc XOR d)) data n"

definition ng_btsocket_rfcomm_crc :: "bytes \<Rightarrow> nat \<Rightarrow> u8 res" where
  "ng_btsocket_rfcomm_crc data n = crc_loop 0xff data n"

definition ng_btsocket_rfcomm_fcs3 :: "bytes \<Rightarrow> u8 res" where
  "ng_btsocket_rfcomm_fcs3 data =
     andthen (ng_btsocket_rfcomm_crc data 3) (\<lambda>crc. Inr (0xff - crc))"

definition ng_btsocket_rfcomm_fcs2 :: "bytes \<Rightarrow> u8 res" where
  "ng_btsocket_rfcomm_fcs2 data =
     andthen (ng_btsocket_rfcomm_crc data 2) (\<lambda>crc. Inr (0xff - crc))"

section \<open>The reference: the CRC computed bit by bit\<close>

text \<open>
  The generator polynomial is \<open>x\<^sup>8 + x\<^sup>2 + x + 1\<close>, bits processed least significant
  first, so a step shifts right and adds the reversed polynomial \<open>0xE0\<close> on a carry.
\<close>

definition crc_bit :: "u8 \<Rightarrow> u8" where
  "crc_bit c = (if c AND 1 = 1 then drop_bit 1 c XOR 0xE0 else drop_bit 1 c)"

definition crc_byte :: "u8 \<Rightarrow> u8" where
  "crc_byte c = crc_bit (crc_bit (crc_bit (crc_bit (crc_bit (crc_bit (crc_bit (crc_bit c)))))))"

definition crc_reference :: "bytes \<Rightarrow> u8" where
  "crc_reference data = foldl (\<lambda>c d. crc_byte (c XOR d)) 0xff data"

lemma length_crc_table [simp]: "length ng_btsocket_rfcomm_crc_table = 256"
  by (simp add: ng_btsocket_rfcomm_crc_table_def)

text \<open>\<open>table_from i ts\<close>: the entries \<open>ts\<close> are the bit by bit CRCs of \<open>i\<close>, \<open>i + 1\<close>, \<open>\<dots>\<close>\<close>

fun table_from :: "u8 \<Rightarrow> u8 list \<Rightarrow> bool" where
  "table_from i [] = True"
| "table_from i (t # ts) = (crc_byte i = t \<and> table_from (i + 1) ts)"

lemma table_from_nth:
  "table_from i ts \<Longrightarrow> k < length ts \<Longrightarrow> ts ! k = crc_byte (i + word_of_nat k)"
proof (induction i ts arbitrary: k rule: table_from.induct)
  case (2 i t ts)
  then show ?case by (cases k) (auto simp: add.assoc)
qed simp

lemma table_from_table: "table_from 0 ng_btsocket_rfcomm_crc_table"
  by (simp add: ng_btsocket_rfcomm_crc_table_def crc_byte_def crc_bit_def)

lemma crc_table_nth: "ng_btsocket_rfcomm_crc_table ! unat x = crc_byte x"
  using table_from_nth [OF table_from_table, of "unat x"] by simp

section \<open>The table driven loop computes the reference\<close>

lemma crc_loop_foldl:
  "n \<le> length data \<Longrightarrow>
   crc_loop c data n = Inr (foldl (\<lambda>c d. crc_byte (c XOR d)) c (take n data))"
  by (induction c data n rule: crc_loop.induct) (auto simp: crc_table_nth)

lemma crc_loop_short: "length data < n \<Longrightarrow> crc_loop c data n = Inl Out_Of_Bounds"
  by (induction c data n rule: crc_loop.induct) auto

lemma fcs3_bytes [simp]:
  "ng_btsocket_rfcomm_fcs3 [a, b, c] = Inr (0xff - crc_reference [a, b, c])"
  by (simp add: ng_btsocket_rfcomm_fcs3_def ng_btsocket_rfcomm_crc_def crc_loop_foldl
      crc_reference_def)

lemma fcs2_bytes [simp]:
  "ng_btsocket_rfcomm_fcs2 [a, b] = Inr (0xff - crc_reference [a, b])"
  by (simp add: ng_btsocket_rfcomm_fcs2_def ng_btsocket_rfcomm_crc_def crc_loop_foldl
      crc_reference_def)

text \<open>
  C9. The table driven checksum loop of RFCOMM agrees with the bit by bit CRC-8 of
  GSM 07.10 on every buffer and every length: it returns the reference CRC of the first
  \<open>n\<close> bytes where the buffer holds them and reads out of bounds exactly where it does not.
\<close>

theorem rfcomm_crc_is_bitwise_crc:
  "ng_btsocket_rfcomm_crc data n =
     (if n \<le> length data then Inr (crc_reference (take n data)) else Inl Out_Of_Bounds)"
  by (simp add: ng_btsocket_rfcomm_crc_def crc_loop_foldl crc_loop_short crc_reference_def)

lemma xor_complement: "c XOR (0xff - c) = (0xff :: u8)"
proof -
  have "(0xff :: u8) - c = NOT c" by (simp add: not_eq_complement)
  moreover have "c XOR NOT c = - 1" by (simp add: bit_eq_iff bit_simps)
  ultimately show ?thesis by simp
qed

lemma crc_reference_snoc: "crc_reference (data @ [d]) = crc_byte (crc_reference data XOR d)"
  by (simp add: crc_reference_def)

text \<open>
  The receiver's check accepts what the sender computes: running the CRC over a header
  followed by its frame check sequence gives the constant \<open>0xCF\<close> of GSM 07.10, for the
  three byte checksum (SABM, UA, DISC) and the two byte checksum (UIH) alike.
\<close>

lemma rfcomm_fcs_accepted:
  "(\<exists>f. ng_btsocket_rfcomm_fcs3 [a, b, c] = Inr f \<and> crc_reference [a, b, c, f] = 0xCF) \<and>
   (\<exists>f. ng_btsocket_rfcomm_fcs2 [a, b] = Inr f \<and> crc_reference [a, b, f] = 0xCF)"
proof -
  have "crc_byte 0xff = 0xCF" by (simp add: crc_byte_def crc_bit_def)
  then show ?thesis
    using crc_reference_snoc [of "[a, b, c]" "0xff - crc_reference [a, b, c]"]
      crc_reference_snoc [of "[a, b]" "0xff - crc_reference [a, b]"]
    by (simp add: xor_complement)
qed

section \<open>Error detection\<close>

text \<open>A step of the CRC can be undone: its top bit tells which branch was taken.\<close>

definition uncrc_bit :: "u8 \<Rightarrow> u8" where
  "uncrc_bit d = (if d AND 0x80 = 0x80 then push_bit 1 (d XOR 0xE0) OR 1 else push_bit 1 d)"

fun undone_from :: "u8 \<Rightarrow> u8 list \<Rightarrow> bool" where
  "undone_from i [] = True"
| "undone_from i (t # ts) = (uncrc_bit (crc_bit i) = i \<and> undone_from (i + 1) ts)"

lemma undone_from_nth:
  "undone_from i ts \<Longrightarrow> k < length ts \<Longrightarrow>
   uncrc_bit (crc_bit (i + word_of_nat k)) = i + word_of_nat k"
proof (induction i ts arbitrary: k rule: undone_from.induct)
  case (2 i t ts)
  then show ?case by (cases k) (auto simp: add.assoc)
qed simp

lemma undone_from_table: "undone_from 0 ng_btsocket_rfcomm_crc_table"
  by (simp add: ng_btsocket_rfcomm_crc_table_def uncrc_bit_def crc_bit_def)

lemma uncrc_crc_bit: "uncrc_bit (crc_bit c) = c"
  using undone_from_nth [OF undone_from_table, of "unat c"] by simp

lemma crc_bit_inj: "crc_bit a = crc_bit b \<longleftrightarrow> a = b"
  by (metis uncrc_crc_bit)

lemma crc_byte_inj: "crc_byte a = crc_byte b \<longleftrightarrow> a = b"
  by (simp add: crc_byte_def crc_bit_inj)

lemma xor_cancel_left: "c XOR a = c XOR b \<longleftrightarrow> a = (b :: u8)"
proof
  assume "c XOR a = c XOR b"
  then have "c XOR (c XOR a) = c XOR (c XOR b)" by simp
  then show "a = b" by (simp add: xor.assoc [symmetric])
qed simp

lemma xor_cancel_right: "a XOR c = b XOR c \<longleftrightarrow> a = (b :: u8)"
  by (metis xor_cancel_left xor.commute)

lemma crc_state_inj:
  "foldl (\<lambda>c d. crc_byte (c XOR d)) c ys = foldl (\<lambda>c d. crc_byte (c XOR d)) c' ys \<longleftrightarrow> c = c'"
  by (induction ys arbitrary: c c') (auto simp: crc_byte_inj xor_cancel_right)

lemma crc_reference_one_byte:
  "crc_reference (xs @ a # ys) = crc_reference (xs @ b # ys) \<longleftrightarrow> a = b"
  by (simp add: crc_reference_def crc_state_inj crc_byte_inj xor_cancel_left)

text \<open>
  C39. A header corrupted in one byte (address, control field or length) never carries the
  checksum of the original: the three byte frame check sequences of two headers that
  differ in exactly one position differ.
\<close>

theorem rfcomm_fcs_detects_byte_error:
  assumes "i < 3" and "length h = 3" and "x \<noteq> h ! i"
  shows "ng_btsocket_rfcomm_fcs3 (h[i := x]) \<noteq> ng_btsocket_rfcomm_fcs3 h"
proof -
  have "h = take i h @ h ! i # drop (Suc i) h"
    using assms by (simp add: id_take_nth_drop)
  moreover have "h[i := x] = take i h @ x # drop (Suc i) h"
    using assms by (simp add: upd_conv_take_nth_drop)
  ultimately have "crc_reference (h[i := x]) \<noteq> crc_reference h"
    using crc_reference_one_byte assms(3) by metis
  then show ?thesis
    using assms(2)
    by (simp add: ng_btsocket_rfcomm_fcs3_def ng_btsocket_rfcomm_crc_def crc_loop_foldl
        crc_reference_def)
qed

theorem rfcomm_fcs_detects_byte_error_witness:
  "ng_btsocket_rfcomm_fcs3 [0x0b, 0x3f, 0x01] \<noteq> ng_btsocket_rfcomm_fcs3 [0x03, 0x3f, 0x01]"
  using rfcomm_fcs_detects_byte_error [of 0 "[0x03, 0x3f, 0x01]" "0x0b"] by simp

end
