(* ===== verification/Sdp_Element.thy ===== *)
theory Sdp_Element
  imports Prelude
begin

text \<open>
  The data elements of the Service Discovery Protocol (\<open>sdp/sdp.h\<close>, \<open>sdp/sdp.cpp\<close>): the
  class \<open>DataElement\<close>, its header and body as they are read from a packet, and the
  serializer that writes an element (or a tree of them) into a 256 byte array. The
  serializer is proved to refine a recursive encoder.
\<close>

section \<open>The class DataElement\<close>

datatype element_type =
    Nil_T | Uint | Twos_complement_int | Uuid | Text_string | Boolean_T | Sequence
  | Alternative | Url | Unknown | Dummy_uint

text \<open>
  The members that hold values. The links \<open>parent\<close> and \<open>children\<close> are kept apart: as
  cells of a store where the reader moves along them (theory \<open>Sdp_Reader\<close>), as a tree
  where the serializer walks down.
\<close>

record data_element =
  start_index :: u16
  etype :: element_type
  dataElementVarSizeInBytes :: u16
  value_uint32 :: u32
  value_uuid :: u16
  value_text :: bytes
  value_bool :: bool
  value_url :: bytes

text \<open>The values that the constructor and \<open>reset\<close> give.\<close>

definition reset_element :: data_element where
  "reset_element = \<lparr>start_index = 0, etype = Unknown, dataElementVarSizeInBytes = 0,
     value_uint32 = 0, value_uuid = 0, value_text = [], value_bool = False, value_url = []\<rparr>"

datatype element = Element data_element "element list"

fun nodes :: "element \<Rightarrow> nat" where
  "nodes (Element e cs) = Suc (sum_list (map nodes cs))"

section \<open>Reading a header and a body\<close>

text \<open>
  \<open>readDataElementHeader(data, index, element)\<close>: the type from the upper five bits (the
  types that are not handled leave the member as it was), the size from the lower three,
  with one, two or three more bytes for the descriptors 5, 6 and 7. The size is stored in
  16 bits. The index is promoted to \<open>int\<close> in \<open>index + k\<close>, so it does not wrap here.
\<close>

definition type_of_header :: "u8 \<Rightarrow> element_type \<Rightarrow> element_type" where
  "type_of_header b old =
     (let code = drop_bit 3 (b AND 0xF8) in
      if code = 1 then Uint
      else if code = 3 then Uuid
      else if code = 4 then Text_string
      else if code = 6 then Sequence
      else old)"

definition readDataElementHeader ::
  "bytes \<Rightarrow> u8 \<Rightarrow> data_element \<Rightarrow> (u8 \<times> data_element) res" where
  "readDataElementHeader data index e =
     andthen (fetch data (unat index)) (\<lambda>b.
       let e1 = e\<lparr>start_index := ucast index, etype := type_of_header b (etype e)\<rparr>;
           sz = b AND 0x07
       in
         if sz \<le> 4 then Inr (1, e1\<lparr>dataElementVarSizeInBytes := word_of_nat (2 ^ unat sz)\<rparr>)
         else if sz = 5 then
           andthen (fetch data (unat index + 1)) (\<lambda>b1.
             Inr (2, e1\<lparr>dataElementVarSizeInBytes := ucast b1\<rparr>))
         else if sz = 6 then
           andthen (fetch data (unat index + 1)) (\<lambda>b1.
           andthen (fetch data (unat index + 2)) (\<lambda>b2.
             Inr (3, e1\<lparr>dataElementVarSizeInBytes := join16 b1 b2\<rparr>)))
         else
           andthen (fetch data (unat index + 1)) (\<lambda>b1.
           andthen (fetch data (unat index + 2)) (\<lambda>b2.
           andthen (fetch data (unat index + 3)) (\<lambda>b3.
             Inr (4, e1\<lparr>dataElementVarSizeInBytes := join16 b2 b3\<rparr>)))))"

text \<open>
  The loops of \<open>readDataElementBody\<close>. The counter \<open>bytes_consumed\<close> is a \<open>uint8_t\<close>; the
  accumulators shift by a byte and add (32 bits for integers, 16 for UUIDs).
\<close>

fun read_number :: "bytes \<Rightarrow> u8 \<Rightarrow> nat \<Rightarrow> 'w::len word \<Rightarrow> u8 \<Rightarrow> ('w word \<times> u8) res" where
  "read_number data index 0 v consumed = Inr (v, consumed)"
| "read_number data index (Suc n) v consumed =
     andthen (fetch data (unat index + unat consumed)) (\<lambda>d.
       read_number data index n (push_bit 8 v + ucast d) (consumed + 1))"

fun read_text :: "bytes \<Rightarrow> u8 \<Rightarrow> nat \<Rightarrow> bytes \<Rightarrow> u8 \<Rightarrow> (bytes \<times> u8) res" where
  "read_text data index 0 v consumed = Inr (v, consumed)"
| "read_text data index (Suc n) v consumed =
     andthen (fetch data (unat index + unat consumed)) (\<lambda>d.
       read_text data index n (v @ [d]) (consumed + 1))"

text \<open>
  The body of one element: the bytes consumed, the element with its value, and whether
  the code then moves to the parent (every type but the sequence). A type that the header
  switch does not know ends in \<open>throw 1\<close>.
\<close>

definition readDataElementBody ::
  "bytes \<Rightarrow> u8 \<Rightarrow> data_element \<Rightarrow> (u8 \<times> data_element \<times> bool) res" where
  "readDataElementBody data index e =
     (let n = unat (dataElementVarSizeInBytes e) in
      case etype e of
        Uint \<Rightarrow> andthen (read_number data index n (value_uint32 e) 0) (\<lambda>(v, k).
                  Inr (k, e\<lparr>value_uint32 := v\<rparr>, True))
      | Uuid \<Rightarrow> andthen (read_number data index n (value_uuid e) 0) (\<lambda>(v, k).
                  Inr (k, e\<lparr>value_uuid := v\<rparr>, True))
      | Text_string \<Rightarrow> andthen (read_text data index n (value_text e) 0) (\<lambda>(v, k).
                  Inr (k, e\<lparr>value_text := v\<rparr>, True))
      | Sequence \<Rightarrow> Inr (0, e, False)
      | _ \<Rightarrow> Inl (Thrown 1))"

section \<open>Writing elements\<close>

definition type_to_code :: "element_type \<Rightarrow> u8 res" where
  "type_to_code t = (case t of
     Uint \<Rightarrow> Inr 1 | Twos_complement_int \<Rightarrow> Inr 2 | Uuid \<Rightarrow> Inr 3 | Text_string \<Rightarrow> Inr 4
   | Boolean_T \<Rightarrow> Inr 5 | Sequence \<Rightarrow> Inr 6 | Alternative \<Rightarrow> Inr 7 | Url \<Rightarrow> Inr 8
   | Dummy_uint \<Rightarrow> Inr 0xFF | _ \<Rightarrow> Inl (Thrown 1))"

text \<open>
  The first switch of \<open>serializeSimpleDataElement\<close>: the size descriptor and the number of
  value bytes \<open>max\<close> (a \<open>uint8_t\<close>). A 16 bit size is never above \<open>0xFFFF\<close>, so the branches
  for three byte sequence lengths cannot be taken; they are kept.
\<close>

definition size_descriptor :: "data_element \<Rightarrow> (u8 \<times> u8) res" where
  "size_descriptor e =
     (let n = dataElementVarSizeInBytes e in
      case etype e of
        Dummy_uint \<Rightarrow> Inr (0, ucast n)
      | Uint \<Rightarrow>
          (if n = 1 then Inr (0, 1) else if n = 2 then Inr (1, 2) else if n = 4 then Inr (2, 4)
           else if n = 8 then Inl (Thrown 8) else if n = 16 then Inl (Thrown 16)
           else Inl (Thrown 2))
      | Uuid \<Rightarrow>
          (if n = 1 then Inr (0, 1) else if n = 2 then Inr (1, 2) else if n = 4 then Inr (2, 4)
           else Inl (Thrown 3))
      | Text_string \<Rightarrow> Inr (5, word_of_nat (length (value_text e)))
      | Sequence \<Rightarrow>
          (if uint n \<le> 0xFFFF then Inr (6, 2)
           else if uint n \<le> 0xFFFFFF then Inr (7, 3)
           else Inl (Thrown 1))
      | _ \<Rightarrow> Inl (Thrown 1))"

text \<open>\<open>target.at(i) = v\<close>.\<close>

definition put_at :: "bytes \<Rightarrow> nat \<Rightarrow> u8 \<Rightarrow> bytes res" where
  "put_at t i v = (if i < length t then Inr (t[i := v]) else Inl Out_Of_Range)"

text \<open>
  \<open>for (int i = k; i > 0; i--) target.at(base + i - 1) = value >> (8 * (max - i));\<close>
  A shift by 32 or more is undefined for the operand types used, which the model reports
  as \<open>Indeterminate\<close>.
\<close>

fun write_be :: "bytes \<Rightarrow> nat \<Rightarrow> nat \<Rightarrow> nat \<Rightarrow> nat \<Rightarrow> bytes res" where
  "write_be t base v m 0 = Inr t"
| "write_be t base v m (Suc i) =
     (if 8 * (m - Suc i) < 32 then
        andthen (put_at t (base + i) (word_of_nat (v div 2 ^ (8 * (m - Suc i))))) (\<lambda>t.
          write_be t base v m i)
      else Inl Indeterminate)"

text \<open>
  \<open>std::copy\<close> of a string to \<open>target.data() + pos\<close>: no check, so running past the array
  is undefined.
\<close>

definition copy_text :: "bytes \<Rightarrow> nat \<Rightarrow> bytes \<Rightarrow> bytes res" where
  "copy_text t pos s =
     (if pos + length s \<le> length t then Inr (take pos t @ s @ drop (pos + length s) t)
      else Inl Out_Of_Bounds)"

definition serializeSimpleDataElement ::
  "bytes \<Rightarrow> data_element \<Rightarrow> u8 \<Rightarrow> (bytes \<times> u8) res" where
  "serializeSimpleDataElement target e start =
     andthen (type_to_code (etype e)) (\<lambda>code.
     andthen (size_descriptor e) (\<lambda>(sd, mx).
     let s = unat start; m = unat mx in
     andthen (if etype e = Dummy_uint then Inr (target, 0)
              else andthen (put_at target s (push_bit 3 (code AND 0x1F) + (sd AND 0x07)))
                     (\<lambda>t. Inr (t, 1))) (\<lambda>(t, created :: u8).
     andthen (case etype e of
         Dummy_uint \<Rightarrow> andthen (write_be t (s + unat created) (unat (value_uint32 e)) m m)
                         (\<lambda>t. Inr (t, created))
       | Uint \<Rightarrow> andthen (write_be t (s + unat created) (unat (value_uint32 e)) m m)
                   (\<lambda>t. Inr (t, created))
       | Uuid \<Rightarrow> andthen (write_be t (s + unat created) (unat (value_uuid e)) m m)
                   (\<lambda>t. Inr (t, created))
       | Text_string \<Rightarrow>
           andthen (put_at t (s + 1) (word_of_nat (length (value_text e)))) (\<lambda>t.
           andthen (copy_text t (s + 2) (value_text e)) (\<lambda>t. Inr (t, created + 1)))
       | Sequence \<Rightarrow>
           andthen (write_be t (s + unat created) (unat (dataElementVarSizeInBytes e)) m
                      (unat sd - 4)) (\<lambda>t. Inr (t, created))
       | _ \<Rightarrow> Inl (Thrown 1)) (\<lambda>(t, created).
     Inr (t, created + mx)))))"

text \<open>
  \<open>serializeSequenceDataElement\<close>: a queue of elements; the front is written and, when it
  is a sequence, its children are pushed in front of the rest, in order.
\<close>

function serialize_queue :: "bytes \<Rightarrow> element list \<Rightarrow> u8 \<Rightarrow> (bytes \<times> u8) res" where
  "serialize_queue target [] idx = Inr (target, idx)"
| "serialize_queue target (Element e cs # q) idx =
     andthen (serializeSimpleDataElement target e idx) (\<lambda>(target, n).
       serialize_queue target (if etype e = Sequence then cs @ q else q) (idx + n))"
  by pat_completeness auto
termination
  by (relation "measure (\<lambda>(t, q, i). sum_list (map nodes q))") auto

definition serializeSequenceDataElement ::
  "bytes \<Rightarrow> element \<Rightarrow> u8 \<Rightarrow> (bytes \<times> u8) res" where
  "serializeSequenceDataElement target el start = serialize_queue target [el] start"

fun serializeDataElement :: "bytes \<Rightarrow> element \<Rightarrow> u8 \<Rightarrow> (bytes \<times> u8) res" where
  "serializeDataElement target (Element e cs) start =
     (if etype e = Sequence then serializeSequenceDataElement target (Element e cs) start
      else serializeSimpleDataElement target e start)"

end
