(* ===== verification/Sdp_Encoder.thy ===== *)
theory Sdp_Encoder
  imports Sdp_Element
begin

text \<open>
  The specification of the SDP serializer: a recursive encoder of data element trees into
  byte strings, and the proof that the queue driven serializer of \<open>sdp.cpp\<close>, which writes
  into a fixed array through a \<open>uint8_t\<close> index, implements it as long as the encoding fits.
\<close>

section \<open>The encoder\<close>

definition be_bytes :: "nat \<Rightarrow> nat \<Rightarrow> bytes" where
  "be_bytes m v = map (\<lambda>i. word_of_nat (v div 2 ^ (8 * (m - Suc i)))) [0..<m]"

definition size_code :: "nat \<Rightarrow> u8" where
  "size_code n = (if n = 1 then 0 else if n = 2 then 1 else 2)"

definition encode_simple :: "data_element \<Rightarrow> bytes" where
  "encode_simple e = (case etype e of
     Uint \<Rightarrow> (0x08 + size_code (unat (dataElementVarSizeInBytes e)))
               # be_bytes (unat (dataElementVarSizeInBytes e)) (unat (value_uint32 e))
   | Uuid \<Rightarrow> (0x18 + size_code (unat (dataElementVarSizeInBytes e)))
               # be_bytes (unat (dataElementVarSizeInBytes e)) (unat (value_uuid e))
   | Text_string \<Rightarrow> 0x25 # word_of_nat (length (value_text e)) # value_text e
   | Sequence \<Rightarrow> 0x36 # be_bytes 2 (unat (dataElementVarSizeInBytes e))
   | Dummy_uint \<Rightarrow> be_bytes (unat (dataElementVarSizeInBytes e)) (unat (value_uint32 e))
   | _ \<Rightarrow> [])"

text \<open>The elements for which the serializer has an encoding.\<close>

definition serializable :: "data_element \<Rightarrow> bool" where
  "serializable e = (case etype e of
     Uint \<Rightarrow> unat (dataElementVarSizeInBytes e) \<in> {1, 2, 4}
   | Uuid \<Rightarrow> unat (dataElementVarSizeInBytes e) \<in> {1, 2, 4}
   | Text_string \<Rightarrow> True
   | Sequence \<Rightarrow> True
   | Dummy_uint \<Rightarrow> unat (dataElementVarSizeInBytes e) \<le> 4
   | _ \<Rightarrow> False)"

fun encode :: "element \<Rightarrow> bytes" where
  "encode (Element e cs) =
     encode_simple e @ (if etype e = Sequence then concat (map encode cs) else [])"

fun all_serializable :: "element \<Rightarrow> bool" where
  "all_serializable (Element e cs) \<longleftrightarrow>
     serializable e \<and> (etype e = Sequence \<longrightarrow> (\<forall>c \<in> set cs. all_serializable c))"

text \<open>
  The sizes declared in the sequences agree with what follows them: what a peer needs in
  order to find the end of each sequence.
\<close>

fun well_sized :: "element \<Rightarrow> bool" where
  "well_sized (Element e cs) \<longleftrightarrow>
     (etype e = Sequence \<longrightarrow>
        unat (dataElementVarSizeInBytes e) = length (concat (map encode cs)) \<and>
        (\<forall>c \<in> set cs. well_sized c)) \<and>
     (etype e = Text_string \<longrightarrow>
        unat (dataElementVarSizeInBytes e) = length (value_text e))"

section \<open>Writing one element\<close>

lemma length_be_bytes [simp]: "length (be_bytes m v) = m"
  by (simp add: be_bytes_def)

lemma put_at_Inr [simp]: "i < length t \<Longrightarrow> put_at t i v = Inr (t[i := v])"
  by (simp add: put_at_def)

lemma write_be_spec:
  "base + i \<le> length t \<Longrightarrow> i \<le> m \<Longrightarrow> m \<le> 4 \<Longrightarrow>
   write_be t base v m i =
     Inr (take base t @ map (\<lambda>j. word_of_nat (v div 2 ^ (8 * (m - Suc j)))) [0..<i]
          @ drop (base + i) t)"
proof (induction i arbitrary: t)
  case (Suc i)
  let ?b = "word_of_nat (v div 2 ^ (8 * (m - Suc i))) :: u8"
  have len: "base + i < length t" using Suc.prems by simp
  have "drop (base + i) (t[base + i := ?b]) = ?b # drop (base + Suc i) t"
    using len by (simp add: drop_update_swap Cons_nth_drop_Suc [symmetric])
  then show ?case
    using Suc.IH [of "t[base + i := ?b]"] Suc.prems len by simp
qed simp

lemma write_be_all:
  "base + m \<le> length t \<Longrightarrow> m \<le> 4 \<Longrightarrow>
   write_be t base v m m = Inr (take base t @ be_bytes m v @ drop (base + m) t)"
  by (simp add: write_be_spec be_bytes_def)

text \<open>The header byte has been stored at \<open>s\<close>; the value follows.\<close>

lemma write_after_header:
  assumes "s + Suc m \<le> length t" and "m \<le> 4"
  shows "write_be (t[s := h]) (Suc s) v m m =
           Inr (take s t @ (h # be_bytes m v) @ drop (s + Suc m) t)"
proof -
  have "take (Suc s) (t[s := h]) = take s t @ [h]"
    using assms(1) by (simp add: take_Suc_conv_app_nth)
  moreover have "drop (Suc s + m) (t[s := h]) = drop (s + Suc m) t" by simp
  ultimately show ?thesis using assms by (simp add: write_be_all)
qed

lemma copy_after_header:
  assumes "s + 2 + length w \<le> length t"
  shows "copy_text (t[s := h, Suc s := n]) (s + 2) w =
           Inr (take s t @ (h # n # w) @ drop (s + 2 + length w) t)"
proof -
  have "take (s + 2) (t[s := h, Suc s := n]) = take s t @ [h, n]"
    using assms by (simp add: take_Suc_conv_app_nth list_update_swap)
  moreover have "drop (s + 2 + length w) (t[s := h, Suc s := n]) = drop (s + 2 + length w) t"
    by simp
  ultimately show ?thesis using assms by (simp add: copy_text_def)
qed

lemma u16_of_unat: "unat (x :: u16) = n \<Longrightarrow> x = word_of_nat n"
  by auto

lemma size_descriptor_number:
  assumes "unat (dataElementVarSizeInBytes e) \<in> {1, 2, 4}" and "etype e = Uint \<or> etype e = Uuid"
  shows "size_descriptor e =
    Inr (size_code (unat (dataElementVarSizeInBytes e)),
         word_of_nat (unat (dataElementVarSizeInBytes e)))"
proof -
  have "dataElementVarSizeInBytes e = 1 \<or> dataElementVarSizeInBytes e = 2
      \<or> dataElementVarSizeInBytes e = 4"
    using assms(1) u16_of_unat by fastforce
  then show ?thesis
    using assms(2) by (auto simp: size_descriptor_def size_code_def)
qed

lemma header_byte_number:
  assumes "unat n \<in> {1, 2, 4}"
  shows "push_bit 3 (1 AND 0x1F) + (size_code (unat n) AND 7) = 0x08 + size_code (unat n)"
    and "push_bit 3 (3 AND 0x1F) + (size_code (unat n) AND 7) = 0x18 + size_code (unat n)"
  using assms by (auto simp: size_code_def)

lemma serialize_number:
  assumes "unat (dataElementVarSizeInBytes e) = m" and m: "m \<in> {1, 2, 4}"
    and ty: "etype e = Uint \<and> v = unat (value_uint32 e) \<and> code = 0x08 \<or>
         etype e = Uuid \<and> v = unat (value_uuid e) \<and> code = 0x18"
    and len: "unat start + Suc m \<le> length t"
  shows "serializeSimpleDataElement t e start =
    Inr (take (unat start) t @ ((code + size_code m) # be_bytes m v)
           @ drop (unat start + Suc m) t, word_of_nat (Suc m))"
proof -
  have m8: "unat (word_of_nat m :: u8) = m" and m4: "m \<le> 4" using m by auto
  have sd: "size_descriptor e = Inr (size_code m, word_of_nat m)"
    using size_descriptor_number [of e] assms by auto
  have hd: "push_bit 3 (1 AND 0x1F) + (size_code m AND 7) = 0x08 + size_code m"
    "push_bit 3 (3 AND 0x1F) + (size_code m AND 7) = 0x18 + size_code m"
    using header_byte_number [of "dataElementVarSizeInBytes e"] assms(1) m by simp_all
  show ?thesis
    using ty len hd write_after_header [OF len m4]
    by (auto simp: serializeSimpleDataElement_def type_to_code_def sd m8 Let_def)
qed

lemma serialize_text:
  assumes "etype e = Text_string" and "unat start + 2 + length (value_text e) \<le> length t"
    and "length t = 256"
  shows "serializeSimpleDataElement t e start =
    Inr (take (unat start) t
           @ (0x25 # word_of_nat (length (value_text e)) # value_text e)
           @ drop (unat start + 2 + length (value_text e)) t,
         word_of_nat (2 + length (value_text e)))"
  using assms copy_after_header [of "unat start" "value_text e" t "0x25"
      "word_of_nat (length (value_text e))"]
  by (simp add: serializeSimpleDataElement_def type_to_code_def size_descriptor_def Let_def)

lemma serialize_sequence_header:
  assumes "etype e = Sequence" and "unat start + 3 \<le> length t"
  shows "serializeSimpleDataElement t e start =
    Inr (take (unat start) t @ (0x36 # be_bytes 2 (unat (dataElementVarSizeInBytes e)))
           @ drop (unat start + 3) t, 3)"
proof -
  have "uint (dataElementVarSizeInBytes e) \<le> 0xFFFF"
    using uint_lt2p [of "dataElementVarSizeInBytes e"] by simp
  then show ?thesis
    using assms write_after_header [of "unat start" 2 t "0x36"]
    by (simp add: serializeSimpleDataElement_def type_to_code_def size_descriptor_def Let_def
        numeral_3_eq_3)
qed

lemma serialize_dummy:
  assumes "etype e = Dummy_uint" and m: "unat (dataElementVarSizeInBytes e) = m" "m \<le> 4"
    and len: "unat start + m \<le> length t"
  shows "serializeSimpleDataElement t e start =
    Inr (take (unat start) t @ be_bytes m (unat (value_uint32 e)) @ drop (unat start + m) t,
         word_of_nat m)"
proof -
  have "dataElementVarSizeInBytes e = word_of_nat m" using m(1) u16_of_unat by blast
  moreover have "m < 256" using m(2) by simp
  ultimately have "size_descriptor e = Inr (0, word_of_nat m)"
    using assms(1) by (simp add: size_descriptor_def unsigned_of_nat take_bit_eq_mod)
  moreover have "unat (word_of_nat m :: u8) = m" using \<open>m < 256\<close> by (simp add: unat_of_nat)
  ultimately show ?thesis
    using assms(1) write_be_all [OF len m(2)]
    by (simp add: serializeSimpleDataElement_def type_to_code_def Let_def)
qed

lemma serialize_simple:
  assumes "serializable e" and "length t = 256"
    and "unat start + length (encode_simple e) \<le> 256"
  shows "serializeSimpleDataElement t e start =
    Inr (take (unat start) t @ encode_simple e @ drop (unat start + length (encode_simple e)) t,
         word_of_nat (length (encode_simple e)))"
proof (cases "etype e")
  case Uint
  with assms show ?thesis
    using serialize_number [of e _ "unat (value_uint32 e)" "0x08" start t]
    by (simp add: serializable_def encode_simple_def)
next
  case Uuid
  with assms show ?thesis
    using serialize_number [of e _ "unat (value_uuid e)" "0x18" start t]
    by (simp add: serializable_def encode_simple_def)
next
  case Text_string
  with assms show ?thesis
    using serialize_text [of e start t] by (simp add: encode_simple_def)
next
  case Sequence
  with assms show ?thesis
    using serialize_sequence_header [of e start t] by (simp add: encode_simple_def)
next
  case Dummy_uint
  with assms show ?thesis
    using serialize_dummy [of e _ start t] by (simp add: serializable_def encode_simple_def)
qed (use assms in \<open>simp_all add: serializable_def\<close>)

section \<open>Writing a tree\<close>

definition encode_all :: "element list \<Rightarrow> bytes" where
  "encode_all q = concat (map encode q)"

lemma encode_all_simps [simp]:
  "encode_all [] = []"
  "encode_all (Element e cs # q) =
     encode_simple e @ encode_all (if etype e = Sequence then cs @ q else q)"
  by (auto simp: encode_all_def)

text \<open>
  The invariant of the queue: what is written so far stands before the index, the rest of
  the array is untouched, and the queue still encodes to the bytes to come.
\<close>

lemma unat_add_small:
  "unat (i :: u8) + n < 256 \<Longrightarrow> unat (i + word_of_nat n) = unat i + n"
  by (simp add: unat_word_ariths unat_of_nat)

lemma serialize_queue_spec:
  assumes "\<forall>el \<in> set q. all_serializable el" and "length t = 256"
    and "unat idx + length (encode_all q) < 256"
  shows "serialize_queue t q idx =
    Inr (take (unat idx) t @ encode_all q @ drop (unat idx + length (encode_all q)) t,
         idx + word_of_nat (length (encode_all q)))"
  using assms
proof (induction t q idx rule: serialize_queue.induct)
  case (1 t idx)
  then show ?case by simp
next
  case (2 t e cs q idx)
  let ?q = "if etype e = Sequence then cs @ q else q"
  let ?n = "length (encode_simple e)"
  let ?t = "take (unat idx) t @ encode_simple e @ drop (unat idx + ?n) t"
  have fits: "unat idx + ?n + length (encode_all ?q) < 256" using "2.prems" by simp
  then have idx: "unat (idx + word_of_nat ?n) = unat idx + ?n" by (simp add: unat_add_small)
  have one: "serializeSimpleDataElement t e idx = Inr (?t, word_of_nat ?n)"
    using "2.prems" fits by (intro serialize_simple) auto
  have ser: "\<forall>el \<in> set ?q. all_serializable el" using "2.prems"(1) by auto
  have lt: "length ?t = 256" using fits "2.prems"(2) by simp
  have "serialize_queue ?t ?q (idx + word_of_nat ?n) =
    Inr (take (unat idx + ?n) ?t @ encode_all ?q
           @ drop (unat idx + ?n + length (encode_all ?q)) ?t,
         idx + word_of_nat ?n + word_of_nat (length (encode_all ?q)))"
    using "2.IH" [OF one refl ser lt] fits idx by (simp add: add.assoc)
  then show ?case
    using one fits "2.prems"(2) by (simp add: ac_simps split del: if_split)
qed

lemma serialize_encodes:
  assumes "all_serializable el" and "length t = 256" and "length (encode el) < 256"
  shows "serializeDataElement t el 0 =
    Inr (encode el @ drop (length (encode el)) t, word_of_nat (length (encode el)))"
proof (cases el)
  case (Element e cs)
  show ?thesis
  proof (cases "etype e = Sequence")
    case True
    with assms Element serialize_queue_spec [of "[el]" t 0] show ?thesis
      by (simp add: serializeSequenceDataElement_def encode_all_def)
  next
    case False
    with assms Element serialize_simple [of e t 0] show ?thesis by simp
  qed
qed

text \<open>
  C1. The SDP serializer implements the encoder: for every tree of serializable elements
  whose encoding stays below 256 bytes, \<open>serializeDataElement\<close> started at index 0 of a 256
  byte array writes exactly the encoding, leaves the rest of the array alone and returns
  the number of bytes written; in particular it neither throws nor leaves the array.
\<close>

theorem serialize_refines_encode:
  assumes "all_serializable el" and "length t = 256" and "length (encode el) < 256"
  shows "serializeDataElement t el 0 =
    Inr (encode el @ drop (length (encode el)) t, word_of_nat (length (encode el)))"
  using assms by (rule serialize_encodes)

end
