(* ===== verification/Sdp_Reader.thy ===== *)
theory Sdp_Reader
  imports Sdp_Element
begin

text \<open>
  The reader of SDP packets (\<open>sdp.cpp\<close>): \<open>deserializeDataElement\<close>, a loop over a store of
  elements linked by \<open>parent\<close> and \<open>children\<close> pointers. The loop may run forever, so it is a
  partial function: \<open>None\<close> is a run that does not return.
\<close>

section \<open>The store\<close>

text \<open>
  \<open>reset\<close> declares a local variable \<open>parent\<close> and sets that one, so the member of a new
  element keeps an indeterminate value: \<open>Wild\<close>. \<open>Cell n\<close> points to the \<open>n\<close>-th element.
\<close>

datatype pointer = Null | Cell nat | Wild

record cell =
  elem :: data_element
  parent :: pointer
  children :: "nat list"

type_synonym store = "cell list"

definition new_cell :: "pointer \<Rightarrow> cell" where
  "new_cell p = \<lparr>elem = reset_element, parent = p, children = []\<rparr>"

text \<open>The element a pointer leads to; following a wild pointer is undefined.\<close>

fun deref :: "store \<Rightarrow> pointer \<Rightarrow> nat res" where
  "deref h Null = Inl Out_Of_Bounds"
| "deref h Wild = Inl Indeterminate"
| "deref h (Cell n) = (if n < length h then Inr n else Inl Out_Of_Bounds)"

text \<open>
  \<open>if (p->parent != nullptr) p = p->parent;\<close> The comparison of an indeterminate pointer
  with null can come out either way; \<open>wn\<close> is its outcome.
\<close>

definition to_parent :: "bool \<Rightarrow> store \<Rightarrow> nat \<Rightarrow> pointer" where
  "to_parent wn h n = (case parent (h ! n) of
     Null \<Rightarrow> Cell n
   | Cell m \<Rightarrow> Cell m
   | Wild \<Rightarrow> (if wn then Cell n else Wild))"

section \<open>The loop\<close>

text \<open>
  The variables of \<open>deserializeDataElement\<close>: the store, \<open>current_data_element\<close>,
  \<open>bytes_consumed\<close> (a \<open>uint8_t\<close>) and \<open>data_size\<close> (an \<open>int\<close>, -1 until the first header).
\<close>

record reader =
  heap :: store
  current :: pointer
  consumed :: u8
  data_size :: int

text \<open>If the current element is a sequence, a child is added and becomes current.\<close>

definition enter_child :: "reader \<Rightarrow> (nat \<times> reader) res" where
  "enter_child s = andthen (deref (heap s) (current s)) (\<lambda>n.
     if etype (elem (heap s ! n)) = Sequence then
       (let h = heap s; k = length h;
            c = h ! n
        in Inr (k, s\<lparr>heap := h[n := c\<lparr>children := children c @ [k]\<rparr>] @ [new_cell (Cell n)],
                     current := Cell k\<rparr>))
     else Inr (n, s))"

definition set_elem :: "store \<Rightarrow> nat \<Rightarrow> data_element \<Rightarrow> store" where
  "set_elem h n e = h[n := (h ! n)\<lparr>elem := e\<rparr>]"

text \<open>The size of the whole run is taken from the first header: two more for a sequence.\<close>

definition initial_size :: "int \<Rightarrow> data_element \<Rightarrow> int" where
  "initial_size ds e =
     (if ds = -1 then
        int (unat (dataElementVarSizeInBytes e)) + (if etype e = Sequence then 2 else 0)
      else ds)"

text \<open>
  Is the sequence finished? The test compares the bytes consumed since \<open>start\<close> with the
  start index of the sequence in the packet plus its size, and climbs one level.
\<close>

definition leave_sequence :: "bool \<Rightarrow> reader \<Rightarrow> reader res" where
  "leave_sequence wn s = andthen (deref (heap s) (current s)) (\<lambda>n.
     let e = elem (heap s ! n) in
     if etype e = Sequence \<and>
        unat (consumed s) \<ge> unat (start_index e) + unat (dataElementVarSizeInBytes e)
     then Inr (s\<lparr>current := to_parent wn (heap s) n\<rparr>)
     else Inr s)"

definition deserialize_step :: "bytes \<Rightarrow> u8 \<Rightarrow> bool \<Rightarrow> reader \<Rightarrow> reader res" where
  "deserialize_step data start wn s =
     andthen (enter_child s) (\<lambda>(n, s).
     andthen (readDataElementHeader data (start + consumed s) (elem (heap s ! n))) (\<lambda>(k, e).
     let s = s\<lparr>heap := set_elem (heap s) n e, consumed := consumed s + k,
               data_size := initial_size (data_size s) e\<rparr> in
     andthen (readDataElementBody data (start + consumed s) e) (\<lambda>(k, e, up).
     let s = s\<lparr>heap := set_elem (heap s) n e, consumed := consumed s + k\<rparr>;
         s = (if up then s\<lparr>current := to_parent wn (heap s) n\<rparr> else s)
     in leave_sequence wn s)))"

partial_function (option) deserialize_loop ::
  "bytes \<Rightarrow> u8 \<Rightarrow> bool \<Rightarrow> reader \<Rightarrow> reader res option" where
  "deserialize_loop data start wn s =
     (if data_size s = -1 \<or> int (unat (consumed s)) < data_size s
      then (case deserialize_step data start wn s of
              Inl e \<Rightarrow> Some (Inl e)
            | Inr s' \<Rightarrow> deserialize_loop data start wn s')
      else Some (Inr s))"

declare deserialize_loop.simps [code]

text \<open>
  \<open>deserializeDataElement(data, start_index, &root)\<close> on a fresh root element, which is
  cell 0 of the store.
\<close>

definition deserializeDataElement ::
  "bytes \<Rightarrow> u8 \<Rightarrow> bool \<Rightarrow> (u8 \<times> store) res option" where
  "deserializeDataElement data start wn =
     map_option (\<lambda>r. andthen r (\<lambda>s. Inr (consumed s, heap s)))
       (deserialize_loop data start wn
          \<lparr>heap = [new_cell Wild], current = Cell 0, consumed = 0, data_size = -1\<rparr>)"

text \<open>
  \<open>dumpDataElement\<close> prints an element and its children; it throws on an element whose type
  is not one of the four it knows.
\<close>

fun dump_ok :: "element \<Rightarrow> unit res" where
  "dump_ok (Element e cs) =
     (if etype e \<in> {Uint, Uuid, Text_string, Sequence}
      then foldr (\<lambda>c r. andthen (dump_ok c) (\<lambda>_. r)) cs (Inr ())
      else Inl (Thrown 1))"

text \<open>The tree that hangs below a cell of the store (children come after their parent).\<close>

fun tree_of :: "nat \<Rightarrow> store \<Rightarrow> nat \<Rightarrow> element" where
  "tree_of 0 h n = Element (elem (h ! n)) []"
| "tree_of (Suc fuel) h n = Element (elem (h ! n)) (map (tree_of fuel h) (children (h ! n)))"

end
