(* ===== verification/Sdp_Reader_Props.thy ===== *)
theory Sdp_Reader_Props
  imports Sdp_Reader
begin

text \<open>
  Two packets on which the SDP reader fails: one on which it never returns, and one whose
  nesting it mistakes.
\<close>

section \<open>A packet on which the reader does not return\<close>

text \<open>
  A sequence header that declares 2056 bytes, followed by one byte integers. The counter
  \<open>bytes_consumed\<close> is a \<open>uint8_t\<close>: it wraps and never reaches the declared size.
\<close>

definition endless_packet :: bytes where
  "endless_packet = 0x36 # replicate 255 0x08"

lemma length_endless [simp]: "length endless_packet = 256"
  by (simp add: endless_packet_def)

lemma endless_nth: "i < 256 \<Longrightarrow> i \<noteq> 0 \<Longrightarrow> endless_packet ! i = 0x08"
  by (cases i) (auto simp: endless_packet_def)

text \<open>The states of the run after the first header.\<close>

definition endless_state :: "reader \<Rightarrow> bool" where
  "endless_state s \<longleftrightarrow> heap s \<noteq> [] \<and> current s = Cell 0 \<and> odd (unat (consumed s)) \<and>
     data_size s = 2058 \<and> etype (elem (heap s ! 0)) = Sequence \<and>
     dataElementVarSizeInBytes (elem (heap s ! 0)) = 2056"

lemma endless_first_step:
  "\<exists>s. deserialize_step endless_packet 0 wn
         \<lparr>heap = [new_cell Wild], current = Cell 0, consumed = 0, data_size = -1\<rparr> = Inr s
       \<and> endless_state s"
  by (simp add: deserialize_step_def enter_child_def new_cell_def reset_element_def
      readDataElementHeader_def type_of_header_def Let_def initial_size_def set_elem_def
      readDataElementBody_def leave_sequence_def endless_state_def endless_nth
      endless_packet_def [THEN arg_cong [where f = "\<lambda>xs. xs ! 0"], simplified]
      join16_def)

lemma odd_index_small:
  assumes "odd (unat (c :: u8))"
  shows "unat c \<noteq> 0" and "unat (c + 1) = (unat c + 1) mod 256" and "odd (unat (c + 2))"
  using assms by (auto simp: unat_word_ariths mod_Suc intro: odd_pos)

lemma endless_step:
  assumes "endless_state s"
  shows "\<exists>s'. deserialize_step endless_packet 0 wn s = Inr s' \<and> endless_state s'"
proof -
  let ?c = "consumed s"
  have hdr: "endless_packet ! unat ?c = 0x08"
    using assms odd_index_small(1) [of ?c] by (intro endless_nth) (auto simp: endless_state_def)
  have odd: "odd (unat ?c)" using assms by (simp add: endless_state_def)
  have far: "\<not> unat (start_index (elem (heap s ! 0))) + 2056 \<le> unat (2 + ?c)"
    using unat_u8_less [of "2 + ?c"] by linarith
  have odd2: "odd (unat (2 + ?c))" using odd_index_small(3) [OF odd] by (simp add: add.commute)
  show ?thesis
    using assms hdr odd_index_small(1,2) [OF odd] far odd2
    by (simp add: endless_state_def deserialize_step_def enter_child_def new_cell_def
        reset_element_def readDataElementHeader_def type_of_header_def Let_def initial_size_def
        set_elem_def readDataElementBody_def leave_sequence_def to_parent_def nth_append)
qed

lemma endless_loop:
  "deserialize_loop data start wn s = Some r \<Longrightarrow>
   data = endless_packet \<and> start = 0 \<and> endless_state s \<longrightarrow> False"
proof (rule deserialize_loop.raw_induct
    [where P = "\<lambda>data start wn s r. data = endless_packet \<and> start = 0 \<and> endless_state s \<longrightarrow> False"])
  fix f data start wn s and r :: "reader res"
  assume IH: "\<And>data start wn s r. f data start wn s = Some r \<Longrightarrow>
      data = endless_packet \<and> start = 0 \<and> endless_state s \<longrightarrow> False"
    and eq: "(if data_size s = - 1 \<or> int (unat (consumed s)) < data_size s
      then (case deserialize_step data start wn s of
              Inl e \<Rightarrow> Some (Inl e)
            | Inr s' \<Rightarrow> f data start wn s')
      else Some (Inr s)) = Some r"
  show "data = endless_packet \<and> start = 0 \<and> endless_state s \<longrightarrow> False"
  proof
    assume a: "data = endless_packet \<and> start = 0 \<and> endless_state s"
    then obtain s' where "deserialize_step data start wn s = Inr s'" and "endless_state s'"
      using endless_step by blast
    moreover have "int (unat (consumed s)) < data_size s"
      using a uint_lt2p [of "consumed s"] by (simp add: endless_state_def)
    ultimately show False using eq IH a by auto
  qed
qed

text \<open>
  C40. The SDP reader can be made to run forever: on a packet that starts with a sequence
  header declaring 2056 bytes and continues with one byte integers,
  \<open>deserializeDataElement\<close> does not return (it allocates a new element in every round).
\<close>

theorem reader_diverges: "deserializeDataElement endless_packet 0 wn = None"
proof -
  let ?s = "\<lparr>heap = [new_cell Wild], current = Cell 0, consumed = 0, data_size = -1\<rparr>"
  obtain s where s: "deserialize_step endless_packet 0 wn ?s = Inr s" "endless_state s"
    using endless_first_step by blast
  then have "deserialize_loop endless_packet 0 wn s = None"
    using endless_loop by (metis option.exhaust)
  then have "deserialize_loop endless_packet 0 wn ?s = None"
    using s(1) by (subst deserialize_loop.simps) simp
  then show ?thesis by (simp add: deserializeDataElement_def)
qed

section \<open>A packet whose nesting is mistaken\<close>

text \<open>The bytes of a sequence of one sequence of three one byte integers.\<close>

definition misnested_packet :: bytes where
  "misnested_packet = [0x35, 8, 0x35, 6, 0x08, 1, 0x08, 2, 0x08, 3]"

text \<open>
  The reader mistakes the nesting of sequences that do not start at index 0: on a
  sequence that holds one sequence of the integers 1, 2 and 3, it returns all bytes
  consumed, but the integer 3 (cell 4) hangs below the outer sequence instead of the inner
  one, because the end of a sequence is computed by adding its start index in the packet.
\<close>

lemma reader_misnests:
  "\<exists>h. deserializeDataElement misnested_packet 0 wn = Some (Inr (10, h)) \<and>
     map children h = [[1, 4], [2, 3], [], [], []] \<and>
     map (\<lambda>c. value_uint32 (elem c)) h = [0, 0, 1, 2, 3]"
  by (simp add: deserializeDataElement_def misnested_packet_def deserialize_loop.simps deserialize_step_def enter_child_def
      new_cell_def reset_element_def readDataElementHeader_def type_of_header_def Let_def
      set_elem_def initial_size_def readDataElementBody_def to_parent_def leave_sequence_def nth_append
    cong: andthen_weak_cong)

end
