(* ===== verification/Sdp_Flat.thy ===== *)
theory Sdp_Flat
  imports Sdp_Encoder Sdp_Reader
begin

text \<open>
  The SDP reader on flat sequences: a sequence header followed by numbers, UUIDs and texts.
  Reading back what the encoder writes gives the elements again, in order, each with the
  index at which it starts.
\<close>

section \<open>Reading back a number and a text\<close>

lemma be_bytes_Suc: "be_bytes (Suc m) x = word_of_nat (x div 256 ^ m) # be_bytes m x"
proof -
  have "(2::nat) ^ (8 * k) = 256 ^ k" for k by (simp add: power_mult)
  then show ?thesis by (simp add: be_bytes_def upt_conv_Cons map_Suc_upt [symmetric] del: upt_Suc)
qed

definition shift_in :: "'w::len word \<Rightarrow> u8 \<Rightarrow> 'w word" where
  "shift_in v d = push_bit 8 v + ucast d"

lemma shift_in_of_nat:
  "shift_in (word_of_nat a :: 'w::len word) (word_of_nat b) = word_of_nat (a * 256 + b mod 256)"
  by (simp add: shift_in_def push_bit_eq_mult unsigned_of_nat take_bit_eq_mod mult.commute)

lemma shift_in_be_bytes:
  "foldl shift_in (word_of_nat a :: 'w::len word) (be_bytes m x)
     = word_of_nat (a * 256 ^ m + x mod 256 ^ m)"
proof (induction m arbitrary: a)
  case 0
  then show ?case by (simp add: be_bytes_def)
next
  case (Suc m)
  have "x mod 256 ^ Suc m = 256 ^ m * (x div 256 ^ m mod 256) + x mod 256 ^ m"
    using mod_mult2_eq [of x "256 ^ m" 256] by (simp add: mult.commute)
  then have "(a * 256 + x div 256 ^ m mod 256) * 256 ^ m + x mod 256 ^ m
      = a * 256 ^ Suc m + x mod 256 ^ Suc m"
    by (simp add: algebra_simps)
  then show ?case
    using Suc.IH [of "a * 256 + x div 256 ^ m mod 256"]
    by (simp add: be_bytes_Suc shift_in_of_nat)
qed

lemma read_number_bytes:
  "holds_at data (unat idx + unat k) bs \<Longrightarrow> unat k + length bs < 256 \<Longrightarrow>
   read_number data idx (length bs) v k = Inr (foldl shift_in v bs, k + word_of_nat (length bs))"
proof (induction bs arbitrary: v k)
  case (Cons b bs)
  have k: "unat (k + 1) = Suc (unat k)"
    using Cons.prems(2) unat_add_small [of k 1] by simp
  show ?case
    using Cons.prems Cons.IH [of "k + 1" "shift_in v b"] k
    by (simp add: holds_at_Cons shift_in_def add.assoc)
qed simp

lemma read_text_bytes:
  "holds_at data (unat idx + unat k) bs \<Longrightarrow> unat k + length bs < 256 \<Longrightarrow>
   read_text data idx (length bs) v k = Inr (v @ bs, k + word_of_nat (length bs))"
proof (induction bs arbitrary: v k)
  case (Cons b bs)
  have k: "unat (k + 1) = Suc (unat k)"
    using Cons.prems(2) unat_add_small [of k 1] by simp
  show ?case
    using Cons.prems Cons.IH [of "k + 1" "v @ [b]"] k
    by (simp add: holds_at_Cons add.assoc)
qed simp

section \<open>Reading back one element\<close>

text \<open>
  The elements that stand in a flat sequence: numbers and UUIDs whose value fits the
  declared size, and texts that declare their own length.
\<close>

definition flat_ok :: "data_element \<Rightarrow> bool" where
  "flat_ok e \<longleftrightarrow> serializable e \<and>
     (case etype e of
        Uint \<Rightarrow> unat (value_uint32 e) < 256 ^ unat (dataElementVarSizeInBytes e)
      | Uuid \<Rightarrow> unat (value_uuid e) < 256 ^ unat (dataElementVarSizeInBytes e)
      | Text_string \<Rightarrow> unat (dataElementVarSizeInBytes e) = length (value_text e)
      | _ \<Rightarrow> False)"

text \<open>What the reader makes of the encoding of an element found at index \<open>idx\<close>.\<close>

definition decoded :: "u8 \<Rightarrow> data_element \<Rightarrow> data_element" where
  "decoded idx e = reset_element\<lparr>start_index := ucast idx, etype := etype e,
     dataElementVarSizeInBytes := dataElementVarSizeInBytes e,
     value_uint32 := (if etype e = Uint then value_uint32 e else 0),
     value_uuid := (if etype e = Uuid then value_uuid e else 0),
     value_text := (if etype e = Text_string then value_text e else [])\<rparr>"

lemma decoded_simps [simp]:
  "start_index (decoded i e) = ucast i"
  "etype (decoded i e) = etype e"
  "dataElementVarSizeInBytes (decoded i e) = dataElementVarSizeInBytes e"
  by (simp_all add: decoded_def)

lemma header_number:
  assumes "n \<in> {1, 2, 4 :: u16}" and "code \<in> {1, 3 :: u8}"
  shows "type_of_header (push_bit 3 code + size_code (unat n)) old = (if code = 1 then Uint else Uuid)"
    and "(push_bit 3 code + size_code (unat n)) AND 7 \<le> 4"
    and "(word_of_nat (2 ^ unat ((push_bit 3 code + size_code (unat n)) AND 7)) :: u16) = n"
  using assms by (auto simp: type_of_header_def size_code_def)

lemma flat_size:
  assumes "flat_ok e" and "etype e \<noteq> Text_string"
  shows "dataElementVarSizeInBytes e \<in> {1, 2, 4}"
proof -
  have "unat (dataElementVarSizeInBytes e) \<in> {1, 2, 4}"
    using assms by (cases "etype e") (auto simp: flat_ok_def serializable_def)
  then show ?thesis using u16_of_unat by fastforce
qed

lemma shift_in_all: "foldl shift_in (0 :: 'w::len word) (be_bytes m x) = word_of_nat (x mod 256 ^ m)"
  using shift_in_be_bytes [of 0 m x] by simp


definition reads_back :: "bytes \<Rightarrow> u8 \<Rightarrow> data_element \<Rightarrow> bool" where
  "reads_back data idx e \<longleftrightarrow>
     (\<exists>hk bk e1. readDataElementHeader data idx reset_element = Inr (hk, e1) \<and>
        readDataElementBody data (idx + hk) e1 = Inr (bk, decoded idx e, True) \<and>
        hk + bk = word_of_nat (length (encode_simple e)))"

lemma reads_back_uint:
  assumes "flat_ok e" and "etype e = Uint" and "holds_at data (unat idx) (encode_simple e)"
    and "unat idx + length (encode_simple e) < 256"
  shows "reads_back data idx e"
proof -
  let ?n = "dataElementVarSizeInBytes e"
  let ?bs = "be_bytes (unat ?n) (unat (value_uint32 e))"
  have n: "?n \<in> {1, 2, 4}" using flat_size assms(1,2) by simp
  have enc: "encode_simple e = (push_bit 3 1 + size_code (unat ?n)) # ?bs"
    using assms(2) by (simp add: encode_simple_def)
  have idx: "unat (idx + 1) = Suc (unat idx)"
    using assms(4) unat_add_small [of idx 1] enc by simp
  have v: "foldl shift_in (0 :: u32) ?bs = value_uint32 e"
    using assms(1,2) by (simp add: shift_in_all flat_ok_def)
  show ?thesis
    using assms(2,3,4) enc idx header_number [OF n, of 1] v
      read_number_bytes [of data "idx + 1" 0 ?bs "0 :: u32"]
    by (auto simp: reads_back_def readDataElementHeader_def readDataElementBody_def holds_at_Cons
        Let_def reset_element_def decoded_def)
qed

lemma reads_back_uuid:
  assumes "flat_ok e" and "etype e = Uuid" and "holds_at data (unat idx) (encode_simple e)"
    and "unat idx + length (encode_simple e) < 256"
  shows "reads_back data idx e"
proof -
  let ?n = "dataElementVarSizeInBytes e"
  let ?bs = "be_bytes (unat ?n) (unat (value_uuid e))"
  have n: "?n \<in> {1, 2, 4}" using flat_size assms(1,2) by simp
  have enc: "encode_simple e = (push_bit 3 3 + size_code (unat ?n)) # ?bs"
    using assms(2) by (simp add: encode_simple_def)
  have idx: "unat (idx + 1) = Suc (unat idx)"
    using assms(4) unat_add_small [of idx 1] enc by simp
  have v: "foldl shift_in (0 :: u16) ?bs = value_uuid e"
    using assms(1,2) by (simp add: shift_in_all flat_ok_def)
  show ?thesis
    using assms(2,3,4) enc idx header_number [OF n, of 3] v
      read_number_bytes [of data "idx + 1" 0 ?bs "0 :: u16"]
    by (auto simp: reads_back_def readDataElementHeader_def readDataElementBody_def holds_at_Cons
        Let_def reset_element_def decoded_def)
qed

lemma reads_back_text:
  assumes "flat_ok e" and "etype e = Text_string"
    and "holds_at data (unat idx) (encode_simple e)"
    and "unat idx + length (encode_simple e) < 256"
  shows "reads_back data idx e"
proof -
  let ?w = "value_text e"
  have enc: "encode_simple e = 0x25 # word_of_nat (length ?w) # ?w"
    using assms(2) by (simp add: encode_simple_def)
  have len: "unat (dataElementVarSizeInBytes e) = length ?w"
    using assms(1,2) by (simp add: flat_ok_def)
  have "length ?w < 256" using assms(4) enc by simp
  then have sz: "ucast (word_of_nat (length ?w) :: u8) = dataElementVarSizeInBytes e"
    using u16_of_unat [OF len] by (simp add: unsigned_of_nat take_bit_eq_mod)
  have idx: "unat (idx + 2) = Suc (Suc (unat idx))"
    using assms(4) unat_add_small [of idx 2] enc by simp
  show ?thesis
    using assms(2,3,4) enc len sz idx read_text_bytes [of data "idx + 2" 0 ?w "[]"]
    by (auto simp: reads_back_def readDataElementHeader_def readDataElementBody_def holds_at_Cons
        Let_def reset_element_def decoded_def type_of_header_def)
qed

lemma reads_back_flat:
  assumes "flat_ok e" and "holds_at data (unat idx) (encode_simple e)"
    and "unat idx + length (encode_simple e) < 256"
  shows "reads_back data idx e"
  using assms reads_back_uint reads_back_uuid reads_back_text
  by (cases "etype e") (auto simp: flat_ok_def)


section \<open>Reading back a flat sequence\<close>

text \<open>The store in the middle of a flat sequence with header \<open>hdr\<close> and the children so far.\<close>

definition flat_store :: "data_element \<Rightarrow> data_element list \<Rightarrow> store" where
  "flat_store hdr cs =
     \<lparr>elem = hdr, parent = Wild, children = [1..<Suc (length cs)]\<rparr>
     # map (\<lambda>e. \<lparr>elem = e, parent = Cell 0, children = []\<rparr>) cs"

definition flat_reader :: "data_element \<Rightarrow> data_element list \<Rightarrow> u8 \<Rightarrow> reader" where
  "flat_reader hdr cs k = \<lparr>heap = flat_store hdr cs, current = Cell 0, consumed = k,
     data_size = int (unat (dataElementVarSizeInBytes hdr)) + 2\<rparr>"

lemma length_flat_store [simp]: "length (flat_store hdr cs) = Suc (length cs)"
  by (simp add: flat_store_def)

lemma flat_store_0 [simp]:
  "flat_store hdr cs ! 0 = \<lparr>elem = hdr, parent = Wild, children = [1..<Suc (length cs)]\<rparr>"
  by (simp add: flat_store_def)

lemma flat_store_last:
  "flat_store hdr (cs @ [e]) ! Suc (length cs) = \<lparr>elem = e, parent = Cell 0, children = []\<rparr>"
  by (simp add: flat_store_def nth_append)

lemma flat_size_not_unset: "3 + uint (n :: u16) \<noteq> 0"
proof -
  have "0 \<le> uint n" by simp
  then show ?thesis by linarith
qed

lemma flat_store_grow:
  "(flat_store hdr cs)[0 := \<lparr>elem = hdr, parent = Wild, children = [1..<Suc (length cs)] @ [Suc (length cs)]\<rparr>]
     @ [\<lparr>elem = e, parent = Cell 0, children = []\<rparr>] = flat_store hdr (cs @ [e])"
  by (simp add: flat_store_def)

lemma flat_step:
  assumes "etype hdr = Sequence" and "reads_back data (start + k) e"
  shows "deserialize_step data start wn (flat_reader hdr cs k) =
    leave_sequence wn (flat_reader hdr (cs @ [decoded (start + k) e])
      (k + word_of_nat (length (encode_simple e))))"
proof -
  obtain hk bk e1 where
    "readDataElementHeader data (start + k) reset_element = Inr (hk, e1)"
    "readDataElementBody data (start + (k + hk)) e1 = Inr (bk, decoded (start + k) e, True)"
    "hk + bk = word_of_nat (length (encode_simple e))"
    using assms(2) by (auto simp: reads_back_def add.assoc)
  then show ?thesis using assms(1) flat_store_grow [of hdr cs "decoded (start + k) e"]
      flat_size_not_unset [of "dataElementVarSizeInBytes hdr"]
    by (simp add: deserialize_step_def flat_reader_def enter_child_def new_cell_def Let_def
        set_elem_def initial_size_def nth_append to_parent_def list_update_append flat_store_last add.assoc
        del: upt_Suc)
qed


text \<open>The elements decoded from a flat sequence whose first element stands at \<open>idx\<close>.\<close>

fun decoded_all :: "u8 \<Rightarrow> data_element list \<Rightarrow> data_element list" where
  "decoded_all idx [] = []"
| "decoded_all idx (e # es) =
     decoded idx e # decoded_all (idx + word_of_nat (length (encode_simple e))) es"

lemma flat_leave:
  assumes "etype hdr = Sequence"
  shows "\<exists>p. leave_sequence wn (flat_reader hdr cs k) = Inr ((flat_reader hdr cs k)\<lparr>current := p\<rparr>)"
    and "wn \<or> unat k < unat (start_index hdr) + unat (dataElementVarSizeInBytes hdr) \<Longrightarrow>
         leave_sequence wn (flat_reader hdr cs k) = Inr (flat_reader hdr cs k)"
  using assms by (auto simp: leave_sequence_def flat_reader_def Let_def to_parent_def)

lemma flat_stop:
  assumes "unat (dataElementVarSizeInBytes hdr) + 2 \<le> unat k"
  shows "deserialize_loop data start wn ((flat_reader hdr cs k)\<lparr>current := p\<rparr>) =
    Some (Inr ((flat_reader hdr cs k)\<lparr>current := p\<rparr>))"
proof -
  have "\<not> int (unat k) < int (unat (dataElementVarSizeInBytes hdr)) + 2" using assms by linarith
  then show ?thesis
    using flat_size_not_unset [of "dataElementVarSizeInBytes hdr"]
      deserialize_loop.simps [of data start wn "(flat_reader hdr cs k)\<lparr>current := p\<rparr>"]
    by (simp add: flat_reader_def)
qed

lemma flat_continue:
  assumes "unat k < unat (dataElementVarSizeInBytes hdr) + 2"
    and "deserialize_step data start wn (flat_reader hdr cs k) = Inr s"
  shows "deserialize_loop data start wn (flat_reader hdr cs k) = deserialize_loop data start wn s"
proof -
  have "int (unat k) < data_size (flat_reader hdr cs k)" using assms(1)
    by (simp only: flat_reader_def reader.simps)
  moreover have "consumed (flat_reader hdr cs k) = k" by (simp add: flat_reader_def)
  ultimately show ?thesis
    using assms(2) by (subst deserialize_loop.simps) simp
qed

lemma two_bytes_at_least: "flat_ok e \<Longrightarrow> 2 \<le> length (encode_simple e)"
  by (auto simp: flat_ok_def serializable_def encode_simple_def split: element_type.splits)

lemma flat_loop:
  assumes "etype hdr = Sequence" and "start_index hdr = ucast start"
    and "\<forall>e \<in> set es. flat_ok e"
    and "unat k + length (concat (map encode_simple es)) = unat (dataElementVarSizeInBytes hdr) + 3"
    and "unat start + unat (dataElementVarSizeInBytes hdr) + 3 < 256"
    and "holds_at data (unat start + unat k) (concat (map encode_simple es))"
    and "wn \<or> 2 \<le> unat start"
  shows "\<exists>s. deserialize_loop data start wn (flat_reader hdr cs k) = Some (Inr s) \<and>
    heap s = flat_store hdr (cs @ decoded_all (start + k) es) \<and>
    unat (consumed s) = unat (dataElementVarSizeInBytes hdr) + 3"
  using assms(3,4,6)
proof (induction es arbitrary: cs k)
  case Nil
  then show ?case using flat_stop [where hdr = hdr and k = k and cs = cs and p = "Cell 0"]
    by (auto simp: flat_reader_def)
next
  case (Cons e es)
  let ?n = "unat (dataElementVarSizeInBytes hdr)" and ?l = "length (encode_simple e)"
  let ?k = "k + word_of_nat ?l"
  let ?cs = "cs @ [decoded (start + k) e]"
  have l: "2 \<le> ?l" using two_bytes_at_least Cons.prems(1) by simp
  have kl: "unat k + ?l + length (concat (map encode_simple es)) = ?n + 3"
    using Cons.prems(2) by simp
  have at: "unat (start + k) = unat start + unat k"
    using unat_add_small [of start "unat k"] kl l assms(5) by simp
  have k': "unat ?k = unat k + ?l" using kl assms(5) by (intro unat_add_small) simp
  have "reads_back data (start + k) e"
    using Cons.prems(1,3) at kl assms(5) by (intro reads_back_flat) (auto simp: holds_at_append)
  then have step: "deserialize_step data start wn (flat_reader hdr cs k)
      = leave_sequence wn (flat_reader hdr ?cs ?k)"
    by (rule flat_step [OF assms(1)])
  have more: "unat k < ?n + 2" using kl l by simp
  show ?case
  proof (cases es)
    case Nil
    obtain p where "leave_sequence wn (flat_reader hdr ?cs ?k)
        = Inr ((flat_reader hdr ?cs ?k)\<lparr>current := p\<rparr>)"
      using flat_leave(1) [OF assms(1)] by blast
    then show ?thesis
      using flat_continue [OF more, of data start wn cs] step
        flat_stop [where hdr = hdr and k = ?k and cs = ?cs] Nil kl k'
      by (simp add: flat_reader_def)
  next
    case (Cons e' es')
    then have "2 \<le> length (concat (map encode_simple es))"
      using two_bytes_at_least [of e'] Cons.prems(1) by simp
    then have "wn \<or> unat ?k < unat (start_index hdr) + ?n"
      using assms(2,7) kl k' by (auto simp: unat_ucast_u16)
    then have "deserialize_step data start wn (flat_reader hdr cs k) = Inr (flat_reader hdr ?cs ?k)"
      using step flat_leave(2) [OF assms(1)] by simp
    then show ?thesis
      using flat_continue [OF more, of data start wn cs] Cons.IH [of ?k ?cs] Cons.prems kl k'
      by (auto simp: holds_at_append add.assoc)
  qed
qed


lemma be_bytes_one: "be_bytes (Suc 0) x = [word_of_nat x]"
  by (simp add: be_bytes_def)

lemma be_bytes_two: "be_bytes 2 x = [word_of_nat (x div 256), word_of_nat x]"
  by (simp add: be_bytes_Suc numeral_2_eq_2) (simp add: be_bytes_def)

lemma join16_be_bytes: "join16 (word_of_nat (unat (n :: u16) div 256)) (word_of_nat (unat n)) = n"
proof -
  have "unat n div 256 < 256" using unat_u16_less [of n] by linarith
  then have "unat (join16 (word_of_nat (unat n div 256)) (word_of_nat (unat n))) = unat n"
    by (simp only: unat_join16 unat_of_nat) simp
  then show ?thesis by (rule unsigned_word_eqI)
qed

lemma flat_first_step:
  assumes "etype hdr = Sequence" and "holds_at data (unat start) (encode_simple hdr)"
  shows "deserialize_step data start wn
      \<lparr>heap = [new_cell Wild], current = Cell 0, consumed = 0, data_size = -1\<rparr> =
    leave_sequence wn (flat_reader (decoded start hdr) [] 3)"
  using assms
  by (simp add: encode_simple_def be_bytes_two holds_at_Cons deserialize_step_def enter_child_def
      new_cell_def reset_element_def readDataElementHeader_def type_of_header_def Let_def
      set_elem_def initial_size_def readDataElementBody_def join16_be_bytes [simplified] flat_reader_def
      flat_store_def decoded_def)

lemma word_of_unat: "unat (x :: u8) = n \<Longrightarrow> x = word_of_nat n"
  by auto

text \<open>The loop after the header of the sequence has been read.\<close>

lemma flat_loop_after_header:
  assumes "etype hdr = Sequence" and "start_index hdr = ucast start" and "\<forall>e \<in> set es. flat_ok e"
    and "body = concat (map encode_simple es)"
    and "length body = unat (dataElementVarSizeInBytes hdr)"
    and "unat start + length body + 3 < 256"
    and "holds_at data (unat start + 3) body"
    and "wn \<or> 2 \<le> unat start"
    and "leave_sequence wn (flat_reader hdr [] 3) = Inr ((flat_reader hdr [] 3)\<lparr>current := p\<rparr>)"
  shows "\<exists>s. deserialize_loop data start wn ((flat_reader hdr [] 3)\<lparr>current := p\<rparr>) = Some (Inr s)
      \<and> heap s = flat_store hdr (decoded_all (start + 3) es)
      \<and> unat (consumed s) = length body + 3"
proof (cases es)
  case Nil
  then have "dataElementVarSizeInBytes hdr = 0"
    using assms(4,5) by (intro unsigned_word_eqI) simp
  then show ?thesis
    using Nil flat_stop [where hdr = hdr and k = 3 and cs = "[]" and p = p] assms(4)
    by (intro exI [of _ "(flat_reader hdr [] 3)\<lparr>current := p\<rparr>"]) (simp add: flat_reader_def)
next
  case (Cons e es')
  then have "2 \<le> length body" using two_bytes_at_least [of e] assms(3,4) by simp
  then have "wn \<or> unat (3 :: u8) < unat (start_index hdr) + unat (dataElementVarSizeInBytes hdr)"
    using assms(2,5,8) by (auto simp: unat_ucast_u16)
  then have "(flat_reader hdr [] 3)\<lparr>current := p\<rparr> = flat_reader hdr [] 3"
    using flat_leave(2) [of hdr wn 3 "[]"] assms(1,9) by simp
  then show ?thesis
    using flat_loop [of hdr start es 3 data wn "[]"] assms by auto
qed

text \<open>
  C21. The SDP reader recovers every flat sequence that the encoder writes.
\<close>

theorem reader_recovers_flat_sequence:
  assumes "etype hdr = Sequence" and "\<forall>e \<in> set es. flat_ok e"
    and "enc = encode (Element hdr (map (\<lambda>e. Element e []) es))"
    and "length enc = unat (dataElementVarSizeInBytes hdr) + 3"
    and "holds_at data (unat start) enc" and "unat start + length enc < 256"
    and "wn \<or> 2 \<le> unat start"
  shows "\<exists>h. deserializeDataElement data start wn = Some (Inr (word_of_nat (length enc), h)) \<and>
    tree_of 1 h 0 =
      Element (decoded start hdr) (map (\<lambda>e. Element e []) (decoded_all (start + 3) es))"
proof -
  let ?i = "\<lparr>heap = [new_cell Wild], current = Cell 0, consumed = 0, data_size = -1\<rparr>"
  let ?hdr = "decoded start hdr" and ?body = "concat (map encode_simple es)"
  have leaf: "encode (Element e []) = encode_simple e" if "flat_ok e" for e
    using that by (auto simp: flat_ok_def)
  have m: "map (encode \<circ> (\<lambda>e. Element e [])) es = map encode_simple es"
    using leaf assms(2) by (intro map_cong) (auto simp del: encode.simps)
  have enc: "enc = encode_simple hdr @ ?body"
    by (simp only: assms(1,3) encode.simps map_map m if_True refl)
  have hl: "length (encode_simple hdr) = 3" using assms(1) by (simp add: encode_simple_def)
  obtain p where lv: "leave_sequence wn (flat_reader ?hdr [] 3)
      = Inr ((flat_reader ?hdr [] 3)\<lparr>current := p\<rparr>)"
    using flat_leave(1) [of ?hdr wn "[]" 3] assms(1) by auto
  have "\<exists>s. deserialize_loop data start wn ((flat_reader ?hdr [] 3)\<lparr>current := p\<rparr>) = Some (Inr s)
      \<and> heap s = flat_store ?hdr (decoded_all (start + 3) es)
      \<and> unat (consumed s) = length ?body + 3"
    using assms enc hl by (intro flat_loop_after_header [OF _ _ _ refl _ _ _ _ lv]) (auto simp: holds_at_append)
  moreover have "deserialize_loop data start wn ?i
      = deserialize_loop data start wn ((flat_reader ?hdr [] 3)\<lparr>current := p\<rparr>)"
    using flat_first_step [of hdr data start wn] lv assms(1,5) enc
    by (subst deserialize_loop.simps) (simp add: holds_at_append)
  ultimately obtain s where "deserialize_loop data start wn ?i = Some (Inr s)"
    "heap s = flat_store ?hdr (decoded_all (start + 3) es)" "unat (consumed s) = length enc"
    using enc hl by auto
  moreover from this(3) have "consumed s = word_of_nat (length enc)" by (rule word_of_unat)
  moreover have "tree_of 1 (flat_store ?hdr cs) 0 = Element ?hdr (map (\<lambda>e. Element e []) cs)" for cs
    by (auto simp: flat_store_def intro!: nth_equalityI simp del: upt_Suc)
  ultimately show ?thesis by (auto simp: deserializeDataElement_def)
qed


text \<open>An example: a sequence of a one byte integer, a UUID and a text, at index 0.\<close>

definition flat_example :: "data_element list" where
  "flat_example =
     [reset_element\<lparr>etype := Uint, dataElementVarSizeInBytes := 1, value_uint32 := 7\<rparr>,
      reset_element\<lparr>etype := Uuid, dataElementVarSizeInBytes := 2, value_uuid := 0x1101\<rparr>,
      reset_element\<lparr>etype := Text_string, dataElementVarSizeInBytes := 2, value_text := [0x65, 0x6e]\<rparr>]"

lemma reader_recovers_flat_sequence_witness:
  "\<exists>h. deserializeDataElement
         [0x36, 0, 9, 0x08, 7, 0x19, 0x11, 0x01, 0x25, 2, 0x65, 0x6e] 0 True = Some (Inr (12, h)) \<and>
     tree_of 1 h 0 =
       Element (decoded 0 (reset_element\<lparr>etype := Sequence, dataElementVarSizeInBytes := 9\<rparr>))
         (map (\<lambda>e. Element e []) (decoded_all 3 flat_example))"
  using reader_recovers_flat_sequence
    [of "reset_element\<lparr>etype := Sequence, dataElementVarSizeInBytes := 9\<rparr>" flat_example
        "[0x36, 0, 9, 0x08, 7, 0x19, 0x11, 0x01, 0x25, 2, 0x65, 0x6e]"
        "[0x36, 0, 9, 0x08, 7, 0x19, 0x11, 0x01, 0x25, 2, 0x65, 0x6e]" 0 True]
  by (simp add: flat_example_def flat_ok_def serializable_def reset_element_def encode_simple_def
      be_bytes_one be_bytes_two size_code_def holds_at_def)

end
