(* ===== verification/Sdp_Server.thy ===== *)
theory Sdp_Server
  imports Sdp_Encoder Sdp_Reader
begin

text \<open>
  The two SDP messages of the server (\<open>sdp.cpp\<close>): the parser of a Service Search Attribute
  Request and the fixed Service Search Attribute Response that announces the serial port
  service.
\<close>

section \<open>The response\<close>

text \<open>Elements with the members that \<open>sdpServiceSearchAttributeResponse\<close> assigns.\<close>

definition el_uint :: "u16 \<Rightarrow> u32 \<Rightarrow> element" where
  "el_uint n v = Element (reset_element\<lparr>etype := Uint, dataElementVarSizeInBytes := n,
     value_uint32 := v\<rparr>) []"

definition el_dummy :: "u16 \<Rightarrow> u32 \<Rightarrow> element" where
  "el_dummy n v = Element (reset_element\<lparr>etype := Dummy_uint, dataElementVarSizeInBytes := n,
     value_uint32 := v\<rparr>) []"

definition el_uuid :: "u16 \<Rightarrow> u16 \<Rightarrow> element" where
  "el_uuid n v = Element (reset_element\<lparr>etype := Uuid, dataElementVarSizeInBytes := n,
     value_uuid := v\<rparr>) []"

definition el_text :: "u16 \<Rightarrow> bytes \<Rightarrow> element" where
  "el_text n v = Element (reset_element\<lparr>etype := Text_string, dataElementVarSizeInBytes := n,
     value_text := v\<rparr>) []"

definition el_seq :: "u16 \<Rightarrow> u32 \<Rightarrow> element list \<Rightarrow> element" where
  "el_seq n v cs = Element (reset_element\<lparr>etype := Sequence, dataElementVarSizeInBytes := n,
     value_uint32 := v\<rparr>) cs"

text \<open>The service record handle and the service class list.\<close>

definition record_handle_attribute :: "element list" where
  "record_handle_attribute = [el_uint 2 0x0000, el_uint 4 0x00010001]"

definition class_list_attribute :: "element list" where
  "class_list_attribute = [el_uint 2 0x0001, el_seq 3 0x0001 [el_uuid 2 0x1101]]"

text \<open>The protocol stack: L2CAP, and RFCOMM with two more bytes written as they are.\<close>

definition protocol_list_attribute :: "element list" where
  "protocol_list_attribute = [el_uint 2 0x0004,
     el_seq 14 0x0001
       [el_seq 3 0 [el_uuid 2 0x0100],
        el_seq 5 0 [el_uuid 2 0x0003, el_dummy 2 0x0801]]]"

definition browse_group_attribute :: "element list" where
  "browse_group_attribute = [el_uint 2 0x0005, el_seq 3 0 [el_uuid 2 0x1002]]"

definition language_attribute :: "element list" where
  "language_attribute = [el_uint 2 0x0006,
     el_seq 9 0 [el_uint 2 0x656e, el_uint 2 0x006a, el_uint 2 0x0100]]"

definition profile_list_attribute :: "element list" where
  "profile_list_attribute = [el_uint 2 0x0009,
     el_seq 9 0 [el_seq 6 0 [el_uuid 2 0x1101, el_uint 2 0x1102]]]"

text \<open>The service name is ``SPP Counter''.\<close>

definition service_name_attribute :: "element list" where
  "service_name_attribute = [el_uint 2 0x0100,
     el_text 11 [0x53, 0x50, 0x50, 0x20, 0x43, 0x6f, 0x75, 0x6e, 0x74, 0x65, 0x72]]"

definition service_record :: element where
  "service_record = el_seq 95 0 [el_seq 92 0
     (record_handle_attribute @ class_list_attribute @ protocol_list_attribute
      @ browse_group_attribute @ language_attribute @ profile_list_attribute
      @ service_name_attribute)]"

definition sdpServiceSearchAttributeResponse :: "bytes \<Rightarrow> (bytes \<times> u8) res" where
  "sdpServiceSearchAttributeResponse target = serializeDataElement target service_record 0"

lemmas service_record_defs =
  service_record_def record_handle_attribute_def class_list_attribute_def
  protocol_list_attribute_def browse_group_attribute_def language_attribute_def
  profile_list_attribute_def service_name_attribute_def
  el_uint_def el_dummy_def el_uuid_def el_text_def el_seq_def reset_element_def

text \<open>The bytes on the wire.\<close>

definition service_record_bytes :: bytes where
  "service_record_bytes = [
     0x36, 0x00, 0x5f, 0x36, 0x00, 0x5c, 0x09, 0x00, 0x00, 0x0a, 0x00, 0x01, 0x00, 0x01, 0x09, 0x00,
     0x01, 0x36, 0x00, 0x03, 0x19, 0x11, 0x01, 0x09, 0x00, 0x04, 0x36, 0x00, 0x0e, 0x36, 0x00, 0x03,
     0x19, 0x01, 0x00, 0x36, 0x00, 0x05, 0x19, 0x00, 0x03, 0x08, 0x01, 0x09, 0x00, 0x05, 0x36, 0x00,
     0x03, 0x19, 0x10, 0x02, 0x09, 0x00, 0x06, 0x36, 0x00, 0x09, 0x09, 0x65, 0x6e, 0x09, 0x00, 0x6a,
     0x09, 0x01, 0x00, 0x09, 0x00, 0x09, 0x36, 0x00, 0x09, 0x36, 0x00, 0x06, 0x19, 0x11, 0x01, 0x09,
     0x11, 0x02, 0x09, 0x01, 0x00, 0x25, 0x0b, 0x53, 0x50, 0x50, 0x20, 0x43, 0x6f, 0x75, 0x6e, 0x74,
     0x65, 0x72]"

lemma be_bytes_simps:
  "be_bytes (Suc 0) v = [word_of_nat v]"
  "be_bytes 2 v = [word_of_nat (v div 256), word_of_nat v]"
  "be_bytes 4 v = [word_of_nat (v div 2 ^ 24), word_of_nat (v div 2 ^ 16),
     word_of_nat (v div 256), word_of_nat v]"
  by (simp_all add: be_bytes_def upt_rec)

lemma encode_service_record: "encode service_record = service_record_bytes"
  by (simp add: service_record_defs service_record_bytes_def encode_simple_def be_bytes_simps
      size_code_def)

lemma service_record_serializable: "all_serializable service_record"
  by (simp add: service_record_defs serializable_def)

lemma length_service_record [simp]: "length service_record_bytes = 98"
  by (simp add: service_record_bytes_def)

lemma sdp_response_is_record:
  assumes "length target = 256"
  shows "sdpServiceSearchAttributeResponse target =
    Inr (service_record_bytes @ drop 98 target, 98)"
  using serialize_encodes [OF service_record_serializable assms]
  by (simp add: sdpServiceSearchAttributeResponse_def encode_service_record)

text \<open>
  The response of the SDP server is the 98 byte service record, whatever the array held
  before: the serializer neither throws nor leaves the array, and it reports 98 bytes. The
  record is well formed: every sequence in it, at every depth, declares exactly the number
  of bytes that its elements occupy, and the text its own length.
\<close>

lemma sdp_response_bytes:
  assumes "length target = 256"
  shows "sdpServiceSearchAttributeResponse target =
      Inr (service_record_bytes @ drop 98 target, 98) \<and> well_sized service_record"
  using sdp_response_is_record [OF assms]
  by (simp add: service_record_defs encode_simple_def be_bytes_simps)

section \<open>The request\<close>

text \<open>
  \<open>sdpServiceSearchAttributeRequest(data, current_index, sdp_transaction_id)\<close>: the index after
  the request, the transaction id (a reference parameter in the source) and the lines
  printed. \<open>wn\<close> and \<open>wn'\<close> are the outcomes of the comparisons that involve the
  indeterminate parents of the two root elements. A search pattern without children makes
  \<open>children.at(0)\<close> throw.
\<close>

definition sdpServiceSearchAttributeRequest ::
  "bytes \<Rightarrow> u8 \<Rightarrow> bool \<Rightarrow> bool \<Rightarrow> (u8 \<times> u16 \<times> effect list) res option" where
  "sdpServiceSearchAttributeRequest data current_index wn wn' =
     (case andthen (next_byte data current_index) (\<lambda>(t1, idx).
           andthen (next_byte data idx) (\<lambda>(t0, idx).
           andthen (next_byte data idx) (\<lambda>(l1, idx).
           andthen (next_byte data idx) (\<lambda>(l0, idx).
             Inr (join16 t1 t0, join16 l1 l0, idx)))))
      of Inl e \<Rightarrow> Some (Inl e)
       | Inr (tid, plen, idx) \<Rightarrow>
     (case deserializeDataElement data idx wn
      of None \<Rightarrow> None
       | Some (Inl e) \<Rightarrow> Some (Inl e)
       | Some (Inr (k, h)) \<Rightarrow>
     (case children (h ! 0)
      of [] \<Rightarrow> Some (Inl Out_Of_Range)
       | c # _ \<Rightarrow>
     (case andthen (dump_ok (tree_of (length h) h 0)) (\<lambda>_.
           andthen (next_byte data (idx + k)) (\<lambda>(m1, idx).
           andthen (next_byte data idx) (\<lambda>(m0, idx). Inr idx)))
      of Inl e \<Rightarrow> Some (Inl e)
       | Inr idx \<Rightarrow>
     (case deserializeDataElement data idx wn'
      of None \<Rightarrow> None
       | Some (Inl e) \<Rightarrow> Some (Inl e)
       | Some (Inr (k, h')) \<Rightarrow>
           (let uuid = value_uuid (elem (h ! c)) in
            Some (andthen (dump_ok (tree_of (length h') h' 0)) (\<lambda>_.
              Inr (idx + k, tid,
                   [Print ''sdp_transaction_id'' [uint tid],
                    Print ''sdp_parameter_length'' [uint plen]]
                   @ (if uuid = 0x1101 then []
                      else [Print ''Unkown service uuid'' [uint uuid]]))))))))))"

lemma read_number_numeral:
  "read_number data index (numeral w) v k =
     andthen (fetch data (unat index + unat k)) (\<lambda>d.
       read_number data index (pred_numeral w) (push_bit 8 v + ucast d) (k + 1))"
  by (simp add: numeral_eq_Suc)

lemmas reader_defs = read_number_numeral
  deserializeDataElement_def deserialize_step_def enter_child_def new_cell_def reset_element_def
  readDataElementHeader_def type_of_header_def set_elem_def initial_size_def
  readDataElementBody_def to_parent_def leave_sequence_def

lemma sdp_request_read:
  assumes "holds_at data 9 [t1, t0, l1, l0, 0x35, 3, 0x19, u1, u0, m1, m0, 0x35, 5, 0x0a, a, b, c, d]"
  shows "sdpServiceSearchAttributeRequest data 9 wn wn' =
    Some (Inr (27, join16 t1 t0,
      [Print ''sdp_transaction_id'' [uint (join16 t1 t0)],
       Print ''sdp_parameter_length'' [uint (join16 l1 l0)]]
      @ (if join16 u1 u0 = 0x1101 then []
         else [Print ''Unkown service uuid'' [uint (join16 u1 u0)]])))"
proof -
  note n = holds_at_fetch [OF assms]
  note at = n [of 0] n [of 1] n [of 2] n [of 3] n [of 4] n [of 5] n [of 6] n [of 7] n [of 8]
    n [of 9] n [of 10] n [of 11] n [of 12] n [of 13] n [of 14] n [of 15] n [of 16] n [of 17]
  obtain h where "deserializeDataElement data 13 wn = Some (Inr (5, h))"
    "children (h ! 0) = [1]" "length h = Suc (Suc 0)" "etype (elem (h ! 0)) = Sequence"
    "etype (elem (h ! 1)) = Uuid" "children (h ! 1) = []"
    "value_uuid (elem (h ! 1)) = join16 u1 u0"
    using at [simplified]
    by (simp add: reader_defs deserialize_loop.simps Let_def nth_append join16_def
        cong: andthen_weak_cong)
  moreover obtain h' where "deserializeDataElement data 20 wn' = Some (Inr (7, h'))"
    "children (h' ! 0) = [1]" "length h' = Suc (Suc 0)" "etype (elem (h' ! 0)) = Sequence"
    "etype (elem (h' ! 1)) = Uint" "children (h' ! 1) = []"
    using at [simplified]
    by (simp add: reader_defs deserialize_loop.simps Let_def nth_append
        cong: andthen_weak_cong)
  ultimately show ?thesis
    using at [simplified]
    by (simp add: sdpServiceSearchAttributeRequest_def next_byte_def Let_def
        cong: andthen_weak_cong)
qed

section \<open>Examples\<close>

lemma sdp_response_bytes_witness:
  "sdpServiceSearchAttributeResponse (replicate 256 0) =
    Inr (service_record_bytes @ replicate 158 0, 98)"
  using sdp_response_bytes [of "replicate 256 0"] by simp

lemma serialize_refines_encode_witness:
  "serializeDataElement (replicate 256 0) (el_seq 3 0 [el_uuid 2 0x1101]) 0 =
    Inr ([0x36, 0, 3, 0x19, 0x11, 0x01] @ replicate 250 0, 6)"
  using serialize_refines_encode [of "el_seq 3 0 [el_uuid 2 0x1101]" "replicate 256 0"]
  by (simp add: service_record_defs encode_simple_def be_bytes_simps size_code_def
      serializable_def)

end
