(* ===== verification/Hci_Codec.thy ===== *)
theory Hci_Codec
  imports Prelude
begin

text \<open>
  The value types of \<open>hci/hci.h\<close> and \<open>hci/hci.cpp\<close>: device addresses of six bytes and link
  keys of sixteen, read from and written to packets through a \<open>uint8_t\<close> index, the reversing
  copy, and the texts of the HCI error codes.
\<close>

section \<open>Addresses and link keys\<close>

type_synonym bd_addr = bytes
type_synonym link_key = bytes

definition is_bd_addr :: "bytes \<Rightarrow> bool" where
  "is_bd_addr a \<longleftrightarrow> length a = 6"

definition is_link_key :: "bytes \<Rightarrow> bool" where
  "is_link_key k \<longleftrightarrow> length k = 16"

definition clear_bd_addr :: bd_addr where "clear_bd_addr = replicate 6 0"
definition clear_link_key :: link_key where "clear_link_key = replicate 16 0"

text \<open>
  \<open>target[i] = source[index + i]\<close> for \<open>i < len\<close>: the sum is an \<open>int\<close>, so the accesses do not
  wrap, but \<open>index += len\<close> does.
\<close>

definition read_bd_addr :: "bytes \<Rightarrow> u8 \<Rightarrow> (bd_addr \<times> u8) res" where
  "read_bd_addr source index =
     andthen (fetch_up source (unat index) 6) (\<lambda>a. Inr (a, index + 6))"

definition read_link_key :: "bytes \<Rightarrow> u8 \<Rightarrow> (link_key \<times> u8) res" where
  "read_link_key source index =
     andthen (fetch_up source (unat index) 16) (\<lambda>k. Inr (k, index + 16))"

text \<open>The forms for an array of exactly that size copy from its start and only move the index.\<close>

definition read_bd_addr_from_array :: "bytes \<Rightarrow> u8 \<Rightarrow> (bd_addr \<times> u8) res" where
  "read_bd_addr_from_array source index =
     andthen (fetch_up source 0 6) (\<lambda>a. Inr (a, index + 6))"

definition read_link_key_from_array :: "bytes \<Rightarrow> u8 \<Rightarrow> (link_key \<times> u8) res" where
  "read_link_key_from_array source index =
     andthen (fetch_up source 0 16) (\<lambda>k. Inr (k, index + 16))"

lemma read_from_array_whole:
  "is_bd_addr a \<Longrightarrow> read_bd_addr_from_array a index = Inr (a, index + 6)"
  "is_link_key k \<Longrightarrow> read_link_key_from_array k index = Inr (k, index + 16)"
  using fetch_up_in_range [of 0 6 a] fetch_up_in_range [of 0 16 k]
  by (simp_all add: read_bd_addr_from_array_def read_link_key_from_array_def is_bd_addr_def is_link_key_def)

text \<open>\<open>target[pos + i] = source[i]\<close> for the bytes of the source, one after the other.\<close>

fun store_up :: "bytes \<Rightarrow> nat \<Rightarrow> bytes \<Rightarrow> bytes res" where
  "store_up t pos [] = Inr t"
| "store_up t pos (v # vs) =
     (if pos < length t then store_up (t[pos := v]) (Suc pos) vs else Inl Out_Of_Bounds)"

definition write_bd_addr :: "bytes \<Rightarrow> bd_addr \<Rightarrow> u8 \<Rightarrow> (bytes \<times> u8) res" where
  "write_bd_addr target source index =
     andthen (fetch_up source 0 6) (\<lambda>a.
     andthen (store_up target (unat index) a) (\<lambda>t. Inr (t, index + 6)))"

definition write_link_key :: "bytes \<Rightarrow> link_key \<Rightarrow> u8 \<Rightarrow> (bytes \<times> u8) res" where
  "write_link_key target source index =
     andthen (fetch_up source 0 16) (\<lambda>k.
     andthen (store_up target (unat index) k) (\<lambda>t. Inr (t, index + 16)))"

text \<open>
  \<open>print_bd_addr\<close> prints the six bytes from the last to the first, \<open>print_link_key\<close> the
  sixteen in order.
\<close>

definition print_bd_addr :: "bd_addr \<Rightarrow> effect res" where
  "print_bd_addr a = andthen (fetch_down a 0 6) (\<lambda>bs. Inr (Print ''bd_addr'' (map uint bs)))"

definition print_link_key :: "link_key \<Rightarrow> effect res" where
  "print_link_key k = andthen (fetch_up k 0 16) (\<lambda>bs. Inr (Print ''link_key'' (map uint bs)))"

section \<open>The reversing copy\<close>

text \<open>
  \<open>revmemcpy(dest, src, len)\<close>: \<open>while (len--) *d-- = *s++;\<close> with \<open>d\<close> starting at the last of
  the \<open>len\<close> bytes. The destination is the array \<open>dest\<close>, the source another one.
\<close>

fun revmemcpy :: "bytes \<Rightarrow> bytes \<Rightarrow> nat \<Rightarrow> bytes res" where
  "revmemcpy dest src 0 = Inr dest"
| "revmemcpy dest [] (Suc len) = Inl Out_Of_Bounds"
| "revmemcpy dest (s # src) (Suc len) =
     (if len < length dest then revmemcpy (dest[len := s]) src len else Inl Out_Of_Bounds)"

lemma revmemcpy_reverses:
  "length src = len \<Longrightarrow> len \<le> length dest \<Longrightarrow> revmemcpy dest src len = Inr (rev src @ drop len dest)"
proof (induction src arbitrary: dest len)
  case (Cons s src)
  then obtain m where m: "len = Suc m" "length src = m" by auto
  have "m < length dest" using Cons.prems m by simp
  then have "drop m (dest[m := s]) = s # drop (Suc m) dest"
    by (simp add: drop_update_swap Cons_nth_drop_Suc [symmetric])
  then show ?case using Cons.IH [of m "dest[m := s]"] m \<open>m < length dest\<close> by simp
qed simp

section \<open>Error texts\<close>

text \<open>
  The map \<open>error_code_to_msg\<close> has an entry for each of the codes 0x01 to 0x29; the texts do
  not matter here, the table is the set of its keys. \<open>hci_error_name\<close> uses the checked \<open>at\<close>.
\<close>

definition error_code_known :: "u8 \<Rightarrow> bool" where
  "error_code_known c \<longleftrightarrow> 0x01 \<le> c \<and> c \<le> 0x29"

definition hci_error_name :: "u8 \<Rightarrow> effect res" where
  "hci_error_name c =
     (if error_code_known c then Inr (Print ''error'' [uint c]) else Inl Out_Of_Range)"

text \<open>The table itself, and that its keys are the codes \<open>error_code_known\<close> says.\<close>

definition error_code_to_msg :: "(u8 \<times> string) list" where
  "error_code_to_msg =
     [(0x01, ''Unknown HCI Command.''),
      (0x02, ''No Connection.''),
      (0x03, ''Hardware Failure.''),
      (0x04, ''Page Timeout.''),
      (0x05, ''Authentication Failure.''),
      (0x06, ''Key Missing.''),
      (0x07, ''Memory Full.''),
      (0x08, ''Connection Timeout.''),
      (0x09, ''Max Number Of Connections.''),
      (0x0A, ''Max Number Of SCO Connections To A Device.''),
      (0x0B, ''ACL connection already exists.''),
      (0x0C, ''Command Disallowed.''),
      (0x0D, ''Host Rejected due to limited resources.''),
      (0x0E, ''Host Rejected due to security reasons.''),
      (0x0F, ''Host Rejected due to remote device is only a personal device.''),
      (0x10, ''Host Timeout.''),
      (0x11, ''Unsupported Feature or Parameter Value.''),
      (0x12, ''Invalid HCI Command Parameters.''),
      (0x13, ''Other End Terminated Connection : User Ended Connection.''),
      (0x14, ''Other End Terminated Connection : Low Resources.''),
      (0x15, ''Other End Terminated Connection : About to Power Off.''),
      (0x16, ''Connection Terminated by Local Host.''),
      (0x17, ''Repeated Attempts.''),
      (0x18, ''Pairing Not Allowed.''),
      (0x19, ''Unknown LMP PDU.''),
      (0x1A, ''Unsupported Remote Feature.''),
      (0x1B, ''SCO Offset Rejected.''),
      (0x1C, ''SCO Interval Rejected.''),
      (0x1D, ''SCO Air Mode Rejected.''),
      (0x1E, ''Invalid LMP Parameters.''),
      (0x1F, ''Unspecified Error.''),
      (0x20, ''Unsupported LMP Parameter Value.''),
      (0x21, ''Role Change Not Allowed''),
      (0x22, ''LMP Response Timeout''),
      (0x23, ''LMP Error Transaction Collision''),
      (0x24, ''LMP PDU Not Allowed''),
      (0x25, ''Encryption Mode Not Acceptable''),
      (0x26, ''Unit Key Used''),
      (0x27, ''QoS is Not Supported''),
      (0x28, ''Instant Passed''),
      (0x29, ''Pairing with Unit Key Not Supported'')]"

lemma error_codes_of_table: "map fst error_code_to_msg = map word_of_nat [1..<42]"
  by (simp add: error_code_to_msg_def upt_rec)

lemma error_code_known_table: "error_code_known c \<longleftrightarrow> map_of error_code_to_msg c \<noteq> None"
proof -
  have "map_of error_code_to_msg c \<noteq> None \<longleftrightarrow> c \<in> set (map fst error_code_to_msg)"
    by (simp add: map_of_eq_None_iff)
  also have "\<dots> \<longleftrightarrow> (\<exists>n\<in>{1..<42}. c = word_of_nat n)"
    unfolding error_codes_of_table by auto
  also have "\<dots> \<longleftrightarrow> 1 \<le> unat c \<and> unat c < 42"
  proof
    assume "\<exists>n\<in>{1..<42}. c = word_of_nat n"
    then show "1 \<le> unat c \<and> unat c < 42"
      by (auto simp: unat_of_nat)
  next
    assume "1 \<le> unat c \<and> unat c < 42"
    then show "\<exists>n\<in>{1..<42}. c = word_of_nat n"
      by (intro bexI [of _ "unat c"]) auto
  qed
  finally show ?thesis
    by (auto simp: error_code_known_def word_le_nat_alt)
qed

section \<open>Fixed width codecs\<close>

text \<open>
  What the packet handlers rely on: a reader and a writer for values of a fixed number of
  bytes at an index.
\<close>

locale block_codec =
  fixes width :: nat
    and rd :: "bytes \<Rightarrow> u8 \<Rightarrow> (bytes \<times> u8) res"
    and wr :: "bytes \<Rightarrow> bytes \<Rightarrow> u8 \<Rightarrow> (bytes \<times> u8) res"
  assumes read_held: "holds_at src (unat i) v \<Longrightarrow> length v = width \<Longrightarrow>
      rd src i = Inr (v, i + word_of_nat width)"
    and write_fits: "length v = width \<Longrightarrow> unat i + width \<le> length t \<Longrightarrow>
      wr t v i = Inr (take (unat i) t @ v @ drop (unat i + width) t, i + word_of_nat width)"
    and write_too_far: "length v = width \<Longrightarrow> length t < unat i + width \<Longrightarrow>
      wr t v i = Inl Out_Of_Bounds"
begin

text \<open>What was written is read back, at the same index and with the same next index.\<close>

lemma read_after_write:
  assumes "wr t v i = Inr (t', j)" and "length v = width"
  shows "rd t' i = Inr (v, j)"
proof -
  have fits: "unat i + width \<le> length t"
    using assms write_too_far [OF assms(2), of t i] by fastforce
  then have t': "t' = take (unat i) t @ v @ drop (unat i + width) t" "j = i + word_of_nat width"
    using assms write_fits [OF assms(2) fits] by simp_all
  have "holds_at t' (unat i) v"
    using holds_at_middle [of "take (unat i) t" v "drop (unat i + width) t"] fits t'(1) by simp
  then show ?thesis using read_held assms(2) t'(2) by simp
qed

text \<open>A write changes nothing outside its block and keeps the length of the array.\<close>

lemma write_elsewhere:
  assumes "wr t v i = Inr (t', j)" and "length v = width"
    and "k < unat i \<or> unat i + width \<le> k"
  shows "length t' = length t" and "fetch t' k = fetch t k"
proof -
  have fits: "unat i + width \<le> length t"
    using assms write_too_far [OF assms(2), of t i] by fastforce
  then have t': "t' = take (unat i) t @ v @ drop (unat i + width) t"
    using assms(1) write_fits [OF assms(2) fits] by simp
  then show "length t' = length t" using fits assms(2) by simp
  then show "fetch t' k = fetch t k"
    using t' fits assms(2,3) by (auto simp: fetch_def nth_append)
qed

end

lemma store_up_fits:
  "pos + length vs \<le> length t \<Longrightarrow>
   store_up t pos vs = Inr (take pos t @ vs @ drop (pos + length vs) t)"
proof (induction vs arbitrary: t pos)
  case (Cons v vs)
  then have "take (Suc pos) (t[pos := v]) = take pos t @ [v]"
    by (simp add: take_Suc_conv_app_nth)
  then show ?case using Cons by simp
qed simp

lemma store_up_too_far:
  "vs \<noteq> [] \<Longrightarrow> length t < pos + length vs \<Longrightarrow> store_up t pos vs = Inl Out_Of_Bounds"
proof (induction vs arbitrary: t pos)
  case (Cons v vs)
  show ?case
  proof (cases vs)
    case (Cons w ws)
    then show ?thesis
      using Cons.IH [of "t[pos := v]" "Suc pos"] Cons.prems by simp
  qed (use Cons.prems in auto)
qed simp

lemma fetch_up_whole: "length v = n \<Longrightarrow> fetch_up v 0 n = Inr v"
  using fetch_up_in_range [of 0 n v] by simp

interpretation addr: block_codec 6 read_bd_addr write_bd_addr
proof
  fix src t v :: bytes and i :: u8
  show "read_bd_addr src i = Inr (v, i + word_of_nat 6)"
    if "holds_at src (unat i) v" "length v = 6"
    using fetch_up_holds [OF that(1)] that(2) by (simp add: read_bd_addr_def)
  show "write_bd_addr t v i = Inr (take (unat i) t @ v @ drop (unat i + 6) t, i + word_of_nat 6)"
    if "length v = 6" "unat i + 6 \<le> length t"
    using that by (simp add: write_bd_addr_def fetch_up_whole store_up_fits)
  show "write_bd_addr t v i = Inl Out_Of_Bounds" if "length v = 6" "length t < unat i + 6"
    using that store_up_too_far [of v t "unat i"] by (cases v) (auto simp: write_bd_addr_def fetch_up_whole)
qed

interpretation key: block_codec 16 read_link_key write_link_key
proof
  fix src t v :: bytes and i :: u8
  show "read_link_key src i = Inr (v, i + word_of_nat 16)"
    if "holds_at src (unat i) v" "length v = 16"
    using fetch_up_holds [OF that(1)] that(2) by (simp add: read_link_key_def)
  show "write_link_key t v i = Inr (take (unat i) t @ v @ drop (unat i + 16) t, i + word_of_nat 16)"
    if "length v = 16" "unat i + 16 \<le> length t"
    using that by (simp add: write_link_key_def fetch_up_whole store_up_fits)
  show "write_link_key t v i = Inl Out_Of_Bounds" if "length v = 16" "length t < unat i + 16"
    using that store_up_too_far [of v t "unat i"] by (cases v) (auto simp: write_link_key_def fetch_up_whole)
qed

text \<open>
  Address and key written next to each other are both read back: after
  \<open>write_bd_addr\<close> and \<open>write_link_key\<close> through one running index, as the reply to a link key
  request does it, \<open>read_bd_addr\<close> and \<open>read_link_key\<close> return the same address and the same
  key and arrive at the same index, provided the index does not wrap.
\<close>

lemma address_and_key_round_trip:
  assumes "is_bd_addr a" and "is_link_key k" and "unat i + 22 \<le> length t" and "unat i + 22 < 256"
  shows "\<exists>t1 t2. write_bd_addr t a i = Inr (t1, i + 6) \<and> write_link_key t1 k (i + 6) = Inr (t2, i + 22) \<and>
    read_bd_addr t2 i = Inr (a, i + 6) \<and> read_link_key t2 (i + 6) = Inr (k, i + 22) \<and>
    length t2 = length t"
proof -
  have a: "length a = 6" and k: "length k = 16"
    using assms by (simp_all add: is_bd_addr_def is_link_key_def)
  have i6: "unat (i + 6) = unat i + 6"
    using assms(4) by (simp add: unat_word_ariths)
  let ?t1 = "take (unat i) t @ a @ drop (unat i + 6) t"
  have w1: "write_bd_addr t a i = Inr (?t1, i + 6)"
    using addr.write_fits [OF a, of i t] assms(3) by simp
  have l1: "length ?t1 = length t" using assms(3) a by simp
  let ?t2 = "take (unat i) t @ a @ k @ drop (unat i + 22) t"
  have "take (unat i + 6) ?t1 = take (unat i) t @ a" "drop (unat i + 22) ?t1 = drop (unat i + 22) t"
    using assms(3) a by (simp_all add: add.commute)
  then have w2: "write_link_key ?t1 k (i + 6) = Inr (?t2, i + 22)"
    using key.write_fits [OF k, of "i + 6" ?t1] assms(3) i6 l1
    by (simp add: add.assoc del: append_assoc)
  have "holds_at ?t2 (unat i) a"
    using holds_at_middle [of "take (unat i) t" a "k @ drop (unat i + 22) t"] assms(3) by simp
  then have "read_bd_addr ?t2 i = Inr (a, i + 6)" using addr.read_held a by fastforce
  moreover have "read_link_key ?t2 (i + 6) = Inr (k, i + 22)" using key.read_after_write [OF w2 k] .
  moreover have "length ?t2 = length t" using assms(3) a k by simp
  ultimately show ?thesis using w1 w2 by blast
qed

lemma address_and_key_round_trip_witness:
  "\<exists>t1 t2. write_bd_addr (replicate 1024 0) [1, 2, 3, 4, 5, 6] 3 = Inr (t1, 9) \<and>
     write_link_key t1 (replicate 16 7) 9 = Inr (t2, 25) \<and>
     read_bd_addr t2 3 = Inr ([1, 2, 3, 4, 5, 6], 9) \<and> read_link_key t2 9 = Inr (replicate 16 7, 25)"
  using address_and_key_round_trip [of "[1, 2, 3, 4, 5, 6]" "replicate 16 7" 3 "replicate 1024 0"]
  by (auto simp: is_bd_addr_def is_link_key_def)

end
