(* ===== verification/Link_Keys.thy ===== *)
theory Link_Keys
  imports Hci_Codec "HOL-Library.List_Lexorder"
begin

text \<open>
  The link key database (\<open>hci/link_key_database.h\<close>, \<open>hci/link_key_database.cpp\<close>): a
  \<open>std::map\<close> from device addresses to link keys, with its file format. The map is an
  association list sorted by the key, in the lexicographic order of the arrays.
\<close>

section \<open>The database\<close>

type_synonym data_store = "(bd_addr \<times> link_key) list"

text \<open>\<open>std::map::insert\<close> leaves an existing entry alone.\<close>

fun insert_pair :: "bd_addr \<Rightarrow> link_key \<Rightarrow> data_store \<Rightarrow> data_store" where
  "insert_pair a k [] = [(a, k)]"
| "insert_pair a k ((b, l) # db) =
     (if a < b then (a, k) # (b, l) # db
      else if a = b then (b, l) # db
      else (b, l) # insert_pair a k db)"

definition contains :: "data_store \<Rightarrow> bd_addr \<Rightarrow> bool" where
  "contains db a \<longleftrightarrow> map_of db a \<noteq> None"

definition add_key :: "bd_addr \<Rightarrow> link_key \<Rightarrow> data_store \<Rightarrow> data_store" where
  "add_key a k db = insert_pair a k db"

definition remove_key :: "bd_addr \<Rightarrow> data_store \<Rightarrow> data_store" where
  "remove_key a db = filter (\<lambda>(b, l). b \<noteq> a) db"

text \<open>\<open>data_store[bd_addr]\<close> creates an entry of zeros for a missing address.\<close>

definition retrieve :: "bd_addr \<Rightarrow> data_store \<Rightarrow> link_key \<times> data_store" where
  "retrieve a db = (case map_of db a of
     Some k \<Rightarrow> (k, db)
   | None \<Rightarrow> (replicate 16 0, insert_pair a (replicate 16 0) db))"

section \<open>The file\<close>

text \<open>
  The number of pairs in a \<open>uint16_t\<close>, written in the byte order of the machine (little
  endian), then the pairs in the order of the map.
\<close>

definition store_to_file :: "data_store \<Rightarrow> bytes" where
  "store_to_file db =
     (let n = word_of_nat (length db) :: u16
      in [low8 n, high8 n] @ concat (map (\<lambda>(a, k). a @ k) db))"

text \<open>
  Reading \<open>n\<close> pairs. A read past the end of the file leaves the local arrays as they are,
  that is uninitialised.
\<close>

fun load_pairs :: "nat \<Rightarrow> bytes \<Rightarrow> data_store \<Rightarrow> data_store res" where
  "load_pairs 0 bs db = Inr db"
| "load_pairs (Suc n) bs db =
     (if length bs < 22 then Inl Indeterminate
      else load_pairs n (drop 22 bs) (add_key (take 6 bs) (take 16 (drop 6 bs)) db))"

text \<open>
  \<open>load_from_file\<close>: the old content is discarded; \<open>None\<close> is a file that cannot be opened. Of
  a file of less than two bytes the missing bytes of the count stay zero.
\<close>

definition load_from_file :: "bytes option \<Rightarrow> data_store res" where
  "load_from_file file = (case file of
     None \<Rightarrow> Inr []
   | Some bs \<Rightarrow>
       (let n = (case bs of [] \<Rightarrow> 0 | [lo] \<Rightarrow> unat lo | lo # hi # _ \<Rightarrow> unat (join16 hi lo))
        in load_pairs n (drop 2 bs) []))"

section \<open>Well formed databases\<close>

definition well_formed :: "data_store \<Rightarrow> bool" where
  "well_formed db \<longleftrightarrow> sorted_wrt (<) (map fst db) \<and>
     list_all (\<lambda>(a, k). is_bd_addr a \<and> is_link_key k) db"

lemma well_formed_Cons:
  "well_formed ((a, k) # db) \<longleftrightarrow>
     (\<forall>b \<in> set (map fst db). a < b) \<and> is_bd_addr a \<and> is_link_key k \<and> well_formed db"
  by (auto simp: well_formed_def)

lemma map_of_below:
  fixes a :: bd_addr
  assumes "\<forall>b \<in> set (map fst db). a < b"
  shows "map_of db a = None"
proof -
  have "a \<notin> set (map fst db)"
  proof
    assume "a \<in> set (map fst db)"
    then have "a < a" using assms by blast
    then show False by simp
  qed
  then show ?thesis by (simp add: map_of_eq_None_iff)
qed

lemma map_of_insert_pair:
  "sorted_wrt (<) (map fst db) \<Longrightarrow>
   map_of (insert_pair a k db) = (if map_of db a = None then (map_of db)(a \<mapsto> k) else map_of db)"
proof (induction db)
  case (Cons p db)
  obtain b l where p: "p = (b, l)" by force
  show ?case
  proof (cases "a < b")
    case True
    then have "map_of db a = None" using Cons.prems p by (intro map_of_below) auto
    then show ?thesis using True p by auto
  qed (use Cons p in auto)
qed simp

lemma keys_insert_pair: "set (map fst (insert_pair a k db)) = insert a (set (map fst db))"
proof (induction db)
  case (Cons p db)
  then show ?case
    by (cases p; cases "a < fst p"; cases "a = fst p") (auto simp del: set_map)
qed simp

lemma well_formed_insert_pair:
  "well_formed db \<Longrightarrow> is_bd_addr a \<Longrightarrow> is_link_key k \<Longrightarrow> well_formed (insert_pair a k db)"
proof (induction db)
  case Nil
  then show ?case by (simp add: well_formed_def)
next
  case (Cons p db)
  obtain b l where p: "p = (b, l)" by force
  have "well_formed db" "\<forall>c \<in> set (map fst db). b < c" "is_bd_addr b" "is_link_key l"
    using Cons.prems(1) p by (simp_all add: well_formed_Cons)
  then show ?case
    using Cons p keys_insert_pair [of a k db]
    by (auto simp: well_formed_Cons simp del: set_map dest: less_trans)
qed

lemma length_insert_pair: "length (insert_pair a k db) \<le> Suc (length db)"
  by (induction db) auto

lemma map_of_remove_key: "map_of (remove_key a db) = (map_of db)(a := None)"
  by (induction db) (auto simp: remove_key_def)

lemma well_formed_remove_key: "well_formed db \<Longrightarrow> well_formed (remove_key a db)"
  by (induction db) (auto simp: well_formed_Cons remove_key_def well_formed_def)

section \<open>The interface of the database\<close>

text \<open>
  What the event handlers use: a lookup, an insertion that keeps an existing entry, a
  removal, and an invariant that the operations preserve for admissible entries.
\<close>

locale key_store =
  fixes lookup :: "'s \<Rightarrow> 'k \<Rightarrow> 'v option"
    and add :: "'k \<Rightarrow> 'v \<Rightarrow> 's \<Rightarrow> 's"
    and remove :: "'k \<Rightarrow> 's \<Rightarrow> 's"
    and inv :: "'s \<Rightarrow> bool"
    and entry :: "'k \<Rightarrow> 'v \<Rightarrow> bool"
  assumes lookup_add: "inv s \<Longrightarrow>
      lookup (add k v s) = (if lookup s k = None then (lookup s)(k \<mapsto> v) else lookup s)"
    and lookup_remove: "inv s \<Longrightarrow> lookup (remove k s) = (lookup s)(k := None)"
    and inv_add: "inv s \<Longrightarrow> entry k v \<Longrightarrow> inv (add k v s)"
    and inv_remove: "inv s \<Longrightarrow> inv (remove k s)"
begin

lemma first_entry_wins:
  "inv s \<Longrightarrow> entry k v \<Longrightarrow> lookup s k = None \<Longrightarrow>
   lookup (add k v' (add k v s)) k = Some v"
  by (simp add: lookup_add inv_add)

lemma replace_entry: "inv s \<Longrightarrow> lookup (add k v (remove k s)) k = Some v"
  by (simp add: lookup_add lookup_remove inv_remove)

lemma other_entries:
  "inv s \<Longrightarrow> k \<noteq> k' \<Longrightarrow> lookup (add k v s) k' = lookup s k' \<and> lookup (remove k s) k' = lookup s k'"
  by (simp add: lookup_add lookup_remove)

lemma inv_add_all: "inv s \<Longrightarrow> \<forall>(k, v) \<in> set kvs. entry k v \<Longrightarrow> inv (fold (\<lambda>(k, v). add k v) kvs s)"
  by (induction kvs arbitrary: s) (auto simp: inv_add)

end

definition key_entry :: "bd_addr \<Rightarrow> link_key \<Rightarrow> bool" where
  "key_entry a k \<longleftrightarrow> is_bd_addr a \<and> is_link_key k"

interpretation keys: key_store map_of add_key remove_key well_formed key_entry
proof
  fix s :: data_store and k v
  assume wf: "well_formed s"
  then show "map_of (add_key k v s) = (if map_of s k = None then (map_of s)(k \<mapsto> v) else map_of s)"
    by (simp add: add_key_def map_of_insert_pair well_formed_def)
  show "map_of (remove_key k s) = (map_of s)(k := None)" by (rule map_of_remove_key)
  show "well_formed (add_key k v s)" if "key_entry k v"
    using wf that by (simp add: add_key_def key_entry_def well_formed_insert_pair)
  show "well_formed (remove_key k s)" using wf by (rule well_formed_remove_key)
qed

text \<open>
  A second link key for a device is not stored: after the keys \<open>k\<close> and then \<open>k'\<close> were
  added for a device that was not in the database, \<open>retrieve\<close> returns the first one; only
  after \<open>remove\<close> does a new key take its place. Entries of other devices are not touched.
\<close>

lemma second_link_key_is_lost:
  assumes "well_formed db" and "key_entry a k" and "\<not> contains db a" and "a \<noteq> b"
  shows "fst (retrieve a (add_key a k' (add_key a k db))) = k \<and>
    fst (retrieve a (add_key a k' (remove_key a (add_key a k db)))) = k' \<and>
    map_of (add_key a k' (add_key a k db)) b = map_of db b"
proof -
  have "map_of (add_key a k' (add_key a k db)) a = Some k"
    using keys.first_entry_wins assms by (simp add: contains_def)
  moreover have "map_of (add_key a k' (remove_key a (add_key a k db))) a = Some k'"
    by (rule keys.replace_entry [OF keys.inv_add [OF assms(1,2)]])
  moreover have "map_of (add_key a k' (add_key a k db)) b = map_of db b"
    using keys.other_entries [OF keys.inv_add [OF assms(1,2)] assms(4), of k']
      keys.other_entries [OF assms(1,4), of k] by simp
  ultimately show ?thesis by (simp add: retrieve_def)
qed

lemma second_link_key_is_lost_witness:
  "fst (retrieve [1, 2, 3, 4, 5, 6]
     (add_key [1, 2, 3, 4, 5, 6] (replicate 16 2) (add_key [1, 2, 3, 4, 5, 6] (replicate 16 1) [])))
   = replicate 16 1"
  using second_link_key_is_lost [of "[]" "[1, 2, 3, 4, 5, 6]" "replicate 16 1" "[]" "replicate 16 2"]
  by (simp add: well_formed_def key_entry_def is_bd_addr_def is_link_key_def contains_def)

section \<open>The file round trip\<close>

lemma insert_pair_last:
  "\<forall>b \<in> set (map fst db). b < a \<Longrightarrow> insert_pair a k db = db @ [(a, k)]"
  by (induction db) (auto dest: less_asym)

lemma load_pairs_sorted:
  "well_formed (acc @ db) \<Longrightarrow>
   load_pairs (length db) (concat (map (\<lambda>(a, k). a @ k) db) @ rest) acc = Inr (acc @ db)"
proof (induction db arbitrary: acc)
  case (Cons p db)
  obtain a k where p: "p = (a, k)" by force
  have a: "length a = 6" and k: "length k = 16"
    using Cons.prems p by (auto simp: well_formed_def is_bd_addr_def is_link_key_def)
  have "\<forall>b \<in> set (map fst acc). b < a"
    using Cons.prems p by (auto simp: well_formed_def sorted_wrt_append)
  then have "add_key a k acc = acc @ [(a, k)]"
    by (simp add: add_key_def insert_pair_last)
  then show ?case using Cons p a k by simp
qed simp

lemma load_pairs_take:
  assumes "well_formed db" and "n \<le> length db"
  shows "load_pairs n (concat (map (\<lambda>(a, k). a @ k) db)) [] = Inr (take n db)"
proof -
  have "well_formed (take n db)"
    using assms(1) by (auto simp: well_formed_def take_map [symmetric] sorted_wrt_take
        list_all_iff dest: in_set_takeD)
  moreover have "concat (map (\<lambda>(a, k). a @ k) db) =
      concat (map (\<lambda>(a, k). a @ k) (take n db)) @ concat (map (\<lambda>(a, k). a @ k) (drop n db))"
    by (metis append_take_drop_id concat_append map_append)
  moreover have "length (take n db) = n" using assms(2) by simp
  ultimately show ?thesis
    using load_pairs_sorted [of "[]" "take n db" "concat (map (\<lambda>(a, k). a @ k) (drop n db))"]
    by simp
qed

lemma load_stored_prefix:
  assumes "well_formed db"
  shows "load_from_file (Some (store_to_file db)) = Inr (take (length db mod 65536) db)"
proof -
  have "unat (word_of_nat (length db) :: u16) = length db mod 65536" by (simp add: unat_of_nat)
  then show ?thesis
    using load_pairs_take [OF assms, of "length db mod 65536"]
    by (simp add: load_from_file_def store_to_file_def Let_def)
qed

lemma load_stored:
  "length db < 65536 \<Longrightarrow> well_formed db \<Longrightarrow> load_from_file (Some (store_to_file db)) = Inr db"
  by (simp add: load_stored_prefix)

text \<open>
  C32. Storing the database and loading the file gives the database back, entry by entry,
  as long as it holds fewer than 65536 devices; with more, the count in the file wraps and
  only the first \<open>n mod 65536\<close> entries come back. A file that cannot be opened gives an
  empty database.
\<close>

theorem link_keys_file_round_trip:
  assumes "well_formed db"
  shows "load_from_file (Some (store_to_file db)) = Inr (take (length db mod 65536) db) \<and>
    (length db < 65536 \<longrightarrow> load_from_file (Some (store_to_file db)) = Inr db) \<and>
    load_from_file None = Inr []"
  using load_stored_prefix [OF assms] load_stored [OF _ assms] by (auto simp: load_from_file_def)

lemma link_keys_file_round_trip_witness:
  "load_from_file (Some (store_to_file
      [([1, 2, 3, 4, 5, 6], replicate 16 1), ([1, 2, 3, 4, 5, 7], replicate 16 2)])) =
   Inr [([1, 2, 3, 4, 5, 6], replicate 16 1), ([1, 2, 3, 4, 5, 7], replicate 16 2)]"
proof -
  have "well_formed [([1, 2, 3, 4, 5, 6], replicate 16 1), ([1, 2, 3, 4, 5, 7], replicate 16 2)]"
    by (simp add: well_formed_def is_bd_addr_def is_link_key_def)
  from link_keys_file_round_trip [OF this] show ?thesis by simp
qed

end
