(* ===== verification/Pklg.thy ===== *)
theory Pklg
  imports Prelude
begin

text \<open>
  The packet log (\<open>apple_pklg/pklg.h\<close>, \<open>apple_pklg/pklg.cpp\<close>), Apple's packet logger format: a
  record is its length and a timestamp in big endian, a type byte and the payload. The
  file is a list of bytes; reading past its end stops the stream.
\<close>

section \<open>Records\<close>

text \<open>The values of \<open>e_hci_packet_type\<close>.\<close>

definition hci_command :: u8 where "hci_command = 0x00"
definition hci_event :: u8 where "hci_event = 0x01"
definition hci_asynchronous_data :: u8 where "hci_asynchronous_data = 0x02"
definition hci_synchronous_data :: u8 where "hci_synchronous_data = 0x03"

record packetlogger_header =
  len :: u32
  ts :: u64

definition reset_packetlogger_header :: packetlogger_header where
  "reset_packetlogger_header = \<lparr>len = 0, ts = 0\<rparr>"

text \<open>The byte swap and the write of the swapped value in the byte order of the machine.\<close>

definition be32 :: "u32 \<Rightarrow> bytes" where
  "be32 x = [word_of_nat (unat x div 2 ^ 24), word_of_nat (unat x div 2 ^ 16),
     word_of_nat (unat x div 2 ^ 8), word_of_nat (unat x)]"

definition be64 :: "u64 \<Rightarrow> bytes" where
  "be64 x = map (\<lambda>i. word_of_nat (unat x div 2 ^ (8 * (7 - i)))) [0..<8]"

definition from_be :: "bytes \<Rightarrow> nat" where
  "from_be bs = foldl (\<lambda>v b. v * 256 + unat b) 0 bs"

section \<open>Writing\<close>

text \<open>\<open>write_packet(file, type, std::vector)\<close>: the bytes appended to the file.\<close>

definition write_packet_vector :: "u8 \<Rightarrow> bytes \<Rightarrow> bytes" where
  "write_packet_vector t data =
     be32 (8 + 1 + word_of_nat (length data)) @ be64 0 @ [t] @ data"

text \<open>
  \<open>write_packet(file, type, data, data_len)\<close>: the parameter \<open>data_len\<close> is a \<open>uint8_t\<close>, so the
  length given by the caller is taken modulo 256.
\<close>

definition write_packet :: "u8 \<Rightarrow> bytes \<Rightarrow> nat \<Rightarrow> bytes res" where
  "write_packet t data n =
     (let data_len = word_of_nat n :: u8
      in andthen (fetch_up data 0 (unat data_len)) (\<lambda>payload.
           Inr (be32 (8 + 1 + ucast data_len) @ be64 0 @ [t] @ payload)))"

section \<open>Reading\<close>

text \<open>
  \<open>packetlogger_read_header\<close>: the header, the type and the rest of the file, or \<open>None\<close> for
  the result -1. The variables are zero before they are read, so bytes missing at the end
  of the file are zeros.
\<close>

definition packetlogger_read_header :: "bytes \<Rightarrow> (packetlogger_header \<times> u8 \<times> bytes) option" where
  "packetlogger_read_header file =
     (let raw = take 13 (file @ replicate 13 0);
          h = reset_packetlogger_header\<lparr>len := word_of_nat (from_be (take 4 raw)),
                ts := word_of_nat (from_be (take 8 (drop 4 raw)))\<rparr>;
          t = raw ! 12
      in if 8 \<le> len h \<and> len h < 65536 \<and> (t < 0x04 \<or> t = 0xFB \<or> t = 0xFC \<or> t = 0xFE \<or> t = 0xFF)
         then Some (h, t, drop 13 file) else None)"

text \<open>
  \<open>packetlogger_read_packet\<close>: the payload is read into a local array of 1024 bytes, as many
  as \<open>len - 9\<close> says (in 32 bits) and the file still has. The result is what the callback
  is given, with the bytes stored in the array, and the rest of the file.
\<close>

definition packetlogger_read_packet ::
  "bytes \<Rightarrow> ((packetlogger_header \<times> u8 \<times> bytes) \<times> bytes) option res" where
  "packetlogger_read_packet file =
     (case packetlogger_read_header file of
        None \<Rightarrow> Inr None
      | Some (h, t, rest) \<Rightarrow>
          (let n = unat (len h - 9)
           in if min n (length rest) \<le> 1024
              then Inr (Some ((h, t, take n rest), drop n rest))
              else Inl Out_Of_Bounds))"

section \<open>Framing\<close>

text \<open>
  A file is a sequence of records if a reader can take them off one by one, whatever
  follows.
\<close>

fun take_all :: "(bytes \<Rightarrow> ('r \<times> bytes) option res) \<Rightarrow> nat \<Rightarrow> bytes \<Rightarrow> 'r list res" where
  "take_all get 0 file = Inr []"
| "take_all get (Suc n) file =
     andthen (get file) (\<lambda>r. case r of
       None \<Rightarrow> Inr []
     | Some (x, rest) \<Rightarrow> andthen (take_all get n rest) (\<lambda>xs. Inr (x # xs)))"

locale framing =
  fixes put :: "'a \<Rightarrow> bytes"
    and get :: "bytes \<Rightarrow> ('r \<times> bytes) option res"
    and view :: "'a \<Rightarrow> 'r"
    and ok :: "'a \<Rightarrow> bool"
  assumes get_put: "ok x \<Longrightarrow> get (put x @ rest) = Inr (Some (view x, rest))"
begin

lemma take_all_put:
  "list_all ok xs \<Longrightarrow> take_all get (length xs) (concat (map put xs) @ rest) = Inr (map view xs)"
  by (induction xs) (simp_all add: get_put)

text \<open>One more attempt than there are records finds the end of the file.\<close>

lemma take_all_file:
  "list_all ok xs \<Longrightarrow> get [] = Inr None \<Longrightarrow>
   take_all get (Suc (length xs)) (concat (map put xs)) = Inr (map view xs)"
  by (induction xs) (simp_all add: get_put)

end

lemma from_be_be32: "from_be (be32 x) = unat x"
proof -
  let ?x = "unat x"
  have "?x < 4294967296" using unsigned_less [of x] by simp
  then have "?x div 16777216 mod 256 = ?x div 16777216" by simp
  moreover have "?x = ?x div 16777216 * 16777216 + ?x div 65536 mod 256 * 65536
      + ?x div 256 mod 256 * 256 + ?x mod 256"
  proof -
    have "?x div 256 * 256 + ?x mod 256 = ?x" by (rule div_mult_mod_eq)
    moreover have "?x div 65536 * 256 + ?x div 256 mod 256 = ?x div 256"
      using div_mult_mod_eq [of "?x div 256" 256] by (simp add: div_mult2_eq [symmetric])
    moreover have "?x div 16777216 * 256 + ?x div 65536 mod 256 = ?x div 65536"
      using div_mult_mod_eq [of "?x div 65536" 256] by (simp add: div_mult2_eq [symmetric])
    ultimately show ?thesis by linarith
  qed
  moreover have "from_be (be32 x) = ?x div 16777216 mod 256 * 16777216
      + ?x div 65536 mod 256 * 65536 + ?x div 256 mod 256 * 256 + ?x mod 256"
    by (simp add: from_be_def be32_def unat_of_nat unsigned_ucast_eq take_bit_eq_mod algebra_simps)
  ultimately show ?thesis by simp
qed

lemma length_be [simp]: "length (be32 x) = 4" "length (be64 y) = 8"
  by (simp_all add: be32_def be64_def)

lemma from_be_zeros: "from_be (be64 0) = 0"
  by (simp add: from_be_def be64_def upt_rec)

text \<open>A header as the writers produce it is read back.\<close>

lemma read_header_written:
  assumes "8 \<le> n" and "n < 65536" and "t < 0x04"
  shows "packetlogger_read_header (be32 n @ be64 0 @ [t] @ rest) = Some (\<lparr>len = n, ts = 0\<rparr>, t, rest)"
proof -
  let ?file = "be32 n @ be64 0 @ [t] @ rest"
  have raw: "take 13 (?file @ replicate 13 0) = be32 n @ be64 0 @ [t]" by simp
  have "take 4 (be32 n @ be64 0 @ [t]) = be32 n"
    "take 8 (drop 4 (be32 n @ be64 0 @ [t])) = be64 0" "(be32 n @ be64 0 @ [t]) ! 12 = t"
    by (simp_all add: nth_append)
  then show ?thesis
    using assms
    by (simp only: packetlogger_read_header_def raw Let_def)
      (simp add: reset_packetlogger_header_def from_be_be32 from_be_zeros)
qed

text \<open>The records that can be read back: known types and payloads that fit both ends.\<close>

definition loggable :: "u8 \<times> bytes \<Rightarrow> bool" where
  "loggable r \<longleftrightarrow> fst r < 0x04 \<and> length (snd r) \<le> 1024"

definition record_view :: "u8 \<times> bytes \<Rightarrow> packetlogger_header \<times> u8 \<times> bytes" where
  "record_view r = (\<lparr>len = 9 + word_of_nat (length (snd r)), ts = 0\<rparr>, fst r, snd r)"

definition put_record :: "u8 \<times> bytes \<Rightarrow> bytes" where
  "put_record r = write_packet_vector (fst r) (snd r)"

lemma unat_len:
  "length (data :: bytes) \<le> 1024 \<Longrightarrow> unat (9 + word_of_nat (length data) :: u32) = 9 + length data"
  by (simp add: unat_word_ariths unat_of_nat)

interpretation pklg: framing put_record packetlogger_read_packet record_view loggable
proof
  fix x :: "u8 \<times> bytes" and rest :: bytes
  assume ok: "loggable x"
  obtain t data where x: "x = (t, data)" by force
  let ?n = "9 + word_of_nat (length data) :: u32"
  have data: "length data \<le> 1024" and t: "t < 0x04" using ok x by (simp_all add: loggable_def)
  have n: "unat ?n = 9 + length data" using data by (rule unat_len)
  have "8 \<le> ?n" "?n < 65536" using n data by (simp_all add: word_le_nat_alt word_less_nat_alt)
  then have "packetlogger_read_header (put_record x @ rest) = Some (\<lparr>len = ?n, ts = 0\<rparr>, t, data @ rest)"
    using read_header_written [of ?n t "data @ rest"] t x
    by (simp add: put_record_def write_packet_vector_def)
  moreover have "unat (?n - 9) = length data"
    using data by (simp add: unat_of_nat)
  ultimately show "packetlogger_read_packet (put_record x @ rest) = Inr (Some (record_view x, rest))"
    using data x by (simp add: packetlogger_read_packet_def record_view_def Let_def)
qed

text \<open>
  C33. A log is read back record by record: from the concatenation of the records that the
  vector form of \<open>write_packet\<close> writes, with types below 4 and payloads of at most 1024
  bytes, \<open>packetlogger_read_packet\<close> takes exactly these types and payloads, in order, and
  stops at the end of the file.
\<close>

theorem packet_log_round_trip:
  assumes "list_all loggable rs"
  shows "take_all packetlogger_read_packet (Suc (length rs))
      (concat (map (\<lambda>(t, data). write_packet_vector t data) rs)) =
    Inr (map record_view rs)"
proof -
  have put: "(\<lambda>(t, data). write_packet_vector t data) = put_record"
    by (auto simp: put_record_def)
  have zeros: "from_be (replicate 4 0) = 0" by (simp add: from_be_def numeral_eq_Suc)
  have "packetlogger_read_packet [] = Inr None"
    by (simp add: packetlogger_read_packet_def packetlogger_read_header_def Let_def zeros
        reset_packetlogger_header_def)
  then show ?thesis using pklg.take_all_file [OF assms] by (simp only: put)
qed

lemma packet_log_round_trip_witness:
  "take_all packetlogger_read_packet 3
     (concat (map (\<lambda>(t, data). write_packet_vector t data)
        [(hci_command, [0x03, 0x0C, 0x00]), (hci_event, [0x0E, 4, 1, 3, 0x0C, 0])])) =
   Inr (map record_view [(hci_command, [0x03, 0x0C, 0x00]), (hci_event, [0x0E, 4, 1, 3, 0x0C, 0])])"
  using packet_log_round_trip [of "[(hci_command, [0x03, 0x0C, 0x00]), (hci_event, [0x0E, 4, 1, 3, 0x0C, 0])]"]
  by (simp add: loggable_def hci_command_def hci_event_def numeral_3_eq_3)

text \<open>
  The array form of \<open>write_packet\<close> logs a packet only up to its length modulo 256: for
  a packet of \<open>n\<close> bytes the record announces and holds the first \<open>n mod 256\<close> of them, and
  it is the complete record if and only if \<open>n\<close> is below 256.
\<close>

lemma write_packet_truncates:
  assumes "length data = n" and "n \<le> 1024"
  shows "write_packet t data n = Inr (write_packet_vector t (take (n mod 256) data)) \<and>
    (write_packet t data n = Inr (write_packet_vector t data) \<longleftrightarrow> n < 256)"
proof -
  have m: "unat (word_of_nat n :: u8) = n mod 256" by (simp add: unat_of_nat)
  have "n mod 256 \<le> n" by simp
  then have payload: "fetch_up data 0 (n mod 256) = Inr (take (n mod 256) data)"
    using fetch_up_in_range [of 0 "n mod 256" data] assms(1) by simp
  have "unat (ucast (word_of_nat n :: u8) :: u32) = unat (word_of_nat (n mod 256) :: u32)"
    by (simp add: unsigned_ucast_eq take_bit_eq_mod unsigned_of_nat)
  then have "(ucast (word_of_nat n :: u8) :: u32) = word_of_nat (n mod 256)"
    by (rule unsigned_word_eqI)
  moreover have "length (take (n mod 256) data) = n mod 256" using assms(1) by simp
  ultimately have w: "write_packet t data n = Inr (write_packet_vector t (take (n mod 256) data))"
    by (simp only: write_packet_def write_packet_vector_def Let_def m payload andthen.simps)
  have "write_packet_vector t (take (n mod 256) data) = write_packet_vector t data \<longleftrightarrow> n < 256"
  proof
    assume "write_packet_vector t (take (n mod 256) data) = write_packet_vector t data"
    then have "length (write_packet_vector t (take (n mod 256) data))
        = length (write_packet_vector t data)" by (rule arg_cong)
    then have "length (take (n mod 256) data) = length data"
      by (simp add: write_packet_vector_def)
    then show "n < 256" using assms(1) by (auto simp: min_def split: if_splits)
  qed (use assms(1) in simp)
  then show ?thesis using w by simp
qed

lemma write_packet_truncates_witness:
  "write_packet hci_event (replicate 300 7) 300 = Inr (write_packet_vector hci_event (replicate 44 7))"
  using write_packet_truncates [of "replicate 300 7" 300 hci_event] by simp

end
