(* ===== verification/L2cap_Server.thy ===== *)
theory L2cap_Server
  imports Pklg
begin

text \<open>
  The signaling channel of the L2CAP server (\<open>process_control\<close> of \<open>hci_test.cpp\<close>) with the
  variables it keeps: the channel map of \<open>l2cap/l2cap.h\<close>, the channel counter, the last
  source channel and identifier, and the flags of the MTU negotiation and of the
  authentication. A handler returns its effects and the new state.
\<close>

section \<open>The state\<close>

record channel_pair =
  source_cid :: u16
  destination_cid :: u16
  psm :: u16

text \<open>The values of \<open>protocol_service\<close>.\<close>

definition SDP_PSM :: u16 where "SDP_PSM = 0x0001"
definition RFCOMM_PSM :: u16 where "RFCOMM_PSM = 0x0003"

text \<open>The global variables; the packets themselves are in the buffer of the transfer.\<close>

record l2cap_state =
  next_destination_channel_id :: u16
  channel_map :: "u16 \<rightharpoonup> channel_pair"
  authentication_request :: bool
  mtu_config_request_received :: bool
  mtu_config_request_command_identifier :: u8
  mtu_config_request_sent :: bool
  l2cap_source_cid_lower :: u8
  l2cap_source_cid_upper :: u8
  l2cap_source_cid :: u16
  l2cap_command_identifier :: u8

definition l2cap_init :: l2cap_state where
  "l2cap_init = \<lparr>next_destination_channel_id = 0, channel_map = Map.empty,
     authentication_request = False, mtu_config_request_received = False,
     mtu_config_request_command_identifier = 0, mtu_config_request_sent = False,
     l2cap_source_cid_lower = 0, l2cap_source_cid_upper = 0, l2cap_source_cid = 0,
     l2cap_command_identifier = 0\<rparr>"

section \<open>Sending\<close>

text \<open>\<open>uint32_t wait = 5\<close>, in milliseconds.\<close>

definition acl_wait :: nat where "acl_wait = 5"

text \<open>
  \<open>Sleep(wait); usb_send_acl_packet(buffer, idx); write_packet(..., buffer, idx)\<close> for the
  bytes stored into the local array; all packets are shorter than 256 bytes, so the log
  holds them whole. The result of the sender is not looked at.
\<close>

definition send_acl :: "bytes \<Rightarrow> effect list" where
  "send_acl p = [Sleep acl_wait, Acl_Out p, Log_Packet hci_asynchronous_data p]"

text \<open>
  \<open>submit(transfer)\<close>, which the handlers call to give the transfer at hand back to libusb. The
  call of \<open>libusb_submit_transfer\<close> in its body is commented out.
\<close>

definition submit_transfer :: "effect list" where
  "submit_transfer = []"

lemma submit_nothing [simp]: "submit_transfer = []"
  by (simp add: submit_transfer_def)

lemma effects_of_send_acl [simp]:
  "acls_of (send_acl p) = [p]" "cmds_of (send_acl p) = []" "resubmits (send_acl p) = 0"
  by (simp_all add: send_acl_def)

section \<open>The commands of the signaling channel\<close>

text \<open>
  Connection request (0x02): the counter is incremented, and the new channel is entered in
  the map under \<open>0x40\<close> plus the counter; \<open>std::map::insert\<close> keeps an existing entry. The
  response carries only the low byte of the channel.
\<close>

definition connection_response :: "u8 \<Rightarrow> u16 \<Rightarrow> u8 \<Rightarrow> u8 \<Rightarrow> bytes" where
  "connection_response ident nxt scid_lower scid_upper =
     [0x0b, 0x20, 0x10, 0x00, 0x0c, 0x00, 0x01, 0x00, 0x03, ident, 0x08, 0x00,
      low8 (0x40 + nxt), 0x00, scid_lower, scid_upper, 0x00, 0x00, 0x00, 0x00]"

definition insert_channel ::
  "u16 \<Rightarrow> channel_pair \<Rightarrow> (u16 \<rightharpoonup> channel_pair) \<Rightarrow> (u16 \<rightharpoonup> channel_pair)" where
  "insert_channel d c m = (case m d of None \<Rightarrow> m(d \<mapsto> c) | Some _ \<Rightarrow> m)"

definition control_connection_request ::
  "bytes \<Rightarrow> u8 \<Rightarrow> l2cap_state \<Rightarrow> (effect list \<times> l2cap_state) res" where
  "control_connection_request b idx s =
     andthen (next_byte b idx) (\<lambda>(type_lower, idx).
     andthen (next_byte b idx) (\<lambda>(type_upper, idx).
     andthen (next_byte b idx) (\<lambda>(scid_lower, idx).
     andthen (next_byte b idx) (\<lambda>(scid_upper, idx).
       let information_type = join16 type_upper type_lower;
           scid = join16 scid_upper scid_lower;
           nxt = next_destination_channel_id s + 1;
           cpair = \<lparr>source_cid = scid, destination_cid = 0x40 + nxt, psm = information_type\<rparr>
       in Inr ([Print ''PSM SDP'' [uint information_type], Print ''l2cap_source_cid'' [uint scid]]
                 @ send_acl (connection_response (l2cap_command_identifier s) nxt scid_lower scid_upper)
                 @ submit_transfer,
               s\<lparr>l2cap_source_cid_lower := scid_lower, l2cap_source_cid_upper := scid_upper,
                 l2cap_source_cid := scid, next_destination_channel_id := nxt,
                 channel_map := insert_channel (0x40 + nxt) cpair (channel_map s)\<rparr>)))))"

text \<open>
  Configure request (0x04): only noted; the answers are sent by the callback of the
  events. A response is built in a local array, which reads two bytes of the packet.
\<close>

definition control_configure_request ::
  "bytes \<Rightarrow> u8 \<Rightarrow> l2cap_state \<Rightarrow> (effect list \<times> l2cap_state) res" where
  "control_configure_request b idx s =
     andthen (fetch b 18) (\<lambda>_. andthen (fetch b 19) (\<lambda>_.
       Inr ([Print ''CONFIGURE REQUEST! 0x04'' []],
            s\<lparr>mtu_config_request_received := True,
              mtu_config_request_command_identifier := l2cap_command_identifier s\<rparr>)))"

text \<open>Disconnect request (0x06): answered, but the channel stays in the map.\<close>

definition disconnect_response :: "u8 \<Rightarrow> u8 \<Rightarrow> u8 \<Rightarrow> u8 \<Rightarrow> u8 \<Rightarrow> bytes" where
  "disconnect_response ident dcid_lower dcid_upper scid_lower scid_upper =
     [0x0b, 0x00, 0x0c, 0x00, 0x08, 0x00, 0x01, 0x00, 0x07, ident, 0x04, 0x00,
      dcid_lower, dcid_upper, scid_lower, scid_upper]"

definition control_disconnect_request ::
  "bytes \<Rightarrow> u8 \<Rightarrow> l2cap_state \<Rightarrow> (effect list \<times> l2cap_state) res" where
  "control_disconnect_request b idx s =
     andthen (next_byte b idx) (\<lambda>(dcid_lower, idx).
     andthen (next_byte b idx) (\<lambda>(dcid_upper, idx).
     andthen (next_byte b idx) (\<lambda>(scid_lower, idx).
     andthen (next_byte b idx) (\<lambda>(scid_upper, idx).
       let scid = join16 scid_upper scid_lower
       in Inr ([Print ''PSM SDP (== l2cap_information_type)'' [0],
                Print ''l2cap_source_cid'' [uint scid]]
                 @ send_acl (disconnect_response (l2cap_command_identifier s)
                               dcid_lower dcid_upper scid_lower scid_upper)
                 @ submit_transfer,
               s\<lparr>authentication_request := False, l2cap_source_cid_lower := scid_lower,
                 l2cap_source_cid_upper := scid_upper, l2cap_source_cid := scid\<rparr>)))))"

text \<open>Information request (0x0A): extended features (2) and fixed channels (3).\<close>

definition features_response :: "u8 \<Rightarrow> bytes" where
  "features_response ident =
     [0x0b, 0x00, 0x10, 0x00, 0x0c, 0x00, 0x01, 0x00, 0x0b, ident, 0x08, 0x00,
      0x02, 0x00, 0x00, 0x00, 0x80, 0x02, 0x00, 0x00]"

definition fixed_channels_response :: "u8 \<Rightarrow> bytes" where
  "fixed_channels_response ident =
     [0x0b, 0x00, 0x14, 0x00, 0x10, 0x00, 0x01, 0x00, 0x0b, ident, 0x0c, 0x00,
      0x03, 0x00, 0x00, 0x00, 0x06, 0x00, 0x00, 0x00, 0x00, 0x00, 0x00, 0x00]"

definition control_information_request ::
  "bytes \<Rightarrow> u8 \<Rightarrow> l2cap_state \<Rightarrow> (effect list \<times> l2cap_state) res" where
  "control_information_request b idx s =
     andthen (next_byte b idx) (\<lambda>(type_lower, idx).
     andthen (next_byte b idx) (\<lambda>(type_upper, idx).
       let information_type = join16 type_upper type_lower
       in Inr ([Print ''l2cap_information_type'' [uint information_type]]
                 @ (if information_type = 0x02 then
                      send_acl (features_response (l2cap_command_identifier s)) @ submit_transfer
                    else if information_type = 0x03 then
                      send_acl (fixed_channels_response (l2cap_command_identifier s)) @ submit_transfer
                    else []), s)))"

text \<open>
  The code 0xCC: an Authentication Requested command, once until the next disconnect
  request. The three bytes are the opcode 0x0011 and no parameters.
\<close>

definition authentication_requested_bytes :: bytes where
  "authentication_requested_bytes = [0x11, 0x00, 0x00]"

definition control_authentication ::
  "l2cap_state \<Rightarrow> effect list \<times> l2cap_state" where
  "control_authentication s =
     (if authentication_request s then ([], s)
      else ([Print ''Starting simple pairing using HCI_Authentication_Requested !'' [],
             Sleep acl_wait, Cmd_Out authentication_requested_bytes,
             Log_Packet hci_command authentication_requested_bytes] @ submit_transfer,
            s\<lparr>authentication_request := True\<rparr>))"

text \<open>The switch over the command code, and the whole handler.\<close>

definition control_command ::
  "u8 \<Rightarrow> bytes \<Rightarrow> u8 \<Rightarrow> l2cap_state \<Rightarrow> (effect list \<times> l2cap_state) res" where
  "control_command code b idx s =
     (if code = 0x01 then Inr ([Print ''command reject!'' []], s)
      else if code = 0x02 then control_connection_request b idx s
      else if code = 0x04 then control_configure_request b idx s
      else if code = 0x06 then control_disconnect_request b idx s
      else if code = 0x0A then control_information_request b idx s
      else if code = 0x0B then Inr ([Print ''information response ...'' []], s)
      else if code = 0xCC then Inr (control_authentication s)
      else Inr ([Print ''l2cap_command_code: UNKNOWN'' [uint code]], s))"

definition process_control ::
  "bytes \<Rightarrow> u8 \<Rightarrow> l2cap_state \<Rightarrow> (effect list \<times> l2cap_state) res" where
  "process_control b idx s =
     andthen (next_byte b idx) (\<lambda>(code, idx).
     andthen (next_byte b idx) (\<lambda>(ident, idx).
     andthen (next_byte b idx) (\<lambda>(length_lower, idx).
     andthen (next_byte b idx) (\<lambda>(length_upper, idx).
     andthen (control_command code b idx (s\<lparr>l2cap_command_identifier := ident\<rparr>)) (\<lambda>(es, s).
       Inr ([Print ''l2cap_command_code'' [uint code],
             Print ''l2cap_command_identifier'' [uint ident],
             Print ''l2cap_command_length'' [uint (join16 length_upper length_lower)]] @ es, s))))))"

lemmas control_defs =
  control_connection_request_def control_configure_request_def control_disconnect_request_def
  control_information_request_def control_authentication_def

lemmas control_packet_defs =
  connection_response_def disconnect_response_def features_response_def
  fixed_channels_response_def

end
