(* ===== verification/L2cap_Props.thy ===== *)
theory L2cap_Props
  imports L2cap_Server
begin

text \<open>
  The signaling channel: every answer is well formed and belongs to its request, and the
  channel map follows the connection requests.
\<close>

section \<open>Answers\<close>

text \<open>
  What a request at index \<open>idx\<close> of the buffer makes of an answer: right lengths, on the
  signaling channel, the code after that of the request, the same identifier.
\<close>

definition answers_request :: "bytes \<Rightarrow> u8 \<Rightarrow> bytes \<Rightarrow> bool" where
  "answers_request b idx p \<longleftrightarrow> signal_lengths_ok p \<and> join16 (p ! 7) (p ! 6) = 0x0001 \<and>
     p ! 8 = b ! unat idx + 1 \<and> p ! 9 = b ! unat (idx + 1)"

lemma control_packets_ok [simp]:
  "signal_lengths_ok (connection_response i n l u)"
  "signal_lengths_ok (disconnect_response i dl du sl su)"
  "signal_lengths_ok (features_response i)"
  "signal_lengths_ok (fixed_channels_response i)"
  by (simp_all add: control_packet_defs signal_lengths_ok_def acl_lengths_ok_def join16_def)

lemma control_packets_header [simp]:
  "take 10 (connection_response i n l u) = [0x0b, 0x20, 0x10, 0x00, 0x0c, 0x00, 0x01, 0x00, 0x03, i]"
  "take 10 (disconnect_response i dl du sl su) = [0x0b, 0x00, 0x0c, 0x00, 0x08, 0x00, 0x01, 0x00, 0x07, i]"
  "take 10 (features_response i) = [0x0b, 0x00, 0x10, 0x00, 0x0c, 0x00, 0x01, 0x00, 0x0b, i]"
  "take 10 (fixed_channels_response i) = [0x0b, 0x00, 0x14, 0x00, 0x10, 0x00, 0x01, 0x00, 0x0b, i]"
  by (simp_all add: control_packet_defs)

lemma answers_requestI:
  assumes "signal_lengths_ok p" and "take 10 p = [x0, x1, x2, x3, x4, x5, 0x01, 0x00, code + 1, ident]"
    and "b ! unat idx = code" and "b ! unat (idx + 1) = ident"
  shows "answers_request b idx p"
proof -
  have "p ! n = take 10 p ! n" if "n < 10" for n using that by simp
  from this [of 6] this [of 7] this [of 8] this [of 9] show ?thesis
    using assms by (simp add: answers_request_def join16_def)
qed

text \<open>The outcome of the commands: the state that they leave and what they send.\<close>

lemma next_byte_eq_Inr:
  "next_byte b i = Inr (v, j) \<longleftrightarrow> unat i < length b \<and> v = b ! unat i \<and> j = i + 1"
  by (auto simp: next_byte_def fetch_def)

lemma process_controlE:
  assumes "process_control b idx s = Inr (es, s')"
  obtains es' where
    "control_command (b ! unat idx) b (idx + 4) (s\<lparr>l2cap_command_identifier := b ! unat (idx + 1)\<rparr>) =
       Inr (es', s')"
    "acls_of es = acls_of es'" "cmds_of es = cmds_of es'"
  using assms
  by (auto simp: process_control_def andthen_eq_Inr next_byte_eq_Inr add.assoc)

text \<open>
  C8. Every packet that the signaling channel sends answers the command at hand: whatever
  the bytes, at most one ACL packet is sent, its three length fields are right, it goes to
  the signaling channel, its code is the response code that belongs to the request (one
  more) and it returns the identifier of the request.
\<close>

theorem control_answers_well_formed:
  assumes "process_control b idx s = Inr (es, s')"
  shows "length (acls_of es) \<le> 1 \<and> list_all (answers_request b idx) (acls_of es)"
proof -
  obtain es' where c: "control_command (b ! unat idx) b (idx + 4)
      (s\<lparr>l2cap_command_identifier := b ! unat (idx + 1)\<rparr>) = Inr (es', s')"
    and es: "acls_of es = acls_of es'"
    using process_controlE [OF assms] by blast
  note I = answers_requestI [where b = b and idx = idx and ident = "b ! unat (idx + 1)", OF _ _ refl refl]
  from c show ?thesis unfolding es
    by (auto simp: control_command_def control_defs andthen_eq_Inr Let_def intro!: I split: if_splits)
qed

definition information_request_example :: bytes where
  "information_request_example = [0x0b, 0x20, 0x0a, 0, 6, 0, 1, 0, 0x0a, 7, 2, 0, 2, 0]"

lemma control_answers_well_formed_witness:
  "\<exists>es s'. process_control information_request_example 8 l2cap_init = Inr (es, s') \<and>
     acls_of es = [features_response 7] \<and>
     list_all (answers_request information_request_example 8) (acls_of es)"
proof -
  obtain es s' where r: "process_control information_request_example 8 l2cap_init = Inr (es, s')"
    "acls_of es = [features_response 7]"
    by (simp add: process_control_def control_command_def control_information_request_def
        next_byte_def fetch_def information_request_example_def l2cap_init_def join16_def)
  then show ?thesis using control_answers_well_formed [OF r(1)] by simp
qed

section \<open>The channel map\<close>

text \<open>
  The channels are numbered from \<open>0x41\<close>; the counter holds how many were opened, as long
  as it does not wrap.
\<close>

definition channel_id :: "nat \<Rightarrow> u16" where
  "channel_id k = 0x40 + word_of_nat k"

definition channels_ok :: "l2cap_state \<Rightarrow> bool" where
  "channels_ok s \<longleftrightarrow>
     dom (channel_map s) = channel_id ` {1..unat (next_destination_channel_id s)} \<and>
     (\<forall>d c. channel_map s d = Some c \<longrightarrow> destination_cid c = d)"

lemma channel_id_eq: "j < 65536 \<Longrightarrow> k < 65536 \<Longrightarrow> channel_id j = channel_id k \<longleftrightarrow> j = k"
  by (auto simp: channel_id_def dest!: arg_cong [where f = unat] simp: unat_of_nat)

lemma channels_ok_init: "channels_ok l2cap_init"
  by (simp add: channels_ok_def l2cap_init_def)

lemma unat_Suc16: "unat (n :: u16) < 65535 \<Longrightarrow> unat (n + 1) = Suc (unat n)"
  by (simp add: unat_word_ariths)

lemma next_channel_id: "0x40 + (n + 1) = channel_id (Suc (unat n))" for n :: u16
  by (simp add: channel_id_def add.commute)

lemma next_channel_free:
  assumes "channels_ok s" and "unat (next_destination_channel_id s) < 65535"
  shows "channel_map s (0x40 + (next_destination_channel_id s + 1)) = None"
proof (rule ccontr)
  assume "channel_map s (0x40 + (next_destination_channel_id s + 1)) \<noteq> None"
  then have "channel_id (Suc (unat (next_destination_channel_id s)))
      \<in> channel_id ` {1..unat (next_destination_channel_id s)}"
    using assms(1) by (auto simp: channels_ok_def next_channel_id [symmetric])
  then show False using assms(2) by (auto simp: channel_id_eq)
qed

text \<open>What a command does to the channels: nothing, unless it is a connection request.\<close>

definition opens :: "l2cap_state \<Rightarrow> u16 \<Rightarrow> u16 \<Rightarrow> l2cap_state \<Rightarrow> bool" where
  "opens s p scid s' \<longleftrightarrow>
     (let d = 0x40 + (next_destination_channel_id s + 1)
      in next_destination_channel_id s' = next_destination_channel_id s + 1 \<and>
         channel_map s' = insert_channel d
           \<lparr>source_cid = scid, destination_cid = d, psm = p\<rparr> (channel_map s))"

lemma connection_request_opens:
  assumes "control_connection_request b idx s = Inr (es, s')"
  shows "\<exists>p scid. opens s p scid s'"
proof -
  obtain p scid l u where "s' = s\<lparr>l2cap_source_cid_lower := l, l2cap_source_cid_upper := u,
      l2cap_source_cid := scid, next_destination_channel_id := next_destination_channel_id s + 1,
      channel_map := insert_channel (0x40 + (next_destination_channel_id s + 1))
        \<lparr>source_cid = scid, destination_cid = 0x40 + (next_destination_channel_id s + 1), psm = p\<rparr>
        (channel_map s)\<rparr>"
    using assms by (auto simp: control_connection_request_def andthen_eq_Inr Let_def)
  then have "opens s p scid s'" by (simp add: opens_def)
  then show ?thesis by blast
qed

lemma opens_identifier [simp]: "opens (s\<lparr>l2cap_command_identifier := i\<rparr>) = opens s"
  by (simp add: opens_def fun_eq_iff)

lemma control_channels:
  assumes "process_control b idx s = Inr (es, s')"
  shows "(\<exists>p scid. opens s p scid s') \<or>
    next_destination_channel_id s' = next_destination_channel_id s \<and> channel_map s' = channel_map s"
proof -
  obtain es' where "control_command (b ! unat idx) b (idx + 4)
      (s\<lparr>l2cap_command_identifier := b ! unat (idx + 1)\<rparr>) = Inr (es', s')"
    using process_controlE [OF assms] by blast
  then show ?thesis
    using connection_request_opens [of b "idx + 4" "s\<lparr>l2cap_command_identifier := b ! unat (idx + 1)\<rparr>" es' s']
    by (auto simp: control_command_def control_configure_request_def control_disconnect_request_def
        control_information_request_def control_authentication_def andthen_eq_Inr Let_def
        split: if_splits)
qed

lemma opens_fresh:
  assumes "opens s p scid s'" and "channels_ok s" and "unat (next_destination_channel_id s) < 65535"
  shows "channel_map s' = (channel_map s)(channel_id (Suc (unat (next_destination_channel_id s))) \<mapsto>
      \<lparr>source_cid = scid,
        destination_cid = channel_id (Suc (unat (next_destination_channel_id s))), psm = p\<rparr>)"
    and "unat (next_destination_channel_id s') = Suc (unat (next_destination_channel_id s))"
  using assms next_channel_free [OF assms(2, 3)] unat_Suc16 [OF assms(3)]
  by (simp_all add: opens_def Let_def insert_channel_def next_channel_id)

lemma opens_keeps_ok:
  assumes "opens s p scid s'" and "channels_ok s" and "unat (next_destination_channel_id s) < 65535"
  shows "channels_ok s'"
  using assms(2) opens_fresh [OF assms]
  by (auto simp: channels_ok_def atLeastAtMostSuc_conv)

lemma control_keeps:
  assumes "process_control b idx s = Inr (es, s')" and "channels_ok s"
    and "unat (next_destination_channel_id s) < 65535"
  shows "channels_ok s' \<and> channel_map s \<subseteq>\<^sub>m channel_map s' \<and>
    unat (next_destination_channel_id s') \<le> Suc (unat (next_destination_channel_id s))"
  using control_channels [OF assms(1)]
proof
  assume "\<exists>p scid. opens s p scid s'"
  then obtain p scid where o: "opens s p scid s'" by blast
  have "channel_map s (channel_id (Suc (unat (next_destination_channel_id s)))) = None"
    using next_channel_free [OF assms(2, 3)] by (simp add: next_channel_id)
  then show ?thesis
    using opens_keeps_ok [OF o assms(2, 3)] opens_fresh [OF o assms(2, 3)]
    by (auto simp: map_le_def dom_def)
qed (use assms(2) in \<open>auto simp: channels_ok_def\<close>)

text \<open>
  C28. Whatever arrives on the signaling channel, the channel map stays well formed (its
  channels are numbered consecutively from \<open>0x41\<close>, each entry knows its own number) and no
  channel is ever removed or changed, by a disconnect request neither; at most one channel
  is added.
\<close>

theorem control_keeps_channels:
  assumes "process_control b idx s = Inr (es, s')" and "channels_ok s"
    and "unat (next_destination_channel_id s) < 65535"
  shows "channels_ok s' \<and> channel_map s \<subseteq>\<^sub>m channel_map s' \<and>
    unat (next_destination_channel_id s') \<le> Suc (unat (next_destination_channel_id s))"
  using control_keeps [OF assms] .

section \<open>Tables that grow by one numbered entry\<close>

text \<open>
  What a client of the channel map relies on: opening adds one entry under the next
  number and leaves the others alone, as long as the numbers last.
\<close>

locale channel_table =
  fixes open_one :: "'r \<Rightarrow> 's \<Rightarrow> 's"
    and table :: "'s \<Rightarrow> 'c \<rightharpoonup> 'e"
    and opened :: "'s \<Rightarrow> nat"
    and ok :: "'s \<Rightarrow> bool"
    and entry :: "'r \<Rightarrow> nat \<Rightarrow> 'e"
    and cid :: "nat \<Rightarrow> 'c"
    and cap :: nat
  assumes opened_open: "ok s \<Longrightarrow> opened s < cap \<Longrightarrow> opened (open_one r s) = Suc (opened s)"
    and ok_open: "ok s \<Longrightarrow> opened s < cap \<Longrightarrow> ok (open_one r s)"
    and table_open: "ok s \<Longrightarrow> opened s < cap \<Longrightarrow> table (open_one r s) =
      (table s)(cid (Suc (opened s)) \<mapsto> entry r (Suc (opened s)))"
    and cid_eq: "j \<le> cap \<Longrightarrow> k \<le> cap \<Longrightarrow> cid j = cid k \<longleftrightarrow> j = k"
begin

lemma opened_fold:
  "ok s \<Longrightarrow> opened s + length rs \<le> cap \<Longrightarrow>
     ok (fold open_one rs s) \<and> opened (fold open_one rs s) = opened s + length rs"
  by (induction rs arbitrary: s) (simp_all add: ok_open opened_open)

text \<open>Entries that are there stay.\<close>

lemma table_fold_old:
  "ok s \<Longrightarrow> opened s + length rs \<le> cap \<Longrightarrow> k \<le> opened s \<Longrightarrow>
     table (fold open_one rs s) (cid k) = table s (cid k)"
  by (induction rs arbitrary: s) (simp_all add: ok_open opened_open table_open cid_eq)

text \<open>The \<open>k\<close>-th request gets the \<open>k\<close>-th number after those in use.\<close>

lemma table_fold:
  "ok s \<Longrightarrow> opened s + length rs \<le> cap \<Longrightarrow> k < length rs \<Longrightarrow>
     table (fold open_one rs s) (cid (Suc (opened s + k))) =
       Some (entry (rs ! k) (Suc (opened s + k)))"
proof (induction rs arbitrary: s k)
  case (Cons r rs)
  show ?case
  proof (cases k)
    case 0
    then show ?thesis
      using Cons.prems by (simp add: table_fold_old ok_open opened_open table_open)
  next
    case (Suc j)
    then show ?thesis
      using Cons.prems Cons.IH [of "open_one r s" j] by (simp add: ok_open opened_open)
  qed
qed simp

end

section \<open>Connection requests\<close>

text \<open>The packet with which a peer asks for a channel: identifier, protocol, its own channel.\<close>

fun connection_request_packet :: "u8 \<times> u16 \<times> u16 \<Rightarrow> bytes" where
  "connection_request_packet (i, p, c) =
     [0x0b, 0x20, 0x0c, 0x00, 0x08, 0x00, 0x01, 0x00, 0x02, i, 0x04, 0x00,
      low8 p, high8 p, low8 c, high8 c]"

text \<open>The state after it.\<close>

fun open_channel :: "u8 \<times> u16 \<times> u16 \<Rightarrow> l2cap_state \<Rightarrow> l2cap_state" where
  "open_channel (i, p, c) s =
     (let d = 0x40 + (next_destination_channel_id s + 1)
      in s\<lparr>l2cap_command_identifier := i, l2cap_source_cid_lower := low8 c,
           l2cap_source_cid_upper := high8 c, l2cap_source_cid := c,
           next_destination_channel_id := next_destination_channel_id s + 1,
           channel_map := insert_channel d
             \<lparr>source_cid = c, destination_cid = d, psm = p\<rparr> (channel_map s)\<rparr>)"

lemma process_connection_request:
  assumes "holds_at b 8 (drop 8 (connection_request_packet (i, p, c)))"
  shows "\<exists>es. process_control b 8 s = Inr (es, open_channel (i, p, c) s) \<and> cmds_of es = [] \<and>
    acls_of es = [connection_response i (next_destination_channel_id s + 1) (low8 c) (high8 c)]"
proof -
  note n = holds_at_fetch [OF assms]
  note at = n [of 0] n [of 1] n [of 2] n [of 3] n [of 4] n [of 5] n [of 6] n [of 7]
  show ?thesis
    using at [simplified]
    by (simp add: process_control_def control_command_def control_connection_request_def
        next_byte_def Let_def cong: andthen_weak_cong)
qed

lemma opens_open_channel: "opens s p c (open_channel (i, p, c) s)"
  by (simp add: opens_def Let_def)

fun channel_entry :: "u8 \<times> u16 \<times> u16 \<Rightarrow> nat \<Rightarrow> channel_pair" where
  "channel_entry (i, p, c) k = \<lparr>source_cid = c, destination_cid = channel_id k, psm = p\<rparr>"

interpretation channels: channel_table open_channel channel_map
  "\<lambda>s. unat (next_destination_channel_id s)" channels_ok channel_entry channel_id 65535
proof (unfold_locales, goal_cases)
  case (1 s r)
  then show ?case by (cases r) (metis opens_fresh(2) opens_open_channel)
next
  case (2 s r)
  then show ?case by (cases r) (metis opens_keeps_ok opens_open_channel)
next
  case (3 s r)
  then show ?case by (cases r) (metis opens_fresh(1) opens_open_channel channel_entry.simps)
next
  case (4 j k)
  then show ?case by (simp add: channel_id_eq)
qed

lemma control_keeps_channels_witness:
  "\<exists>es s'. process_control (connection_request_packet (7, 1, 0x45)) 8 l2cap_init = Inr (es, s') \<and>
     channels_ok s' \<and> channel_map s' 0x41 \<noteq> None"
proof -
  obtain es where r: "process_control (connection_request_packet (7, 1, 0x45)) 8 l2cap_init =
      Inr (es, open_channel (7, 1, 0x45) l2cap_init)"
    using process_connection_request [of "connection_request_packet (7, 1, 0x45)" 7 1 "0x45" l2cap_init]
    by (auto simp: holds_at_def)
  show ?thesis
    using r control_keeps_channels [OF r channels_ok_init]
    by (simp add: l2cap_init_def insert_channel_def del: connection_request_packet.simps)
qed

end
