(* ===== verification/Rfcomm_Server.thy ===== *)
theory Rfcomm_Server
  imports Rfcomm_Fcs L2cap_Server
begin

text \<open>
  \<open>process_rfcomm\<close> of \<open>hci_test.cpp\<close>: the answers to the frames on an RFCOMM channel. The
  frames are constants of the source, but for the channel of the peer and, in the
  acknowledgement of a SABM frame, the address and its checksum. The theory proves that all
  of them are well formed, the checksums written as constants included.
\<close>

section \<open>The frames\<close>

text \<open>Channel \<open>cid\<close> is \<open>cpair.source_cid\<close>.\<close>

definition disc_response :: "u16 \<Rightarrow> bytes" where
  "disc_response cid =
     [0x0b, 0x20, 0x08, 0x00, 0x04, 0x00, low8 cid, high8 cid, 0x0b, 0x73, 0x01, 0x92]"

definition pn_response :: "u16 \<Rightarrow> bytes" where
  "pn_response cid =
     [0x0b, 0x20, 0x12, 0x00, 0x0e, 0x00, low8 cid, high8 cid, 0x01, 0xef, 0x15,
      0x81, 0x11, 0x02, 0xe0, 0x00, 0x00, 0xde, 0x03, 0x00, 0x00, 0xaa]"

definition msc_response :: "u16 \<Rightarrow> bytes" where
  "msc_response cid =
     [0x0b, 0x20, 0x0c, 0x00, 0x08, 0x00, low8 cid, high8 cid, 0x01, 0xef,
      0x09, 0xe1, 0x05, 0x0b, 0x8d, 0xaa]"

definition ua_response :: "u16 \<Rightarrow> u8 \<Rightarrow> u8 \<Rightarrow> bytes" where
  "ua_response cid address fcs =
     [0x0b, 0x20, 0x08, 0x00, 0x04, 0x00, low8 cid, high8 cid, address, 0x73, 0x01, fcs]"

definition msc_request :: "u16 \<Rightarrow> bytes" where
  "msc_request cid =
     [0x0b, 0x20, 0x0c, 0x00, 0x08, 0x00, low8 cid, high8 cid, 0x03, 0xef,
      0x09, 0xe3, 0x05, 0x0b, 0x8d, 0x70]"

definition credits_frame :: "u16 \<Rightarrow> bytes" where
  "credits_frame cid =
     [0x0b, 0x20, 0x09, 0x00, 0x05, 0x00, low8 cid, high8 cid, 0x09, 0xff, 0x01, 0x0a, 0x5c]"

section \<open>The handler\<close>

text \<open>
  \<open>for (int i = 0; i < n; i++) printf("%c", transfer->buffer[idx++]);\<close> where \<open>idx\<close> is a
  \<open>uint8_t\<close>.
\<close>

fun read_payload :: "bytes \<Rightarrow> u8 \<Rightarrow> nat \<Rightarrow> bytes res" where
  "read_payload b idx 0 = Inr []"
| "read_payload b idx (Suc n) =
     andthen (next_byte b idx) (\<lambda>(v, idx). andthen (read_payload b idx n) (\<lambda>vs. Inr (v # vs)))"

text \<open>The lines printed for a frame with data; the loop runs to \<open>payload_length - 6\<close>.\<close>

definition print_payload :: "bytes \<Rightarrow> u8 \<Rightarrow> u8 \<Rightarrow> effect list res" where
  "print_payload b idx payload_length =
     andthen (read_payload b idx (unat payload_length - 6)) (\<lambda>vs.
       Inr [Print ''Payload Length'' [uint payload_length], Print ''Payload'' (map uint vs)])"

text \<open>UIH frames without credits: the multiplexer commands on address 3, data otherwise.\<close>

definition rfcomm_uih :: "bytes \<Rightarrow> u8 \<Rightarrow> u8 \<Rightarrow> u8 \<Rightarrow> u16 \<Rightarrow> effect list res" where
  "rfcomm_uih b idx address payload_length cid =
     (if address = 0x03 then
        andthen (next_byte b idx) (\<lambda>(multiplexer_command_type, idx).
          if multiplexer_command_type = 0x83 then Inr (send_acl (pn_response cid) @ submit_transfer)
          else if multiplexer_command_type = 0xe3 then
            Inr (Print ''Modem Status Command'' [] # send_acl (msc_response cid) @ submit_transfer)
          else if multiplexer_command_type = 0xe1 then Inr [Print ''Modem Status Command'' []]
          else Inl (Thrown 1))
      else print_payload b idx payload_length)"

text \<open>
  SABM: an acknowledgement with a computed checksum, and on address \<open>0x0b\<close> a modem status
  command and ten credits.
\<close>

definition rfcomm_sabm :: "u8 \<Rightarrow> u16 \<Rightarrow> effect list res" where
  "rfcomm_sabm address cid =
     andthen (ng_btsocket_rfcomm_fcs3 [address, 0x73, 0x01]) (\<lambda>fcs.
       Inr (send_acl (ua_response cid address fcs)
            @ (if address = 0x0b then send_acl (msc_request cid) @ submit_transfer
                 @ send_acl (credits_frame cid) @ submit_transfer @ submit_transfer
               else [])))"

text \<open>
  The whole handler on a packet of \<open>l2cap_length\<close> bytes at \<open>idx\<close>. The loop that prints the
  packet runs over an \<open>int\<close> index, so it does not wrap.
\<close>

definition process_rfcomm ::
  "bytes \<Rightarrow> u8 \<Rightarrow> u16 \<Rightarrow> channel_pair \<Rightarrow> effect list res" where
  "process_rfcomm b idx l2cap_length cpair =
     andthen (fetch_up b (unat idx) (unat l2cap_length)) (\<lambda>dump.
     andthen (next_byte b idx) (\<lambda>(address, idx).
     andthen (next_byte b idx) (\<lambda>(control_frame_type, idx).
     andthen (next_byte b idx) (\<lambda>(payload_length, idx).
     andthen
       (if control_frame_type = 0xFF then
          andthen (next_byte b idx) (\<lambda>(credits, idx).
          andthen (print_payload b idx payload_length) (\<lambda>es.
            Inr (Print ''Credits'' [uint credits] # es)))
        else if control_frame_type = 0x53 then
          Inr (send_acl (disc_response (source_cid cpair)) @ submit_transfer)
        else if control_frame_type = 0xef then
          rfcomm_uih b idx address payload_length (source_cid cpair)
        else if control_frame_type = 0x3f then rfcomm_sabm address (source_cid cpair)
        else Inl (Thrown 1))
       (\<lambda>es. Inr (Print ''packet'' (map uint dump) # es))))))"

lemmas rfcomm_frame_defs =
  disc_response_def pn_response_def msc_response_def ua_response_def msc_request_def
  credits_frame_def

section \<open>The frames are well formed\<close>

text \<open>
  A frame: address, control field, length (shifted left by one, lowest bit set), a credit
  byte if the control field is \<open>0xff\<close>, the data, and the frame check sequence, over two
  bytes for UIH frames and three for the others.
\<close>

definition rfcomm_frame_ok :: "bytes \<Rightarrow> bool" where
  "rfcomm_frame_ok f \<longleftrightarrow> 4 \<le> length f \<and> odd (unat (f ! 2)) \<and>
     length f = 4 + unat (f ! 2) div 2 + (if f ! 1 = 0xff then 1 else 0) \<and>
     (if f ! 1 = 0xef \<or> f ! 1 = 0xff then ng_btsocket_rfcomm_fcs2 (take 2 f)
      else ng_btsocket_rfcomm_fcs3 (take 3 f)) = Inr (last f)"

definition rfcomm_packet_ok :: "u16 \<Rightarrow> bytes \<Rightarrow> bool" where
  "rfcomm_packet_ok cid p \<longleftrightarrow> acl_lengths_ok p \<and> join16 (p ! 7) (p ! 6) = cid \<and> rfcomm_frame_ok (drop 8 p)"

lemma uih_checksums:
  "ng_btsocket_rfcomm_fcs2 [0x01, 0xef] = Inr 0xaa"
  "ng_btsocket_rfcomm_fcs2 [0x03, 0xef] = Inr 0x70"
  "ng_btsocket_rfcomm_fcs2 [0x09, 0xff] = Inr 0x5c"
  "ng_btsocket_rfcomm_fcs3 [0x0b, 0x73, 0x01] = Inr 0x92"
  by code_simp+

lemma rfcomm_packets_ok [simp]:
  "rfcomm_packet_ok cid (disc_response cid)"
  "rfcomm_packet_ok cid (pn_response cid)"
  "rfcomm_packet_ok cid (msc_response cid)"
  "rfcomm_packet_ok cid (msc_request cid)"
  "rfcomm_packet_ok cid (credits_frame cid)"
  by (simp_all add: rfcomm_packet_ok_def rfcomm_frame_ok_def acl_lengths_ok_def
      rfcomm_frame_defs join16_def [of 0] uih_checksums [simplified])

lemma ua_response_ok:
  "ng_btsocket_rfcomm_fcs3 [a, 0x73, 0x01] = Inr f \<Longrightarrow> rfcomm_packet_ok cid (ua_response cid a f)"
  by (simp add: rfcomm_packet_ok_def rfcomm_frame_ok_def acl_lengths_ok_def
      rfcomm_frame_defs join16_def [of 0])

lemma acls_of_print_payload: "print_payload b idx n = Inr es \<Longrightarrow> acls_of es = []"
  by (auto simp: print_payload_def andthen_eq_Inr)

lemma rfcomm_uih_ok:
  "rfcomm_uih b idx a n cid = Inr es \<Longrightarrow> list_all (rfcomm_packet_ok cid) (acls_of es)"
  by (auto simp: rfcomm_uih_def andthen_eq_Inr acls_of_print_payload split: if_splits)

lemma rfcomm_sabm_ok:
  "rfcomm_sabm a cid = Inr es \<Longrightarrow> list_all (rfcomm_packet_ok cid) (acls_of es)"
  by (auto simp: rfcomm_sabm_def andthen_eq_Inr ua_response_ok)

text \<open>
  C3. Every frame that the RFCOMM server sends is well formed, whatever it answers: the
  ACL and L2CAP lengths are right, it goes to the channel of the peer, its length byte
  counts its data, and its frame check sequence is the one that the checksum routine
  computes, for the constants of the source as for the computed one.
\<close>

theorem rfcomm_frames_well_formed:
  assumes "process_rfcomm b idx l2cap_length cpair = Inr es"
  shows "list_all (rfcomm_packet_ok (source_cid cpair)) (acls_of es)"
  using assms
  by (auto simp: process_rfcomm_def andthen_eq_Inr acls_of_print_payload rfcomm_uih_ok
      rfcomm_sabm_ok split: if_splits)

definition example_pair :: channel_pair where
  "example_pair = \<lparr>source_cid = 0x004e, destination_cid = 0x0042, psm = 3\<rparr>"

lemma rfcomm_frames_well_formed_witness:
  "\<exists>es. process_rfcomm [0x0b, 0x20, 8, 0, 4, 0, 0x42, 0, 0x0b, 0x53, 1, 0xb8] 8 4 example_pair = Inr es \<and>
     acls_of es = [disc_response 0x004e] \<and> list_all (rfcomm_packet_ok 0x004e) (acls_of es)"
proof -
  obtain es where r: "process_rfcomm [0x0b, 0x20, 8, 0, 4, 0, 0x42, 0, 0x0b, 0x53, 1, 0xb8] 8 4 example_pair
      = Inr es" "acls_of es = [disc_response (source_cid example_pair)]"
    by (simp add: process_rfcomm_def next_byte_def fetch_def fetch_up_in_range)
  then show ?thesis using rfcomm_frames_well_formed [OF r(1)] by (simp add: example_pair_def)
qed

section \<open>The answers\<close>

text \<open>The packet at index 8, where the callback has read the headers.\<close>

lemma process_rfcomm_at_8:
  assumes "holds_at b 8 [address, control, n]" and "8 + unat l2cap_length \<le> length b"
  shows "process_rfcomm b 8 l2cap_length cpair =
    andthen
      (if control = 0xFF then
         andthen (next_byte b 11) (\<lambda>(credits, idx).
         andthen (print_payload b idx n) (\<lambda>es. Inr (Print ''Credits'' [uint credits] # es)))
       else if control = 0x53 then Inr (send_acl (disc_response (source_cid cpair)))
       else if control = 0xef then rfcomm_uih b 11 address n (source_cid cpair)
       else if control = 0x3f then rfcomm_sabm address (source_cid cpair)
       else Inl (Thrown 1))
      (\<lambda>es. Inr (Print ''packet'' (map uint (take (unat l2cap_length) (drop 8 b))) # es))"
proof -
  note n = holds_at_fetch [OF assms(1)]
  note at = n [of 0] n [of 1] n [of 2, folded numeral_2_eq_2]
  have "next_byte b 8 = Inr (address, 9)" "next_byte b 9 = Inr (control, 10)"
    "next_byte b 10 = Inr (n, 11)"
    using at [simplified] by (simp_all add: next_byte_def)
  then show ?thesis
    using assms(2) by (simp add: process_rfcomm_def fetch_up_in_range cong: andthen_weak_cong)
qed

text \<open>
  Frames that open and close a connection: a SABM frame is acknowledged on its own
  address with the computed checksum, followed on address \<open>0x0b\<close> by the modem status command
  and the credits; a DISC frame is acknowledged for address \<open>0x0b\<close>, whatever its address; a
  frame of any other type than these and the two UIH types makes the handler throw.
\<close>

lemma rfcomm_acknowledges:
  assumes "holds_at b 8 [address, control, n]" and "8 + unat l2cap_length \<le> length b"
  shows "(control = 0x3f \<longrightarrow> (\<exists>es fcs. process_rfcomm b 8 l2cap_length cpair = Inr es \<and>
      ng_btsocket_rfcomm_fcs3 [address, 0x73, 0x01] = Inr fcs \<and>
      acls_of es = ua_response (source_cid cpair) address fcs #
        (if address = 0x0b then [msc_request (source_cid cpair), credits_frame (source_cid cpair)]
         else []))) \<and>
    (control = 0x53 \<longrightarrow> (\<exists>es. process_rfcomm b 8 l2cap_length cpair = Inr es \<and>
      acls_of es = [disc_response (source_cid cpair)])) \<and>
    (control \<notin> {0xFF, 0x53, 0xef, 0x3f} \<longrightarrow>
      process_rfcomm b 8 l2cap_length cpair = Inl (Thrown 1))"
  using process_rfcomm_at_8 [OF assms, of cpair] by (auto simp: rfcomm_sabm_def)

lemma rfcomm_acknowledges_witness:
  "\<exists>es fcs. process_rfcomm [0x0b, 0x20, 8, 0, 4, 0, 0x42, 0, 0x03, 0x3f, 1, 0x1c] 8 4 example_pair = Inr es \<and>
     ng_btsocket_rfcomm_fcs3 [0x03, 0x73, 0x01] = Inr fcs \<and>
     acls_of es = [ua_response 0x004e 0x03 fcs]"
  using rfcomm_acknowledges [of "[0x0b, 0x20, 8, 0, 4, 0, 0x42, 0, 0x03, 0x3f, 1, 0x1c]" "0x03" "0x3f" 1 4
      example_pair]
  by (simp add: holds_at_def example_pair_def)

section \<open>Data\<close>

lemma length_read_payload: "read_payload b idx n = Inr vs \<Longrightarrow> length vs = n"
  by (induction n arbitrary: idx vs) (auto simp: andthen_eq_Inr)

text \<open>
  The data of a UIH frame is printed with a wrong length: for \<open>n\<close> bytes the frame has the
  length byte \<open>2 * n + 1\<close>, and \<open>2 * n - 5\<close> bytes are printed, the right number only for 0 and
  for 5 bytes.
\<close>

lemma rfcomm_payload_miscounted:
  assumes "holds_at b 8 [address, 0xef, word_of_nat (2 * n + 1)]" and "n < 128" and "address \<noteq> 0x03"
    and "8 + unat l2cap_length \<le> length b" and "process_rfcomm b 8 l2cap_length cpair = Inr es"
  shows "\<exists>vs. Print ''Payload'' vs \<in> set es \<and> length vs = 2 * n - 5 \<and>
    (length vs = n \<longleftrightarrow> n = 0 \<or> n = 5)"
proof -
  define m where "m = (word_of_nat (2 * n + 1) :: u8)"
  have m: "unat m = 2 * n + 1"
    using assms(2) unfolding m_def by (simp only: unat_of_nat len_of_numeral_defs(2)) simp
  have "andthen (rfcomm_uih b 11 address m (source_cid cpair))
      (\<lambda>es. Inr (Print ''packet'' (map uint (take (unat l2cap_length) (drop 8 b))) # es)) = Inr es"
    using process_rfcomm_at_8 [OF assms(1, 4), of cpair] assms(5) by (simp add: m_def)
  then obtain es' where es: "rfcomm_uih b 11 address m (source_cid cpair) = Inr es'" "set es' \<subseteq> set es"
    by (auto simp: andthen_eq_Inr subset_insertI)
  obtain vs where "read_payload b 11 (unat m - 6) = Inr vs" "Print ''Payload'' (map uint vs) \<in> set es'"
    using es(1) assms(3) by (auto simp: rfcomm_uih_def print_payload_def andthen_eq_Inr)
  then show ?thesis
    using es(2) length_read_payload [of b 11 "unat m - 6" vs] m
    by (intro exI [of _ "map uint vs"]) auto
qed

definition two_bytes_frame :: bytes where
  "two_bytes_frame = [0x0b, 0x20, 10, 0, 6, 0, 0x42, 0, 0x0b, 0xef, 5, 0x48, 0x49, 0x40]"

lemma rfcomm_payload_miscounted_witness:
  "\<exists>es vs. process_rfcomm two_bytes_frame 8 6 example_pair = Inr es \<and>
     Print ''Payload'' vs \<in> set es \<and> length vs = 0"
proof -
  obtain es where r: "process_rfcomm two_bytes_frame 8 6 example_pair = Inr es"
    by (simp add: process_rfcomm_def rfcomm_uih_def print_payload_def next_byte_def fetch_def
        fetch_up_in_range two_bytes_frame_def)
  have "holds_at two_bytes_frame 8 [0x0b, 0xef, word_of_nat (2 * 2 + 1)]"
    by (simp add: two_bytes_frame_def holds_at_def)
  from rfcomm_payload_miscounted [OF this _ _ _ r] show ?thesis
    using r by (simp add: two_bytes_frame_def)
qed

end
