(* ===== verification/Acl_Callback.thy ===== *)
theory Acl_Callback
  imports L2cap_Props Rfcomm_Server Sdp_Server Libusb
begin

text \<open>
  Incoming ACL data in \<open>hci_test.cpp\<close>: the SDP channel (\<open>process_sdp\<close>), the callback that
  reads the headers and chooses the channel (\<open>async_acl_callback\<close>), and the part of the event
  callback that negotiates the MTU (\<open>async_callback\<close>).
\<close>

section \<open>The SDP channel\<close>

text \<open>
  The response to a Service Search Attribute Request: all lengths are computed from the
  number \<open>n\<close> of bytes that the serializer created, the upper byte of the ACL length is 0,
  and the packet goes to the channel held in the global variables. The number is 98, so the
  \<open>uint8_t\<close> index into the packet does not wrap.
\<close>

definition sdp_response_packet :: "u8 \<Rightarrow> u8 \<Rightarrow> u16 \<Rightarrow> u8 \<Rightarrow> bytes \<Rightarrow> bytes" where
  "sdp_response_packet scid_lower scid_upper tid n data =
     (let length_of_sdp_packet = 1 + 2 + 2 + 2 + ucast n + 1 :: u16;
          parameter_length = ucast n + 3 :: u16
      in [0x0b, 0x20, low8 (2 + 2 + length_of_sdp_packet), 0x00,
          low8 length_of_sdp_packet, high8 length_of_sdp_packet, scid_lower, scid_upper,
          0x07, high8 tid, low8 tid, high8 parameter_length, low8 parameter_length,
          high8 (ucast n), low8 (ucast n)] @ data @ [0x00])"

text \<open>
  \<open>process_sdp\<close>; \<open>None\<close> if the reader of the request does not return. \<open>wn\<close> and \<open>wn'\<close> are the
  outcomes of the reader's comparisons with indeterminate pointers.
\<close>

definition process_sdp ::
  "bool \<Rightarrow> bool \<Rightarrow> bytes \<Rightarrow> u8 \<Rightarrow> u16 \<Rightarrow> l2cap_state \<Rightarrow> effect list res option" where
  "process_sdp wn wn' b idx l2cap_length s =
     (case andthen (fetch_up b (unat idx) (unat l2cap_length)) (\<lambda>dump.
           andthen (next_byte b idx) (\<lambda>(sdp_pdu, idx). Inr (dump, sdp_pdu, idx)))
      of Inl e \<Rightarrow> Some (Inl e)
       | Inr (dump, sdp_pdu, idx) \<Rightarrow>
           if sdp_pdu = 0x06 then
             map_option (\<lambda>r.
               andthen r (\<lambda>(_, sdp_transaction_id, es).
               andthen (sdpServiceSearchAttributeResponse (replicate 256 0)) (\<lambda>(target, bytes_created).
                 Inr ([Print ''packet'' (map uint dump)] @ es
                      @ [Print ''response'' (map uint (take (unat bytes_created) target))]
                      @ send_acl (sdp_response_packet (l2cap_source_cid_lower s) (l2cap_source_cid_upper s)
                          sdp_transaction_id bytes_created (take (unat bytes_created) target))))))
               (sdpServiceSearchAttributeRequest b idx wn wn')
           else Some (Inr [Print ''packet'' (map uint dump),
                           Print ''Unknown Service Discovery Protocol (SDP) Protocol Data Unit (PDU)'' [uint sdp_pdu]]))"

section \<open>The callback\<close>

text \<open>Channel 1 is the signaling channel, other channels are looked up in the map.\<close>

definition acl_dispatch ::
  "bool \<Rightarrow> bool \<Rightarrow> bytes \<Rightarrow> u8 \<Rightarrow> u16 \<Rightarrow> u16 \<Rightarrow> l2cap_state \<Rightarrow>
     (effect list \<times> l2cap_state) res option" where
  "acl_dispatch wn wn' b idx l2cap_length channel s =
     (if channel = 0x0001 then Some (process_control b idx s)
      else (case channel_map s channel of
          None \<Rightarrow> Some (Inr ([], s))
        | Some cpair \<Rightarrow>
            map_option (\<lambda>r. andthen r (\<lambda>es. Inr (es, s)))
              (if psm cpair = SDP_PSM then process_sdp wn wn' b idx l2cap_length s
               else if psm cpair = RFCOMM_PSM then Some (process_rfcomm b idx l2cap_length cpair)
               else Some (Inr [Print ''Unknown Protocol Service!'' []]))))"

text \<open>The eight bytes of header: handle, total length, L2CAP length, channel.\<close>

definition read_acl_header :: "bytes \<Rightarrow> (u16 \<times> u16 \<times> u16 \<times> u16) res" where
  "read_acl_header b =
     andthen (next_byte b 0) (\<lambda>(h_lower, idx). andthen (next_byte b idx) (\<lambda>(h_upper, idx).
     andthen (next_byte b idx) (\<lambda>(d_lower, idx). andthen (next_byte b idx) (\<lambda>(d_upper, idx).
     andthen (next_byte b idx) (\<lambda>(l_lower, idx). andthen (next_byte b idx) (\<lambda>(l_upper, idx).
     andthen (next_byte b idx) (\<lambda>(c_lower, idx). andthen (next_byte b idx) (\<lambda>(c_upper, idx).
       Inr (join16 h_upper h_lower, join16 d_upper d_lower, join16 l_upper l_lower,
            join16 c_upper c_lower)))))))))"

text \<open>
  \<open>async_acl_callback(transfer)\<close>, for incoming transfers and for the completion of outgoing
  ones alike: the status is not looked at. The packet is logged up to its length modulo
  256, then interpreted from index 0 of the buffer. The nested call of
  \<open>libusb_handle_events_timeout\<close> is not modelled.
\<close>

definition async_acl_callback ::
  "bool \<Rightarrow> bool \<Rightarrow> libusb_transfer \<Rightarrow> int \<Rightarrow> l2cap_state \<Rightarrow>
     (effect list \<times> int \<times> l2cap_state) res option" where
  "async_acl_callback wn wn' t transfer_completed s =
     (case andthen (fetch_up (tbuffer t) 0 (nat (actual_length t))) (\<lambda>raw.
           andthen (if endpoint t \<noteq> 0x00 then
                      andthen (fetch_up (tbuffer t) 0 (unat (word_of_int (actual_length t) :: u8)))
                        (\<lambda>p. Inr [Log_Packet hci_synchronous_data p])
                    else Inr []) (\<lambda>log.
           andthen (read_acl_header (tbuffer t)) (\<lambda>(header, total, l2cap_length, channel).
             Inr ([Print ''transfer_completed'' [transfer_completed + 1], Print ''<<<'' (map uint raw)] @ log
                  @ [Print ''acl_header'' [uint header], Print ''data_total_length'' [uint total],
                     Print ''l2cap_length'' [uint l2cap_length], Print ''l2cap_signaling_channel'' [uint channel]],
                  l2cap_length, channel))))
      of Inl e \<Rightarrow> Some (Inl e)
       | Inr (announce, l2cap_length, channel) \<Rightarrow>
           map_option (\<lambda>r. andthen r (\<lambda>(es, s). Inr (announce @ es, transfer_completed + 1, s)))
             (acl_dispatch wn wn' (tbuffer t) 8 l2cap_length channel s))"

text \<open>One transfer after the other.\<close>

fun acl_run ::
  "bool \<Rightarrow> bool \<Rightarrow> libusb_transfer list \<Rightarrow> int \<Rightarrow> l2cap_state \<Rightarrow>
     (effect list \<times> int \<times> l2cap_state) res option" where
  "acl_run wn wn' [] n s = Some (Inr ([], n, s))"
| "acl_run wn wn' (t # rest) n s =
     (case async_acl_callback wn wn' t n s of
        Some (Inr (es, n, s)) \<Rightarrow>
          map_option (\<lambda>r. andthen r (\<lambda>(es', n, s). Inr (es @ es', n, s))) (acl_run wn wn' rest n s)
      | r \<Rightarrow> r)"

section \<open>The MTU negotiation\<close>

text \<open>
  The end of \<open>async_callback\<close> for a completed transfer: a configure request that was noted
  is answered by a request of our own first, and by the response at the next completed
  transfer. \<open>r\<close> is the result of \<open>usb_send_acl_packet\<close>; a failure is thrown, and what was
  printed before it is not part of the result. The line that
  \<open>print_transfer_status(acl_out_transfer)\<close> prints before the response is left out.
\<close>

definition mtu_request :: "l2cap_state \<Rightarrow> bytes" where
  "mtu_request s =
     [0x0b, 0x20, 0x10, 0x00, 0x0c, 0x00, 0x01, 0x00, 0x04, l2cap_command_identifier s + 1,
      0x08, 0x00, l2cap_source_cid_lower s, l2cap_source_cid_upper s, 0x00, 0x00, 0x01, 0x02, 0x00, 0x04]"

definition mtu_response :: "l2cap_state \<Rightarrow> bytes" where
  "mtu_response s =
     [0x0b, 0x20, 0x12, 0x00, 0x0e, 0x00, 0x01, 0x00, 0x05, mtu_config_request_command_identifier s,
      0x0a, 0x00, l2cap_source_cid_lower s, l2cap_source_cid_upper s, 0x00, 0x00, 0x00, 0x00,
      0x01, 0x02, 0x9b, 0x06]"

definition mtu_lines :: "string \<Rightarrow> effect list" where
  "mtu_lines kind = replicate 5 (Print (''Send Configure '' @ kind @ '' MTU ...'') [])"

lemma effects_of_mtu_lines [simp]:
  "acls_of (mtu_lines k) = []" "cmds_of (mtu_lines k) = []" "resubmits (mtu_lines k) = 0"
  by (simp_all add: mtu_lines_def eval_nat_numeral)

definition mtu_negotiation :: "int \<Rightarrow> l2cap_state \<Rightarrow> (effect list \<times> l2cap_state) res" where
  "mtu_negotiation r s =
     (if mtu_config_request_received s then
        (if r \<noteq> LIBUSB_SUCCESS then Inl (Thrown_Text ''Cannot send ACL packet!'')
         else Inr (mtu_lines ''Request'' @ send_acl (mtu_request s) @ submit_transfer,
                   s\<lparr>mtu_config_request_sent := True, mtu_config_request_received := False\<rparr>))
      else if mtu_config_request_sent s then
        (if r \<noteq> LIBUSB_SUCCESS then Inl (Thrown_Text ''Cannot send ACL packet!'')
         else Inr (mtu_lines ''Response'' @ send_acl (mtu_response s) @ submit_transfer,
                   s\<lparr>mtu_config_request_sent := False, mtu_config_request_command_identifier := 0x00\<rparr>))
      else Inr ([], s))"

end
