(* ===== verification/Acl_Props.thy ===== *)
theory Acl_Props
  imports Acl_Callback
begin

text \<open>
  What the handling of ACL data guarantees, from the callback on: the channels that a peer
  opens, the SDP answer, the MTU negotiation, and where the lengths of the peer are trusted.
\<close>

section \<open>The headers\<close>

definition idle_transfer :: libusb_transfer where
  "idle_transfer = \<lparr>flags = 0, endpoint = 0, ttype = 0, timeout = 0,
     status = LIBUSB_TRANSFER_COMPLETED, tlength = 0, actual_length = 0, callback = [], tbuffer = []\<rparr>"

text \<open>The packet at the start of the buffer of a completed transfer.\<close>

definition received :: "libusb_transfer \<Rightarrow> bytes \<Rightarrow> bool" where
  "received t p \<longleftrightarrow> holds_at (tbuffer t) 0 p \<and> 0 \<le> actual_length t \<and>
     actual_length t \<le> int (length (tbuffer t))"

lemma unat_length_byte: "0 \<le> a \<Longrightarrow> unat (word_of_int a :: u8) \<le> nat a"
  by (simp add: unsigned_of_int take_bit_eq_mod zmod_le_nonneg_dividend nat_mono)

lemma acl_callback_header:
  assumes "received t ([h0, h1, d0, d1, l0, l1, c0, c1] @ body)"
  shows "\<exists>a. acls_of a = [] \<and> cmds_of a = [] \<and> async_acl_callback wn wn' t n s =
    map_option (\<lambda>r. andthen r (\<lambda>(es, s). Inr (a @ es, n + 1, s)))
      (acl_dispatch wn wn' (tbuffer t) 8 (join16 l1 l0) (join16 c1 c0) s)"
proof -
  have len: "0 \<le> actual_length t" "actual_length t \<le> int (length (tbuffer t))"
    and "holds_at (tbuffer t) 0 [h0, h1, d0, d1, l0, l1, c0, c1]"
    using assms unfolding received_def holds_at_append by blast+
  note n = holds_at_fetch [OF this(3)]
  note at = n [of 0] n [of 1] n [of 2] n [of 3] n [of 4] n [of 5] n [of 6] n [of 7]
  have h: "read_acl_header (tbuffer t) = Inr (join16 h1 h0, join16 d1 d0, join16 l1 l0, join16 c1 c0)"
    using at [simplified, folded numeral_2_eq_2]
    by (simp add: read_acl_header_def next_byte_def cong: andthen_weak_cong)
  have raw: "fetch_up (tbuffer t) 0 (nat (actual_length t)) = Inr (take (nat (actual_length t)) (tbuffer t))"
    using len by (simp add: fetch_up_in_range nat_le_iff)
  have "unat (word_of_int (actual_length t) :: u8) \<le> length (tbuffer t)"
    using unat_length_byte [OF len(1)] len by linarith
  then have "\<exists>log. acls_of log = [] \<and> cmds_of log = [] \<and>
      (if endpoint t \<noteq> 0x00 then
         andthen (fetch_up (tbuffer t) 0 (unat (word_of_int (actual_length t) :: u8)))
           (\<lambda>p. Inr [Log_Packet hci_synchronous_data p])
       else Inr []) = Inr log"
    by (simp add: fetch_up_in_range)
  then obtain log where log: "acls_of log = []" "cmds_of log = []"
    "(if endpoint t \<noteq> 0x00 then
         andthen (fetch_up (tbuffer t) 0 (unat (word_of_int (actual_length t) :: u8)))
           (\<lambda>p. Inr [Log_Packet hci_synchronous_data p])
       else Inr []) = Inr log"
    by blast
  define a where "a = [Print ''transfer_completed'' [n + 1],
      Print ''<<<'' (map uint (take (nat (actual_length t)) (tbuffer t)))] @ log
      @ [Print ''acl_header'' [uint (join16 h1 h0)], Print ''data_total_length'' [uint (join16 d1 d0)],
         Print ''l2cap_length'' [uint (join16 l1 l0)],
         Print ''l2cap_signaling_channel'' [uint (join16 c1 c0)]]"
  have "acls_of a = []" "cmds_of a = []" using log by (simp_all add: a_def)
  moreover have "async_acl_callback wn wn' t n s =
    map_option (\<lambda>r. andthen r (\<lambda>(es, s). Inr (a @ es, n + 1, s)))
      (acl_dispatch wn wn' (tbuffer t) 8 (join16 l1 l0) (join16 c1 c0) s)"
    by (simp only: async_acl_callback_def raw log(3) h andthen.simps prod.case sum.case a_def)
  ultimately show ?thesis by blast
qed

section \<open>Opening channels\<close>

lemma received_body: "received t (h @ body) \<Longrightarrow> length h = k \<Longrightarrow> holds_at (tbuffer t) k body"
  unfolding received_def holds_at_append by auto

lemma callback_connection_request:
  assumes "received t (connection_request_packet (i, p, c))"
  shows "\<exists>es. async_acl_callback wn wn' t n s = Some (Inr (es, n + 1, open_channel (i, p, c) s)) \<and>
    cmds_of es = [] \<and>
    acls_of es = [connection_response i (next_destination_channel_id s + 1) (low8 c) (high8 c)]"
proof -
  have rec: "received t ([0x0b, 0x20, 0x0c, 0x00, 0x08, 0x00, 0x01, 0x00]
      @ drop 8 (connection_request_packet (i, p, c)))"
    using assms by simp
  obtain a where a: "acls_of a = []" "cmds_of a = []" "async_acl_callback wn wn' t n s =
      map_option (\<lambda>r. andthen r (\<lambda>(es, s). Inr (a @ es, n + 1, s)))
        (acl_dispatch wn wn' (tbuffer t) 8 (join16 0 8) (join16 0 1) s)"
    using acl_callback_header [OF rec] by blast
  have "holds_at (tbuffer t) 8 (drop 8 (connection_request_packet (i, p, c)))"
    by (rule received_body [OF rec]) simp
  from process_connection_request [OF this, of s] a show ?thesis
    by (auto simp: acl_dispatch_def join16_def)
qed

fun channel_answers :: "(u8 \<times> u16 \<times> u16) list \<Rightarrow> u16 \<Rightarrow> bytes list" where
  "channel_answers [] n = []"
| "channel_answers ((i, p, c) # rs) n =
     connection_response i (n + 1) (low8 c) (high8 c) # channel_answers rs (n + 1)"

lemma nth_channel_answers:
  "k < length rs \<Longrightarrow> rs ! k = (i, p, c) \<Longrightarrow>
     channel_answers rs n ! k = connection_response i (n + word_of_nat (Suc k)) (low8 c) (high8 c)"
proof (induction rs n arbitrary: k rule: channel_answers.induct)
  case (2 i' p' c' rs n)
  then show ?case by (cases k) (auto simp: ac_simps)
qed simp

lemma acl_run_connection_requests:
  assumes "list_all2 (\<lambda>t r. received t (connection_request_packet r)) xs rs"
  shows "\<exists>es m. acl_run wn wn' xs n s = Some (Inr (es, m, fold open_channel rs s)) \<and>
    acls_of es = channel_answers rs (next_destination_channel_id s)"
  using assms
proof (induction xs rs arbitrary: n s rule: list_all2_induct)
  case (Cons t xs r rs)
  obtain i p c where r: "r = (i, p, c)" by (metis surj_pair)
  obtain es where es: "async_acl_callback wn wn' t n s = Some (Inr (es, n + 1, open_channel r s))"
    "acls_of es = [connection_response i (next_destination_channel_id s + 1) (low8 c) (high8 c)]"
    using callback_connection_request [of t i p c wn wn' n s] Cons.hyps(1) r by auto
  have "next_destination_channel_id (open_channel r s) = next_destination_channel_id s + 1"
    by (simp add: r Let_def)
  with Cons.IH [of "n + 1" "open_channel r s"] es show ?case by (auto simp: r)
qed simp

text \<open>
  C2. The channels follow the requests of the peer: after any sequence of up to 65535
  connection requests, the \<open>k\<close>-th one has got the channel \<open>0x40 + k\<close>, entered in the map with
  the protocol and the source channel of that request, and its response, the \<open>k\<close>-th packet
  sent, returns the identifier and the source channel of the request.
\<close>

theorem channels_follow_requests:
  assumes "list_all2 (\<lambda>t r. received t (connection_request_packet r)) xs rs"
    and "length rs \<le> 65535" and "k < length rs" and "rs ! k = (i, p, c)"
  shows "\<exists>es m s. acl_run wn wn' xs n l2cap_init = Some (Inr (es, m, s)) \<and> channels_ok s \<and>
    channel_map s (channel_id (Suc k)) =
      Some \<lparr>source_cid = c, destination_cid = channel_id (Suc k), psm = p\<rparr> \<and>
    length (acls_of es) = length rs \<and>
    acls_of es ! k = connection_response i (word_of_nat (Suc k)) (low8 c) (high8 c)"
proof -
  have len: "length (channel_answers qs m) = length qs" for qs m
    by (induction qs m rule: channel_answers.induct) auto
  obtain es m where run: "acl_run wn wn' xs n l2cap_init = Some (Inr (es, m, fold open_channel rs l2cap_init))"
    "acls_of es = channel_answers rs 0"
    using acl_run_connection_requests [OF assms(1), of wn wn' n l2cap_init] by (auto simp: l2cap_init_def)
  have cap: "unat (next_destination_channel_id l2cap_init) + length rs \<le> 65535"
    using assms(2) by (simp add: l2cap_init_def)
  have "channel_map (fold open_channel rs l2cap_init) (channel_id (Suc k)) =
      Some \<lparr>source_cid = c, destination_cid = channel_id (Suc k), psm = p\<rparr>"
    using channels.table_fold [OF channels_ok_init cap assms(3)] assms(4) by (simp add: l2cap_init_def)
  moreover have "channels_ok (fold open_channel rs l2cap_init)"
    using channels.opened_fold [OF channels_ok_init cap] by blast
  ultimately show ?thesis
    using run nth_channel_answers [OF assms(3, 4), of 0] len [of rs 0] by auto
qed

text \<open>
  The number of a channel does not fit its place in the response: the response carries
  the low byte of the number and a zero, so the peer learns the number under which the
  channel is in the map if and only if the number is below 256, that is for the first 191
  channels.
\<close>

lemma channel_number_on_wire:
  "join16 (connection_response i n l u ! 13) (connection_response i n l u ! 12) = 0x40 + n \<longleftrightarrow>
     unat (0x40 + n) < 256"
proof -
  have "join16 0 (low8 x) = x \<longleftrightarrow> unat x < 256" for x
  proof -
    have "join16 0 (low8 x) = x \<longleftrightarrow> unat (join16 0 (low8 x)) = unat x"
      by (auto intro: unsigned_word_eqI)
    also have "\<dots> \<longleftrightarrow> unat x mod 256 = unat x" by (simp add: unat_join16 unat_low8)
    finally show ?thesis by (metis mod_less mod_less_divisor zero_less_numeral)
  qed
  then show ?thesis by (simp add: connection_response_def)
qed

definition incoming :: "bytes \<Rightarrow> libusb_transfer" where
  "incoming p = idle_transfer\<lparr>endpoint := 0x82, actual_length := int (length p), tbuffer := p\<rparr>"

lemma received_incoming [simp]: "received (incoming p) p"
  by (simp add: received_def incoming_def idle_transfer_def holds_at_def)

lemma channels_follow_requests_witness:
  "\<exists>es m s. acl_run True True [incoming (connection_request_packet (5, 1, 0x45)),
       incoming (connection_request_packet (6, 3, 0x46))] 0 l2cap_init = Some (Inr (es, m, s)) \<and>
     channel_map s 0x42 = Some \<lparr>source_cid = 0x46, destination_cid = 0x42, psm = 3\<rparr> \<and>
     acls_of es ! 1 = connection_response 6 2 0x46 0"
proof -
  have "list_all2 (\<lambda>t r. received t (connection_request_packet r))
      [incoming (connection_request_packet (5, 1, 0x45)), incoming (connection_request_packet (6, 3, 0x46))]
      [(5, 1, 0x45), (6, 3, 0x46)]"
    by (simp del: connection_request_packet.simps)
  from channels_follow_requests [OF this, of 1 6 3 "0x46" True True 0] show ?thesis
    by (auto simp: channel_id_def low8_def high8_def)
qed

section \<open>Other channels\<close>

text \<open>
  A packet on a channel that is not in the map is ignored: nothing is sent and no
  variable but the transfer counter changes.
\<close>

lemma acl_unknown_channel_ignored:
  assumes "received t ([h0, h1, d0, d1, l0, l1, c0, c1] @ body)"
    and "join16 c1 c0 \<noteq> 0x0001" and "channel_map s (join16 c1 c0) = None"
  shows "\<exists>es. async_acl_callback wn wn' t n s = Some (Inr (es, n + 1, s)) \<and>
    acls_of es = [] \<and> cmds_of es = []"
  using acl_callback_header [OF assms(1), of wn wn' n s] assms(2, 3) by (auto simp: acl_dispatch_def)

lemma acl_unknown_channel_example:
  "\<exists>es. async_acl_callback True True (incoming [0x0b, 0x20, 5, 0, 1, 0, 0xcc, 0, 7]) 9 l2cap_init =
     Some (Inr (es, 10, l2cap_init)) \<and> acls_of es = [] \<and> cmds_of es = []"
proof -
  have "received (incoming [0x0b, 0x20, 5, 0, 1, 0, 0xcc, 0, 7]) ([0x0b, 0x20, 5, 0, 1, 0, 0xcc, 0] @ [7])"
    by simp
  from acl_unknown_channel_ignored [OF this, of l2cap_init True True 9] show ?thesis
    by (simp add: join16_def l2cap_init_def)
qed

text \<open>
  On an open SDP or RFCOMM channel the L2CAP length of the peer is trusted: if it
  announces more bytes than the buffer has after the headers, the handler reads outside the
  buffer.
\<close>

lemma l2cap_length_unchecked:
  assumes "received t ([h0, h1, d0, d1, l0, l1, c0, c1] @ body)"
    and "join16 c1 c0 \<noteq> 0x0001" and "channel_map s (join16 c1 c0) = Some cpair"
    and "psm cpair = SDP_PSM \<or> psm cpair = RFCOMM_PSM"
    and "length (tbuffer t) < 8 + unat (join16 l1 l0)"
  shows "async_acl_callback wn wn' t n s = Some (Inl Out_Of_Bounds)"
proof -
  have "fetch_up (tbuffer t) 8 (unat (join16 l1 l0)) = Inl Out_Of_Bounds"
    by (rule fetch_up_too_far [OF assms(5)])
      (use assms(1, 5) in \<open>auto simp: received_def holds_at_def\<close>)
  then show ?thesis
    using acl_callback_header [OF assms(1), of wn wn' n s] assms(2-4)
    by (auto simp: acl_dispatch_def process_sdp_def process_rfcomm_def)
qed

definition one_channel :: "u16 \<Rightarrow> l2cap_state" where
  "one_channel p = open_channel (5, p, 0x45) l2cap_init"

lemma one_channel_map [simp]:
  "channel_map (one_channel p) 0x41 = Some \<lparr>source_cid = 0x45, destination_cid = 0x41, psm = p\<rparr>"
  by (simp add: one_channel_def l2cap_init_def insert_channel_def Let_def)

lemma l2cap_length_unchecked_witness:
  "async_acl_callback True True (incoming [0x0b, 0x20, 5, 0, 0xff, 0, 0x41, 0, 7]) 9 (one_channel 3) =
     Some (Inl Out_Of_Bounds)"
proof -
  have "received (incoming [0x0b, 0x20, 5, 0, 0xff, 0, 0x41, 0, 7])
      ([0x0b, 0x20, 5, 0, 0xff, 0, 0x41, 0] @ [7])"
    by simp
  from l2cap_length_unchecked [OF this, of "one_channel 3"] show ?thesis
    by (simp add: join16_def RFCOMM_PSM_def incoming_def)
qed

section \<open>The SDP answer\<close>

lemma sdp_packet_of_record:
  "sdp_response_packet lo hi (join16 t1 t0) 98 service_record_bytes =
     [0x0b, 0x20, 110, 0, 106, 0, lo, hi, 0x07, t1, t0, 0, 101, 0, 98] @ service_record_bytes @ [0]"
  by (simp add: sdp_response_packet_def low8_def [of "numeral w" for w] high8_def [of "numeral w" for w])

text \<open>
  C20. A Service Search Attribute Request for one UUID on an SDP channel is answered with one
  packet: the transaction id of the request, the service record of 98 bytes, no
  continuation, and right lengths on all three levels. The packet goes to the channel in
  the global variables, the source channel of the last connection or disconnect request,
  not to the source channel of the channel on which the request came.
\<close>

theorem sdp_request_answered:
  assumes "received t ([h0, h1, d0, d1, l0, l1, c0, c1] @ 0x06 #
      [t1, t0, p1, p0, 0x35, 3, 0x19, u1, u0, m1, m0, 0x35, 5, 0x0a, a, b, c, d])"
    and "join16 c1 c0 \<noteq> 0x0001" and "channel_map s (join16 c1 c0) = Some cpair"
    and "psm cpair = SDP_PSM" and "8 + unat (join16 l1 l0) \<le> length (tbuffer t)"
  shows "\<exists>es q. async_acl_callback wn wn' t n s = Some (Inr (es, n + 1, s)) \<and> acls_of es = [q] \<and>
    acl_lengths_ok q \<and> take 2 (drop 6 q) = [l2cap_source_cid_lower s, l2cap_source_cid_upper s] \<and>
    drop 8 q = [0x07, t1, t0, 0, 101, 0, 98] @ service_record_bytes @ [0]"
proof -
  have body: "holds_at (tbuffer t) 8 (0x06 #
      [t1, t0, p1, p0, 0x35, 3, 0x19, u1, u0, m1, m0, 0x35, 5, 0x0a, a, b, c, d])"
    by (rule received_body [OF assms(1)]) simp
  then have pdu: "next_byte (tbuffer t) 8 = Inr (0x06, 9)"
    and rest: "holds_at (tbuffer t) 9 [t1, t0, p1, p0, 0x35, 3, 0x19, u1, u0, m1, m0, 0x35, 5, 0x0a, a, b, c, d]"
    by (simp_all add: holds_at_Cons next_byte_def fetch_def)
  obtain es where req: "sdpServiceSearchAttributeRequest (tbuffer t) 9 wn wn' = Some (Inr (27, join16 t1 t0, es))"
    "acls_of es = []"
    using sdp_request_read [OF rest, of wn wn'] by simp
  have resp: "sdpServiceSearchAttributeResponse (replicate 256 0) =
      Inr (service_record_bytes @ drop 98 (replicate 256 0), 98)"
    by (rule sdp_response_is_record) simp
  define q where "q = sdp_response_packet (l2cap_source_cid_lower s) (l2cap_source_cid_upper s)
      (join16 t1 t0) 98 service_record_bytes"
  have "\<exists>es. process_sdp wn wn' (tbuffer t) 8 (join16 l1 l0) s = Some (Inr es) \<and> acls_of es = [q]"
    using assms(5) pdu req resp by (simp add: process_sdp_def fetch_up_in_range q_def)
  moreover have "acl_lengths_ok q \<and>
      take 2 (drop 6 q) = [l2cap_source_cid_lower s, l2cap_source_cid_upper s] \<and>
      drop 8 q = [0x07, t1, t0, 0, 101, 0, 98] @ service_record_bytes @ [0]"
    unfolding q_def sdp_packet_of_record by (simp add: acl_lengths_ok_def join16_def [of 0])
  ultimately show ?thesis
    using acl_callback_header [OF assms(1), of wn wn' n s] assms(2-4) by (auto simp: acl_dispatch_def)
qed

text \<open>The request on channel 0x41, after a second channel was opened by the same peer.\<close>

definition sdp_request_example :: bytes where
  "sdp_request_example = [0x0b, 0x20, 0x18, 0, 0x14, 0, 0x41, 0] @ 0x06 #
     [0, 1, 0, 0x0f, 0x35, 3, 0x19, 0x11, 0x01, 0xff, 0xff, 0x35, 5, 0x0a, 0, 0, 0xff, 0xff, 0]"

definition two_channels :: l2cap_state where
  "two_channels = open_channel (6, 3, 0x46) (one_channel 1)"

lemma two_channels_map:
  "channel_map two_channels 0x41 = Some \<lparr>source_cid = 0x45, destination_cid = 0x41, psm = 1\<rparr>"
  by (simp add: two_channels_def one_channel_def l2cap_init_def insert_channel_def Let_def)

lemma sdp_request_answered_witness:
  "\<exists>es q. async_acl_callback True True (incoming sdp_request_example) 9 two_channels =
       Some (Inr (es, 10, two_channels)) \<and> acls_of es = [q] \<and> take 2 (drop 6 q) = [0x46, 0] \<and>
     acl_lengths_ok q"
proof -
  have rec: "received (incoming sdp_request_example) ([0x0b, 0x20, 0x18, 0, 0x14, 0, 0x41, 0] @ 0x06 #
     [0, 1, 0, 0x0f, 0x35, 3, 0x19, 0x11, 0x01, 0xff, 0xff, 0x35, 5, 0x0a, 0, 0, 0xff, 0xff])"
    by (simp add: received_def incoming_def idle_transfer_def holds_at_def sdp_request_example_def)
  have "l2cap_source_cid_lower two_channels = 0x46" "l2cap_source_cid_upper two_channels = 0"
    by (simp_all add: two_channels_def low8_def high8_def Let_def)
  then show ?thesis
    using sdp_request_answered [OF rec, of two_channels _ True True 9] two_channels_map
    by (auto simp: join16_def SDP_PSM_def incoming_def sdp_request_example_def)
qed

section \<open>The MTU negotiation\<close>

lemma mtu_packets_ok:
  "signal_lengths_ok (mtu_request s)" "signal_lengths_ok (mtu_response s)"
  "mtu_request s ! 8 = 0x04" "mtu_request s ! 9 = l2cap_command_identifier s + 1"
  "mtu_response s ! 8 = 0x05" "mtu_response s ! 9 = mtu_config_request_command_identifier s"
  by (simp_all add: mtu_request_def mtu_response_def signal_lengths_ok_def acl_lengths_ok_def
      join16_def [of 0])

text \<open>What the signaling commands do to the variables of the negotiation.\<close>

lemma control_mtu:
  assumes "process_control b idx s = Inr (es, s')"
  shows "mtu_config_request_sent s' = mtu_config_request_sent s \<and>
    (if b ! unat idx = 0x04
     then mtu_config_request_received s' \<and>
       mtu_config_request_command_identifier s' = b ! unat (idx + 1) \<and>
       l2cap_command_identifier s' = b ! unat (idx + 1)
     else mtu_config_request_received s' = mtu_config_request_received s \<and>
       mtu_config_request_command_identifier s' = mtu_config_request_command_identifier s)"
proof -
  obtain es' where "control_command (b ! unat idx) b (idx + 4)
      (s\<lparr>l2cap_command_identifier := b ! unat (idx + 1)\<rparr>) = Inr (es', s')"
    using process_controlE [OF assms] by blast
  then show ?thesis
    by (auto simp: control_command_def control_defs andthen_eq_Inr Let_def split: if_splits)
qed

text \<open>
  The negotiation with one other signaling command, not a configure request, in between: at
  the next completed transfer a configure request of our own is sent, with the identifier
  after that of the peer, and at the one after it the configure response with the identifier
  of the peer; then nothing is pending any more.
\<close>

lemma mtu_negotiated:
  assumes "process_control b idx s = Inr (es, s0)" and "b ! unat idx = 0x04"
    and "mtu_negotiation LIBUSB_SUCCESS s0 = Inr (es1, s1)"
    and "process_control b' idx' s1 = Inr (es', s2)" and "b' ! unat idx' \<noteq> 0x04"
  shows "\<exists>p q es2 s3. acls_of es1 = [p] \<and> signal_lengths_ok p \<and> p ! 8 = 0x04 \<and>
      p ! 9 = b ! unat (idx + 1) + 1 \<and>
    mtu_negotiation LIBUSB_SUCCESS s2 = Inr (es2, s3) \<and> acls_of es2 = [q] \<and> signal_lengths_ok q \<and>
      q ! 8 = 0x05 \<and> q ! 9 = b ! unat (idx + 1) \<and>
    mtu_negotiation r s3 = Inr ([], s3)"
proof -
  have s0: "mtu_config_request_received s0" "l2cap_command_identifier s0 = b ! unat (idx + 1)"
    "mtu_config_request_command_identifier s0 = b ! unat (idx + 1)"
    using control_mtu [OF assms(1)] assms(2) by simp_all
  have s1: "acls_of es1 = [mtu_request s0]" "mtu_config_request_sent s1" "\<not> mtu_config_request_received s1"
    "mtu_config_request_command_identifier s1 = b ! unat (idx + 1)"
    using assms(3) s0 by (auto simp: mtu_negotiation_def)
  have s2: "mtu_config_request_sent s2" "\<not> mtu_config_request_received s2"
    "mtu_config_request_command_identifier s2 = b ! unat (idx + 1)"
    using control_mtu [OF assms(4)] assms(5) s1 by simp_all
  then show ?thesis using s0 s1(1) by (simp add: mtu_negotiation_def mtu_packets_ok)
qed

text \<open>
  The callback of ACL transfers does not tell the completion of an outgoing transfer
  from an incoming one. If the buffer still holds the configure request that was sent, its
  completion counts as a configure request of the peer: the identifier of the peer's
  request is replaced by our own, and instead of the response another request is sent.
\<close>

lemma own_request_taken_for_peers:
  assumes "mtu_config_request_received s" and "mtu_negotiation LIBUSB_SUCCESS s = Inr (es, s1)"
    and "received t (mtu_request s)"
  shows "\<exists>es1 s2 es2 s3. async_acl_callback wn wn' t n s1 = Some (Inr (es1, n + 1, s2)) \<and>
    mtu_config_request_command_identifier s2 = l2cap_command_identifier s + 1 \<and>
    mtu_config_request_received s2 \<and> l2cap_command_identifier s2 = l2cap_command_identifier s + 1 \<and>
    mtu_negotiation LIBUSB_SUCCESS s2 = Inr (es2, s3) \<and> acls_of es2 = [mtu_request s2] \<and>
    mtu_request s2 ! 9 = l2cap_command_identifier s + 2"
proof -
  define body where "body = [0x04, l2cap_command_identifier s + 1, 0x08, 0x00,
      l2cap_source_cid_lower s, l2cap_source_cid_upper s, 0x00, 0x00, 0x01, 0x02, 0x00, 0x04]"
  have rec: "received t ([0x0b, 0x20, 0x10, 0x00, 0x0c, 0x00, 0x01, 0x00] @ body)"
    using assms(3) by (simp add: mtu_request_def body_def)
  have "holds_at (tbuffer t) 8 body" by (rule received_body [OF rec]) simp
  note n = holds_at_fetch [OF this]
  note at = n [of 0] n [of 1] n [of 2] n [of 3] n [of 10] n [of 11]
  define s2 where "s2 = s1\<lparr>l2cap_command_identifier := l2cap_command_identifier s + 1,
      mtu_config_request_received := True,
      mtu_config_request_command_identifier := l2cap_command_identifier s + 1\<rparr>"
  have "\<exists>es. process_control (tbuffer t) 8 s1 = Inr (es, s2)"
    using at [simplified body_def, simplified, folded numeral_2_eq_2]
    by (simp add: process_control_def control_command_def control_configure_request_def
        next_byte_def s2_def cong: andthen_weak_cong)
  then have "\<exists>es1. async_acl_callback wn wn' t n s1 = Some (Inr (es1, n + 1, s2))"
    using acl_callback_header [OF rec, of wn wn' n s1] by (auto simp: acl_dispatch_def join16_def)
  moreover have "mtu_negotiation LIBUSB_SUCCESS s2 = Inr (mtu_lines ''Request'' @ send_acl (mtu_request s2),
      s2\<lparr>mtu_config_request_sent := True, mtu_config_request_received := False\<rparr>)"
    by (simp add: mtu_negotiation_def s2_def)
  ultimately show ?thesis by (auto simp: mtu_packets_ok s2_def)
qed

definition configure_request_example :: bytes where
  "configure_request_example =
     [0x0b, 0x20, 0x10, 0, 12, 0, 1, 0, 4, 7, 8, 0, 0x41, 0, 0, 0, 1, 2, 0x9b, 6]"

definition configured :: l2cap_state where
  "configured = (one_channel 1)\<lparr>l2cap_command_identifier := 7, mtu_config_request_received := True,
     mtu_config_request_command_identifier := 7\<rparr>"

definition requested :: l2cap_state where
  "requested = configured\<lparr>mtu_config_request_sent := True, mtu_config_request_received := False\<rparr>"

lemma mtu_example:
  "\<exists>es. process_control configure_request_example 8 (one_channel 1) = Inr (es, configured)"
  "mtu_negotiation LIBUSB_SUCCESS configured =
     Inr (mtu_lines ''Request'' @ send_acl (mtu_request configured), requested)"
  "\<exists>es. process_control information_request_example 8 requested = Inr (es, requested)"
  by (simp_all add: process_control_def control_command_def control_configure_request_def
      control_information_request_def next_byte_def fetch_def configure_request_example_def
      information_request_example_def configured_def requested_def mtu_negotiation_def Let_def
      join16_def)

lemma mtu_negotiated_witness:
  "\<exists>q es s. mtu_negotiation LIBUSB_SUCCESS requested = Inr (es, s) \<and> acls_of es = [q] \<and>
     q ! 8 = 0x05 \<and> q ! 9 = 7 \<and> mtu_negotiation 0 s = Inr ([], s)"
proof -
  obtain es es' where e: "process_control configure_request_example 8 (one_channel 1) = Inr (es, configured)"
    "process_control information_request_example 8 requested = Inr (es', requested)"
    using mtu_example by blast
  show ?thesis
    using mtu_negotiated [OF e(1) _ mtu_example(2) e(2), of 0]
    by (auto simp: configure_request_example_def information_request_example_def)
qed

lemma own_request_taken_for_peers_witness:
  "\<exists>es s. async_acl_callback True True (incoming (mtu_request configured)) 9 requested =
       Some (Inr (es, 10, s)) \<and> mtu_config_request_command_identifier s = 8"
  using own_request_taken_for_peers [of configured _ requested "incoming (mtu_request configured)" True True 9]
    mtu_example(2)
  by (auto simp: configured_def)

end
