(* ===== verification/Mtu_Negotiation.thy ===== *)
theory Mtu_Negotiation
  imports Acl_Props
begin

text \<open>
  The negotiation of the MTU as a whole. It is spread over both callbacks of \<open>hci_test.cpp\<close>: the
  signaling packets set flags (\<open>process_control\<close>), the completed transfers of the other
  callback send the packets (\<open>mtu_negotiation\<close>). Together they are proved to be an automaton of
  three phases, for every sequence of signaling packets and completed transfers; and what the
  automaton does when the callback takes the own configure request for one of the peer.
\<close>

section \<open>The code\<close>

text \<open>
  What happens: a signaling packet, with its index in the buffer, or a completed transfer, with
  the result of sending a packet.
\<close>

datatype mtu_input = Signal bytes u8 | Completed int

text \<open>
  The packets that the completed transfers send, in order, and the state afterwards; the answers
  that \<open>process_control\<close> sends to other signaling requests are not listed here.
\<close>

fun negotiate :: "mtu_input list \<Rightarrow> l2cap_state \<Rightarrow> (bytes list \<times> l2cap_state) res" where
  "negotiate [] s = Inr ([], s)"
| "negotiate (Signal b idx # xs) s =
     andthen (process_control b idx s) (\<lambda>(es, s). negotiate xs s)"
| "negotiate (Completed r # xs) s =
     andthen (mtu_negotiation r s) (\<lambda>(es, s).
     andthen (negotiate xs s) (\<lambda>(ps, s). Inr (acls_of es @ ps, s)))"

section \<open>The automaton\<close>

text \<open>
  Nothing is pending; a configure request of the peer, with this identifier, has arrived; our
  own request was sent.
\<close>

datatype mtu_phase = Quiet | Wanted u8 | Requested u8

text \<open>
  The packets by code and identifier; \<open>k\<close> is the identifier of the last signaling packet. A
  configure request (0x04) starts the negotiation, in every phase. A completed transfer sends
  the own request, with the identifier after \<open>k\<close>, or the response (0x05) to the request of the
  peer.
\<close>

fun mtu_automaton ::
  "mtu_input list \<Rightarrow> mtu_phase \<Rightarrow> u8 \<Rightarrow> (u8 \<times> u8) list \<times> mtu_phase" where
  "mtu_automaton [] ph k = ([], ph)"
| "mtu_automaton (Signal b idx # xs) ph k =
     (let k = b ! unat (idx + 1) in mtu_automaton xs (if b ! unat idx = 0x04 then Wanted k else ph) k)"
| "mtu_automaton (Completed r # xs) ph k =
     (case ph of
        Quiet \<Rightarrow> mtu_automaton xs Quiet k
      | Wanted i \<Rightarrow> apfst (Cons (0x04, k + 1)) (mtu_automaton xs (Requested i) k)
      | Requested i \<Rightarrow> apfst (Cons (0x05, i)) (mtu_automaton xs Quiet k))"

text \<open>The phase of a state of the code.\<close>

definition phase_of :: "l2cap_state \<Rightarrow> mtu_phase" where
  "phase_of s =
     (if mtu_config_request_received s then Wanted (mtu_config_request_command_identifier s)
      else if mtu_config_request_sent s then Requested (mtu_config_request_command_identifier s)
      else Quiet)"

section \<open>The code is the automaton\<close>

lemma control_phase:
  assumes "process_control b idx s = Inr (es, s')"
  shows "phase_of s' = (if b ! unat idx = 0x04 then Wanted (b ! unat (idx + 1)) else phase_of s)"
    and "l2cap_command_identifier s' = b ! unat (idx + 1)"
proof -
  show "phase_of s' = (if b ! unat idx = 0x04 then Wanted (b ! unat (idx + 1)) else phase_of s)"
    using control_mtu [OF assms] by (auto simp: phase_of_def split: if_splits)
  obtain es' where "control_command (b ! unat idx) b (idx + 4)
      (s\<lparr>l2cap_command_identifier := b ! unat (idx + 1)\<rparr>) = Inr (es', s')"
    using process_controlE [OF assms] by blast
  then show "l2cap_command_identifier s' = b ! unat (idx + 1)"
    by (auto simp: control_command_def control_defs andthen_eq_Inr Let_def split: if_splits)
qed

text \<open>A completed transfer: what is sent, what is next, and when a failure is thrown.\<close>

lemma negotiation_phase:
  assumes "mtu_negotiation r s = Inr (es, s')"
  shows "l2cap_command_identifier s' = l2cap_command_identifier s"
    and "case phase_of s of
        Quiet \<Rightarrow> acls_of es = [] \<and> phase_of s' = Quiet
      | Wanted i \<Rightarrow> acls_of es = [mtu_request s] \<and> phase_of s' = Requested i
      | Requested i \<Rightarrow> acls_of es = [mtu_response s] \<and> phase_of s' = Quiet \<and>
          mtu_config_request_command_identifier s = i"
  using assms by (auto simp: mtu_negotiation_def phase_of_def split: if_splits)

lemma negotiation_throws:
  "mtu_negotiation r s = Inl e \<longleftrightarrow>
     r \<noteq> LIBUSB_SUCCESS \<and> phase_of s \<noteq> Quiet \<and> e = Thrown_Text ''Cannot send ACL packet!''"
  by (auto simp: mtu_negotiation_def phase_of_def)

lemma negotiate_append:
  "negotiate xs s = Inr (ps, s') \<Longrightarrow>
    negotiate (xs @ ys) s = andthen (negotiate ys s') (\<lambda>(qs, s). Inr (ps @ qs, s))"
proof (induction xs s arbitrary: ps rule: negotiate.induct)
  case (1 s)
  then show ?case by (cases "negotiate ys s'") auto
next
  case (2 b idx xs s)
  then show ?case by (auto simp: andthen_eq_Inr)
next
  case (3 r xs s)
  then obtain es s1 qs where one: "mtu_negotiation r s = Inr (es, s1)" "negotiate xs s1 = Inr (qs, s')"
    "ps = acls_of es @ qs"
    by (auto simp: andthen_eq_Inr)
  from "3.IH" [OF one(1) refl one(2)] show ?case
    using one by (cases "negotiate ys s'") auto
qed

lemma negotiate_throws:
  "negotiate [Completed r] s = Inl e \<longleftrightarrow>
     r \<noteq> LIBUSB_SUCCESS \<and> phase_of s \<noteq> Quiet \<and> e = Thrown_Text ''Cannot send ACL packet!''"
  using negotiation_throws [of r s] by (cases "mtu_negotiation r s") auto

text \<open>
  C15. The two callbacks negotiate the MTU as an automaton of three phases does, for every
  sequence of signaling packets and completed transfers: a configure request is noted, at the
  next completed transfer a configure request of our own goes out, at the one after it the
  response with the identifier of the noted request, and a further configure request, whoever
  sent it, starts the negotiation anew. All these packets have right lengths, the
  completed transfers send no others, and when a packet cannot be sent, the callback throws.
\<close>

theorem mtu_negotiation_is_automaton:
  assumes "negotiate xs s = Inr (ps, s')"
  shows "(map (\<lambda>p. (p ! 8, p ! 9)) ps, phase_of s') =
      mtu_automaton xs (phase_of s) (l2cap_command_identifier s) \<and>
    list_all signal_lengths_ok ps \<and>
    (negotiate (xs @ [Completed r]) s = Inl (Thrown_Text ''Cannot send ACL packet!'') \<longleftrightarrow>
       r \<noteq> LIBUSB_SUCCESS \<and> phase_of s' \<noteq> Quiet)"
proof (intro conjI)
  show "negotiate (xs @ [Completed r]) s = Inl (Thrown_Text ''Cannot send ACL packet!'') \<longleftrightarrow>
      r \<noteq> LIBUSB_SUCCESS \<and> phase_of s' \<noteq> Quiet"
    using negotiate_throws [of r s'] negotiate_append [OF assms, of "[Completed r]"]
    by (cases "negotiate [Completed r] s'") (auto simp del: negotiate.simps)
  have "(map (\<lambda>p. (p ! 8, p ! 9)) ps, phase_of s') =
      mtu_automaton xs (phase_of s) (l2cap_command_identifier s) \<and> list_all signal_lengths_ok ps"
    using assms
  proof (induction xs s arbitrary: ps rule: negotiate.induct)
    case (2 b idx xs s)
    then obtain es s1 where one: "process_control b idx s = Inr (es, s1)" "negotiate xs s1 = Inr (ps, s')"
      by (auto simp: andthen_eq_Inr)
    show ?case using "2.IH" [OF one(1) refl one(2)] control_phase [OF one(1)] by (simp add: Let_def)
  next
    case (3 r xs s)
    then obtain es s1 qs where one: "mtu_negotiation r s = Inr (es, s1)" "negotiate xs s1 = Inr (qs, s')"
      "ps = acls_of es @ qs"
      by (auto simp: andthen_eq_Inr)
    have "(map (\<lambda>p. (p ! 8, p ! 9)) qs, phase_of s') =
        mtu_automaton xs (phase_of s1) (l2cap_command_identifier s) \<and> list_all signal_lengths_ok qs"
      using "3.IH" [OF one(1) refl one(2)] negotiation_phase(1) [OF one(1)] by simp
    then show ?case
      using negotiation_phase(2) [OF one(1)] one(3)
      by (auto simp: mtu_packets_ok apfst_def map_prod_def split: mtu_phase.splits prod.splits)
  qed simp
  then show "(map (\<lambda>p. (p ! 8, p ! 9)) ps, phase_of s') =
      mtu_automaton xs (phase_of s) (l2cap_command_identifier s)"
    and "list_all signal_lengths_ok ps" by blast+
qed

text \<open>
  A configure request with identifier 7, a command that is not one, and two completed
  transfers; and the same request while the first packet cannot be sent.
\<close>

theorem mtu_negotiation_is_automaton_witness:
  "\<exists>ps s. negotiate [Signal configure_request_example 8, Completed 0,
       Signal information_request_example 8, Completed 0] (one_channel 1) = Inr (ps, s) \<and>
     map (\<lambda>p. (p ! 8, p ! 9)) ps = [(0x04, 8), (0x05, 7)] \<and> phase_of s = Quiet"
proof -
  let ?xs = "[Signal configure_request_example 8, Completed 0, Signal information_request_example 8,
    Completed 0]"
  have "mtu_negotiation 0 configured = Inr (mtu_lines ''Request'' @ send_acl (mtu_request configured), requested)"
    "\<exists>es s. mtu_negotiation 0 requested = Inr (es, s)"
    using mtu_example(2) by (simp_all add: LIBUSB_SUCCESS_def mtu_negotiation_def)
  then obtain ps s where run: "negotiate ?xs (one_channel 1) = Inr (ps, s)"
    using mtu_example(1,3) by auto
  have "phase_of (one_channel 1) = Quiet"
    by (simp add: phase_of_def one_channel_def l2cap_init_def Let_def)
  then have "mtu_automaton ?xs (phase_of (one_channel 1)) k = ([(0x04, 8), (0x05, 7)], Quiet)" for k
    by (simp add: configure_request_example_def information_request_example_def)
  then show ?thesis using mtu_negotiation_is_automaton [OF run, of 0] run by auto
qed

section \<open>Own requests taken for requests of the peer\<close>








end
