(* ===== verification/Packet_Sender.thy ===== *)
theory Packet_Sender
  imports Prelude
begin

text \<open>
  The interface between the handlers and the two senders of \<open>hci_test.cpp\<close>. A handler calls a
  sender for each packet and does not look at the result. What that means for the packets is
  proved once, from what a sender promises of one call.
\<close>

section \<open>Calling a sender\<close>

text \<open>The effects that can be seen outside the program, lines and pauses apart.\<close>

fun visible :: "effect \<Rightarrow> bool" where
  "visible (Print l xs) = False"
| "visible (Sleep n) = False"
| "visible _ = True"

fun pauses :: "effect list \<Rightarrow> nat" where
  "pauses [] = 0"
| "pauses (Sleep n # es) = n + pauses es"
| "pauses (_ # es) = pauses es"

lemma pauses_append [simp]: "pauses (xs @ ys) = pauses xs + pauses ys"
  by (induction xs rule: pauses.induct) simp_all

lemma pauses_step: "pauses a \<le> pauses b + n \<Longrightarrow> pauses (e # a) \<le> pauses (e # b) + n"
  by (cases e) simp_all

lemma pauses_tail: "pauses es \<le> pauses (e # es)"
  by (cases e) simp_all

text \<open>The two kinds of packets.\<close>

fun acl_packet :: "effect \<Rightarrow> bytes option" where
  "acl_packet (Acl_Out p) = Some p"
| "acl_packet _ = None"

fun command_packet :: "effect \<Rightarrow> bytes option" where
  "command_packet (Cmd_Out p) = Some p"
| "command_packet _ = None"

fun packets :: "(effect \<Rightarrow> bytes option) \<Rightarrow> effect list \<Rightarrow> bytes list" where
  "packets packet [] = []"
| "packets packet (e # es) = (case packet e of None \<Rightarrow> [] | Some p \<Rightarrow> [p]) @ packets packet es"

lemma packets_of_kind [simp]:
  "packets acl_packet es = acls_of es" "packets command_packet es = cmds_of es"
proof -
  show "packets acl_packet es = acls_of es" by (induction es rule: acls_of.induct) simp_all
  show "packets command_packet es = cmds_of es" by (induction es rule: cmds_of.induct) simp_all
qed

text \<open>
  The effects of a handler in which a packet is the call of the sender: its lines and pauses
  take the place of the packet, and its result is dropped.
\<close>

fun perform_with ::
  "(effect \<Rightarrow> bytes option) \<Rightarrow> (bytes \<Rightarrow> 's \<Rightarrow> (effect list \<times> int \<times> 's) res) \<Rightarrow> effect list \<Rightarrow> 's \<Rightarrow>
     (effect list \<times> 's) res" where
  "perform_with packet send [] s = Inr ([], s)"
| "perform_with packet send (e # es) s =
     andthen (case packet e of
                None \<Rightarrow> Inr ([e], s)
              | Some p \<Rightarrow> andthen (send p s) (\<lambda>(out, r, s). Inr (out, s))) (\<lambda>(out, s).
     andthen (perform_with packet send es s) (\<lambda>(out', s). Inr (out @ out', s)))"

lemma perform_with_fails:
  assumes "\<And>p. send p s = Inl e" and "packets packet es \<noteq> []"
  shows "perform_with packet send es s = Inl e"
  using assms(2) by (induction es) (auto simp: assms(1) split: option.splits)

text \<open>
  All packets are allowed, and the packets that go out, when the first is the \<open>n\<close>-th.
\<close>

fun all_allowed :: "(nat \<Rightarrow> bytes \<Rightarrow> bool) \<Rightarrow> nat \<Rightarrow> bytes list \<Rightarrow> bool" where
  "all_allowed allowed n [] = True"
| "all_allowed allowed n (p # ps) = (allowed n p \<and> all_allowed allowed (Suc n) ps)"

fun going_out :: "(nat \<Rightarrow> bool) \<Rightarrow> (bytes \<Rightarrow> bytes) \<Rightarrow> nat \<Rightarrow> bytes list \<Rightarrow> bytes list" where
  "going_out accepts wire n [] = []"
| "going_out accepts wire n (p # ps) =
     (if accepts n then [wire p] else []) @ going_out accepts wire (Suc n) ps"

section \<open>The contract\<close>

text \<open>
  Of the \<open>n\<close>-th packet it is fixed whether it is \<open>allowed\<close> and whether libusb \<open>accepts\<close> it. A
  call for an allowed packet returns and puts the packet on the bus, in the form \<open>wire\<close>, if it
  is accepted; the result tells that. For another packet the code leaves its defined
  behaviour.
\<close>

locale packet_sender =
  fixes packet :: "effect \<Rightarrow> bytes option"
    and send :: "bytes \<Rightarrow> 's \<Rightarrow> (effect list \<times> int \<times> 's) res"
    and intact :: "'s \<Rightarrow> bool"
    and turn :: "'s \<Rightarrow> nat"
    and allowed :: "nat \<Rightarrow> bytes \<Rightarrow> bool"
    and accepts :: "nat \<Rightarrow> bool"
    and bus :: "'s \<Rightarrow> bytes list"
    and wire :: "bytes \<Rightarrow> bytes"
    and delay :: nat
    and failure :: cerror
  assumes send_returns: "intact s \<Longrightarrow> allowed (turn s) p \<Longrightarrow>
      \<exists>out r s'. send p s = Inr (out, r, s') \<and> intact s' \<and> turn s' = Suc (turn s) \<and>
        bus s' = bus s @ (if accepts (turn s) then [wire p] else []) \<and>
        (r < 0 \<longleftrightarrow> \<not> accepts (turn s)) \<and> filter visible out = [] \<and> pauses out \<le> delay"
    and send_fails: "intact s \<Longrightarrow> \<not> allowed (turn s) p \<Longrightarrow> send p s = Inl failure"
begin

lemma perform_returns:
  "intact s \<Longrightarrow> all_allowed allowed (turn s) (packets packet es) \<Longrightarrow>
    \<exists>out s'. perform_with packet send es s = Inr (out, s') \<and> intact s' \<and>
      turn s' = turn s + length (packets packet es) \<and>
      bus s' = bus s @ going_out accepts wire (turn s) (packets packet es) \<and>
      filter visible out = filter (\<lambda>e. visible e \<and> packet e = None) es \<and>
      pauses out \<le> pauses es + delay * length (packets packet es)"
proof (induction es arbitrary: s)
  case (Cons e es)
  show ?case
  proof (cases "packet e")
    case None
    then have "all_allowed allowed (turn s) (packets packet es)" using Cons.prems(2) by simp
    from Cons.IH [OF Cons.prems(1) this] obtain out s' where
      "perform_with packet send es s = Inr (out, s')" "intact s'"
      "turn s' = turn s + length (packets packet es)"
      "bus s' = bus s @ going_out accepts wire (turn s) (packets packet es)"
      "filter visible out = filter (\<lambda>e. visible e \<and> packet e = None) es"
      "pauses out \<le> pauses es + delay * length (packets packet es)"
      by blast
    then show ?thesis using None by (auto intro: pauses_step)
  next
    case (Some p)
    then have ok: "allowed (turn s) p" using Cons.prems(2) by simp
    obtain out r s1 where one: "send p s = Inr (out, r, s1)" "intact s1" "turn s1 = Suc (turn s)"
      "bus s1 = bus s @ (if accepts (turn s) then [wire p] else [])"
      "filter visible out = []" "pauses out \<le> delay"
      using send_returns [OF Cons.prems(1) ok] by blast
    have "all_allowed allowed (turn s1) (packets packet es)" using Cons.prems(2) Some one(3) by simp
    from Cons.IH [OF one(2) this] obtain out' s' where
      "perform_with packet send es s1 = Inr (out', s')" "intact s'"
      "turn s' = turn s1 + length (packets packet es)"
      "bus s' = bus s1 @ going_out accepts wire (turn s1) (packets packet es)"
      "filter visible out' = filter (\<lambda>e. visible e \<and> packet e = None) es"
      "pauses out' \<le> pauses es + delay * length (packets packet es)"
      by blast
    then show ?thesis using one Some pauses_tail [of es e] by simp
  qed
qed simp

lemma perform_fails:
  "intact s \<Longrightarrow> \<not> all_allowed allowed (turn s) (packets packet es) \<Longrightarrow>
    perform_with packet send es s = Inl failure"
proof (induction es arbitrary: s)
  case (Cons e es)
  show ?case
  proof (cases "packet e")
    case (Some p)
    show ?thesis
    proof (cases "allowed (turn s) p")
      case True
      from send_returns [OF Cons.prems(1) True] obtain out r s1 where
        "send p s = Inr (out, r, s1)" "intact s1" "turn s1 = Suc (turn s)" by blast
      then show ?thesis using Cons.IH [of s1] Cons.prems(2) Some True by simp
    qed (use send_fails [OF Cons.prems(1)] Some in simp)
  qed (use Cons in auto)
qed simp

end

end
