(* ===== verification/Acl_Sender.thy ===== *)
theory Acl_Sender
  imports Acl_Props Usb_Send Packet_Sender
begin

text \<open>
  The sender of ACL packets of \<open>hci_test.cpp\<close>, \<open>usb_send_acl_packet\<close>, with the transfers it
  allocates, and the packets of the handlers handed to it one after the other. Its result
  is looked at in the MTU negotiation only.
\<close>

section \<open>One packet\<close>

text \<open>The lines for the result of a submission.\<close>

definition submission_error :: "int \<Rightarrow> string option" where
  "submission_error r =
     (if r = LIBUSB_SUCCESS then Some ''Success(no error)''
      else if r = -1 then Some ''Input / output error.''
      else if r = -2 then Some ''Invalid parameter.''
      else if r = -3 then Some ''Access denied(insufficient permissions)''
      else if r = -4 then Some ''No such device(it may have been disconnected)''
      else if r = -5 then Some ''Entity not found.''
      else if r = LIBUSB_ERROR_BUSY then Some ''Resource busy.''
      else if r = -7 then Some ''Operation timed out.''
      else if r = -8 then Some ''Overflow.''
      else if r = -9 then Some ''Pipe error.''
      else if r = -10 then Some ''System call interrupted(perhaps due to signal)''
      else if r = -11 then Some ''Insufficient memory.''
      else if r = -12 then Some ''Operation not supported or unimplemented on this platform.''
      else if r = -99 then Some ''Other error.''
      else None)"

definition submission_report :: "string \<Rightarrow> int \<Rightarrow> effect list" where
  "submission_report kind r =
     (if r < 0
      then replicate 5 (Print (''Error submitting '' @ kind) [r])
        @ (case submission_error r of None \<Rightarrow> [] | Some m \<Rightarrow> [Print m []])
      else [])"

text \<open>
  The loop of \<open>usb_send_acl_packet\<close>: \<open>submit k\<close> is the result of the \<open>k\<close>-th submission of the
  transfer. It repeats while the result is \<open>LIBUSB_ERROR_BUSY\<close> and \<open>retry_counter\<close> is
  positive; the state is the number of submissions, the last result and
  \<open>usb_acl_out_active\<close>, which any failure resets. \<open>st\<close> is the line that
  \<open>print_transfer_status(acl_out_transfer)\<close> prints, for a transfer that is never submitted.
\<close>

fun submit_retry ::
  "(nat \<Rightarrow> int) \<Rightarrow> string \<Rightarrow> nat \<Rightarrow> nat \<Rightarrow> int \<Rightarrow> bool \<Rightarrow> effect list \<times> nat \<times> int \<times> bool" where
  "submit_retry submit st 0 k r active = ([], k, r, active)"
| "submit_retry submit st (Suc retry_counter) k r active =
     (let r = submit k; active = (active \<and> \<not> r < 0) in
      if r = LIBUSB_ERROR_BUSY then
        (let (es, res) = submit_retry submit st retry_counter (Suc k) r active
         in (submission_report ''acl transfer'' r
               @ [Print ''Waiting for busy resource'' [int retry_counter], Sleep 1000, Print st []] @ es, res))
      else (submission_report ''acl transfer'' r @ [Print st []], Suc k, r, active))"

text \<open>
  The variables of the sender: the address of the endpoint, an \<open>int\<close> that is passed as
  \<open>unsigned char\<close>; the transfer that \<open>find_dev\<close> has allocated without looking whether it was
  null; \<open>usb_acl_out_active\<close>. Beside them, what has become of the packets: the transfers
  allocated here, and the packets that libusb has accepted.
\<close>

record acl_sender =
  acl_out_addr :: int
  acl_out_transfer :: "libusb_transfer option"
  usb_acl_out_active :: bool
  allocated :: "libusb_transfer list"
  on_bus :: "bytes list"

text \<open>
  \<open>usb_send_acl_packet(packet, size)\<close> for a packet of \<open>size\<close> bytes. For the \<open>n\<close>-th packet,
  \<open>alloc n\<close> is the result of \<open>libusb_alloc_transfer\<close> and \<open>submit n k\<close> that of the \<open>k\<close>-th
  submission. The flags of \<open>acl_out_transfer\<close> are written although another transfer is used.
\<close>

definition usb_send_acl_packet ::
  "(nat \<Rightarrow> libusb_transfer option) \<Rightarrow> (nat \<Rightarrow> nat \<Rightarrow> int) \<Rightarrow> bytes \<Rightarrow> acl_sender \<Rightarrow>
     (effect list \<times> int \<times> acl_sender) res" where
  "usb_send_acl_packet alloc submit packet s =
     (let n = length (allocated s) in
      case acl_out_transfer s of
        None \<Rightarrow> Inl Null_Pointer
      | Some unused \<Rightarrow>
          (case alloc n of
             None \<Rightarrow> Inl Null_Pointer
           | Some fresh \<Rightarrow>
               let unused = unused\<lparr>flags := LIBUSB_TRANSFER_FREE_BUFFER\<rparr>;
                   t = (libusb_fill_bulk_transfer fresh (word_of_int (acl_out_addr s)) packet
                          (int (length packet)) ''async_acl_callback'' 0)
                         \<lparr>flags := LIBUSB_TRANSFER_FREE_BUFFER\<rparr>;
                   (es, k, r, active) =
                     submit_retry (submit n) (print_transfer_status unused) 5 0 LIBUSB_SUCCESS True
               in Inr ([Print ''acl_out_addr'' [acl_out_addr s], Print ''>>>'' (map uint packet)] @ es, r,
                       s\<lparr>acl_out_transfer := Some unused, usb_acl_out_active := active,
                         allocated := allocated s @ [t],
                         on_bus := on_bus s @ (if r < 0 then [] else [packet])\<rparr>)))"

section \<open>The packets of the handlers\<close>

definition perform_acl ::
  "(nat \<Rightarrow> libusb_transfer option) \<Rightarrow> (nat \<Rightarrow> nat \<Rightarrow> int) \<Rightarrow> effect list \<Rightarrow> acl_sender \<Rightarrow>
     (effect list \<times> acl_sender) res" where
  "perform_acl alloc submit = perform_with acl_packet (usb_send_acl_packet alloc submit)"

text \<open>
  The packet of the MTU negotiation, whose result is looked at: what is thrown, or the
  effects and the next state.
\<close>

definition mtu_exchange ::
  "(nat \<Rightarrow> libusb_transfer option) \<Rightarrow> (nat \<Rightarrow> nat \<Rightarrow> int) \<Rightarrow> l2cap_state \<Rightarrow> acl_sender \<Rightarrow>
     ((effect list \<times> l2cap_state) res \<times> acl_sender) res" where
  "mtu_exchange alloc submit l2 s =
     (if mtu_config_request_received l2 \<or> mtu_config_request_sent l2 then
        andthen (usb_send_acl_packet alloc submit
            (if mtu_config_request_received l2 then mtu_request l2 else mtu_response l2) s)
          (\<lambda>(out, r, s). Inr (mtu_negotiation r l2, s))
      else Inr (mtu_negotiation LIBUSB_SUCCESS l2, s))"

section \<open>The retries\<close>

lemma submit_retry_step:
  "submit_retry submit st (Suc m) k r act = (es, k', r', act') \<Longrightarrow>
     (submit k \<noteq> LIBUSB_ERROR_BUSY \<and> k' = Suc k \<and> r' = submit k) \<or>
     (submit k = LIBUSB_ERROR_BUSY \<and>
       (\<exists>es'' act''. submit_retry submit st m (Suc k) (submit k) act'' = (es'', k', r', act')))"
  by (auto simp: Let_def split: if_splits prod.splits)

lemma submit_retry_count:
  "submit_retry submit st m k r act = (es, k', r', act') \<Longrightarrow> k \<le> k' \<and> k' \<le> k + m"
proof (induction m arbitrary: k r act es)
  case (Suc m)
  from submit_retry_step [OF Suc.prems] Suc.IH show ?case by fastforce
qed simp

lemma submit_retry_last:
  "submit_retry submit st m k r act = (es, k', r', act') \<Longrightarrow> 0 < m \<Longrightarrow>
     k < k' \<and> r' = submit (k' - 1) \<and> (r' = LIBUSB_ERROR_BUSY \<longrightarrow> k' = k + m)"
proof (induction m arbitrary: k r act es)
  case (Suc m)
  from submit_retry_step [OF Suc.prems(1)] show ?case
  proof (elim disjE conjE exE)
    fix es'' act''
    assume r: "submit_retry submit st m (Suc k) (submit k) act'' = (es'', k', r', act')"
      and b: "submit k = LIBUSB_ERROR_BUSY"
    show ?thesis
    proof (cases m)
      case 0
      then show ?thesis using r b by auto
    next
      case (Suc j)
      then have "Suc k < k'" "r' = submit (k' - 1)" "r' = LIBUSB_ERROR_BUSY \<longrightarrow> k' = Suc k + m"
        using Suc.IH [OF r] by blast+
      moreover from this(1) have "k < k'" by linarith
      moreover have "Suc k + m = k + Suc m" by simp
      ultimately show ?thesis by metis
    qed
  qed simp
qed simp

lemma submit_retry_busy:
  "submit_retry submit st m k r act = (es, k', r', act') \<Longrightarrow> k \<le> i \<Longrightarrow> Suc i < k' \<Longrightarrow>
     submit i = LIBUSB_ERROR_BUSY"
proof (induction m arbitrary: k r act es)
  case (Suc m)
  from submit_retry_step [OF Suc.prems(1)] show ?case
  proof (elim disjE conjE exE)
    fix es'' act''
    assume r: "submit_retry submit st m (Suc k) (submit k) act'' = (es'', k', r', act')"
      and b: "submit k = LIBUSB_ERROR_BUSY"
    show ?thesis using Suc.IH [OF r] Suc.prems(2, 3) b by (cases "i = k") auto
  qed (use Suc.prems in auto)
qed simp

text \<open>
  The packet is submitted at least once and at most five times, again only after
  \<open>LIBUSB_ERROR_BUSY\<close>, and the result is that of the last submission.
\<close>

lemma acl_send_retries:
  assumes "submit_retry submit st 5 0 LIBUSB_SUCCESS True = (es, k, r, act)"
  shows "1 \<le> k" and "k \<le> 5" and "r = submit (k - 1)"
    and "Suc i < k \<Longrightarrow> submit i = LIBUSB_ERROR_BUSY"
    and "r = LIBUSB_ERROR_BUSY \<Longrightarrow> k = 5"
proof -
  have last: "0 < k \<and> r = submit (k - 1) \<and> (r = LIBUSB_ERROR_BUSY \<longrightarrow> k = 0 + 5)"
    by (rule submit_retry_last [OF assms]) simp
  then show "1 \<le> k" and "r = submit (k - 1)" and "r = LIBUSB_ERROR_BUSY \<Longrightarrow> k = 5"
    by linarith+
  show "k \<le> 5" using submit_retry_count [OF assms] by simp
  show "Suc i < k \<Longrightarrow> submit i = LIBUSB_ERROR_BUSY"
    using submit_retry_busy [OF assms] by simp
qed

text \<open>
  The promise of the sender: a packet goes out if one of the first five submissions is
  accepted and all before it found libusb busy.
\<close>

definition goes_out :: "(nat \<Rightarrow> int) \<Rightarrow> bool" where
  "goes_out submit \<longleftrightarrow> (\<exists>i < 5. 0 \<le> submit i \<and> (\<forall>j < i. submit j = LIBUSB_ERROR_BUSY))"

lemma busy_is_negative: "LIBUSB_ERROR_BUSY < 0"
  by (simp add: LIBUSB_ERROR_BUSY_def)

lemma result_tells_goes_out:
  assumes "submit_retry submit st 5 0 LIBUSB_SUCCESS True = (es, k, r, act)"
  shows "goes_out submit \<longleftrightarrow> \<not> r < 0"
proof
  assume "goes_out submit"
  then obtain i where i: "i < 5" "0 \<le> submit i" "\<And>j. j < i \<Longrightarrow> submit j = LIBUSB_ERROR_BUSY"
    by (auto simp: goes_out_def)
  note k = acl_send_retries [OF assms]
  have "\<not> i < k - 1" using k(4) [of i] i(2) busy_is_negative by fastforce
  moreover have "\<not> k - 1 < i"
  proof
    assume less: "k - 1 < i"
    then have "r = LIBUSB_ERROR_BUSY" using k(3) i(3) by simp
    then show False using k(5) less i(1) by simp
  qed
  ultimately have "k - 1 = i" by linarith
  then show "\<not> r < 0" using k(3) i(2) by simp
next
  note k = acl_send_retries [OF assms]
  assume "\<not> r < 0"
  then show "goes_out submit"
    unfolding goes_out_def using k(1-4) by (intro exI [of _ "k - 1"]) auto
qed

section \<open>What becomes of the packets\<close>

lemma submission_report_effects [simp]:
  "filter visible (submission_report kind r) = []" "pauses (submission_report kind r) = 0"
  by (simp_all add: submission_report_def eval_nat_numeral split: option.split)

lemma submit_retry_effects:
  "submit_retry submit st m k r act = (es, k', r', act') \<Longrightarrow>
     filter visible es = [] \<and> pauses es \<le> 1000 * m"
proof (induction m arbitrary: k r act es)
  case (Suc m)
  show ?case
  proof (cases "submit k = LIBUSB_ERROR_BUSY")
    case True
    obtain es'' where
      "submit_retry submit st m (Suc k) (submit k) (act \<and> \<not> submit k < 0) = (es'', k', r', act')"
      and "es = submission_report ''acl transfer'' (submit k)
        @ [Print ''Waiting for busy resource'' [int m], Sleep 1000, Print st []] @ es''"
      using Suc.prems True by (auto simp: Let_def split: prod.splits)
    then show ?thesis using Suc.IH by fastforce
  qed (use Suc.prems in \<open>auto simp: Let_def\<close>)
qed simp

text \<open>One call, when the two transfers are there.\<close>

lemma usb_send_acl_packet_cases:
  assumes "acl_out_transfer s \<noteq> None" and "alloc (length (allocated s)) \<noteq> None"
  shows "\<exists>out r s' t. usb_send_acl_packet alloc submit p s = Inr (out, r, s') \<and>
    filter visible out = [] \<and> pauses out \<le> 5000 \<and>
    allocated s' = allocated s @ [t] \<and> tbuffer t = p \<and> tlength t = int (length p) \<and>
    endpoint t = word_of_int (acl_out_addr s) \<and> ttype t = LIBUSB_TRANSFER_TYPE_BULK \<and>
    on_bus s' = on_bus s @ (if goes_out (submit (length (allocated s))) then [p] else []) \<and>
    acl_out_transfer s' \<noteq> None \<and> acl_out_addr s' = acl_out_addr s \<and>
    (\<exists>k < 5. r = submit (length (allocated s)) k) \<and> (goes_out (submit (length (allocated s))) \<longleftrightarrow> \<not> r < 0)"
proof -
  let ?submit = "submit (length (allocated s))"
  obtain unused fresh where u: "acl_out_transfer s = Some unused"
    and f: "alloc (length (allocated s)) = Some fresh" using assms by blast
  let ?st = "print_transfer_status (unused\<lparr>flags := LIBUSB_TRANSFER_FREE_BUFFER\<rparr>)"
  obtain es k r act where l: "submit_retry ?submit ?st 5 0 LIBUSB_SUCCESS True = (es, k, r, act)"
    by (metis prod_cases4)
  have "\<exists>k < 5. r = ?submit k"
    using acl_send_retries(1-3) [OF l] by (intro exI [of _ "k - 1"]) auto
  then show ?thesis
    using result_tells_goes_out [OF l] submit_retry_effects [OF l]
    by (auto simp: usb_send_acl_packet_def u f l libusb_fill_bulk_transfer_def Let_def
        simp del: submit_retry.simps)
qed

text \<open>The contract of a sender, kept by this one.\<close>

definition acl_allowed :: "(nat \<Rightarrow> libusb_transfer option) \<Rightarrow> nat \<Rightarrow> bytes \<Rightarrow> bool" where
  "acl_allowed alloc n p \<longleftrightarrow> alloc n \<noteq> None"

interpretation acl: packet_sender acl_packet "usb_send_acl_packet alloc submit"
    "\<lambda>s. acl_out_transfer s \<noteq> None" "\<lambda>s. length (allocated s)" "acl_allowed alloc"
    "\<lambda>n. goes_out (submit n)" on_bus "\<lambda>p. p" 5000 Null_Pointer
  for alloc submit
proof
  fix s :: acl_sender and p
  assume "acl_out_transfer s \<noteq> None" and "acl_allowed alloc (length (allocated s)) p"
  then obtain out r s' t where
    "usb_send_acl_packet alloc submit p s = Inr (out, r, s')" "filter visible out = []"
    "pauses out \<le> 5000" "allocated s' = allocated s @ [t]"
    "on_bus s' = on_bus s @ (if goes_out (submit (length (allocated s))) then [p] else [])"
    "acl_out_transfer s' \<noteq> None" "goes_out (submit (length (allocated s))) \<longleftrightarrow> \<not> r < 0"
    using usb_send_acl_packet_cases [of s alloc submit p] unfolding acl_allowed_def by blast
  then show "\<exists>out r s'. usb_send_acl_packet alloc submit p s = Inr (out, r, s') \<and>
      acl_out_transfer s' \<noteq> None \<and> length (allocated s') = Suc (length (allocated s)) \<and>
      on_bus s' = on_bus s @ (if goes_out (submit (length (allocated s))) then [p] else []) \<and>
      (r < 0 \<longleftrightarrow> \<not> goes_out (submit (length (allocated s)))) \<and> filter visible out = [] \<and>
      pauses out \<le> 5000"
    by (intro exI [of _ out] exI [of _ r] exI [of _ s']) simp
qed (auto simp: usb_send_acl_packet_def acl_allowed_def Let_def split: option.split)

text \<open>
  The transfers for \<open>n\<close> packets: that of \<open>find_dev\<close>, and those that the calls allocate.
\<close>

definition transfers_available :: "(nat \<Rightarrow> libusb_transfer option) \<Rightarrow> acl_sender \<Rightarrow> nat \<Rightarrow> bool" where
  "transfers_available alloc s n \<longleftrightarrow> n = 0 \<or> acl_out_transfer s \<noteq> None \<and>
     (\<forall>i \<in> {length (allocated s)..<length (allocated s) + n}. alloc i \<noteq> None)"

lemma all_acl_allowed:
  "all_allowed (acl_allowed alloc) n ps \<longleftrightarrow> (\<forall>i \<in> {n..<n + length ps}. alloc i \<noteq> None)"
proof (induction ps arbitrary: n)
  case (Cons p ps)
  have "{n..<n + length (p # ps)} = insert n {Suc n..<Suc n + length ps}" by auto
  then show ?case using Cons by (simp add: acl_allowed_def)
qed simp

lemma acl_no_packets:
  "acls_of es = [] \<Longrightarrow> perform_acl alloc submit es s = Inr (es, s)"
  unfolding perform_acl_def by (induction es rule: acls_of.induct) simp_all

text \<open>Every packet has a transfer of its own.\<close>

lemma perform_acl_transfers:
  "perform_acl alloc submit es s = Inr (out, s') \<Longrightarrow>
    \<exists>ts. allocated s' = allocated s @ ts \<and> map tbuffer ts = acls_of es"
  unfolding perform_acl_def
proof (induction es arbitrary: s out)
  case (Cons e es)
  show ?case
  proof (cases "acl_packet e")
    case None
    then show ?thesis using Cons by (cases e) (auto simp: andthen_eq_Inr)
  next
    case (Some p)
    then obtain o1 r s1 o2 where call: "usb_send_acl_packet alloc submit p s = Inr (o1, r, s1)"
      and rest: "perform_with acl_packet (usb_send_acl_packet alloc submit) es s1 = Inr (o2, s')"
      using Cons.prems by (auto simp: andthen_eq_Inr)
    have "acl_out_transfer s \<noteq> None" "alloc (length (allocated s)) \<noteq> None"
      using call by (auto simp: usb_send_acl_packet_def Let_def split: option.splits)
    from usb_send_acl_packet_cases [of s alloc submit p, OF this] call
    obtain t where "allocated s1 = allocated s @ [t]" "tbuffer t = p" by auto
    then show ?thesis using Cons.IH [OF rest] Some by (cases e) auto
  qed
qed simp

text \<open>
  Whatever a handler sends and whatever libusb answers: if a transfer cannot be allocated
  the program follows a null pointer. Otherwise every packet gets a transfer of its own that
  nobody frees, and exactly the packets of which one of five submissions is accepted, after
  refusals for a busy resource only, reach the bus, in order. The others are lost: all other
  effects are the same, only the pauses grow, by at most five seconds for each packet.
\<close>

lemma acl_packets_go_out_or_are_lost:
  "if transfers_available alloc s (length (acls_of es))
   then \<exists>out s' ts. perform_acl alloc submit es s = Inr (out, s') \<and>
     allocated s' = allocated s @ ts \<and> map tbuffer ts = acls_of es \<and>
     on_bus s' = on_bus s
       @ going_out (\<lambda>n. goes_out (submit n)) (\<lambda>p. p) (length (allocated s)) (acls_of es) \<and>
     filter visible out = filter (\<lambda>e. visible e \<and> acl_packet e = None) es \<and>
     pauses out \<le> pauses es + 5000 * length (acls_of es)
   else perform_acl alloc submit es s = Inl Null_Pointer"
proof (cases "acls_of es = []")
  case True
  moreover from this have "filter visible es = filter (\<lambda>e. visible e \<and> acl_packet e = None) es"
    by (induction es rule: acls_of.induct) simp_all
  ultimately show ?thesis by (simp add: acl_no_packets transfers_available_def)
next
  case some: False
  show ?thesis
  proof (cases "acl_out_transfer s")
    case None
    then have "perform_acl alloc submit es s = Inl Null_Pointer"
      unfolding perform_acl_def
      by (intro perform_with_fails) (simp_all add: some usb_send_acl_packet_def Let_def)
    then show ?thesis using None some by (simp add: transfers_available_def)
  next
    case (Some t)
    then show ?thesis
      using some perform_acl_transfers [of alloc submit es s]
        acl.perform_returns [of s alloc es submit] acl.perform_fails [of s alloc es submit]
      by (auto simp: transfers_available_def all_acl_allowed perform_acl_def)
  qed
qed

text \<open>
  The negotiation, in contrast, throws if its packet does not go out, and then only.
\<close>

lemma mtu_exchange_throws:
  assumes "transfers_available alloc s 1"
    and "mtu_config_request_received l2 \<or> mtu_config_request_sent l2" and "\<And>n k. submit n k \<le> 0"
  shows "\<exists>x s'. mtu_exchange alloc submit l2 s = Inr (x, s') \<and>
    (if goes_out (submit (length (allocated s)))
     then x = mtu_negotiation LIBUSB_SUCCESS l2 \<and> (\<exists>p. on_bus s' = on_bus s @ [p])
     else x = Inl (Thrown_Text ''Cannot send ACL packet!'') \<and> on_bus s' = on_bus s)"
proof -
  let ?p = "if mtu_config_request_received l2 then mtu_request l2 else mtu_response l2"
  have available: "acl_out_transfer s \<noteq> None" "alloc (length (allocated s)) \<noteq> None"
    using assms(1) by (simp_all add: transfers_available_def)
  obtain out r s' k where call: "usb_send_acl_packet alloc submit ?p s = Inr (out, r, s')"
    "on_bus s' = on_bus s @ (if goes_out (submit (length (allocated s))) then [?p] else [])"
    "r = submit (length (allocated s)) k" "goes_out (submit (length (allocated s))) \<longleftrightarrow> \<not> r < 0"
    using usb_send_acl_packet_cases [of s alloc submit ?p] available by blast
  have "r \<le> 0" using call(3) assms(3) by simp
  then have "goes_out (submit (length (allocated s))) \<longleftrightarrow> r = LIBUSB_SUCCESS"
    using call(4) by (auto simp: LIBUSB_SUCCESS_def)
  then show ?thesis
    using assms(2) call(1,2) by (auto simp: mtu_exchange_def mtu_negotiation_def)
qed

text \<open>Two packets, of which the first finds libusb busy twice and the second no device.\<close>

definition busy_twice :: "nat \<Rightarrow> nat \<Rightarrow> int" where
  "busy_twice n k = (if n = 1 then -4 else if k < 2 then LIBUSB_ERROR_BUSY else 0)"

definition ready_sender :: acl_sender where
  "ready_sender = \<lparr>acl_out_addr = 2, acl_out_transfer = Some idle_transfer,
     usb_acl_out_active = False, allocated = [], on_bus = []\<rparr>"

lemma busy_twice_goes_out: "goes_out (busy_twice 0)" "\<not> goes_out (busy_twice (Suc 0))"
proof -
  show "goes_out (busy_twice 0)"
    unfolding goes_out_def by (intro exI [of _ 2]) (simp add: busy_twice_def less_2_cases_iff)
  show "\<not> goes_out (busy_twice (Suc 0))"
    by (simp add: goes_out_def busy_twice_def)
qed

end
