(* ===== verification/Server_Events.thy ===== *)
theory Server_Events
  imports Main_Events Link_Keys Pklg L2cap_Server
begin

text \<open>
  \<open>dump_hci_event\<close> of \<open>hci_test.cpp\<close>: the interpretation of an event with the answers sent
  at once, among them the part of the pairing that the host plays (link keys, input and
  output capability, confirmation, PIN). The handler keeps the link key database, a global
  variable.
\<close>

section \<open>Sending\<close>

definition HCI_EVENT_LINK_KEY_REQUEST :: u8 where "HCI_EVENT_LINK_KEY_REQUEST = 0x17"

text \<open>
  \<open>Sleep(wait); usb_send_cmd_packet(buffer, idx); write_packet(..., buffer, idx)\<close> for the
  bytes stored from index 0 on; all commands here are shorter than 256 bytes.
\<close>

definition send_cmd_logged :: "bytes \<Rightarrow> effect list" where
  "send_cmd_logged p = [Sleep acl_wait, Cmd_Out p, Log_Packet hci_command p]"

lemma effects_of_send_cmd_logged [simp]:
  "cmds_of (send_cmd_logged p) = [p]" "acls_of (send_cmd_logged p) = []"
  "resubmits (send_cmd_logged p) = 0"
  by (simp_all add: send_cmd_logged_def)

text \<open>The address that the commands without a parameter of their own are sent to.\<close>

definition partner_address :: bd_addr where
  "partner_address = [0xAB, 0x8A, 0x0F, 0xA3, 0x5F, 0x70]"

section \<open>Link keys\<close>

text \<open>Link key notification (0x18): the key is added, the database is written to its file.\<close>

definition link_key_notification ::
  "bytes \<Rightarrow> u8 \<Rightarrow> data_store \<Rightarrow> (effect list \<times> data_store) res" where
  "link_key_notification b idx db =
     andthen (next_byte b idx) (\<lambda>(parameter_total_length, idx).
     andthen (read_bd_addr b idx) (\<lambda>(addr, idx).
     andthen (print_bd_addr addr) (\<lambda>addr_line.
     andthen (read_link_key b idx) (\<lambda>(key, idx).
     andthen (print_link_key key) (\<lambda>key_line.
       let db = add_key addr key db in
       Inr ([Print ''parameter_total_length'' [uint parameter_total_length], addr_line, key_line,
             Store_Keys (store_to_file db)], db))))))"

text \<open>
  The replies to a link key request: the key of the device that asks, with a length byte
  \<open>0x06 + 0x0a\<close>, stored in the array of 1024 zeros by the writers of \<open>hci.cpp\<close>; or the
  negative reply, with the address written in the code.
\<close>

definition link_key_reply :: "bd_addr \<Rightarrow> link_key \<Rightarrow> bytes res" where
  "link_key_reply addr key =
     (let buffer = [0x0b, 0x04, 0x06 + 0x0a] @ replicate 1021 0 in
      andthen (write_bd_addr buffer addr 3) (\<lambda>(buffer, idx).
      andthen (write_link_key buffer key idx) (\<lambda>(buffer, idx).
        Inr (take (unat idx) buffer))))"

definition link_key_negative_reply :: bytes where
  "link_key_negative_reply = [0x0c, 0x04, 0x06] @ partner_address"

definition link_key_request ::
  "bytes \<Rightarrow> u8 \<Rightarrow> data_store \<Rightarrow> (effect list \<times> data_store) res" where
  "link_key_request b idx db =
     andthen (next_byte b idx) (\<lambda>(parameter_total_length, idx).
     andthen (fetch_down b (unat idx) 6) (\<lambda>notice.
     andthen (read_bd_addr b idx) (\<lambda>(addr, idx).
     andthen
       (if contains db addr then
          (let (key, db) = retrieve addr db in
           andthen (link_key_reply addr key) (\<lambda>p.
             Inr ([Sleep acl_wait, Cmd_Out p, Sleep (acl_wait * 2), Log_Packet hci_command p], db)))
        else Inr (send_cmd_logged link_key_negative_reply, db)) (\<lambda>(es, db).
       Inr ([Print ''parameter_total_length'' [uint parameter_total_length],
             Print ''A Link Key is required'' (map uint notice)] @ es, db)))))"

section \<open>The other answers of the pairing\<close>

definition io_capability_reply :: bytes where
  "io_capability_reply = [0x2B, 0x04, 0x09] @ partner_address @ [0x00, 0x00, 0x04]"

definition user_confirmation_reply :: bytes where
  "user_confirmation_reply = [0x2c, 0x04, 0x06] @ partner_address"

text \<open>The PIN code reply is assembled without a length byte, and with the opcode 0x000D.\<close>

definition pin_code_reply :: bytes where
  "pin_code_reply = [0x0D, 0x00] @ partner_address @ [0x04]
     @ [0x01, 0x01, 0x01, 0x01, 0x00, 0x00, 0x00, 0x00, 0x00, 0x00, 0x00, 0x00, 0x00, 0x00, 0x00, 0x00]"

section \<open>Connections and status\<close>

definition completed_packets_event :: "bytes \<Rightarrow> u8 \<Rightarrow> effect list res" where
  "completed_packets_event b idx =
     andthen (next_byte b idx) (\<lambda>(parameter_total_length, idx).
     andthen (next_byte b idx) (\<lambda>(handles, idx).
     andthen (next_byte b idx) (\<lambda>(connection_handle_0, idx).
     andthen (next_byte b idx) (\<lambda>(connection_handle_1, idx).
     andthen (next_byte b idx) (\<lambda>(completed_packets_0, idx).
     andthen (next_byte b idx) (\<lambda>(completed_packets_1, idx).
       Inr [Print ''parameter_total_length'' [uint parameter_total_length],
            Print ''number of connection handles'' [uint handles],
            Print ''connection_handle'' [uint connection_handle_1, uint connection_handle_0],
            Print ''completed_packets'' [uint completed_packets_1, uint completed_packets_0]]))))))"

definition server_le_meta_event :: "bytes \<Rightarrow> u8 \<Rightarrow> effect list res" where
  "server_le_meta_event b idx =
     andthen (next_byte b idx) (\<lambda>(parameter_total_length, idx).
     andthen (next_byte b idx) (\<lambda>(sub_event_code, idx).
     andthen (next_byte b idx) (\<lambda>(num_reports, idx).
     andthen (next_byte b idx) (\<lambda>(event_type, idx).
     andthen (next_byte b idx) (\<lambda>(address_type, idx).
       Inr [Print ''parameter_total_length'' [uint parameter_total_length]])))))"

text \<open>Command status (0x0F): the text of a status is looked up with the checked \<open>at\<close>.\<close>

definition command_status_event :: "bytes \<Rightarrow> u8 \<Rightarrow> effect list res" where
  "command_status_event b idx =
     andthen (next_byte b idx) (\<lambda>(parameter_total_length, idx).
     andthen (next_byte b idx) (\<lambda>(status, idx).
     andthen (if status = 0x00 then Inr (Print ''Command succeeded'' []) else hci_error_name status)
       (\<lambda>status_line.
     andthen (next_byte b idx) (\<lambda>(num_HCI_command_packets, idx).
     andthen (next_byte b idx) (\<lambda>(code_lower, idx).
     andthen (next_byte b idx) (\<lambda>(code_upper, idx).
       Inr [status_line, Print ''num_HCI_command_packets'' [uint num_HCI_command_packets],
            Print ''command_opcode'' [uint (join16 code_upper code_lower)]]))))))"

definition server_connection_complete_event :: "bytes \<Rightarrow> u8 \<Rightarrow> effect list res" where
  "server_connection_complete_event b idx =
     andthen (next_byte b idx) (\<lambda>(parameter_total_length, idx).
     andthen (next_byte b idx) (\<lambda>(result_code, idx).
     andthen (next_byte b idx) (\<lambda>(connection_handle_0, idx).
     andthen (next_byte b idx) (\<lambda>(connection_handle_1, idx).
     let idx = idx + 6 in
     andthen (next_byte b idx) (\<lambda>(acl_connection_data_channels, idx).
     andthen (next_byte b idx) (\<lambda>(encryption_mode, idx).
       Inr ([Print ''result_code'' [uint result_code],
            (if result_code = 0x00 then Print ''success'' []
             else if result_code = 0x10 then Print ''CONNECTION ACCEPT TIMEOUT EXCEEDED'' []
             else Print ''Unknown error code'' [uint result_code]),
            Print ''connection_handle'' [uint connection_handle_1, uint connection_handle_0],
            Print ''Link Type'' [uint acl_connection_data_channels],
            Print ''Encryption Mode'' [uint encryption_mode]] @ submit_transfer)))))))"

text \<open>Connection request (0x04): accepted, for the address in the bytes 2 to 7 of the event.\<close>

definition accept_connection_of :: "bd_addr \<Rightarrow> bytes" where
  "accept_connection_of address = [0x09, 0x04, 0x07] @ address @ [0x01]"

definition server_connection_request_event :: "bytes \<Rightarrow> u8 \<Rightarrow> effect list res" where
  "server_connection_request_event b idx =
     andthen (next_byte b idx) (\<lambda>(parameter_total_length, idx).
     let idx = idx + 6 in
     andthen (next_byte b idx) (\<lambda>(class_of_device_0, idx).
     andthen (next_byte b idx) (\<lambda>(class_of_device_1, idx).
     andthen (next_byte b idx) (\<lambda>(class_of_device_2, idx).
     andthen (next_byte b idx) (\<lambda>(acl_connection_data_channels, idx).
     andthen (fetch_up b 2 6) (\<lambda>address.
       Inr ([Print ''class_of_device''
               [uint class_of_device_2, uint class_of_device_1, uint class_of_device_0],
             Print ''Link Type'' [uint acl_connection_data_channels]]
            @ send_cmd_logged (accept_connection_of address) @ submit_transfer)))))))"

section \<open>Command complete\<close>

text \<open>
  The responses to the commands of the initialisation. Here the index is the \<open>uint8_t\<close>
  variable of the whole function; values of two bytes are composed in an \<open>int\<close> or kept in
  the \<open>uint16_t\<close> \<open>temp\<close>, which is the same number.
\<close>

definition next_word :: "bytes \<Rightarrow> u8 \<Rightarrow> (int \<times> u8) res" where
  "next_word b idx =
     andthen (next_byte b idx) (\<lambda>(lower, idx).
     andthen (next_byte b idx) (\<lambda>(upper, idx). Inr (uint (join16 upper lower), idx)))"

definition server_scan_enable_response :: "bytes \<Rightarrow> u8 \<Rightarrow> effect list res" where
  "server_scan_enable_response b idx =
     andthen (next_byte b idx) (\<lambda>(status, idx).
     andthen (next_byte b idx) (\<lambda>(temp, idx).
       Inr [Print ''Response to HCI_Read_Scan_Enable'' [], Print ''status'' [uint status],
            (if temp = 0 then Print ''No Scans enabled.'' []
             else if temp = 1 then Print ''Inquiry Scan enabled + Page Scan disabled.'' []
             else if temp = 2 then Print ''Inquiry Scan disabled. + Page Scan enabled.'' []
             else if temp = 3 then Print ''Inquiry Scan enabled. + Page Scan enabled.'' []
             else Print ''Reserved.'' [])]))"

definition server_local_version_response :: "bytes \<Rightarrow> u8 \<Rightarrow> effect list res" where
  "server_local_version_response b idx =
     andthen (next_byte b idx) (\<lambda>(status, idx).
     andthen (next_byte b idx) (\<lambda>(hci_version, idx).
     andthen (next_word b idx) (\<lambda>(hci_revision, idx).
     andthen (next_byte b idx) (\<lambda>(lmp_version, idx).
     andthen (next_word b idx) (\<lambda>(manufacturer_name, idx).
     andthen (next_word b idx) (\<lambda>(lmp_subversion, idx).
       Inr [Print ''Response to HCI_Read_Local_Version_Information'' [],
            Print ''status'' [uint status], Print ''HCI Version'' [uint hci_version],
            Print ''HCI Revision'' [hci_revision], Print ''LMP Version'' [uint lmp_version],
            Print ''Manufacturer_Name'' [manufacturer_name],
            Print ''LMP Subversion'' [lmp_subversion]]))))))"

definition server_local_name_response :: "bytes \<Rightarrow> u8 \<Rightarrow> effect list res" where
  "server_local_name_response b idx =
     andthen (next_byte b idx) (\<lambda>(status, idx).
     andthen (printf_text (drop (unat idx) b)) (\<lambda>name.
       Inr [Print ''Response to HCI_Read_Local_Name'' [], Print ''status'' [uint status],
            Print ''DeviceLocalName'' (map uint name)]))"

definition server_supported_commands_response :: "bytes \<Rightarrow> int \<Rightarrow> u8 \<Rightarrow> effect list res" where
  "server_supported_commands_response b actual_len idx =
     andthen (next_byte b idx) (\<lambda>(status, idx).
     andthen (fetch_up b (unat idx) (nat (actual_len - uint idx))) (\<lambda>commands.
       Inr [Print ''Response to HCI_Read_Local_Supported_Commands'' [],
            Print ''status'' [uint status],
            Print ''Local supported commands'' (map uint commands)]))"

text \<open>The two bytes of features are read, but not printed.\<close>

definition server_supported_features_response :: "bytes \<Rightarrow> u8 \<Rightarrow> effect list res" where
  "server_supported_features_response b idx =
     andthen (next_byte b idx) (\<lambda>(status, idx).
     andthen (next_byte b idx) (\<lambda>(temp, idx).
     andthen (next_byte b idx) (\<lambda>(temp, idx).
       Inr [Print ''Response to HCI_Read_Local_Supported_Commands'' [],
            Print ''status'' [uint status], Print ''Local supported featuress'' []])))"

definition server_buffer_size_response :: "bytes \<Rightarrow> u8 \<Rightarrow> effect list res" where
  "server_buffer_size_response b idx =
     andthen (next_byte b idx) (\<lambda>(status, idx).
     andthen (next_word b idx) (\<lambda>(acl_length, idx).
     andthen (next_byte b idx) (\<lambda>(sco_length, idx).
     andthen (next_word b idx) (\<lambda>(acl_packets, idx).
     andthen (next_word b idx) (\<lambda>(sco_packets, idx).
       Inr [Print ''Response to HCI_Read_Buffer_Size'' [], Print ''status'' [uint status],
            Print ''Host ACL Data Packet Length in bytes'' [acl_length],
            Print ''Host SCO Data Packet Length in bytes'' [uint sco_length],
            Print ''Host Total Num ACL Data Packets'' [acl_packets],
            Print ''Host Total Num SCO Data Packets'' [sco_packets]])))))"

definition server_bd_addr_response :: "bytes \<Rightarrow> int \<Rightarrow> u8 \<Rightarrow> effect list res" where
  "server_bd_addr_response b actual_len idx =
     andthen (next_byte b idx) (\<lambda>(status, idx).
     andthen (fetch_down b (unat idx) (nat (actual_len - uint idx))) (\<lambda>address.
       Inr [Print ''Response to HCI_Read_BD_ADDR'' [], Print ''status'' [uint status],
            Print ''BD_ADDR'' (map uint address)]))"

definition server_le_buffer_size_response :: "bytes \<Rightarrow> u8 \<Rightarrow> effect list res" where
  "server_le_buffer_size_response b idx =
     andthen (next_byte b idx) (\<lambda>(status, idx).
     andthen (next_word b idx) (\<lambda>(packet_length, idx).
     andthen (next_byte b idx) (\<lambda>(packets, idx).
       Inr [Print ''Response to LE_Read_Buffer_Size'' [], Print ''status'' [uint status],
            Print ''LE ACL Data Packet Length'' [packet_length],
            Print ''Total Number LE ACL Data Packets'' [uint packets]])))"

definition server_command_response :: "u16 \<Rightarrow> bytes \<Rightarrow> int \<Rightarrow> u8 \<Rightarrow> effect list res" where
  "server_command_response opcode b actual_len idx =
     (case map_of acknowledged opcode of
        Some line \<Rightarrow> Inr [Print line []]
      | None \<Rightarrow>
          if opcode = HCI_Read_Scan_Enable then server_scan_enable_response b idx
          else if opcode = HCI_Read_Local_Version_Information then server_local_version_response b idx
          else if opcode = HCI_Read_Local_Name then server_local_name_response b idx
          else if opcode = HCI_Read_Local_Supported_Commands then
            server_supported_commands_response b actual_len idx
          else if opcode = HCI_Read_Local_Supported_Features then
            server_supported_features_response b idx
          else if opcode = HCI_Read_Buffer_Size then server_buffer_size_response b idx
          else if opcode = HCI_Read_BD_ADDR then server_bd_addr_response b actual_len idx
          else if opcode = LE_Read_Buffer_Size then server_le_buffer_size_response b idx
          else Inr [Print ''Response to UNKNOWN command'' []])"

definition server_command_complete_event :: "bytes \<Rightarrow> int \<Rightarrow> u8 \<Rightarrow> effect list res" where
  "server_command_complete_event b actual_len idx =
     andthen (next_byte b idx) (\<lambda>(parameter_total_length, idx).
     andthen (next_byte b idx) (\<lambda>(num_HCI_command_packets, idx).
     andthen (next_byte b idx) (\<lambda>(code_lower, idx).
     andthen (next_byte b idx) (\<lambda>(code_upper, idx).
       server_command_response (join16 code_upper code_lower) b actual_len idx))))"

section \<open>The dispatch\<close>

definition event_answer ::
  "u8 \<Rightarrow> bytes \<Rightarrow> int \<Rightarrow> u8 \<Rightarrow> data_store \<Rightarrow> (effect list \<times> data_store) res" where
  "event_answer event_code b actual_len idx db =
     (let same_keys = (\<lambda>r. andthen r (\<lambda>es. Inr (es, db))) in
      if event_code = 0x18 then link_key_notification b idx db
      else if event_code = 0x38 then
        Inr ([Print ''Link Supervision Timeout Changed Event'' []], db)
      else if event_code = 0x13 then same_keys (completed_packets_event b idx)
      else if event_code = HCI_EVENT_LINK_KEY_REQUEST then link_key_request b idx db
      else if event_code = 0x31 then Inr (send_cmd_logged io_capability_reply @ submit_transfer, db)
      else if event_code = 0x33 then
        Inr (send_cmd_logged user_confirmation_reply @ submit_transfer, db)
      else if event_code = 0x3E then same_keys (server_le_meta_event b idx)
      else if event_code = HCI_EVENT_TRANSFER_COMPLETE then
        Inr ([Print ''HCI_EVENT_TRANSFER_COMPLETE'' []], db)
      else if event_code = 0x16 then Inr (send_cmd_logged pin_code_reply @ submit_transfer, db)
      else if event_code = 0x0f then same_keys (command_status_event b idx)
      else if event_code = 0x03 then same_keys (server_connection_complete_event b idx)
      else if event_code = 0x04 then same_keys (server_connection_request_event b idx)
      else if event_code = HCI_EVENT_CODE_COMMAND_COMPLETE then
        same_keys (server_command_complete_event b actual_len idx)
      else Inr ([Print ''Unknown event code'' [uint event_code]], db))"

text \<open>
  \<open>dump_hci_event(transfer)\<close> with the link key database. The event is logged first, up to
  its length modulo 256.
\<close>

definition server_dump_hci_event ::
  "libusb_transfer \<Rightarrow> data_store \<Rightarrow> (effect list \<times> data_store) res" where
  "server_dump_hci_event t db =
     andthen (fetch_up (tbuffer t) 0 (unat (word_of_int (actual_length t) :: u8))) (\<lambda>logged.
     andthen (next_byte (tbuffer t) 0) (\<lambda>(event_code, idx).
     andthen (event_answer event_code (tbuffer t) (actual_length t) idx db) (\<lambda>(es, db).
       Inr ([Log_Packet hci_event logged, Print ''event code'' [uint event_code]] @ es, db))))"

end
