(* ===== verification/Server_Events_Props.thy ===== *)
theory Server_Events_Props
  imports Server_Events Main_Events_Props
begin

text \<open>
  What the event handler of \<open>hci_test.cpp\<close> guarantees: the link key of a pairing survives a
  restart, the commands it sends and their lengths, the address it accepts a connection for,
  that it stays inside its buffers, which events make it throw, and that its interpretation
  of command complete events is the one of \<open>main.c\<close>, without the stale index.
\<close>

section \<open>Transfers\<close>

text \<open>A completed transfer: not more bytes received than the buffer holds.\<close>

definition in_buffer :: "libusb_transfer \<Rightarrow> bool" where
  "in_buffer t \<longleftrightarrow> 0 \<le> actual_length t \<and> nat (actual_length t) \<le> length (tbuffer t)"

lemma logged_part:
  assumes "in_buffer t"
  shows "\<exists>p. fetch_up (tbuffer t) 0 (unat (word_of_int (actual_length t) :: u8)) = Inr p"
proof -
  have "unat (word_of_int (actual_length t) :: u8) \<le> nat (actual_length t)"
    using assms by (simp add: in_buffer_def unsigned_of_int take_bit_eq_mod nat_mod_distrib)
  then show ?thesis using assms by (simp add: in_buffer_def fetch_up_in_range)
qed

lemma dump_event:
  assumes "in_buffer t" and "fetch (tbuffer t) 0 = Inr c"
    and "event_answer c (tbuffer t) (actual_length t) 1 db = Inr (es, db')"
  obtains p where "server_dump_hci_event t db =
    Inr ([Log_Packet hci_event p, Print ''event code'' [uint c]] @ es, db')"
  using logged_part [OF assms(1)] assms(2,3) by (auto simp: server_dump_hci_event_def next_byte_def)

lemma dump_eventE:
  assumes "server_dump_hci_event t db = Inr (es, db')"
  obtains p c es' where "fetch (tbuffer t) 0 = Inr c"
    "event_answer c (tbuffer t) (actual_length t) 1 db = Inr (es', db')"
    "es = [Log_Packet hci_event p, Print ''event code'' [uint c]] @ es'"
  using assms
  by (auto simp: server_dump_hci_event_def next_byte_def andthen_eq_Inr)

section \<open>Link keys\<close>

lemma link_key_reply_bytes:
  assumes "is_bd_addr a" and "is_link_key k"
  shows "link_key_reply a k = Inr ([0x0b, 0x04, 0x10] @ a @ k)"
proof -
  have len: "length a = 6" "length k = 16"
    using assms by (simp_all add: is_bd_addr_def is_link_key_def)
  let ?b = "[0x0b, 0x04, 0x10] @ replicate 1021 (0 :: u8)"
  have "write_bd_addr ?b a 3 = Inr ([0x0b, 0x04, 0x10] @ a @ replicate 1015 0, 9)"
    using addr.write_fits [OF len(1), of 3 ?b] by simp
  moreover have "write_link_key ([0x0b, 0x04, 0x10] @ a @ replicate 1015 0) k 9 =
      Inr ([0x0b, 0x04, 0x10] @ a @ k @ replicate 999 0, 25)"
    using key.write_fits [OF len(2), of 9 "[0x0b, 0x04, 0x10] @ a @ replicate 1015 0"] len by simp
  ultimately show ?thesis using len by (simp add: link_key_reply_def Let_def)
qed

lemma notification_stores_key:
  assumes "holds_at b 1 (l # a @ k)" and "is_bd_addr a" and "is_link_key k"
  shows "\<exists>lines. link_key_notification b 1 db =
    Inr (lines @ [Store_Keys (store_to_file (add_key a k db))], add_key a k db) \<and> cmds_of lines = []"
proof -
  have len: "length a = 6" "length k = 16"
    using assms by (simp_all add: is_bd_addr_def is_link_key_def)
  have "next_byte b 1 = Inr (l, 2)" "holds_at b 2 a" "holds_at b 8 k"
    using assms(1) len by (simp_all add: holds_at_Cons holds_at_append numeral_2_eq_2 next_byte_def)
  moreover from this have "read_bd_addr b 2 = Inr (a, 8)" "read_link_key b 8 = Inr (k, 24)"
    using addr.read_held [of b 2 a] key.read_held [of b 8 k] len by simp_all
  moreover have "\<exists>x. print_bd_addr a = Inr x \<and> cmds_of [x] = []"
    using len fetch_down_in_range [of 0 6 a] by (simp add: print_bd_addr_def)
  moreover have "\<exists>x. print_link_key k = Inr x \<and> cmds_of [x] = []"
    using len fetch_up_in_range [of 0 16 k] by (simp add: print_link_key_def)
  ultimately show ?thesis
    using cmds_of_append [of "[_]" "[_]"] by (auto simp: link_key_notification_def Let_def)
qed

lemma request_known_key:
  assumes "holds_at b 1 (l # a)" and "map_of db a = Some k" and "is_bd_addr a" and "is_link_key k"
  shows "\<exists>es. link_key_request b 1 db = Inr (es, db) \<and> cmds_of es = [[0x0b, 0x04, 0x10] @ a @ k]"
proof -
  have len: "length a = 6" using assms(3) by (simp add: is_bd_addr_def)
  have "next_byte b 1 = Inr (l, 2)" "holds_at b 2 a"
    using assms(1) by (simp_all add: holds_at_Cons numeral_2_eq_2 next_byte_def)
  moreover from this have "read_bd_addr b 2 = Inr (a, 8)" "fetch_down b 2 6 = Inr (rev a)"
    using addr.read_held [of b 2 a] fetch_down_holds [of b 2 a] len by simp_all
  ultimately show ?thesis
    using assms(2) link_key_reply_bytes [OF assms(3,4)]
    by (simp add: link_key_request_def contains_def retrieve_def Let_def)
qed

text \<open>
  C4. A pairing survives a restart of the program. When the controller notifies a link key
  for a device that is not in the database, the handler writes the database to its file;
  loading that file gives the database with the new key, and a later link key request of the
  same device is answered, by a program that loaded the file, with one command that carries
  exactly this device and this key.
\<close>

theorem pairing_survives_restart:
  assumes "in_buffer t" and "in_buffer t'"
    and "holds_at (tbuffer t) 0 ([0x18, l] @ a @ k)" and "holds_at (tbuffer t') 0 ([0x17, l'] @ a)"
    and "is_bd_addr a" and "is_link_key k"
    and "well_formed db" and "\<not> contains db a" and "length db < 65535"
  shows "\<exists>es file db' es'. server_dump_hci_event t db = Inr (es @ [Store_Keys file], db') \<and>
    load_from_file (Some file) = Inr db' \<and> server_dump_hci_event t' db' = Inr (es', db') \<and>
    cmds_of es' = [[0x0b, 0x04, 0x10] @ a @ k]"
proof -
  let ?db = "add_key a k db"
  have wf: "well_formed ?db"
    using keys.inv_add [OF assms(7)] assms(5,6) by (simp add: key_entry_def)
  have known: "map_of ?db a = Some k"
    using keys.lookup_add [OF assms(7), of a k] assms(8) by (simp add: contains_def)
  have "length ?db < 65536"
    using assms(9) length_insert_pair [of a k db] by (simp add: add_key_def)
  then have stored: "load_from_file (Some (store_to_file ?db)) = Inr ?db"
    using wf by (rule load_stored)
  have n: "fetch (tbuffer t) 0 = Inr 0x18" "holds_at (tbuffer t) 1 (l # a @ k)"
    using assms(3) by (simp_all add: holds_at_Cons)
  from notification_stores_key [OF n(2) assms(5,6), of db] obtain lines where
    "event_answer 0x18 (tbuffer t) (actual_length t) 1 db =
      Inr (lines @ [Store_Keys (store_to_file ?db)], ?db)"
    by (auto simp: event_answer_def Let_def)
  from dump_event [OF assms(1) n(1) this] obtain es1 where
    first: "server_dump_hci_event t db = Inr (es1 @ [Store_Keys (store_to_file ?db)], ?db)"
    by (metis append_assoc)
  have r: "fetch (tbuffer t') 0 = Inr 0x17" "holds_at (tbuffer t') 1 (l' # a)"
    using assms(4) by (simp_all add: holds_at_Cons)
  from request_known_key [OF r(2) known assms(5,6)] obtain es where
    es: "event_answer 0x17 (tbuffer t') (actual_length t') 1 ?db = Inr (es, ?db)"
      "cmds_of es = [[0x0b, 0x04, 0x10] @ a @ k]"
    by (auto simp: event_answer_def Let_def HCI_EVENT_LINK_KEY_REQUEST_def)
  from dump_event [OF assms(2) r(1) es(1)] obtain p' where
    second: "server_dump_hci_event t' ?db =
      Inr ([Log_Packet hci_event p', Print ''event code'' [uint (0x17 :: u8)]] @ es, ?db)" .
  have "cmds_of ([Log_Packet hci_event p', Print ''event code'' [uint (0x17 :: u8)]] @ es) =
      [[0x0b, 0x04, 0x10] @ a @ k]"
    using es(2) by simp
  then show ?thesis using first stored second by blast
qed

lemma pairing_survives_restart_witness:
  "\<exists>es file db' es'.
     server_dump_hci_event (completed_transfer ([0x18, 22, 1, 2, 3, 4, 5, 6] @ replicate 16 7) 24) []
       = Inr (es @ [Store_Keys file], db') \<and>
     load_from_file (Some file) = Inr db' \<and>
     server_dump_hci_event (completed_transfer [0x17, 6, 1, 2, 3, 4, 5, 6] 8) db' = Inr (es', db') \<and>
     cmds_of es' = [[0x0b, 0x04, 0x10, 1, 2, 3, 4, 5, 6] @ replicate 16 7]"
  using pairing_survives_restart
    [of "completed_transfer ([0x18, 22, 1, 2, 3, 4, 5, 6] @ replicate 16 7) 24"
      "completed_transfer [0x17, 6, 1, 2, 3, 4, 5, 6] 8" 22 "[1, 2, 3, 4, 5, 6]" "replicate 16 7" 6 "[]"]
  by (simp add: in_buffer_def holds_at_def is_bd_addr_def is_link_key_def well_formed_def contains_def)

section \<open>The commands sent\<close>

text \<open>Every command the handler sends, by the event that causes it.\<close>

definition answer_commands :: "u8 \<Rightarrow> bytes \<Rightarrow> data_store \<Rightarrow> bytes list" where
  "answer_commands c b db =
     (if c = 0x17 then
        (case map_of db (take 6 (drop 2 b)) of
           Some k \<Rightarrow> [[0x0b, 0x04, 0x10] @ take 6 (drop 2 b) @ k]
         | None \<Rightarrow> [link_key_negative_reply])
      else if c = 0x31 then [io_capability_reply]
      else if c = 0x33 then [user_confirmation_reply]
      else if c = 0x16 then [pin_code_reply]
      else if c = 0x04 then [accept_connection_of (take 6 (drop 2 b))]
      else [])"

lemma fetch_up_eq_Inr:
  "fetch_up b lo n = Inr v \<longleftrightarrow> (n = 0 \<or> lo + n \<le> length b) \<and> v = take n (drop lo b)"
proof (cases "lo + n \<le> length b")
  case True
  then show ?thesis by (auto simp: fetch_up_in_range)
next
  case False
  then show ?thesis using fetch_up_too_far [of b lo n] by (cases "n = 0") auto
qed

lemma server_response_quiet:
  "server_command_response opcode b n idx = Inr es \<Longrightarrow> cmds_of es = []"
  by (auto simp: server_command_response_def server_scan_enable_response_def
      server_local_version_response_def server_local_name_response_def
      server_supported_commands_response_def server_supported_features_response_def
      server_buffer_size_response_def server_bd_addr_response_def
      server_le_buffer_size_response_def andthen_eq_Inr split: option.splits if_splits)

lemma link_key_request_commands:
  assumes "link_key_request b 1 db = Inr (es, db')" and "well_formed db"
  shows "cmds_of es = answer_commands 0x17 b db \<and> db' = db"
proof -
  have a: "read_bd_addr b 2 = Inr (take 6 (drop 2 b), 8)" "is_bd_addr (take 6 (drop 2 b))"
    using assms(1)
    by (auto simp: link_key_request_def read_bd_addr_def andthen_eq_Inr next_byte_def fetch_up_eq_Inr
        is_bd_addr_def)
  show ?thesis
  proof (cases "map_of db (take 6 (drop 2 b))")
    case None
    then show ?thesis
      using assms(1) a
      by (auto simp: link_key_request_def andthen_eq_Inr next_byte_def contains_def answer_commands_def)
  next
    case (Some k)
    then have "is_link_key k"
      using assms(2) map_of_SomeD [OF Some] by (auto simp: well_formed_def list_all_iff)
    then show ?thesis
      using assms(1) a Some link_key_reply_bytes [OF a(2), of k]
      by (auto simp: link_key_request_def andthen_eq_Inr next_byte_def contains_def retrieve_def
          answer_commands_def)
  qed
qed

lemma event_answer_commands:
  assumes "event_answer c b n 1 db = Inr (es, db')" and "well_formed db"
  shows "cmds_of es = answer_commands c b db"
proof -
  have quiet: "cmds_of es' = []"
    if "completed_packets_event b 1 = Inr es' \<or> server_le_meta_event b 1 = Inr es'
      \<or> command_status_event b 1 = Inr es' \<or> server_connection_complete_event b 1 = Inr es'
      \<or> server_command_complete_event b n 1 = Inr es'" for es'
    using that
    by (auto simp: completed_packets_event_def server_le_meta_event_def command_status_event_def
        hci_error_name_def server_connection_complete_event_def server_command_complete_event_def
        andthen_eq_Inr Let_def split: if_splits dest: server_response_quiet)
  have notified: "cmds_of es' = []" if "link_key_notification b 1 db = Inr (es', db')" for es'
    using that by (auto simp: link_key_notification_def andthen_eq_Inr Let_def print_bd_addr_def
        print_link_key_def)
  have accepted: "cmds_of es' = [accept_connection_of (take 6 (drop 2 b))]"
    if "server_connection_request_event b 1 = Inr es'" for es'
    using that
    by (auto simp: server_connection_request_event_def andthen_eq_Inr Let_def fetch_up_eq_Inr)
  show ?thesis
    using assms(1) quiet notified accepted link_key_request_commands [OF _ assms(2)]
    by (auto simp: event_answer_def answer_commands_def HCI_EVENT_LINK_KEY_REQUEST_def
        HCI_EVENT_TRANSFER_COMPLETE_def HCI_EVENT_CODE_COMMAND_COMPLETE_def Let_def andthen_eq_Inr
        split: if_splits)
qed

lemma dump_commands:
  assumes "server_dump_hci_event t db = Inr (es, db')" and "well_formed db"
  shows "\<exists>c. fetch (tbuffer t) 0 = Inr c \<and> cmds_of es = answer_commands c (tbuffer t) db"
  using assms by (auto elim!: dump_eventE dest: event_answer_commands)

lemmas fixed_answers =
  link_key_negative_reply_def partner_address_def io_capability_reply_def
  user_confirmation_reply_def pin_code_reply_def accept_connection_of_def

lemma command_lengths_Cons [simp]:
  "command_lengths_ok (x # y # n # parameters) \<longleftrightarrow> unat n = length parameters"
  by (simp add: command_lengths_ok_def)

lemma answer_lengths:
  assumes "well_formed db" and "8 \<le> length b" and "p \<in> set (answer_commands c b db)"
  shows "command_lengths_ok p \<longleftrightarrow> c \<noteq> 0x16 \<and> \<not> (c = 0x17 \<and> contains db (take 6 (drop 2 b)))"
proof -
  obtain a where a: "take 6 (drop 2 b) = a" "length a = 6" using assms(2) by simp
  have k: "length k = 16" if "map_of db a = Some k" for k
    using assms(1) map_of_SomeD [OF that]
    by (auto simp: well_formed_def list_all_iff is_link_key_def)
  consider "c = 0x17" "map_of db a = None" "p = link_key_negative_reply"
    | k where "c = 0x17" "map_of db a = Some k" "p = [0x0b, 0x04, 0x10] @ a @ k"
    | "c = 0x16" "p = pin_code_reply"
    | "c = 0x31 \<or> c = 0x33 \<or> c = 0x04"
      "p = io_capability_reply \<or> p = user_confirmation_reply \<or> p = accept_connection_of a"
    using assms(3) unfolding answer_commands_def a(1) by (auto split: if_splits option.splits)
  then show ?thesis
    unfolding a(1) by cases (use a(2) k in \<open>auto simp: contains_def fixed_answers\<close>)
qed

text \<open>
  C11. The commands sent are exactly determined by the event: one command for a connection
  request, a link key request, an input and output capability request, a confirmation
  request and a PIN request, none for any other event. The length byte of the command is
  the number of its parameter bytes, except in two of them, which a controller cannot
  accept: the reply with a known link key (22 parameter bytes announced as 16) and the PIN
  reply.
\<close>

theorem server_commands_by_event:
  assumes "server_dump_hci_event t db = Inr (es, db')" and "well_formed db"
    and "8 \<le> length (tbuffer t)" and "tbuffer t ! 0 = c"
  shows "cmds_of es = answer_commands c (tbuffer t) db \<and>
    (\<forall>p \<in> set (cmds_of es). command_lengths_ok p \<longleftrightarrow>
       c \<noteq> 0x16 \<and> \<not> (c = 0x17 \<and> contains db (take 6 (drop 2 (tbuffer t)))))"
proof -
  have "fetch (tbuffer t) 0 = Inr c" using assms(3,4) by (cases "tbuffer t") (auto simp: fetch_def)
  then have "cmds_of es = answer_commands c (tbuffer t) db"
    using dump_commands [OF assms(1,2)] by auto
  then show ?thesis using answer_lengths [OF assms(2,3)] by simp
qed

lemma server_commands_by_event_witness:
  "\<exists>es db'. server_dump_hci_event (completed_transfer [0x31, 6, 1, 2, 3, 4, 5, 6] 8) [] = Inr (es, db') \<and>
     cmds_of es = [io_capability_reply] \<and> command_lengths_ok io_capability_reply"
proof -
  let ?t = "completed_transfer [0x31, 6, 1, 2, 3, 4, 5, 6] 8"
  have "\<exists>es db'. server_dump_hci_event ?t [] = Inr (es, db')"
    by (simp add: server_dump_hci_event_def event_answer_def fetch_numeral Let_def
        HCI_EVENT_LINK_KEY_REQUEST_def)
  then obtain es db' where r: "server_dump_hci_event ?t [] = Inr (es, db')" by blast
  show ?thesis
    using r server_commands_by_event [OF r, of "0x31"]
    by (auto simp: well_formed_def answer_commands_def)
qed

text \<open>
  A connection request is accepted for the device that asks: whatever its class and link
  type, the only command sent is the acceptance, well formed, with the address of the
  request, and the database is not touched.
\<close>

lemma server_accepts_asking_device:
  assumes "in_buffer t"
    and "holds_at (tbuffer t) 0 ([0x04, l] @ address @ [c0, c1, c2, link])" and "length address = 6"
  shows "\<exists>es. server_dump_hci_event t db = Inr (es, db) \<and>
    cmds_of es = [[0x09, 0x04, 0x07] @ address @ [0x01]] \<and>
    command_lengths_ok ([0x09, 0x04, 0x07] @ address @ [0x01])"
proof -
  have h: "holds_at (tbuffer t) 0 [0x04, l]" "holds_at (tbuffer t) 2 address"
    "holds_at (tbuffer t) 8 [c0, c1, c2, link]"
    using assms(2,3) by (simp_all add: holds_at_append holds_at_Cons numeral_2_eq_2)
  have up: "fetch_up (tbuffer t) 2 6 = Inr address" using fetch_up_holds [OF h(2)] assms(3) by simp
  have c: "fetch (tbuffer t) 0 = Inr 0x04" using h(1) by (simp add: holds_at_Cons)
  have "\<exists>es. server_connection_request_event (tbuffer t) 1 = Inr es \<and>
      cmds_of es = [[0x09, 0x04, 0x07] @ address @ [0x01]]"
    using h(1,3) up
    by (simp add: server_connection_request_event_def Let_def holds_at_Cons accept_connection_of_def)
  then obtain es where es: "event_answer 0x04 (tbuffer t) (actual_length t) 1 db = Inr (es, db)"
    "cmds_of es = [[0x09, 0x04, 0x07] @ address @ [0x01]]"
    by (auto simp: event_answer_def Let_def HCI_EVENT_LINK_KEY_REQUEST_def
        HCI_EVENT_TRANSFER_COMPLETE_def)
  from dump_event [OF assms(1) c es(1)] obtain p where
    d: "server_dump_hci_event t db =
      Inr ([Log_Packet hci_event p, Print ''event code'' [uint (0x04 :: u8)]] @ es, db)" .
  show ?thesis
    using d es(2) assms(3) by (simp add: command_lengths_ok_def)
qed

lemma server_accepts_asking_device_witness:
  "\<exists>es. server_dump_hci_event (completed_transfer [4, 10, 1, 2, 3, 4, 5, 6, 7, 8, 9, 1] 12) [] = Inr (es, []) \<and>
    cmds_of es = [[0x09, 0x04, 0x07, 1, 2, 3, 4, 5, 6, 0x01]]"
  using server_accepts_asking_device
    [of "completed_transfer [4, 10, 1, 2, 3, 4, 5, 6, 7, 8, 9, 1] 12" 10 "[1, 2, 3, 4, 5, 6]" 7 8 9 1 "[]"]
  by (auto simp: in_buffer_def holds_at_def)

section \<open>Every event is handled\<close>

lemma server_response_safe:
  assumes "length b = 1699" and "n \<le> 1699" and "opcode \<noteq> HCI_Read_Local_Name"
  shows "\<exists>es. server_command_response opcode b n 5 = Inr es"
proof -
  have range: "\<exists>es. server_bd_addr_response b n 5 = Inr es"
    "\<exists>es. server_supported_commands_response b n 5 = Inr es"
    using assms
    by (simp_all add: server_bd_addr_response_def server_supported_commands_response_def
        next_byte_1699 fetch_up_in_range fetch_down_in_range)
  have bytes: "\<exists>es. server_scan_enable_response b 5 = Inr es"
    "\<exists>es. server_local_version_response b 5 = Inr es"
    "\<exists>es. server_supported_features_response b 5 = Inr es"
    "\<exists>es. server_buffer_size_response b 5 = Inr es"
    "\<exists>es. server_le_buffer_size_response b 5 = Inr es"
    using assms
    by (simp_all add: server_scan_enable_response_def server_local_version_response_def
        server_supported_features_response_def server_buffer_size_response_def next_word_def
        server_le_buffer_size_response_def next_byte_1699)
  show ?thesis
    using assms(3) range bytes
    by (cases "map_of acknowledged opcode") (auto simp: server_command_response_def)
qed

text \<open>
  The events that the handler does not survive: a command status with a status that has no
  text, and a device name with a conversion specification or without its end.
\<close>

definition unknown_status :: "bytes \<Rightarrow> bool" where
  "unknown_status b \<longleftrightarrow> b ! 0 = 0x0f \<and> b ! 2 \<noteq> 0 \<and> \<not> error_code_known (b ! 2)"

definition names_device :: "bytes \<Rightarrow> bool" where
  "names_device b \<longleftrightarrow> b ! 0 = 0x0E \<and> join16 (b ! 4) (b ! 3) = HCI_Read_Local_Name"

lemma link_key_events_safe:
  assumes "length b = 1699" and "well_formed db"
  shows "\<exists>es db'. link_key_notification b 1 db = Inr (es, db') \<and> well_formed db'"
    and "\<exists>es. link_key_request b 1 db = Inr (es, db)"
proof -
  let ?a = "take 6 (drop 2 b)" and ?k = "take 16 (drop 8 b)"
  have a: "is_bd_addr ?a" "is_link_key ?k" using assms(1) by (simp_all add: is_bd_addr_def is_link_key_def)
  then have "well_formed (add_key ?a ?k db)"
    using keys.inv_add [OF assms(2)] by (simp add: key_entry_def)
  then show "\<exists>es db'. link_key_notification b 1 db = Inr (es, db') \<and> well_formed db'"
    using assms(1) a fetch_down_in_range [of 0 6 ?a] fetch_up_in_range [of 0 16 ?k]
    by (simp add: link_key_notification_def read_bd_addr_def read_link_key_def fetch_up_in_range
        print_bd_addr_def print_link_key_def Let_def)
  show "\<exists>es. link_key_request b 1 db = Inr (es, db)"
  proof (cases "map_of db ?a")
    case None
    then show ?thesis
      using assms(1) by (simp add: link_key_request_def read_bd_addr_def fetch_up_in_range
          fetch_down_in_range contains_def)
  next
    case (Some k)
    then have "is_link_key k"
      using assms(2) map_of_SomeD [OF Some] by (auto simp: well_formed_def list_all_iff)
    then show ?thesis
      using assms(1) Some link_key_reply_bytes [OF a(1), of k]
      by (simp add: link_key_request_def read_bd_addr_def fetch_up_in_range fetch_down_in_range
          contains_def retrieve_def)
  qed
qed

lemma event_answer_safe:
  assumes "length b = 1699" and "n \<le> 1699" and "well_formed db"
    and "\<not> unknown_status b" and "\<not> names_device b"
  shows "\<exists>es db'. event_answer (b ! 0) b n 1 db = Inr (es, db') \<and> well_formed db'"
proof -
  have plain: "\<exists>es. completed_packets_event b 1 = Inr es" "\<exists>es. server_le_meta_event b 1 = Inr es"
    "\<exists>es. server_connection_complete_event b 1 = Inr es"
    "\<exists>es. server_connection_request_event b 1 = Inr es"
    using assms(1)
    by (simp_all add: completed_packets_event_def server_le_meta_event_def Let_def
        server_connection_complete_event_def server_connection_request_event_def next_byte_1699
        fetch_up_in_range)
  have status: "\<exists>es. command_status_event b 1 = Inr es" if "b ! 0 = 0x0f"
    using assms(1,4) that
    by (auto simp: command_status_event_def next_byte_1699 hci_error_name_def unknown_status_def)
  have cc: "\<exists>es. server_command_complete_event b n 1 = Inr es" if "b ! 0 = 0x0E"
    using assms(1) server_response_safe [OF assms(1,2), of "join16 (b ! 4) (b ! 3)"] assms(5) that
    by (simp add: server_command_complete_event_def next_byte_1699 names_device_def)
  show ?thesis
    using plain status cc link_key_events_safe [OF assms(1,3)] assms(3)
    by (auto simp: event_answer_def Let_def HCI_EVENT_CODE_COMMAND_COMPLETE_def)
qed

text \<open>
  C7. The handler is total on completed transfers and keeps its state well typed. With the
  1699 bytes of its buffer, whatever they are, and a well formed database it returns, with a
  well formed database and without an access outside a buffer, unless the event is a command
  status with an unknown status, which throws, or a device name, which is used as a format.
\<close>

theorem server_handler_is_total:
  assumes "length (tbuffer t) = 1699" and "in_buffer t" and "well_formed db"
  shows "if unknown_status (tbuffer t) then server_dump_hci_event t db = Inl Out_Of_Range
    else names_device (tbuffer t) \<or>
      (\<exists>es db'. server_dump_hci_event t db = Inr (es, db') \<and> well_formed db')"
proof -
  let ?b = "tbuffer t"
  have c: "fetch ?b 0 = Inr (?b ! 0)" using assms(1) by (simp add: fetch_def)
  obtain p where p: "fetch_up ?b 0 (unat (word_of_int (actual_length t) :: u8)) = Inr p"
    using logged_part [OF assms(2)] by blast
  have "server_dump_hci_event t db = Inl Out_Of_Range" if "unknown_status ?b"
    using that assms(1) p c
    by (simp add: server_dump_hci_event_def event_answer_def Let_def unknown_status_def next_byte_1699
        command_status_event_def hci_error_name_def HCI_EVENT_LINK_KEY_REQUEST_def
        HCI_EVENT_TRANSFER_COMPLETE_def)
  moreover have "\<exists>es db'. server_dump_hci_event t db = Inr (es, db') \<and> well_formed db'"
    if survives: "\<not> unknown_status ?b" "\<not> names_device ?b"
  proof -
    have "actual_length t \<le> 1699" using assms(1,2) by (simp add: in_buffer_def nat_le_iff)
    then obtain es db' where "event_answer (?b ! 0) ?b (actual_length t) 1 db = Inr (es, db')"
      "well_formed db'"
      using event_answer_safe [OF assms(1) _ assms(3) survives] by blast
    then show ?thesis using dump_event [OF assms(2) c] by metis
  qed
  ultimately show ?thesis by auto
qed

lemma server_handler_is_total_witness:
  "server_dump_hci_event (completed_transfer ([0x0f, 4, 0x42] @ replicate 1696 0) 6) [] = Inl Out_Of_Range"
  using server_handler_is_total
    [of "completed_transfer ([0x0f, 4, 0x42] @ replicate 1696 0) 6" "[]"]
  by (simp add: in_buffer_def well_formed_def unknown_status_def error_code_known_def)

section \<open>The two programs agree\<close>

lemma response_as_main:
  assumes "opcode \<noteq> HCI_Read_Local_Supported_Features"
  shows "server_command_response opcode b n 5 = command_response opcode b n 5"
proof -
  have "server_scan_enable_response b 5 = read_scan_enable_response b 5"
    "server_local_name_response b 5 = read_local_name_response b 5"
    "server_supported_commands_response b n 5 = supported_commands_response b n 5"
    "server_bd_addr_response b n 5 = read_bd_addr_response b n 5"
    by (simp_all add: server_scan_enable_response_def read_scan_enable_response_def
        server_local_name_response_def read_local_name_response_def
        server_supported_commands_response_def supported_commands_response_def
        server_bd_addr_response_def read_bd_addr_response_def
        next_byte_def next_byte_int_def andthen_assoc)
  moreover have "server_local_version_response b 5 = read_local_version_response b 5"
    "server_buffer_size_response b 5 = read_buffer_size_response b 5"
    "server_le_buffer_size_response b 5 = le_read_buffer_size_response b 5"
    by (simp_all add: server_local_version_response_def read_local_version_response_def
        server_buffer_size_response_def read_buffer_size_response_def
        server_le_buffer_size_response_def le_read_buffer_size_response_def
        next_word_def next_word_int_def next_byte_def next_byte_int_def andthen_assoc)
  ultimately show ?thesis
    using assms
    by (cases "map_of acknowledged opcode") (simp_all add: server_command_response_def command_response_def)
qed

text \<open>
  C26. On a command complete event the handler of \<open>hci_test.cpp\<close> does what the one of \<open>main.c\<close>
  does when its uninitialised index happens to be 1: the same lines after the two lines that
  each of them begins with, or the same failure, for every opcode but that of Read Local
  Supported Features, whose bits only \<open>main.c\<close> prints. The database is not changed.
\<close>

theorem server_responses_as_main:
  assumes "in_buffer t" and "fetch (tbuffer t) 0 = Inr 0x0E"
    and "join16 (tbuffer t ! 4) (tbuffer t ! 3) \<noteq> HCI_Read_Local_Supported_Features"
  shows "andthen (server_dump_hci_event t db) (\<lambda>(es, db'). Inr (drop 2 es, db')) =
    andthen (dump_hci_event 1 t) (\<lambda>es. Inr (drop 2 es, db))"
proof -
  obtain p where p: "fetch_up (tbuffer t) 0 (unat (word_of_int (actual_length t) :: u8)) = Inr p"
    using logged_part [OF assms(1)] by blast
  have same: "server_command_complete_event (tbuffer t) (actual_length t) 1 =
      andthen (command_complete_event 1 t) (\<lambda>es. Inr (drop 2 es))"
  proof (cases "4 < length (tbuffer t)")
    case True
    then show ?thesis
      using response_as_main [OF assms(3)]
      by (simp add: server_command_complete_event_def command_complete_event_def next_byte_def
          next_byte_int_def andthen_assoc Let_def)
  next
    case False
    then show ?thesis
      by (auto simp: server_command_complete_event_def command_complete_event_def next_byte_def
          next_byte_int_def fetch_def Let_def)
  qed
  have "dump_hci_event 1 t = command_complete_event 1 t"
    using assms(2) by (simp add: dump_hci_event_def next_byte_def Let_def HCI_EVENT_TRANSFER_COMPLETE_def
        HCI_EVENT_CODE_COMMAND_COMPLETE_def)
  moreover have "server_dump_hci_event t db = andthen (server_command_complete_event (tbuffer t) (actual_length t) 1)
      (\<lambda>es. Inr ([Log_Packet hci_event p, Print ''event code'' [14]] @ es, db))"
    using assms(2) p by (simp add: server_dump_hci_event_def next_byte_def event_answer_def Let_def
        HCI_EVENT_TRANSFER_COMPLETE_def HCI_EVENT_CODE_COMMAND_COMPLETE_def
        HCI_EVENT_LINK_KEY_REQUEST_def andthen_assoc)
  ultimately show ?thesis by (simp add: same andthen_assoc)
qed

lemma server_responses_as_main_witness:
  "andthen (server_dump_hci_event (completed_transfer bd_addr_packet 12) []) (\<lambda>(es, db'). Inr (drop 2 es, db')) =
    andthen (dump_hci_event 1 (completed_transfer bd_addr_packet 12)) (\<lambda>es. Inr (drop 2 es, []))"
  by (rule server_responses_as_main)
    (simp_all add: in_buffer_def bd_addr_packet_def join16_def HCI_Read_Local_Supported_Features_def)

end
