(* ===== verification/Server_Driver.thy ===== *)
theory Server_Driver
  imports Server_Events_Props Acl_Props Main_Driver
begin

text \<open>
  The event callback of \<open>hci_test.cpp\<close> (\<open>async_callback\<close>), with the script of the
  initialisation that it carries, and the program as a transition system: the two callbacks
  between libusb, which holds the submitted transfers, and the controller.
\<close>

section \<open>The script\<close>

definition server_script_read :: script where
  "server_script_read =
     [(2, 3, [0x01, 0x10, 0x00]),
      (4, 3, [0x14, 0x0c, 0x00]),
      (6, 3, [0x02, 0x10, 0x00]),
      (8, 3, [0x09, 0x10, 0x00]),
      (10, 3, [0x05, 0x10, 0x00])]"

definition server_script_mask :: script where
  "server_script_mask =
     [(12, 3, [0x03, 0x10, 0x00]),
      (14, 11, [0x01, 0x0C, 0x08, 0xFF, 0xFF, 0xFF, 0xFF, 0xFF, 0xFF, 0xFF, 0x3F]),
      (16, 3, [0x02, 0x20, 0x00]),
      (18, 3, [0x19, 0x0C, 0x00])]"

definition server_script_scan :: script where
  "server_script_scan =
     [(20, 10, [0x0b, 0x20, 0x07, 0x01, 0xe0, 0x01, 0x30, 0x00, 0x00, 0x00]),
      (22, 4, [0x56, 0x0c, 0x01, 0x01]),
      (24, 5, [0x18, 0x0c, 0x02, 0x00, 0x60])]"

definition server_script_name :: script where
  "server_script_name =
     [(26, 6, [0x24, 0x0c, 0x03, 0x0c, 0x02, 0x7a]),
      (28, 251, [0x13, 0x0c, 0xf8,
        0x57, 0x46, 0x42, 0x20, 0x43, 0x6f, 0x75, 0x6e, 0x74, 0x65, 0x72, 0x20,
        0x35, 0x43, 0x3a, 0x46, 0x33, 0x3a, 0x37, 0x30, 0x3a, 0x37, 0x44, 0x3a,
        0x30, 0x45, 0x3a, 0x39, 0x36])]"

definition server_script_inquiry :: script where
  "server_script_inquiry =
     [(30, 244, [0x52, 0x0c, 0xf1, 0x00, 0x1e, 0x09,
        0x57, 0x46, 0x42, 0x20, 0x43, 0x6f, 0x75, 0x6e, 0x74, 0x65, 0x72, 0x20,
        0x35, 0x43, 0x3a, 0x46, 0x33, 0x3a, 0x37, 0x30, 0x3a, 0x37, 0x44, 0x3a,
        0x30, 0x45, 0x3a, 0x39, 0x36]),
      (32, 4, [0x45, 0x0c, 0x01, 0x00]),
      (34, 4, [0x1a, 0x0c, 0x01, 0x03])]"

definition server_script_end :: script where
  "server_script_end =
     [(36, 4, [0x5b, 0x0c, 0x01, 0x01]),
      (38, 8, [0x1c, 0xfc, 0x05, 0x01, 0x00, 0x00, 0x00, 0x00])]"

definition server_script :: script where
  "server_script = server_script_read @ server_script_mask @ server_script_scan
     @ server_script_name @ server_script_inquiry @ server_script_end"

text \<open>
  One \<open>if (transfer_completed == k)\<close> after the other. The log gets the bytes stored into the
  buffer, that is without the padding of the two long commands.
\<close>

fun run_server_script :: "script \<Rightarrow> int \<Rightarrow> effect list" where
  "run_server_script [] n = []"
| "run_server_script ((k, n_sent, ws) # rest) n =
     (if n = k then [Sleep acl_wait, Cmd_Out (packet_of n_sent ws), Log_Packet hci_command ws] @ submit_transfer
      else [])
     @ run_server_script rest n"

section \<open>The callback\<close>

text \<open>
  The global variables of the program. The counter is shared by the two callbacks.
\<close>

record server =
  transfer_completed :: int
  channels :: l2cap_state
  link_keys :: data_store

text \<open>
  \<open>async_callback(transfer)\<close>, for events and for the completion of commands (endpoint 0);
  \<open>r\<close> is the result of \<open>usb_send_acl_packet\<close> in the MTU negotiation.
\<close>

definition server_async_callback ::
  "int \<Rightarrow> libusb_transfer \<Rightarrow> server \<Rightarrow> (effect list \<times> server) res" where
  "server_async_callback r t s =
     (if status t = LIBUSB_TRANSFER_COMPLETED then
        andthen (fetch_up (tbuffer t) 0 (nat (actual_length t))) (\<lambda>raw.
        andthen (if endpoint t \<noteq> 0x00 then server_dump_hci_event t (link_keys s)
                 else Inr ([], link_keys s)) (\<lambda>(es, db).
          let n = transfer_completed s + 1 in
        andthen (mtu_negotiation r (channels s)) (\<lambda>(mtu, l2).
          Inr ([Print ''<<<'' (map uint raw)] @ es @ [Print ''transfer_completed'' [n]]
                 @ run_server_script server_script n @ mtu,
               s\<lparr>transfer_completed := n, channels := l2, link_keys := db\<rparr>))))
      else if status t = LIBUSB_TRANSFER_STALL then
        Inr ([Print ''Transfer stalled, trying again'' []], s)
      else
        Inr ([Print ''not data -> resubmit transfer'' [uint (endpoint t), actual_length t], Resubmit], s))"

text \<open>The callback of the ACL transfers on the same variables.\<close>

definition server_acl_callback ::
  "bool \<Rightarrow> bool \<Rightarrow> libusb_transfer \<Rightarrow> server \<Rightarrow> (effect list \<times> server) res option" where
  "server_acl_callback wn wn' t s =
     map_option (\<lambda>r. andthen r (\<lambda>(es, n, l2). Inr (es, s\<lparr>transfer_completed := n, channels := l2\<rparr>)))
       (async_acl_callback wn wn' t (transfer_completed s) (channels s))"

section \<open>The program, libusb and the controller\<close>

text \<open>
  \<open>event_transfers\<close> and \<open>acl_transfers\<close> are the transfers for incoming data that libusb
  holds, 150 of each at the start. \<open>command_busy\<close>: the one command transfer is submitted;
  \<open>accepted\<close>: the commands that were on the bus; \<open>due\<close>: the command complete events that the
  controller may still deliver; \<open>acl_out\<close>: outgoing ACL packets not yet completed.
\<close>

record session =
  prog :: server
  event_transfers :: nat
  acl_transfers :: nat
  command_busy :: bool
  accepted :: "bytes list"
  due :: nat
  acl_out :: nat

definition SERVER_EVENT_TRANSFERS :: nat where "SERVER_EVENT_TRANSFERS = 150"
definition SERVER_ACL_TRANSFERS :: nat where "SERVER_ACL_TRANSFERS = 150"

definition session_init :: "data_store \<Rightarrow> session" where
  "session_init db =
     \<lparr>prog = \<lparr>transfer_completed = 0, channels = l2cap_init, link_keys = db\<rparr>,
      event_transfers = SERVER_EVENT_TRANSFERS, acl_transfers = SERVER_ACL_TRANSFERS,
      command_busy = True, accepted = [reset_command], due = 1, acl_out = 0\<rparr>"

text \<open>
  The packets: a command submitted while the command transfer is in use is refused with
  \<open>LIBUSB_ERROR_BUSY\<close>, and the callbacks ignore the refusal; every ACL packet has a transfer of
  its own.
\<close>

fun bus :: "effect \<Rightarrow> session \<Rightarrow> session" where
  "bus (Cmd_Out p) b = (if command_busy b then b
     else b\<lparr>command_busy := True, accepted := accepted b @ [p], due := due b + 1\<rparr>)"
| "bus (Acl_Out p) b = b\<lparr>acl_out := acl_out b + 1\<rparr>"
| "bus e b = b"

definition bus_all :: "effect list \<Rightarrow> session \<Rightarrow> session" where
  "bus_all es b = fold bus es b"

datatype occurrence =
    Command_Done | Response | Unsolicited | Acl_Received | Acl_Sent | Command_Failed | Event_Failed

text \<open>
  The occurrences: the completion of the command transfer, a command complete event that is
  due, any other event, a received ACL packet, the completion of an outgoing ACL packet; and
  a command or event transfer that comes back with another status than completed.

  A completed transfer is no longer libusb's. It is given back by the calls of
  \<open>libusb_submit_transfer\<close> that the callback makes for it, its effects \<open>Resubmit\<close>; \<open>g\<close> is the
  number of these calls that libusb accepts.
\<close>

inductive session_step :: "session \<Rightarrow> occurrence \<Rightarrow> session \<Rightarrow> bool" where
  step_command_done:
    "command_busy b \<Longrightarrow> status t = LIBUSB_TRANSFER_COMPLETED \<Longrightarrow> endpoint t = 0 \<Longrightarrow>
     server_async_callback r t (prog b) = Inr (es, p) \<Longrightarrow> g \<le> resubmits es \<Longrightarrow>
     session_step b Command_Done (bus_all es (b\<lparr>command_busy := 0 < g, prog := p\<rparr>))"
| step_response:
    "due b = Suc d \<Longrightarrow> event_transfers b = Suc e \<Longrightarrow> status t = LIBUSB_TRANSFER_COMPLETED \<Longrightarrow>
     endpoint t \<noteq> 0 \<Longrightarrow> fetch (tbuffer t) 0 = Inr 0x0E \<Longrightarrow>
     server_async_callback r t (prog b) = Inr (es, p) \<Longrightarrow> g \<le> resubmits es \<Longrightarrow>
     session_step b Response (bus_all es (b\<lparr>due := d, event_transfers := e + g, prog := p\<rparr>))"
| step_unsolicited:
    "event_transfers b = Suc e \<Longrightarrow> status t = LIBUSB_TRANSFER_COMPLETED \<Longrightarrow> endpoint t \<noteq> 0 \<Longrightarrow>
     fetch (tbuffer t) 0 = Inr c \<Longrightarrow> c \<noteq> 0x0E \<Longrightarrow>
     server_async_callback r t (prog b) = Inr (es, p) \<Longrightarrow> g \<le> resubmits es \<Longrightarrow>
     session_step b Unsolicited (bus_all es (b\<lparr>event_transfers := e + g, prog := p\<rparr>))"
| step_acl_received:
    "acl_transfers b = Suc a \<Longrightarrow> endpoint t \<noteq> 0 \<Longrightarrow>
     server_acl_callback wn wn' t (prog b) = Some (Inr (es, p)) \<Longrightarrow> g \<le> resubmits es \<Longrightarrow>
     session_step b Acl_Received (bus_all es (b\<lparr>acl_transfers := a + g, prog := p\<rparr>))"
| step_acl_sent:
    "acl_out b = Suc a \<Longrightarrow> endpoint t \<noteq> 0 \<Longrightarrow>
     server_acl_callback wn wn' t (prog b) = Some (Inr (es, p)) \<Longrightarrow> g \<le> resubmits es \<Longrightarrow>
     session_step b Acl_Sent (bus_all es (b\<lparr>acl_out := a + g, prog := p\<rparr>))"
| step_command_failed:
    "command_busy b \<Longrightarrow> status t \<noteq> LIBUSB_TRANSFER_COMPLETED \<Longrightarrow> endpoint t = 0 \<Longrightarrow>
     server_async_callback r t (prog b) = Inr (es, p) \<Longrightarrow> g \<le> resubmits es \<Longrightarrow>
     session_step b Command_Failed (bus_all es (b\<lparr>command_busy := 0 < g, prog := p\<rparr>))"
| step_event_failed:
    "event_transfers b = Suc e \<Longrightarrow> status t \<noteq> LIBUSB_TRANSFER_COMPLETED \<Longrightarrow> endpoint t \<noteq> 0 \<Longrightarrow>
     server_async_callback r t (prog b) = Inr (es, p) \<Longrightarrow> g \<le> resubmits es \<Longrightarrow>
     session_step b Event_Failed (bus_all es (b\<lparr>event_transfers := e + g, prog := p\<rparr>))"

inductive_cases session_stepE: "session_step b l b'"

inductive session_run :: "session \<Rightarrow> occurrence list \<Rightarrow> session \<Rightarrow> bool" where
  run_none: "session_run b [] b"
| run_more: "session_run b ls b' \<Longrightarrow> session_step b' l b'' \<Longrightarrow> session_run b (ls @ [l]) b''"

end
