(* ===== verification/Server_Program.thy ===== *)
theory Server_Program
  imports Main_Program Server_Driver
begin

text \<open>
  \<open>usb_send_cmd_packet\<close>, \<open>find_dev\<close> and the end of \<open>main\<close> of \<open>hci_test.cpp\<close>: the sender of
  the commands, the search for the dongle with its ten return values, and the release of
  the device list and of the libusb context. libusb and the devices are parameters; the
  model is the sequence of calls and how it ends.
\<close>

section \<open>The sender\<close>

text \<open>
  \<open>usb_send_cmd_packet(packet, size)\<close>: as in \<open>main.c\<close>, but a failed submission is not
  repeated and its result is returned. The result gives the returned value, the submitted
  transfer and the static variables.
\<close>

definition server_send_cmd_packet ::
  "bytes \<Rightarrow> int \<Rightarrow> sender \<Rightarrow> (int \<times> libusb_transfer \<times> sender) res" where
  "server_send_cmd_packet packet submit_result s =
     andthen (libusb_fill_control_setup (hci_cmd_buffer s)
                (LIBUSB_REQUEST_TYPE_CLASS OR LIBUSB_RECIPIENT_INTERFACE) 0 0 0
                (word_of_nat (length packet))) (\<lambda>buf.
     andthen (copy_in buf LIBUSB_CONTROL_SETUP_SIZE packet) (\<lambda>buf.
     andthen (libusb_fill_control_transfer (command_out_transfer s) buf ''async_callback'' 0)
       (\<lambda>t.
     let t = t\<lparr>flags := LIBUSB_TRANSFER_FREE_BUFFER\<rparr>;
         s = s\<lparr>hci_cmd_buffer := buf, command_out_transfer := t, usb_command_active := 1\<rparr>
     in Inr (submit_result, t, if submit_result < 0 then s\<lparr>usb_command_active := 0\<rparr> else s))))"

section \<open>The environment\<close>

text \<open>
  What this program asks beside the environment of \<open>main.c\<close>: whether the log can be opened,
  the two calls about the kernel driver, and whether the first word of a device list that
  was already freed still looks like a pointer.
\<close>

record server_environment = environment +
  log_opens :: bool
  kernel_driver :: int
  detach_result :: int
  freed_list_nonzero :: bool

text \<open>
  The calls. \<open>Exit_Context\<close> is \<open>libusb_exit(context)\<close> for the context that was initialised,
  \<open>Exit_Default\<close> is \<open>libusb_exit(NULL)\<close>. The handle is that of the opened device.
\<close>

datatype server_call =
    Set_Log_Level
  | List_Devices
  | Describe nat
  | Open_Log
  | Open nat
  | Read_Product nat u8
  | Scan_Endpoints nat
  | Reset nat
  | Configure nat int
  | Kernel_Driver_Active nat
  | Detach_Kernel_Driver nat
  | Claim nat
  | Release nat
  | Close nat
  | Allocate
  | Submit_Event nat int
  | Submit_Acl nat int
  | Send_Command bytes
  | Log_Command bytes
  | Wait_Ms nat
  | Handle_All_Events
  | Free_List
  | Exit_Context
  | Exit_Default

text \<open>\<open>find_dev\<close> does not return from its event loop, otherwise it returns a \<open>uint8_t\<close>.\<close>

datatype search_end = Serving | Returned u8

section \<open>The code\<close>

text \<open>A loop whose body makes one call and leaves the function if the call fails.\<close>

fun try_each :: "server_call \<Rightarrow> (nat \<Rightarrow> bool) \<Rightarrow> nat list \<Rightarrow> server_call list \<times> bool" where
  "try_each call ok [] = ([], True)"
| "try_each call ok (c # cs) =
     (if ok c then (let (calls, r) = try_each call ok cs in (call # calls, r)) else ([call], False))"

definition release_all :: "nat \<Rightarrow> server_call list" where
  "release_all i = [Release i, Close i, Exit_Default]"

text \<open>The transfers: allocation (6, 7), submission (8, 9), the reset and the event loop.\<close>

definition start_transfers ::
  "'a server_environment_scheme \<Rightarrow> nat \<Rightarrow> bt_endpoints \<Rightarrow> server_call list \<times> search_end" where
  "start_transfers w i a =
     (let (es, ok) = try_each Allocate (event_alloc_ok w) [0..<SERVER_EVENT_TRANSFERS]
      in if \<not> ok then (es @ release_all i, Returned 6)
      else
        (let (as, ok) = try_each Allocate (acl_alloc_ok w) [0..<SERVER_ACL_TRANSFERS];
             calls = es @ as
         in if \<not> ok then (calls @ release_all i, Returned 7)
         else
           (let (es, ok) = try_each (Submit_Event i (event_in_addr a)) (\<lambda>c. event_submit w c = 0)
                  [0..<SERVER_EVENT_TRANSFERS];
                calls = calls @ [Allocate, Allocate] @ es
            in if \<not> ok then (calls @ release_all i, Returned 8)
            else
              (let (as, ok) = try_each (Submit_Acl i (acl_in_addr a)) (\<lambda>c. acl_submit w c = 0)
                     [0..<SERVER_ACL_TRANSFERS];
                   calls = calls @ as
               in if \<not> ok then (calls @ [Free_List, Release i, Close i, Exit_Context], Returned 9)
               else (calls @ [Send_Command reset_command, Log_Command reset_command,
                        Wait_Ms acl_wait, Handle_All_Events], Serving)))))"

text \<open>From the reset of the USB device to the claim of its interface (4, 5).\<close>

definition claim_device ::
  "'a server_environment_scheme \<Rightarrow> nat \<Rightarrow> bt_endpoints \<Rightarrow> server_call list \<times> search_end" where
  "claim_device w i a =
     (let calls = [Reset i, Wait_Ms acl_wait, Configure i 1, Wait_Ms acl_wait, Kernel_Driver_Active i]
            @ (if kernel_driver w = 1 then [Detach_Kernel_Driver i] else [])
      in if kernel_driver w = 1 \<and> detach_result w \<noteq> 0 then
           (calls @ [Free_List, Close i], Returned 4)
         else if claim_result w \<noteq> 0 then (calls @ [Claim i, Close i, Exit_Default], Returned 5)
         else
           (let (more, out) = start_transfers w i a
            in (calls @ [Claim i, Wait_Ms acl_wait] @ more, out)))"

text \<open>\<open>find_dev(devs)\<close>, from the \<open>i\<close>-th device on.\<close>

fun server_find_dev ::
  "'a server_environment_scheme \<Rightarrow> nat \<Rightarrow> device list \<Rightarrow> (server_call list \<times> search_end) res" where
  "server_find_dev w i [] = Inr ([], Returned 0)"
| "server_find_dev w i (dev # devs) =
     (case descriptor dev of
        Inl r \<Rightarrow> Inr ([Describe i, Exit_Default], Returned 1)
      | Inr desc \<Rightarrow>
          if idVendor desc = 0x0b05 \<and> idProduct desc = 0x17cb then
            (if \<not> log_opens w then Inr ([Describe i, Open_Log], Returned 2)
             else if open_result dev \<noteq> LIBUSB_SUCCESS then
               Inr ([Describe i, Open_Log, Open i], Returned 3)
             else
               andthen (scan_for_bt_endpoints (configuration dev)) (\<lambda>(r, a).
                 let (more, out) = claim_device w i a in
                 Inr ([Describe i, Open_Log, Open i, Read_Product i (iProduct desc), Scan_Endpoints i]
                   @ more, out)))
          else
            andthen (server_find_dev w (Suc i) devs) (\<lambda>(more, out). Inr (Describe i # more, out)))"

text \<open>
  The end of \<open>main\<close>, behind the initialisation of the context: \<open>*devs\<close> is read after
  \<open>find_dev\<close> returned, also when the list was freed there; \<open>context\<close> is null when \<open>find_dev\<close>
  set it so. The returned value, \<open>None\<close> while the event loop runs.
\<close>

definition list_nonempty :: "'a server_environment_scheme \<Rightarrow> device list \<Rightarrow> u8 \<Rightarrow> bool" where
  "list_nonempty w devs r =
     (if r = 4 then freed_list_nonzero w else if r = 9 then False else devs \<noteq> [])"

definition context_cleared :: "u8 \<Rightarrow> bool" where
  "context_cleared r \<longleftrightarrow> 5 \<le> r"

definition server_main ::
  "'a server_environment_scheme \<Rightarrow> device list \<Rightarrow>
     (server_call list \<times> search_end option \<times> int option) res" where
  "server_main w devs =
     (if list_result w < 0 then
        Inr ([Set_Log_Level, List_Devices, Exit_Context], None, Some (list_result w))
      else andthen (server_find_dev w 0 devs) (\<lambda>(calls, out).
        let calls = [Set_Log_Level, List_Devices] @ calls in
        (case out of
           Serving \<Rightarrow> Inr (calls, Some out, None)
         | Returned r \<Rightarrow>
             Inr (calls @ (if list_nonempty w devs r then [Free_List] else [])
                    @ (if context_cleared r then [] else [Exit_Context]), Some out, Some 0))))"

end
