(* ===== verification/Server_Program_Props.thy ===== *)
theory Server_Program_Props
  imports Server_Program
begin

text \<open>
  What the calls of \<open>hci_test.cpp\<close> to libusb amount to: what has happened when the event loop
  is entered, what is released on each of the ten ways out, and what a command that is
  refused does to the one that is still pending.
\<close>

section \<open>Entering the event loop\<close>

lemma try_each_ok: "try_each call ok cs = (calls, True) \<Longrightarrow> calls = replicate (length cs) call"
  by (induction cs arbitrary: calls) (auto split: if_splits prod.splits)

definition serving_calls :: "nat \<Rightarrow> bt_endpoints \<Rightarrow> server_call list" where
  "serving_calls i a =
     replicate 302 Allocate @ replicate 150 (Submit_Event i (event_in_addr a))
     @ replicate 150 (Submit_Acl i (acl_in_addr a))
     @ [Send_Command [0x03, 0x0C, 0x00], Log_Command [0x03, 0x0C, 0x00], Wait_Ms acl_wait, Handle_All_Events]"

lemma replicate_302: "replicate 302 x = replicate 150 x @ replicate 150 x @ [x, x]"
proof -
  have "replicate 302 x = replicate 150 x @ replicate 150 x @ replicate 2 x"
    by (simp flip: replicate_add)
  then show ?thesis by (simp add: numeral_2_eq_2)
qed

lemma start_transfers_serving:
  "start_transfers w i a = (calls, Serving) \<Longrightarrow> calls = serving_calls i a"
  by (auto simp: start_transfers_def Let_def serving_calls_def replicate_302 reset_command_def
      SERVER_EVENT_TRANSFERS_def SERVER_ACL_TRANSFERS_def
      dest!: try_each_ok split: if_splits prod.splits)

lemma claim_device_serving:
  assumes "claim_device w i a = (calls, Serving)"
  shows "calls = [Reset i, Wait_Ms acl_wait, Configure i 1, Wait_Ms acl_wait, Kernel_Driver_Active i]
      @ (if kernel_driver w = 1 then [Detach_Kernel_Driver i] else [])
      @ [Claim i, Wait_Ms acl_wait] @ serving_calls i a"
    and "claim_result w = 0" and "kernel_driver w = 1 \<longrightarrow> detach_result w = 0"
  using assms start_transfers_serving [of w i a]
  by (auto simp: claim_device_def Let_def split: if_splits prod.splits)

definition served :: "device list \<Rightarrow> nat \<Rightarrow> nat \<Rightarrow> bt_endpoints \<Rightarrow> bool" where
  "served devs i k a \<longleftrightarrow>
     k < length devs \<and> is_bt400 (devs ! k) \<and> (\<forall>j < k. \<not> is_bt400 (devs ! j)) \<and>
     open_result (devs ! k) = LIBUSB_SUCCESS \<and>
     (\<exists>r. scan_for_bt_endpoints (configuration (devs ! k)) = Inr (r, a))"

lemma server_find_dev_serving:
  "server_find_dev w i devs = Inr (calls, Serving) \<Longrightarrow>
   \<exists>k a p more. served devs i k a \<and> claim_device w (i + k) a = (more, Serving) \<and>
     calls = map Describe [i..<i + Suc k]
       @ [Open_Log, Open (i + k), Read_Product (i + k) p, Scan_Endpoints (i + k)] @ more"
proof (induction w i devs arbitrary: calls rule: server_find_dev.induct)
  case (2 w i dev devs)
  then obtain desc where desc: "descriptor dev = Inr desc" by (auto split: sum.splits)
  show ?case
  proof (cases "idVendor desc = 0x0b05 \<and> idProduct desc = 0x17cb")
    case True
    then obtain r a where scan: "scan_for_bt_endpoints (configuration dev) = Inr (r, a)"
      "open_result dev = LIBUSB_SUCCESS"
      using "2.prems" desc by (auto simp: andthen_eq_Inr split: if_splits)
    obtain more out where "claim_device w i a = (more, out)" by fastforce
    then have "claim_device w i a = (more, Serving)"
      "calls = [Describe i, Open_Log, Open i, Read_Product i (iProduct desc), Scan_Endpoints i] @ more"
      using "2.prems" desc True scan by (auto split: if_splits)
    then show ?thesis
      using True desc scan by (intro exI [of _ 0]) (auto simp: served_def is_bt400_def)
  next
    case False
    then obtain more where rest: "server_find_dev w (Suc i) devs = Inr (more, Serving)"
      "calls = Describe i # more"
      using "2.prems" desc by (auto simp: andthen_eq_Inr)
    obtain k a p more' where k: "served devs (Suc i) k a" "claim_device w (Suc i + k) a = (more', Serving)"
      "more = map Describe [Suc i..<Suc i + Suc k]
        @ [Open_Log, Open (Suc i + k), Read_Product (Suc i + k) p, Scan_Endpoints (Suc i + k)] @ more'"
      using "2.IH" [OF desc False rest(1)] by blast
    have "served (dev # devs) i (Suc k) a"
      using k(1) False desc by (auto simp: served_def is_bt400_def less_Suc_eq_0_disj)
    moreover have "[i..<i + Suc (Suc k)] = i # [Suc i..<Suc i + Suc k]"
      by (simp add: upt_conv_Cons del: upt_Suc)
    ultimately show ?thesis
      using k(2,3) rest(2)
      by (intro exI [of _ "Suc k"] exI [of _ a] exI [of _ p] exI [of _ more']) (simp del: upt_Suc)
  qed
qed simp

lemma server_main_serving:
  assumes "server_main w devs = Inr (calls, Some Serving, r)"
  shows "\<exists>more. server_find_dev w 0 devs = Inr (more, Serving) \<and>
    calls = [Set_Log_Level, List_Devices] @ more \<and> r = None"
  using assms by (auto simp: server_main_def andthen_eq_Inr Let_def split: if_splits search_end.splits)
    (metis search_end.exhaust)

text \<open>
  C12. When \<open>hci_test.cpp\<close> reaches its event loop it has asked for the descriptors of the
  devices up to the first BT400 of the list, opened that one and no other, detached a kernel
  driver if there was one, claimed the interface, allocated 302 transfers, submitted 150
  interrupt transfers on the event endpoint and 150 bulk transfers on the incoming ACL
  endpoint that the scan chose, and sent and logged the reset; nothing was released.
\<close>

theorem server_event_loop_is_set_up:
  assumes "server_main w devs = Inr (calls, Some Serving, r)"
  shows "\<exists>k a p. served devs 0 k a \<and> r = None \<and> claim_result w = 0 \<and>
    calls = [Set_Log_Level, List_Devices] @ map Describe [0..<Suc k]
      @ [Open_Log, Open k, Read_Product k p, Scan_Endpoints k,
         Reset k, Wait_Ms acl_wait, Configure k 1, Wait_Ms acl_wait, Kernel_Driver_Active k]
      @ (if kernel_driver w = 1 then [Detach_Kernel_Driver k] else [])
      @ [Claim k, Wait_Ms acl_wait] @ replicate 302 Allocate
      @ replicate 150 (Submit_Event k (event_in_addr a)) @ replicate 150 (Submit_Acl k (acl_in_addr a))
      @ [Send_Command [0x03, 0x0C, 0x00], Log_Command [0x03, 0x0C, 0x00], Wait_Ms acl_wait, Handle_All_Events]"
proof -
  obtain more where fd: "server_find_dev w 0 devs = Inr (more, Serving)"
    "calls = [Set_Log_Level, List_Devices] @ more" "r = None"
    using server_main_serving [OF assms] by blast
  then obtain k a p rest where "served devs 0 k a" "claim_device w k a = (rest, Serving)"
    "more = map Describe [0..<Suc k] @ [Open_Log, Open k, Read_Product k p, Scan_Endpoints k] @ rest"
    using server_find_dev_serving [of w 0 devs more] by auto
  then show ?thesis
    using fd claim_device_serving [of w k a rest]
    by (intro exI [of _ k] exI [of _ a] exI [of _ p]) (simp add: serving_calls_def)
qed

text \<open>A machine with another device and a BT400, on which nothing fails.\<close>

definition working_server :: server_environment where
  "working_server = environment.extend working_environment
     \<lparr>log_opens = True, kernel_driver = 0, detach_result = 0, freed_list_nonzero = False\<rparr>"

definition other_device :: device where
  "other_device = \<lparr>descriptor = Inr \<lparr>idVendor = 0x8087, idProduct = 0x0024, iProduct = 0\<rparr>,
     open_result = -3, configuration = Inl (-5)\<rparr>"

lemma try_each_all: "\<forall>c \<in> set cs. ok c \<Longrightarrow> try_each call ok cs = (replicate (length cs) call, True)"
  by (induction cs) auto

lemma working_server_simps [simp]:
  "event_alloc_ok working_server = (\<lambda>c. True)" "acl_alloc_ok working_server = (\<lambda>c. True)"
  "event_submit working_server = (\<lambda>c. 0)" "acl_submit working_server = (\<lambda>c. 0)"
  "claim_result working_server = 0" "kernel_driver working_server = 0" "log_opens working_server"
  "list_result working_server = 1"
  by (simp_all add: working_server_def working_environment_def environment.defs)

lemma claim_device_working: "\<exists>calls. claim_device working_server i a = (calls, Serving)"
  by (simp add: claim_device_def start_transfers_def Let_def try_each_all)

lemma working_server_serves:
  "\<exists>calls. server_main working_server [other_device, bt400] = Inr (calls, Some Serving, None)"
proof -
  have "scan_for_bt_endpoints (Inr dongle_config) =
     Inr (0, \<lparr>event_in_addr = 0x81, acl_in_addr = 0x82, acl_out_addr = 0x02,
              sco_out_addr = 0x03, sco_in_addr = 0x83\<rparr>)"
    by (simp add: scan_for_bt_endpoints_def dongle_config_def scan_endpoint_def Let_def
        no_endpoints_def libusb_codes)
  then show ?thesis
    using claim_device_working [of 1 "\<lparr>event_in_addr = 0x81, acl_in_addr = 0x82, acl_out_addr = 0x02,
              sco_out_addr = 0x03, sco_in_addr = 0x83\<rparr>"]
    by (auto simp: server_main_def other_device_def bt400_def LIBUSB_SUCCESS_def Let_def)
qed

lemma server_event_loop_is_set_up_witness:
  "\<exists>calls k a. server_main working_server [other_device, bt400] = Inr (calls, Some Serving, None) \<and>
     served [other_device, bt400] 0 k a \<and> [Set_Log_Level, List_Devices, Describe 0] = take 3 calls"
proof -
  obtain calls where c: "server_main working_server [other_device, bt400] = Inr (calls, Some Serving, None)"
    using working_server_serves by blast
  have "[0..<Suc k] = 0 # [1..<Suc k]" for k by (simp add: upt_conv_Cons del: upt_Suc)
  then show ?thesis
    using c server_event_loop_is_set_up [OF c] by (auto simp del: upt_Suc)
qed

section \<open>The ways out\<close>

definition releases :: "server_call list \<Rightarrow> nat \<times> nat \<times> nat" where
  "releases calls = (count_list calls Exit_Context, count_list calls Exit_Default, count_list calls Free_List)"

lemma releases_simps [simp]:
  "releases [] = (0, 0, 0)"
  "releases (xs @ ys) = (case (releases xs, releases ys) of ((a, b, c), (d, e, f)) \<Rightarrow> (a + d, b + e, c + f))"
  by (simp_all add: releases_def)

lemma releases_Cons [simp]:
  "releases (x # xs) = (case releases xs of (a, b, c) \<Rightarrow>
     (if x = Exit_Context then Suc a else a, if x = Exit_Default then Suc b else b,
      if x = Free_List then Suc c else c))"
  by (simp add: releases_def)

lemma releases_replicate: "releases [x] = (0, 0, 0) \<Longrightarrow> releases (replicate n x) = (0, 0, 0)"
  by (induction n) (auto split: if_splits)

lemma releases_try_each:
  "try_each call ok cs = (calls, r) \<Longrightarrow> releases [call] = (0, 0, 0) \<Longrightarrow> releases calls = (0, 0, 0)"
  by (induction cs arbitrary: calls) (auto split: if_splits prod.splits)

text \<open>What \<open>find_dev\<close> itself releases, by the value it returns.\<close>

definition search_releases :: "u8 \<Rightarrow> nat \<times> nat \<times> nat" where
  "search_releases r = (of_bool (r = 9), of_bool (r = 1 \<or> 5 \<le> r \<and> r \<le> 8), of_bool (r = 4 \<or> r = 9))"

lemma start_transfers_releases:
  "start_transfers w i a = (calls, Returned r) \<Longrightarrow> r \<in> {6, 7, 8, 9} \<and> releases calls = search_releases r"
  by (auto simp: start_transfers_def Let_def release_all_def search_releases_def
      dest!: releases_try_each split: if_splits prod.splits)

lemma claim_device_releases:
  "claim_device w i a = (calls, Returned r) \<Longrightarrow> r \<in> {4, 5, 6, 7, 8, 9} \<and> releases calls = search_releases r"
  by (auto simp: claim_device_def Let_def search_releases_def
      dest!: start_transfers_releases split: if_splits prod.splits)

lemma server_find_dev_releases:
  "server_find_dev w i devs = Inr (calls, Returned r) \<Longrightarrow>
   r \<in> {0, 1, 2, 3, 4, 5, 6, 7, 8, 9} \<and> releases calls = search_releases r \<and> (devs = [] \<longrightarrow> r = 0)"
proof (induction w i devs arbitrary: calls rule: server_find_dev.induct)
  case (1 w i)
  then show ?case by (simp add: search_releases_def)
next
  case (2 w i dev devs)
  show ?case
  proof (cases "descriptor dev")
    case (Inl e)
    then show ?thesis using "2.prems" by (auto simp: search_releases_def)
  next
    case desc: (Inr desc)
    show ?thesis
    proof (cases "idVendor desc = 0x0b05 \<and> idProduct desc = 0x17cb")
      case True
      show ?thesis
      proof (cases "log_opens w \<and> open_result dev = LIBUSB_SUCCESS")
        case opened: True
        then obtain q a where scan: "scan_for_bt_endpoints (configuration dev) = Inr (q, a)"
          using "2.prems" desc True by (auto simp: andthen_eq_Inr)
        obtain more out where "claim_device w i a = (more, out)" by fastforce
        then have "claim_device w i a = (more, Returned r)"
          "calls = [Describe i, Open_Log, Open i, Read_Product i (iProduct desc), Scan_Endpoints i] @ more"
          using "2.prems" desc True opened scan by auto
        then show ?thesis using claim_device_releases by fastforce
      qed (use "2.prems" desc True in \<open>auto simp: search_releases_def split: if_splits\<close>)
    next
      case False
      then show ?thesis
        using "2.prems" "2.IH" [OF desc False] desc by (auto simp: andthen_eq_Inr)
    qed
  qed
qed

text \<open>
  C27. The ways out of \<open>hci_test.cpp\<close>. Whatever went wrong, \<open>main\<close> returns 0. The context
  that it initialised is released exactly once, except after the errors 5 to 8, where it is
  not released at all; there, and after error 1, \<open>libusb_exit\<close> is called for the default
  context, which nobody initialised. The device list is freed once, not at all when it is
  empty, and possibly twice after error 4, which depends on what is found in the memory that
  was already freed.
\<close>

theorem server_releases:
  assumes "server_main w devs = Inr (calls, Some (Returned r), res)"
  shows "res = Some 0 \<and> r \<le> 9 \<and>
    count_list calls Exit_Context = (if 5 \<le> r \<and> r \<le> 8 then 0 else 1) \<and>
    count_list calls Exit_Default = (if r = 1 \<or> 5 \<le> r \<and> r \<le> 8 then 1 else 0) \<and>
    count_list calls Free_List =
      (if devs = [] then 0 else if r = 4 \<and> freed_list_nonzero w then 2 else 1)"
proof -
  obtain more out where search: "server_find_dev w 0 devs = Inr (more, out)"
    using assms by (cases "server_find_dev w 0 devs") (auto simp: server_main_def split: if_splits)
  then have out: "out = Returned r"
    using assms by (cases out) (auto simp: server_main_def Let_def split: if_splits)
  then have fd: "server_find_dev w 0 devs = Inr (more, Returned r)" using search by simp
  have calls: "calls = [Set_Log_Level, List_Devices] @ more
      @ (if list_nonempty w devs r then [Free_List] else []) @ (if context_cleared r then [] else [Exit_Context])"
    and res: "res = Some 0"
    using assms fd by (auto simp: server_main_def Let_def split: if_splits)
  note rel = server_find_dev_releases [OF fd]
  have "releases calls = (if 5 \<le> r \<and> r \<le> 8 then 0 else 1, if r = 1 \<or> 5 \<le> r \<and> r \<le> 8 then 1 else 0,
      if devs = [] then 0 else if r = 4 \<and> freed_list_nonzero w then 2 else 1)"
  proof (cases "devs = []")
    case True
    then show ?thesis
      using rel by (simp add: calls search_releases_def list_nonempty_def context_cleared_def)
  next
    case False
    have more: "releases more = search_releases r" using rel by simp
    have "r = 0 \<or> r = 1 \<or> r = 2 \<or> r = 3 \<or> r = 4 \<or> r = 5 \<or> r = 6 \<or> r = 7 \<or> r = 8 \<or> r = 9"
      using rel by simp
    then show ?thesis
      by (elim disjE)
        (simp_all add: calls more False search_releases_def list_nonempty_def context_cleared_def)
  qed
  moreover have "r \<le> 9" using rel by auto
  ultimately show ?thesis using res by (simp add: releases_def)
qed

lemma server_releases_witness:
  "\<exists>calls. server_main (working_server\<lparr>claim_result := 1\<rparr>) [bt400] = Inr (calls, Some (Returned 5), Some 0) \<and>
     count_list calls Exit_Context = 0 \<and> count_list calls Exit_Default = 1"
proof -
  have "scan_for_bt_endpoints (Inr dongle_config) =
     Inr (0, \<lparr>event_in_addr = 0x81, acl_in_addr = 0x82, acl_out_addr = 0x02,
              sco_out_addr = 0x03, sco_in_addr = 0x83\<rparr>)"
    by (simp add: scan_for_bt_endpoints_def dongle_config_def scan_endpoint_def Let_def
        no_endpoints_def libusb_codes)
  then have "\<exists>calls. server_main (working_server\<lparr>claim_result := 1\<rparr>) [bt400] =
      Inr (calls, Some (Returned 5), Some 0)"
    by (simp add: server_main_def claim_device_def bt400_def LIBUSB_SUCCESS_def Let_def)
  then show ?thesis using server_releases by fastforce
qed

section \<open>A refused command\<close>

lemma server_send_is_send:
  "server_send_cmd_packet p r s =
   andthen (usb_send_cmd_packet p r s) (\<lambda>(_, ts, s'). Inr (r, hd ts, s'))"
  by (cases "r < 0")
    (simp_all add: server_send_cmd_packet_def usb_send_cmd_packet_def andthen_assoc Let_def
      split_def)

lemma server_send_step:
  "length (hci_cmd_buffer s) = cmd_buffer_size \<Longrightarrow> length p \<le> 259 \<Longrightarrow>
   server_send_cmd_packet p r s = Inr (r, command_transfer p s, after_send p r s)"
  by (simp add: server_send_is_send send_step)

text \<open>
  The sender has one buffer. A command that is sent while the previous one is pending
  is refused by libusb with \<open>LIBUSB_ERROR_BUSY\<close>, but the setup packet and the data of the
  pending transfer, which lie in that buffer, were already replaced: the state that is left
  is the same, up to the activity flag, as if the refused command had been accepted.
\<close>

lemma refused_command_overwrites_pending:
  assumes "length (hci_cmd_buffer s) = cmd_buffer_size" and "length p \<le> 259" and "length q \<le> 259"
  shows "\<exists>t s1 t' s2. server_send_cmd_packet p LIBUSB_SUCCESS s = Inr (LIBUSB_SUCCESS, t, s1) \<and>
    server_send_cmd_packet q LIBUSB_ERROR_BUSY s1 = Inr (LIBUSB_ERROR_BUSY, t', s2) \<and>
    sent_bytes t = hci_setup (length p) @ p \<and>
    sent_bytes (command_out_transfer s2) = hci_setup (length q) @ q \<and>
    hci_cmd_buffer s2 = tbuffer (command_out_transfer s2) \<and>
    usb_command_active s1 = 1 \<and> usb_command_active s2 = 0"
proof -
  let ?s1 = "after_send p LIBUSB_SUCCESS s"
  have "server_send_cmd_packet p LIBUSB_SUCCESS s =
      Inr (LIBUSB_SUCCESS, command_transfer p s, ?s1)"
    using server_send_step [OF assms(1,2)] by simp
  moreover have "server_send_cmd_packet q LIBUSB_ERROR_BUSY ?s1 =
      Inr (LIBUSB_ERROR_BUSY, command_transfer q ?s1, after_send q LIBUSB_ERROR_BUSY ?s1)"
    using server_send_step [OF length_after_send [OF assms(1,2)] assms(3)] by simp
  ultimately show ?thesis
    by (intro exI conjI) (assumption | simp add: after_send_def libusb_codes)+
qed

text \<open>The HCI reset followed at once by the first command of the script.\<close>

lemma refused_command_overwrites_pending_witness:
  "\<exists>t s1 t' s2. server_send_cmd_packet [0x03, 0x0C, 0x00] LIBUSB_SUCCESS idle_sender = Inr (LIBUSB_SUCCESS, t, s1) \<and>
    server_send_cmd_packet [0x01, 0x10, 0x00] LIBUSB_ERROR_BUSY s1 = Inr (LIBUSB_ERROR_BUSY, t', s2) \<and>
    sent_bytes (command_out_transfer s2) = hci_setup 3 @ [0x01, 0x10, 0x00]"
proof -
  have "length (hci_cmd_buffer idle_sender) = cmd_buffer_size"
    by (simp add: idle_sender_def cmd_buffer_size_def libusb_codes)
  then show ?thesis
    using refused_command_overwrites_pending [of idle_sender "[0x03, 0x0C, 0x00]" "[0x01, 0x10, 0x00]"]
    by (auto simp: numeral_3_eq_3)
qed

end
