(* ===== verification/Command_Sender.thy ===== *)
theory Command_Sender
  imports Server_Program_Props Acl_Sender
begin

text \<open>
  The sender of commands of \<open>hci_test.cpp\<close>, \<open>usb_send_cmd_packet\<close>, called by the handlers, and
  both senders together: what reaches the bus of all that a handler sends.
\<close>

section \<open>The commands of the handlers\<close>

text \<open>
  The variables of the sender, and what becomes of the commands: the number of calls and
  the bytes that libusb has accepted. \<open>submit n\<close> is the result of the \<open>n\<close>-th submission;
  there is no second attempt.
\<close>

record command_port =
  port_sender :: sender
  calls_made :: nat
  command_bus :: "bytes list"

definition call_command_sender ::
  "(nat \<Rightarrow> int) \<Rightarrow> bytes \<Rightarrow> command_port \<Rightarrow> (effect list \<times> int \<times> command_port) res" where
  "call_command_sender submit packet s =
     andthen (server_send_cmd_packet packet (submit (calls_made s)) (port_sender s)) (\<lambda>(r, t, sender).
       Inr ([Print ''>>>'' (map uint packet), Sleep acl_wait]
              @ (if r < 0 then submission_report ''cmd transfer'' r @ [Print (print_transfer_status t) []] else []),
            r,
            s\<lparr>port_sender := sender, calls_made := calls_made s + 1,
              command_bus := command_bus s @ (if r < 0 then [] else [sent_bytes t])\<rparr>))"

definition buffer_intact :: "command_port \<Rightarrow> bool" where
  "buffer_intact s \<longleftrightarrow> length (hci_cmd_buffer (port_sender s)) = cmd_buffer_size"

definition command_wire :: "bytes \<Rightarrow> bytes" where
  "command_wire p = hci_setup (length p) @ p"

lemma long_command_overruns:
  assumes "length (hci_cmd_buffer s) = cmd_buffer_size" and "259 < length p"
  shows "server_send_cmd_packet p r s = Inl Out_Of_Bounds"
proof -
  obtain buf where buf: "libusb_fill_control_setup (hci_cmd_buffer s)
      (LIBUSB_REQUEST_TYPE_CLASS OR LIBUSB_RECIPIENT_INTERFACE) 0 0 0 (word_of_nat (length p)) = Inr buf"
    "length buf = cmd_buffer_size"
    using assms(1) by (auto simp: libusb_fill_control_setup_def cmd_buffer_size_def libusb_codes)
  then show ?thesis
    using assms(2) by (simp add: server_send_cmd_packet_def copy_in_def cmd_buffer_size_def libusb_codes)
qed

interpretation command: packet_sender command_packet "call_command_sender submit"
    buffer_intact calls_made "\<lambda>n p. length p \<le> 259"
    "\<lambda>n. 0 \<le> submit n" command_bus command_wire acl_wait Out_Of_Bounds
  for submit
proof
  fix s :: command_port and p :: bytes
  assume s: "buffer_intact s" and p: "length p \<le> 259"
  let ?r = "submit (calls_made s)"
  have "server_send_cmd_packet p ?r (port_sender s) =
      Inr (?r, command_transfer p (port_sender s), after_send p ?r (port_sender s))"
    using s p by (simp add: server_send_step buffer_intact_def)
  moreover have "buffer_intact (s\<lparr>port_sender := after_send p ?r (port_sender s), calls_made := n,
      command_bus := b\<rparr>)" for n b
    using s p by (simp add: buffer_intact_def length_after_send)
  ultimately show "\<exists>out r s'. call_command_sender submit p s = Inr (out, r, s') \<and> buffer_intact s' \<and>
      calls_made s' = Suc (calls_made s) \<and>
      command_bus s' = command_bus s @ (if 0 \<le> ?r then [command_wire p] else []) \<and>
      (r < 0 \<longleftrightarrow> \<not> 0 \<le> ?r) \<and> filter visible out = [] \<and> pauses out \<le> acl_wait"
    by (simp add: call_command_sender_def command_wire_def)
next
  fix s :: command_port and p :: bytes
  assume "buffer_intact s" and "\<not> length p \<le> 259"
  then show "call_command_sender submit p s = Inl Out_Of_Bounds"
    by (simp add: call_command_sender_def long_command_overruns buffer_intact_def)
qed

section \<open>All that a handler sends\<close>

text \<open>
  The effects of a handler with both kinds of packets handed to their senders. The two share
  no variables, so the one may be run through before the other.
\<close>

definition transmit ::
  "(nat \<Rightarrow> libusb_transfer option) \<Rightarrow> (nat \<Rightarrow> nat \<Rightarrow> int) \<Rightarrow> (nat \<Rightarrow> int) \<Rightarrow> effect list \<Rightarrow> acl_sender \<Rightarrow>
     command_port \<Rightarrow> (effect list \<times> acl_sender \<times> command_port) res" where
  "transmit alloc acl_result submit es a c =
     andthen (perform_acl alloc acl_result es a) (\<lambda>(out, a).
     andthen (perform_with command_packet (call_command_sender submit) out c) (\<lambda>(out, c).
       Inr (out, a, c)))"

text \<open>The condition under which the senders do not leave their defined behaviour.\<close>

definition deliverable :: "(nat \<Rightarrow> libusb_transfer option) \<Rightarrow> acl_sender \<Rightarrow> effect list \<Rightarrow> bool" where
  "deliverable alloc a es \<longleftrightarrow>
     transfers_available alloc a (length (acls_of es)) \<and> list_all (\<lambda>p. length p \<le> 259) (cmds_of es)"

lemma all_short: "all_allowed (\<lambda>n p. length p \<le> 259) n ps \<longleftrightarrow> list_all (\<lambda>p. length p \<le> 259) ps"
  by (induction ps arbitrary: n) simp_all

lemma cmds_of_visible: "cmds_of (filter visible es) = cmds_of es"
  "cmds_of (filter (\<lambda>e. visible e \<and> acl_packet e = None) es) = cmds_of es"
  by (induction es rule: cmds_of.induct) simp_all

text \<open>
  C34. Whatever a handler sends and whatever libusb answers: if a transfer cannot be allocated,
  or a command is longer than its buffer, the program leaves its defined behaviour.
  Otherwise every ACL packet gets a transfer of its own that nobody frees. On the bus come,
  in order, exactly the commands whose submission is accepted, and exactly the ACL packets of
  which one of five submissions is accepted after refusals for a busy resource only. The
  others are lost: the other effects, among them the records in the packet log, are the
  same.
\<close>

theorem packets_go_out_or_are_lost:
  assumes "buffer_intact c"
  shows "if deliverable alloc a es
   then \<exists>out a' c' ts. transmit alloc acl_result submit es a c = Inr (out, a', c') \<and>
     allocated a' = allocated a @ ts \<and> map tbuffer ts = acls_of es \<and>
     on_bus a' = on_bus a
       @ going_out (\<lambda>n. goes_out (acl_result n)) (\<lambda>p. p) (length (allocated a)) (acls_of es) \<and>
     command_bus c' = command_bus c
       @ going_out (\<lambda>n. 0 \<le> submit n) command_wire (calls_made c) (cmds_of es) \<and>
     filter visible out = filter (\<lambda>e. visible e \<and> acl_packet e = None \<and> command_packet e = None) es \<and>
     pauses out \<le> pauses es + 5000 * length (acls_of es) + acl_wait * length (cmds_of es)
   else \<exists>e. transmit alloc acl_result submit es a c = Inl e"
proof (cases "transfers_available alloc a (length (acls_of es))")
  case False
  then show ?thesis
    using acl_packets_go_out_or_are_lost [of alloc a es acl_result]
    by (simp add: deliverable_def transmit_def)
next
  case True
  then obtain out a' ts where acl: "perform_acl alloc acl_result es a = Inr (out, a')"
    "allocated a' = allocated a @ ts" "map tbuffer ts = acls_of es"
    "on_bus a' = on_bus a
       @ going_out (\<lambda>n. goes_out (acl_result n)) (\<lambda>p. p) (length (allocated a)) (acls_of es)"
    "filter visible out = filter (\<lambda>e. visible e \<and> acl_packet e = None) es"
    "pauses out \<le> pauses es + 5000 * length (acls_of es)"
    using acl_packets_go_out_or_are_lost [of alloc a es acl_result] by auto
  have cmds: "cmds_of out = cmds_of es" using acl(5) cmds_of_visible by metis
  have "filter (\<lambda>e. visible e \<and> command_packet e = None) out =
      filter (\<lambda>e. command_packet e = None) (filter visible out)"
    by (simp add: conj_commute)
  also have "\<dots> = filter (\<lambda>e. visible e \<and> acl_packet e = None \<and> command_packet e = None) es"
    unfolding acl(5) filter_filter by (intro filter_cong) auto
  finally have rest: "filter (\<lambda>e. visible e \<and> command_packet e = None) out = \<dots>" .
  show ?thesis
  proof (cases "list_all (\<lambda>p. length p \<le> 259) (cmds_of es)")
    case False
    then show ?thesis
      using command.perform_fails [of c out submit] assms acl(1) True
      by (simp add: deliverable_def transmit_def all_short cmds)
  next
    case short: True
    then obtain out' c' where
      "perform_with command_packet (call_command_sender submit) out c = Inr (out', c')"
      "command_bus c' = command_bus c
         @ going_out (\<lambda>n. 0 \<le> submit n) command_wire (calls_made c) (cmds_of es)"
      "filter visible out' = filter (\<lambda>e. visible e \<and> command_packet e = None) out"
      "pauses out' \<le> pauses out + acl_wait * length (cmds_of es)"
      using command.perform_returns [of c out submit] assms by (auto simp: all_short cmds)
    then show ?thesis
      using acl True short rest by (simp add: deliverable_def transmit_def)
  qed
qed

text \<open>
  A handler that sends two ACL packets and two commands. The first packet finds libusb busy
  twice and the second no device; the second command finds the first one pending.
\<close>

definition example_effects :: "effect list" where
  "example_effects = send_acl [1, 2] @ [Cmd_Out [0x03, 0x0C, 0x00]] @ send_acl [3] @ [Cmd_Out [0x01, 0x10, 0x00]]"

definition example_port :: command_port where
  "example_port = \<lparr>port_sender = idle_sender, calls_made = 0, command_bus = []\<rparr>"

theorem packets_go_out_or_are_lost_witness:
  "\<exists>out a c. transmit (\<lambda>n. Some idle_transfer) busy_twice (\<lambda>n. if n = 0 then 0 else -6)
      example_effects ready_sender example_port = Inr (out, a, c) \<and>
    on_bus a = [[1, 2]] \<and> map tbuffer (allocated a) = [[1, 2], [3]] \<and>
    command_bus c = [hci_setup 3 @ [0x03, 0x0C, 0x00]]"
proof -
  have "buffer_intact example_port"
    by (simp add: buffer_intact_def example_port_def idle_sender_def cmd_buffer_size_def libusb_codes)
  note p = packets_go_out_or_are_lost [OF this, of "\<lambda>n. Some idle_transfer" ready_sender
      example_effects busy_twice "\<lambda>n. if n = 0 then 0 else -6"]
  have "deliverable (\<lambda>n. Some idle_transfer) ready_sender example_effects"
    by (simp add: deliverable_def transfers_available_def ready_sender_def example_effects_def)
  moreover have "acls_of example_effects = [[1, 2], [3]]"
    and "cmds_of example_effects = [[0x03, 0x0C, 0x00], [0x01, 0x10, 0x00]]"
    by (simp_all add: example_effects_def)
  moreover have "allocated ready_sender = []" "on_bus ready_sender = []" "calls_made example_port = 0"
    "command_bus example_port = []"
    by (simp_all add: ready_sender_def example_port_def)
  ultimately show ?thesis
    using p busy_twice_goes_out by (auto simp: command_wire_def numeral_3_eq_3)
qed

end
