(* ===== verification/Given_Back.thy ===== *)
theory Given_Back
  imports Server_Driver
begin

text \<open>
  How often the callbacks of \<open>hci_test.cpp\<close> give a transfer back to libusb: never when it is
  completed, because \<open>submit\<close> does nothing, and once when an event transfer or the command
  transfer comes back with another status than completed or stalled.
\<close>

section \<open>The callback of events and commands\<close>

lemma resubmits_response:
  "server_command_complete_event b n i = Inr es \<Longrightarrow> resubmits es = 0"
  by (auto simp: server_command_complete_event_def server_command_response_def
      server_scan_enable_response_def server_local_version_response_def
      server_local_name_response_def server_supported_commands_response_def
      server_supported_features_response_def server_buffer_size_response_def
      server_bd_addr_response_def server_le_buffer_size_response_def andthen_eq_Inr
      split: option.splits if_splits)

lemma resubmits_events:
  "completed_packets_event b i = Inr es \<Longrightarrow> resubmits es = 0"
  "server_le_meta_event b i = Inr es \<Longrightarrow> resubmits es = 0"
  "command_status_event b i = Inr es \<Longrightarrow> resubmits es = 0"
  "server_connection_complete_event b i = Inr es \<Longrightarrow> resubmits es = 0"
  "server_connection_request_event b i = Inr es \<Longrightarrow> resubmits es = 0"
  by (auto simp: completed_packets_event_def server_le_meta_event_def command_status_event_def
      server_connection_complete_event_def server_connection_request_event_def
      hci_error_name_def Let_def andthen_eq_Inr split: if_splits option.splits)

lemma resubmits_keys:
  "link_key_notification b i db = Inr (es, db') \<Longrightarrow> resubmits es = 0"
  "link_key_request b i db = Inr (es, db') \<Longrightarrow> resubmits es = 0"
  by (auto simp: link_key_notification_def link_key_request_def print_bd_addr_def print_link_key_def
      Let_def andthen_eq_Inr split: if_splits prod.splits)

lemma resubmits_dump:
  "server_dump_hci_event t db = Inr (es, db') \<Longrightarrow> resubmits es = 0"
  by (elim dump_eventE)
    (auto simp: event_answer_def Let_def andthen_eq_Inr resubmits_response resubmits_events
      resubmits_keys split: if_splits)

lemma resubmits_script [simp]: "resubmits (run_server_script sc n) = 0"
  by (induction sc n rule: run_server_script.induct) simp_all

lemma callback_gives_nothing_back:
  assumes "server_async_callback r t s = Inr (es, s')" and "status t = LIBUSB_TRANSFER_COMPLETED"
  shows "resubmits es = 0"
  using assms
  by (auto simp: server_async_callback_def mtu_negotiation_def andthen_eq_Inr Let_def resubmits_dump
      split: if_splits)

text \<open>A transfer that is not completed changes no variable, and is given back unless it stalled.\<close>

lemma failed_callback:
  assumes "server_async_callback r t s = Inr (es, s')" and "status t \<noteq> LIBUSB_TRANSFER_COMPLETED"
  shows "s' = s" and "resubmits es = of_bool (status t \<noteq> LIBUSB_TRANSFER_STALL)"
    and "cmds_of es = []" and "acls_of es = []"
  using assms by (auto simp: server_async_callback_def split: if_splits)

section \<open>The callback of ACL packets\<close>

lemma resubmits_control:
  "process_control b i s = Inr (es, s') \<Longrightarrow> resubmits es = 0"
  by (auto simp: process_control_def control_command_def control_defs andthen_eq_Inr Let_def
      split: if_splits)

lemma resubmits_rfcomm: "process_rfcomm b i l c = Inr es \<Longrightarrow> resubmits es = 0"
  by (auto simp: process_rfcomm_def rfcomm_uih_def rfcomm_sabm_def print_payload_def andthen_eq_Inr
      split: if_splits)

lemma resubmits_sdp_request:
  "sdpServiceSearchAttributeRequest b i wn wn' = Some (Inr (x, tid, es)) \<Longrightarrow> resubmits es = 0"
  by (auto simp: sdpServiceSearchAttributeRequest_def andthen_eq_Inr Let_def
      split: sum.splits option.splits list.splits if_splits prod.splits)

lemma resubmits_sdp: "process_sdp wn wn' b i l s = Some (Inr es) \<Longrightarrow> resubmits es = 0"
  by (auto simp: process_sdp_def andthen_eq_Inr split: sum.splits if_splits prod.splits
      dest: resubmits_sdp_request)

lemma resubmits_dispatch:
  "acl_dispatch wn wn' b i l c s = Some (Inr (es, s')) \<Longrightarrow> resubmits es = 0"
  by (auto simp: acl_dispatch_def andthen_eq_Inr dest: resubmits_control resubmits_sdp resubmits_rfcomm
      split: if_splits option.splits)

lemma acl_callback_gives_nothing_back:
  "server_acl_callback wn wn' t s = Some (Inr (es, s')) \<Longrightarrow> resubmits es = 0"
  by (auto simp: server_acl_callback_def async_acl_callback_def andthen_eq_Inr
      dest!: resubmits_dispatch split: sum.splits if_splits)

section \<open>The calls that libusb accepts\<close>

text \<open>Of \<open>g\<close> accepted calls of \<open>libusb_submit_transfer\<close> for the transfer of a callback.\<close>

lemma accepted_calls:
  "g \<le> resubmits es \<Longrightarrow> server_async_callback r t s = Inr (es, p) \<Longrightarrow>
     status t = LIBUSB_TRANSFER_COMPLETED \<Longrightarrow> g = 0"
  "g \<le> resubmits es \<Longrightarrow> server_acl_callback wn wn' t s = Some (Inr (es, p)) \<Longrightarrow> g = 0"
  "g \<le> resubmits es \<Longrightarrow> server_async_callback r t s = Inr (es, p) \<Longrightarrow>
     status t \<noteq> LIBUSB_TRANSFER_COMPLETED \<Longrightarrow> g \<le> 1"
  using callback_gives_nothing_back [of r t s es p] acl_callback_gives_nothing_back [of wn wn' t s es p]
    failed_callback(2) [of r t s es p]
  by (auto simp: of_bool_def split: if_splits)

end
