(* ===== verification/Server_Driver_Props.thy ===== *)
theory Server_Driver_Props
  imports Given_Back
begin

text \<open>
  What the transition system of \<open>hci_test.cpp\<close> guarantees: its initialisation sends the same
  commands as \<open>main.c\<close> and cannot get stuck as long as only the answers to the commands
  arrive; one other event in between can stop it; the number of events and packets a run
  of the program can take is bounded; the link keys and the channels stay well formed.
\<close>

section \<open>The script on the bus\<close>

lemma server_script_is_main: "server_script = main_script"
  by (simp add: server_script_def server_script_read_def server_script_mask_def
      server_script_scan_def server_script_name_def server_script_inquiry_def
      server_script_end_def script_defs)

lemma bus_all_simps [simp]:
  "bus_all [] b = b" "bus_all (e # es) b = bus_all es (bus e b)"
  "bus_all (xs @ ys) b = bus_all ys (bus_all xs b)"
  by (simp_all add: bus_all_def)

lemma bus_all_quiet: "cmds_of es = [] \<Longrightarrow> acls_of es = [] \<Longrightarrow> bus_all es b = b"
proof (induction es arbitrary: b)
  case (Cons e es)
  then show ?case by (cases e) simp_all
qed simp

lemma bus_server_script: "bus_all (run_server_script sc n) b = bus_all (run_script sc n) b"
  by (induction sc n arbitrary: b rule: run_script.induct) (simp_all add: send_command_def)

text \<open>The session seen as a state of the initialisation of \<open>main.c\<close>.\<close>

definition as_driver :: "session \<Rightarrow> driver" where
  "as_driver b = \<lparr>completed = transfer_completed (prog b), event_pool = event_transfers b,
     command_pending = command_busy b, responses = due b, sent = accepted b\<rparr>"

lemma as_driver_simps [simp]:
  "completed (as_driver b) = transfer_completed (prog b)" "event_pool (as_driver b) = event_transfers b"
  "command_pending (as_driver b) = command_busy b" "responses (as_driver b) = due b"
  "sent (as_driver b) = accepted b"
  by (simp_all add: as_driver_def)

lemma as_driver_script:
  "as_driver (bus_all (run_server_script server_script n) b) =
   perform_all Command_Transfer (run_script main_script n) (as_driver b)"
  unfolding bus_server_script server_script_is_main
  by (simp add: run_main_script perform_all_def submit_command_def as_driver_def)

lemma bus_script_elsewhere [simp]:
  "prog (bus_all (run_server_script sc n) b) = prog b"
  "event_transfers (bus_all (run_server_script sc n) b) = event_transfers b"
  by (induction sc n arbitrary: b rule: run_server_script.induct) simp_all

section \<open>Callbacks of the initialisation\<close>

lemma response_event_quiet:
  assumes "server_command_complete_event b n i = Inr es"
  shows "cmds_of es = [] \<and> acls_of es = []"
  using assms
  by (auto simp: server_command_complete_event_def server_command_response_def
      server_scan_enable_response_def server_local_version_response_def
      server_local_name_response_def server_supported_commands_response_def
      server_supported_features_response_def server_buffer_size_response_def
      server_bd_addr_response_def server_le_buffer_size_response_def andthen_eq_Inr
      split: option.splits if_splits)

definition no_negotiation :: "server \<Rightarrow> bool" where
  "no_negotiation s \<longleftrightarrow> \<not> mtu_config_request_received (channels s) \<and> \<not> mtu_config_request_sent (channels s)"

text \<open>Of a callback for a command or its answer only the script reaches libusb.\<close>

lemma init_callback:
  assumes "server_async_callback r t s = Inr (es, s')" and "status t = LIBUSB_TRANSFER_COMPLETED"
    and "endpoint t = 0 \<or> fetch (tbuffer t) 0 = Inr 0x0E" and "no_negotiation s"
  shows "s' = s\<lparr>transfer_completed := transfer_completed s + 1\<rparr>"
    and "bus_all es b = bus_all (run_server_script server_script (transfer_completed s + 1)) b"
proof -
  obtain raw es1 db where cb: "(if endpoint t \<noteq> 0 then server_dump_hci_event t (link_keys s)
        else Inr ([], link_keys s)) = Inr (es1, db)"
    "es = [Print ''<<<'' raw] @ es1 @ [Print ''transfer_completed'' [transfer_completed s + 1]]
       @ run_server_script server_script (transfer_completed s + 1)"
    "s' = s\<lparr>transfer_completed := transfer_completed s + 1, link_keys := db\<rparr>"
    using assms(1,2,4)
    by (auto simp: server_async_callback_def andthen_eq_Inr Let_def mtu_negotiation_def
        no_negotiation_def)
  have "db = link_keys s \<and> cmds_of es1 = [] \<and> acls_of es1 = []"
  proof (cases "endpoint t = 0")
    case False
    then have "fetch (tbuffer t) 0 = Inr 0x0E" using assms(3) by simp
    then show ?thesis
      using cb(1) False
      by (auto elim!: dump_eventE simp: event_answer_def Let_def HCI_EVENT_CODE_COMMAND_COMPLETE_def
          HCI_EVENT_LINK_KEY_REQUEST_def HCI_EVENT_TRANSFER_COMPLETE_def andthen_eq_Inr
          dest: response_event_quiet)
  qed (use cb(1) in simp)
  then show "s' = s\<lparr>transfer_completed := transfer_completed s + 1\<rparr>"
    "bus_all es b = bus_all (run_server_script server_script (transfer_completed s + 1)) b"
    using cb(2,3) by (simp_all add: bus_all_quiet)
qed

section \<open>The initialisation\<close>

text \<open>
  Only the completions of commands and the answers to them: the invariant of the
  initialisation of \<open>main.c\<close>, no MTU negotiation, and one event transfer used per answer.
\<close>

definition init_inv :: "nat \<Rightarrow> session \<Rightarrow> bool" where
  "init_inv n b \<longleftrightarrow> driver_inv (as_driver b) \<and> no_negotiation (prog b) \<and>
     transfer_completed (prog b) = int n \<and>
     event_transfers b + length (accepted b) = 150 + due b"

lemma init_inv_start: "init_inv 0 (session_init db)"
  by (simp add: init_inv_def session_init_def driver_inv_def outstanding_def as_driver_def
      no_negotiation_def l2cap_init_def SERVER_EVENT_TRANSFERS_def all_commands_def)

lemma bus_script_count:
  "length (accepted (bus_all (run_server_script sc n) b)) + due b =
   length (accepted b) + due (bus_all (run_server_script sc n) b)"
proof (induction sc n arbitrary: b rule: run_server_script.induct)
  case (2 k n_sent ws rest n)
  then show ?case
    using 2 [of "b\<lparr>command_busy := True, accepted := accepted b @ [packet_of n_sent ws],
      due := due b + 1\<rparr>"] by auto
qed simp

lemma init_inv_completion:
  assumes inv: "init_inv n b" and out: "outstanding (as_driver b) = Suc (outstanding (as_driver b1))"
    and b1: "accepted b1 = accepted b" "prog b1 = (prog b)\<lparr>transfer_completed := int n + 1\<rparr>" "due b1 \<le> 1"
      "event_transfers b1 + due b = event_transfers b + due b1"
  shows "init_inv (Suc n) (bus_all (run_server_script server_script (int n + 1)) b1)"
proof -
  let ?b = "bus_all (run_server_script server_script (int n + 1)) b1"
  have "driver_inv (perform_all Command_Transfer (run_script main_script (completed (as_driver b1)))
      (as_driver b1))"
    by (rule driver_inv_completion [of "as_driver b"])
      (use inv out b1 in \<open>simp_all add: init_inv_def\<close>)
  then have "driver_inv (as_driver ?b)" using b1(2) by (simp add: as_driver_script)
  moreover have "event_transfers ?b + length (accepted ?b) = 150 + due ?b"
    using bus_script_count [of server_script "int n + 1" b1] inv b1(1,4) by (simp add: init_inv_def)
  ultimately show ?thesis using inv b1(2) by (simp add: init_inv_def no_negotiation_def)
qed

lemma init_inv_step:
  assumes "init_inv n b" and "session_step b l b'" and "l = Command_Done \<or> l = Response"
  shows "init_inv (Suc n) b'"
  using assms(2,3)
proof (cases rule: session_step.cases)
  case (step_command_done t r es p g)
  have g: "g = 0"
    using callback_gives_nothing_back [OF step_command_done(6,4)] step_command_done(7) by simp
  let ?b1 = "b\<lparr>command_busy := False, prog := p\<rparr>"
  have cb: "p = (prog b)\<lparr>transfer_completed := int n + 1\<rparr>"
    "bus_all es ?b1 = bus_all (run_server_script server_script (int n + 1)) ?b1"
    using init_callback [OF step_command_done(6,4)] step_command_done(5) assms(1)
    by (simp_all add: init_inv_def)
  then show ?thesis
    using init_inv_completion [OF assms(1), of ?b1] step_command_done(2,3) assms(1) g
    by (simp add: init_inv_def driver_inv_def outstanding_def)
next
  case (step_response d e t r es p g)
  have g: "g = 0"
    using callback_gives_nothing_back [OF step_response(8,5)] step_response(9) by simp
  let ?b1 = "b\<lparr>due := d, event_transfers := e, prog := p\<rparr>"
  have cb: "p = (prog b)\<lparr>transfer_completed := int n + 1\<rparr>"
    "bus_all es ?b1 = bus_all (run_server_script server_script (int n + 1)) ?b1"
    using init_callback [OF step_response(8,5)] step_response(7) assms(1)
    by (simp_all add: init_inv_def)
  then show ?thesis
    using init_inv_completion [OF assms(1), of ?b1] step_response(2,3,4) assms(1) g
    by (simp add: init_inv_def driver_inv_def outstanding_def)
qed simp_all

lemma init_inv_run:
  "session_run b0 ls b \<Longrightarrow> init_inv 0 b0 \<Longrightarrow> set ls \<subseteq> {Command_Done, Response} \<Longrightarrow>
   init_inv (length ls) b"
  by (induction rule: session_run.induct) (auto dest: init_inv_step)

text \<open>As long as something is outstanding, something can happen.\<close>

definition command_done_example :: libusb_transfer where
  "command_done_example = (completed_transfer [0x21] 0)\<lparr>endpoint := 0\<rparr>"

definition response_example :: libusb_transfer where
  "response_example = completed_transfer [0x0E, 4, 1, 0x03, 0x0C, 0] 6"

lemma example_transfers [simp]:
  "status command_done_example = LIBUSB_TRANSFER_COMPLETED" "endpoint command_done_example = 0"
  "status response_example = LIBUSB_TRANSFER_COMPLETED" "endpoint response_example \<noteq> 0"
  "fetch (tbuffer response_example) 0 = Inr 0x0E"
  by (simp_all add: command_done_example_def response_example_def completed_transfer_def)

lemma command_done_callback:
  "no_negotiation s \<Longrightarrow> \<exists>es p. server_async_callback r command_done_example s = Inr (es, p)"
  by (simp add: server_async_callback_def mtu_negotiation_def no_negotiation_def
      command_done_example_def Let_def)

lemma response_callback:
  assumes "no_negotiation s"
  shows "\<exists>es p. server_async_callback r response_example s = Inr (es, p)"
proof -
  have "\<exists>es. server_command_complete_event (tbuffer response_example) 6 1 = Inr es"
    by (simp add: response_example_def server_command_complete_event_def server_command_response_def
        acknowledged_def opcode_defs join16_def)
  then have "\<exists>es db. server_dump_hci_event response_example (link_keys s) = Inr (es, db)"
    by (auto simp: server_dump_hci_event_def response_example_def event_answer_def fetch_numeral
        Let_def HCI_EVENT_CODE_COMMAND_COMPLETE_def HCI_EVENT_LINK_KEY_REQUEST_def
        HCI_EVENT_TRANSFER_COMPLETE_def)
  moreover have "\<exists>raw. fetch_up (tbuffer response_example) 0 (nat (actual_length response_example)) = Inr raw"
    by (simp add: response_example_def fetch_numeral)
  ultimately show ?thesis
    using assms by (auto simp: server_async_callback_def mtu_negotiation_def no_negotiation_def Let_def)
qed

lemma init_inv_progress:
  assumes "init_inv n b" and "0 < outstanding (as_driver b)"
  shows "\<exists>l b'. (l = Command_Done \<or> l = Response) \<and> session_step b l b'"
proof (cases "command_busy b")
  case True
  then show ?thesis
    using command_done_callback [of "prog b" 0] assms(1) step_command_done [of b command_done_example 0 _ _ 0]
    by (auto simp: init_inv_def)
next
  case False
  then obtain d e where "due b = Suc d" "event_transfers b = Suc e"
    using assms by (cases "due b"; cases "event_transfers b")
      (auto simp: init_inv_def driver_inv_def outstanding_def)
  then show ?thesis
    using response_callback [of "prog b" 0] assms(1) step_response [of b d e response_example 0 _ _ 0]
    by (auto simp: init_inv_def)
qed

text \<open>
  C5. The initialisation of \<open>hci_test.cpp\<close> completes. As long as nothing but the completions
  of commands and the answers to them arrives, in any order, the commands on the bus are the
  reset and the script of \<open>main.c\<close>, in order; there are at most 40 such occurrences; and when
  no further one is possible, all 20 commands were sent and all 40 have taken place. (In
  \<open>main.c\<close> a schedule exists that gets stuck: its event transfers run out.)
\<close>

theorem server_initialisation_completes:
  assumes "session_run (session_init db) ls b" and "set ls \<subseteq> {Command_Done, Response}"
  shows "accepted b = take (length (accepted b)) all_commands \<and> length ls \<le> 40 \<and>
    ((\<nexists>l b'. l \<in> {Command_Done, Response} \<and> session_step b l b') \<longrightarrow>
       accepted b = all_commands \<and> length ls = 40)"
proof -
  have inv: "init_inv (length ls) b"
    using init_inv_run [OF assms(1) init_inv_start assms(2)] .
  then have d: "accepted b = take (length (accepted b)) all_commands" "length (accepted b) \<le> 20"
    "int (length ls) + int (outstanding (as_driver b)) = 2 * int (length (accepted b))"
    "outstanding (as_driver b) = 0 \<longrightarrow> length (accepted b) = 20"
    by (simp_all add: init_inv_def driver_inv_def)
  have "length ls \<le> 40" using d(2,3) by linarith
  moreover have "accepted b = all_commands \<and> length ls = 40"
    if "\<nexists>l b'. l \<in> {Command_Done, Response} \<and> session_step b l b'"
  proof -
    have "outstanding (as_driver b) = 0" using that init_inv_progress [OF inv] by blast
    then show ?thesis using d by simp
  qed
  ultimately show ?thesis using d(1) by blast
qed

section \<open>An event in between\<close>

text \<open>
  The counter does not distinguish what it counts. An event that answers no command shifts
  it by one, and the next command then falls to a callback at which the command transfer may
  still be in use.
\<close>

definition unsolicited_example :: libusb_transfer where
  "unsolicited_example = completed_transfer [0x38, 4, 0x0b, 0, 0, 0x7d] 6"

lemma unsolicited_callback:
  assumes "no_negotiation s" and "transfer_completed s = 0"
  shows "\<exists>es. server_async_callback r unsolicited_example s =
    Inr (es, s\<lparr>transfer_completed := 1\<rparr>) \<and> bus_all es b = b"
proof -
  have dump: "server_dump_hci_event unsolicited_example (link_keys s) =
      Inr ([Log_Packet hci_event [0x38, 4, 0x0b, 0, 0, 0x7d], Print ''event code'' [0x38],
        Print ''Link Supervision Timeout Changed Event'' []], link_keys s)"
    by (simp add: server_dump_hci_event_def unsolicited_example_def event_answer_def fetch_numeral Let_def)
  have "status unsolicited_example = LIBUSB_TRANSFER_COMPLETED" "endpoint unsolicited_example \<noteq> 0"
    "fetch_up (tbuffer unsolicited_example) 0 (nat (actual_length unsolicited_example)) =
      Inr [0x38, 4, 0x0b, 0, 0, 0x7d]"
    by (simp_all add: unsolicited_example_def completed_transfer_def fetch_numeral)
  moreover have "run_server_script server_script 1 = []"
    by (simp add: server_script_is_main script_defs)
  ultimately show ?thesis
    using assms dump by (simp add: server_async_callback_def mtu_negotiation_def no_negotiation_def Let_def)
qed

lemma response_step:
  assumes "due b = Suc d" and "event_transfers b = Suc e" and "no_negotiation (prog b)"
  shows "session_step b Response (bus_all (run_server_script server_script (transfer_completed (prog b) + 1))
    (b\<lparr>due := d, event_transfers := e,
      prog := (prog b)\<lparr>transfer_completed := transfer_completed (prog b) + 1\<rparr>\<rparr>))"
proof -
  obtain es p where cb: "server_async_callback 0 response_example (prog b) = Inr (es, p)"
    using response_callback [OF assms(3)] by blast
  show ?thesis
    using step_response [OF assms(1,2) _ _ _ cb, of 0] init_callback [OF cb _ _ assms(3)] by simp
qed

lemma command_done_step:
  assumes "command_busy b" and "no_negotiation (prog b)"
  shows "session_step b Command_Done (bus_all (run_server_script server_script (transfer_completed (prog b) + 1))
    (b\<lparr>command_busy := False,
      prog := (prog b)\<lparr>transfer_completed := transfer_completed (prog b) + 1\<rparr>\<rparr>))"
proof -
  obtain es p where cb: "server_async_callback 0 command_done_example (prog b) = Inr (es, p)"
    using command_done_callback [OF assms(2)] by blast
  show ?thesis
    using step_command_done [OF assms(1) _ _ cb, of 0] init_callback [OF cb _ _ assms(2)] by simp
qed

lemma scripts_at_2_and_3:
  "run_server_script server_script 2 =
     [Sleep acl_wait, Cmd_Out (packet_of 3 [1, 0x10, 0]), Log_Packet hci_command [1, 0x10, 0]]"
  "run_server_script server_script 3 = []"
  by (simp_all add: server_script_is_main script_defs)

text \<open>
  One event that answers no command can end the initialisation before it has begun: if
  it arrives first, and the answer to the reset arrives before the completion of the reset,
  the first command of the script is refused because the command transfer is in use.
  Afterwards nothing is outstanding, no answer will come, and only the reset was sent.
\<close>

lemma unsolicited_event_stops_initialisation:
  "\<exists>b. session_run (session_init db) [Unsolicited, Response, Command_Done] b \<and>
     accepted b = [reset_command] \<and> due b = 0 \<and> \<not> command_busy b \<and>
     (\<nexists>l b'. l \<in> {Command_Done, Response} \<and> session_step b l b')"
proof -
  let ?p = "\<lambda>n. \<lparr>transfer_completed = n, channels = l2cap_init, link_keys = db\<rparr>"
  let ?b = "\<lambda>n e busy d. \<lparr>prog = ?p n, event_transfers = e, acl_transfers = 150, command_busy = busy,
    accepted = [reset_command], due = d, acl_out = 0\<rparr>"
  have quiet: "no_negotiation (?p n)" for n by (simp add: no_negotiation_def l2cap_init_def)
  have start: "session_init db = ?b 0 150 True 1"
    by (simp add: session_init_def SERVER_EVENT_TRANSFERS_def SERVER_ACL_TRANSFERS_def)
  obtain es where "server_async_callback 0 unsolicited_example (?p 0) =
      Inr (es, (?p 0)\<lparr>transfer_completed := 1\<rparr>)" "bus_all es (?b 1 149 True 1) = ?b 1 149 True 1"
    using unsolicited_callback [OF quiet] by (metis server.select_convs(1))
  then have one: "session_step (?b 0 150 True 1) Unsolicited (?b 1 149 True 1)"
    using step_unsolicited [of "?b 0 150 True 1" 149 unsolicited_example "0x38" 0 es "?p 1" 0]
    by (simp add: unsolicited_example_def completed_transfer_def)
  have two: "session_step (?b 1 149 True 1) Response (?b 2 148 True 0)"
    using response_step [of "?b 1 149 True 1" 0 148] quiet by (simp add: scripts_at_2_and_3)
  have three: "session_step (?b 2 148 True 0) Command_Done (?b 3 148 False 0)"
    using command_done_step [of "?b 2 148 True 0"] quiet by (simp add: scripts_at_2_and_3)
  have "session_run (session_init db) ((([] @ [Unsolicited]) @ [Response]) @ [Command_Done]) (?b 3 148 False 0)"
    unfolding start by (rule run_more run_none one two three)+
  moreover have "\<not> session_step (?b 3 148 False 0) l b'" if "l \<in> {Command_Done, Response}" for l b'
    using that by (auto elim: session_step.cases)
  ultimately show ?thesis by fastforce
qed

section \<open>The number of transfers\<close>

lemma bus_resources [simp]:
  "event_transfers (bus_all es b) = event_transfers b" "acl_transfers (bus_all es b) = acl_transfers b"
  "prog (bus_all es b) = prog b"
proof (induction es arbitrary: b)
  case (Cons e es)
  {
    case 1
    then show ?case using Cons by (cases e) simp_all
  next
    case 2
    then show ?case using Cons by (cases e) simp_all
  next
    case 3
    then show ?case using Cons by (cases e) simp_all
  }
qed simp_all

definition events_in :: "occurrence list \<Rightarrow> nat" where
  "events_in ls = count_list ls Response + count_list ls Unsolicited"

text \<open>The transfers of the pools, over one step.\<close>

lemma step_transfers:
  assumes "session_step b l b'"
  shows "event_transfers b' + events_in [l] \<le> event_transfers b"
    and "l \<noteq> Event_Failed \<Longrightarrow> event_transfers b' + events_in [l] = event_transfers b"
    and "acl_transfers b' + count_list [l] Acl_Received = acl_transfers b"
    and "l \<in> {Response, Unsolicited, Event_Failed} \<Longrightarrow> 0 < event_transfers b"
    and "l = Acl_Received \<Longrightarrow> 0 < acl_transfers b"
  using assms by (auto simp: events_in_def elim!: session_step.cases dest: accepted_calls)

lemma run_transfers:
  "session_run b0 ls b \<Longrightarrow>
    event_transfers b + events_in ls \<le> event_transfers b0 \<and>
    (Event_Failed \<notin> set ls \<longrightarrow> event_transfers b + events_in ls = event_transfers b0) \<and>
    acl_transfers b + count_list ls Acl_Received = acl_transfers b0"
proof (induction rule: session_run.induct)
  case (run_more b ls b' l b'')
  have "events_in (ls @ [l]) = events_in ls + events_in [l]" by (simp add: events_in_def)
  then show ?case using run_more.IH step_transfers(1-3) [OF run_more.hyps(2)] by auto
qed (simp add: events_in_def)

text \<open>
  C14. The program takes at most 150 events and 150 ACL packets from the controller, because
  its callbacks give no completed transfer back: at every moment of every run the event
  transfers that libusb holds and the events handled add up to at most 150, and to exactly
  150 if no event transfer came back with another status; for the ACL packets, whose
  callback does not look at the status, to exactly 150. After 150 events or packets no more
  of them can arrive, whatever the peer does.
\<close>

theorem transfers_run_out:
  assumes "session_run (session_init db) ls b"
  shows "event_transfers b + events_in ls \<le> 150 \<and>
    (Event_Failed \<notin> set ls \<longrightarrow> event_transfers b + events_in ls = 150) \<and>
    acl_transfers b + count_list ls Acl_Received = 150 \<and>
    (events_in ls = 150 \<longrightarrow> \<not> session_step b Response b' \<and> \<not> session_step b Unsolicited b') \<and>
    (count_list ls Acl_Received = 150 \<longrightarrow> \<not> session_step b Acl_Received b')"
proof -
  have "event_transfers b + events_in ls \<le> 150"
    "Event_Failed \<notin> set ls \<longrightarrow> event_transfers b + events_in ls = 150"
    "acl_transfers b + count_list ls Acl_Received = 150"
    using run_transfers [OF assms]
    by (simp_all add: session_init_def SERVER_EVENT_TRANSFERS_def SERVER_ACL_TRANSFERS_def)
  then show ?thesis
    using step_transfers(4) [of b Response b'] step_transfers(4) [of b Unsolicited b']
      step_transfers(5) [of b Acl_Received b'] by auto
qed

section \<open>The state of the program in every run\<close>

lemma dump_keeps_database:
  assumes "server_dump_hci_event t db = Inr (es, db')" and "well_formed db"
  shows "well_formed db'"
proof -
  obtain c es' where e: "event_answer c (tbuffer t) (actual_length t) 1 db = Inr (es', db')"
    using assms(1) by (auto elim: dump_eventE)
  have "well_formed db'" if "link_key_notification (tbuffer t) 1 db = Inr (es', db')"
    using that keys.inv_add [OF assms(2)]
    by (auto simp: link_key_notification_def andthen_eq_Inr Let_def read_bd_addr_def read_link_key_def
        fetch_up_eq_Inr key_entry_def is_bd_addr_def is_link_key_def)
  moreover have "db' = db" if "link_key_request (tbuffer t) 1 db = Inr (es', db')"
    using link_key_request_commands [OF that assms(2)] by simp
  ultimately show ?thesis
    using e assms(2)
    by (auto simp: event_answer_def Let_def andthen_eq_Inr split: if_splits)
qed

lemma negotiation_keeps_channels:
  assumes "mtu_negotiation r s = Inr (es, s')"
  shows "channel_map s' = channel_map s"
    and "next_destination_channel_id s' = next_destination_channel_id s"
  using assms by (auto simp: mtu_negotiation_def split: if_splits)

lemma dispatch_state:
  assumes "acl_dispatch wn wn' b idx l c s = Some (Inr (es, s'))"
  shows "s' = s \<or> process_control b idx s = Inr (es, s')"
  using assms by (auto simp: acl_dispatch_def andthen_eq_Inr split: if_splits option.splits)

definition server_inv :: "nat \<Rightarrow> nat \<Rightarrow> server \<Rightarrow> bool" where
  "server_inv n k s \<longleftrightarrow> well_formed (link_keys s) \<and> channels_ok (channels s) \<and>
     unat (next_destination_channel_id (channels s)) \<le> k \<and> transfer_completed s = int n"

lemma server_inv_event:
  assumes "server_async_callback r t s = Inr (es, s')" and "status t = LIBUSB_TRANSFER_COMPLETED"
    and "server_inv n k s"
  shows "server_inv (Suc n) k s'"
proof -
  obtain es1 db mtu l2 where cb: "(if endpoint t \<noteq> 0 then server_dump_hci_event t (link_keys s)
        else Inr ([], link_keys s)) = Inr (es1, db)"
    "mtu_negotiation r (channels s) = Inr (mtu, l2)"
    "s' = s\<lparr>transfer_completed := transfer_completed s + 1, channels := l2, link_keys := db\<rparr>"
    using assms(1,2) by (auto simp: server_async_callback_def andthen_eq_Inr Let_def)
  have "well_formed db"
    using cb(1) assms(3) dump_keeps_database by (auto simp: server_inv_def split: if_splits)
  then show ?thesis
    using cb(3) assms(3) negotiation_keeps_channels [OF cb(2)]
    by (auto simp: server_inv_def channels_ok_def)
qed

lemma server_inv_acl:
  assumes "server_acl_callback wn wn' t s = Some (Inr (es, s'))" and "server_inv n k s" and "k < 65535"
  shows "server_inv (Suc n) (Suc k) s'"
proof -
  obtain l2 where l2: "async_acl_callback wn wn' t (transfer_completed s) (channels s) =
      Some (Inr (es, transfer_completed s + 1, l2))"
    "s' = s\<lparr>transfer_completed := transfer_completed s + 1, channels := l2\<rparr>"
    using assms(1)
    by (auto simp: server_acl_callback_def async_acl_callback_def andthen_eq_Inr split: sum.splits)
  obtain es' l c where "acl_dispatch wn wn' (tbuffer t) 8 l c (channels s) = Some (Inr (es', l2))"
    using l2(1) by (auto simp: async_acl_callback_def andthen_eq_Inr split: sum.splits)
  then have "l2 = channels s \<or> process_control (tbuffer t) 8 (channels s) = Inr (es', l2)"
    by (rule dispatch_state)
  then have "channels_ok l2 \<and>
      unat (next_destination_channel_id l2) \<le> Suc (unat (next_destination_channel_id (channels s)))"
    using assms(2,3) control_keeps [of "tbuffer t" 8 "channels s" es' l2] by (auto simp: server_inv_def)
  then show ?thesis using l2(2) assms(2) by (simp add: server_inv_def)
qed

definition acl_callbacks :: "occurrence list \<Rightarrow> nat" where
  "acl_callbacks ls = count_list ls Acl_Received + count_list ls Acl_Sent"

text \<open>The occurrences that the callbacks count.\<close>

definition completions :: "occurrence list \<Rightarrow> nat" where
  "completions ls = length (filter (\<lambda>l. l \<noteq> Command_Failed \<and> l \<noteq> Event_Failed) ls)"

lemma server_inv_step:
  assumes "session_step b l b'" and "server_inv n k (prog b)" and "k < 65535"
  shows "server_inv (n + completions [l]) (k + acl_callbacks [l]) (prog b')"
  using assms(1)
  by (cases rule: session_step.cases)
    (use assms(2,3) in \<open>auto simp: server_inv_event server_inv_acl completions_def acl_callbacks_def
      dest: failed_callback(1)\<close>)

lemma server_inv_run:
  "session_run b0 ls b \<Longrightarrow> server_inv 0 0 (prog b0) \<Longrightarrow> acl_callbacks ls < 65535 \<Longrightarrow>
    server_inv (completions ls) (acl_callbacks ls) (prog b)"
proof (induction rule: session_run.induct)
  case (run_more b0 ls b' l b'')
  have sums: "acl_callbacks (ls @ [l]) = acl_callbacks ls + acl_callbacks [l]"
    "completions (ls @ [l]) = completions ls + completions [l]"
    by (simp_all add: acl_callbacks_def completions_def)
  then show ?case using run_more server_inv_step [OF run_more.hyps(2)] by simp
qed (simp add: acl_callbacks_def completions_def)

text \<open>
  C6. The data of the program stays well formed in every run of fewer than 65535 ACL
  callbacks, whatever the controller and the peers send: the link key database stays sorted
  with entries of the right size, the channel map stays consecutive and consistent with its
  counter, and the counter of completed transfers counts every callback of a completed
  transfer, of events, commands and ACL packets alike.
\<close>

theorem program_state_well_formed:
  assumes "session_run (session_init db) ls b" and "well_formed db" and "acl_callbacks ls < 65535"
  shows "well_formed (link_keys (prog b)) \<and> channels_ok (channels (prog b)) \<and>
    unat (next_destination_channel_id (channels (prog b))) \<le> acl_callbacks ls \<and>
    transfer_completed (prog b) = int (completions ls)"
proof -
  have "server_inv 0 0 (prog (session_init db))"
    using assms(2) channels_ok_init by (simp add: server_inv_def session_init_def l2cap_init_def)
  then show ?thesis using server_inv_run [OF assms(1) _ assms(3)] by (simp add: server_inv_def)
qed

end
