(* ===== verification/Server_Runs.thy ===== *)
theory Server_Runs
  imports Server_Driver_Props
begin

text \<open>
  Runs of \<open>hci_test.cpp\<close>: the first commands of the initialisation, and a peer that pairs and
  opens a channel. They show that the properties of all runs speak of runs in which the
  callbacks do something.
\<close>

section \<open>The first commands\<close>

text \<open>The answer to the reset and its completion; the first command of the script is sent.\<close>

lemma first_commands:
  "\<exists>b. session_run (session_init db) [Response, Command_Done] b \<and>
     accepted b = [reset_command, [1, 0x10, 0]] \<and> event_transfers b = 149"
proof -
  let ?p = "\<lambda>n. \<lparr>transfer_completed = n, channels = l2cap_init, link_keys = db\<rparr>"
  let ?b = "\<lambda>n e busy d sent. \<lparr>prog = ?p n, event_transfers = e, acl_transfers = 150, command_busy = busy,
    accepted = sent, due = d, acl_out = 0\<rparr>"
  have quiet: "no_negotiation (?p n)" for n by (simp add: no_negotiation_def l2cap_init_def)
  have start: "session_init db = ?b 0 150 True 1 [reset_command]"
    by (simp add: session_init_def SERVER_EVENT_TRANSFERS_def SERVER_ACL_TRANSFERS_def)
  have "run_server_script server_script 1 = []"
    by (simp add: server_script_is_main script_defs)
  then have one: "session_step (?b 0 150 True 1 [reset_command]) Response (?b 1 149 True 0 [reset_command])"
    using response_step [of "?b 0 150 True 1 [reset_command]" 0 149] quiet by simp
  have two: "session_step (?b 1 149 True 0 [reset_command]) Command_Done
      (?b 2 149 True 1 [reset_command, [1, 0x10, 0]])"
    using command_done_step [of "?b 1 149 True 0 [reset_command]"] quiet
    by (simp add: scripts_at_2_and_3 packet_of_def)
  have "session_run (session_init db) (([] @ [Response]) @ [Command_Done])
      (?b 2 149 True 1 [reset_command, [1, 0x10, 0]])"
    unfolding start by (rule run_more run_none one two)+
  then show ?thesis by fastforce
qed

theorem server_initialisation_completes_witness:
  "\<exists>b. session_run (session_init []) [Response, Command_Done] b \<and>
     accepted b = take 2 all_commands \<and> accepted b \<noteq> all_commands"
proof -
  obtain b where b: "session_run (session_init []) [Response, Command_Done] b"
    "accepted b = [reset_command, [1, 0x10, 0]]" using first_commands by blast
  have "accepted b = take (length (accepted b)) all_commands"
    using server_initialisation_completes [OF b(1)] by simp
  moreover have "length all_commands = 20" by (simp add: all_commands_def script_defs)
  ultimately show ?thesis using b by (intro exI [of _ b]) (auto simp: numeral_2_eq_2)
qed

theorem transfers_run_out_witness:
  "\<exists>b. session_run (session_init []) [Response, Command_Done] b \<and>
     event_transfers b + 1 = 150 \<and> acl_transfers b = 150"
proof -
  obtain b where b: "session_run (session_init []) [Response, Command_Done] b"
    using first_commands by blast
  then show ?thesis using transfers_run_out [OF b] by (auto simp: events_in_def)
qed

section \<open>A peer\<close>

text \<open>
  The controller notifies the link key of a new device, and the device asks for a channel to
  the SDP server.
\<close>

definition key_event :: libusb_transfer where
  "key_event = completed_transfer ([0x18, 22, 1, 2, 3, 4, 5, 6] @ replicate 16 7) 24"

definition channel_packet :: libusb_transfer where
  "channel_packet = incoming (connection_request_packet (5, 1, 0x45))"

lemma key_event_callback:
  assumes "no_negotiation s" and "transfer_completed s = 0"
  shows "\<exists>es. server_async_callback r key_event s = Inr (es, s\<lparr>transfer_completed := 1,
    link_keys := add_key [1, 2, 3, 4, 5, 6] (replicate 16 7) (link_keys s)\<rparr>)"
proof -
  let ?t = "key_event"
  have t: "in_buffer ?t" "fetch (tbuffer ?t) 0 = Inr 0x18"
    "holds_at (tbuffer ?t) 1 (22 # [1, 2, 3, 4, 5, 6] @ replicate 16 7)"
    "status ?t = LIBUSB_TRANSFER_COMPLETED" "endpoint ?t \<noteq> 0"
    "\<exists>raw. fetch_up (tbuffer ?t) 0 (nat (actual_length ?t)) = Inr raw"
    by (simp_all add: key_event_def completed_transfer_def in_buffer_def holds_at_def fetch_up_in_range)
  obtain lines where "event_answer 0x18 (tbuffer ?t) (actual_length ?t) 1 (link_keys s) =
      Inr (lines, add_key [1, 2, 3, 4, 5, 6] (replicate 16 7) (link_keys s))"
    using notification_stores_key [OF t(3), of "link_keys s"]
    by (auto simp: event_answer_def Let_def is_bd_addr_def is_link_key_def)
  from dump_event [OF t(1,2) this] obtain es where
    "server_dump_hci_event ?t (link_keys s) =
      Inr (es, add_key [1, 2, 3, 4, 5, 6] (replicate 16 7) (link_keys s))" by blast
  moreover have "run_server_script server_script 1 = []"
    by (simp add: server_script_is_main script_defs)
  ultimately show ?thesis
    using assms t(4-6) by (auto simp: server_async_callback_def mtu_negotiation_def no_negotiation_def Let_def)
qed

lemma paired_and_connected:
  "\<exists>b. session_run (session_init []) [Unsolicited, Acl_Received] b \<and>
     link_keys (prog b) = [([1, 2, 3, 4, 5, 6], replicate 16 7)] \<and>
     channel_map (channels (prog b)) 0x41 =
       Some \<lparr>source_cid = 0x45, destination_cid = 0x41, psm = SDP_PSM\<rparr>"
proof -
  let ?b0 = "session_init []"
  have "no_negotiation (prog ?b0)" "transfer_completed (prog ?b0) = 0"
    by (simp_all add: no_negotiation_def session_init_def l2cap_init_def)
  from key_event_callback [OF this, of 0] obtain es where
    cb: "server_async_callback 0 key_event (prog ?b0) = Inr (es, (prog ?b0)\<lparr>transfer_completed := 1,
      link_keys := add_key [1, 2, 3, 4, 5, 6] (replicate 16 7) []\<rparr>)"
    by (auto simp: session_init_def)
  define b1 where "b1 = bus_all es (?b0\<lparr>event_transfers := 149 + 0, prog := (prog ?b0)\<lparr>transfer_completed := 1,
      link_keys := add_key [1, 2, 3, 4, 5, 6] (replicate 16 7) []\<rparr>\<rparr>)"
  have one: "session_step ?b0 Unsolicited b1"
    unfolding b1_def
    by (rule step_unsolicited [of _ _ key_event "0x18", OF _ _ _ _ _ cb])
      (simp_all add: session_init_def SERVER_EVENT_TRANSFERS_def key_event_def completed_transfer_def)
  have b1: "prog b1 = \<lparr>transfer_completed = 1, channels = l2cap_init,
      link_keys = add_key [1, 2, 3, 4, 5, 6] (replicate 16 7) []\<rparr>" "acl_transfers b1 = Suc 149"
    by (simp_all add: b1_def session_init_def SERVER_ACL_TRANSFERS_def)
  have "received channel_packet (connection_request_packet (5, 1, 0x45))"
    by (simp add: channel_packet_def del: connection_request_packet.simps)
  from callback_connection_request [OF this, of True True 1 l2cap_init] obtain es' where
    "async_acl_callback True True channel_packet 1 l2cap_init =
      Some (Inr (es', 2, open_channel (5, 1, 0x45) l2cap_init))" by auto
  then have cb': "server_acl_callback True True channel_packet (prog b1) =
      Some (Inr (es', (prog b1)\<lparr>transfer_completed := 2, channels := open_channel (5, 1, 0x45) l2cap_init\<rparr>))"
    by (simp add: server_acl_callback_def b1(1))
  define b2 where "b2 = bus_all es' (b1\<lparr>acl_transfers := 149 + 0,
      prog := (prog b1)\<lparr>transfer_completed := 2, channels := open_channel (5, 1, 0x45) l2cap_init\<rparr>\<rparr>)"
  have two: "session_step b1 Acl_Received b2"
    unfolding b2_def
    by (rule step_acl_received [OF b1(2) _ cb']) (simp_all add: channel_packet_def incoming_def)
  have "session_run ?b0 (([] @ [Unsolicited]) @ [Acl_Received]) b2"
    by (rule run_more run_none one two)+
  moreover have "link_keys (prog b2) = [([1, 2, 3, 4, 5, 6], replicate 16 7)]"
    by (simp add: b2_def b1(1) add_key_def)
  moreover have "channel_map (channels (prog b2)) 0x41 =
      Some \<lparr>source_cid = 0x45, destination_cid = 0x41, psm = SDP_PSM\<rparr>"
    by (simp add: b2_def l2cap_init_def insert_channel_def SDP_PSM_def Let_def)
  ultimately show ?thesis by fastforce
qed

theorem program_state_well_formed_witness:
  "\<exists>b. session_run (session_init []) [Unsolicited, Acl_Received] b \<and>
     link_keys (prog b) = [([1, 2, 3, 4, 5, 6], replicate 16 7)] \<and>
     channel_map (channels (prog b)) 0x41 \<noteq> None \<and>
     well_formed (link_keys (prog b)) \<and> channels_ok (channels (prog b)) \<and>
     transfer_completed (prog b) = 2"
proof -
  obtain b where b: "session_run (session_init []) [Unsolicited, Acl_Received] b"
    "link_keys (prog b) = [([1, 2, 3, 4, 5, 6], replicate 16 7)]"
    "channel_map (channels (prog b)) 0x41 \<noteq> None"
    using paired_and_connected by auto
  then show ?thesis
    using program_state_well_formed [OF b(1)]
    by (auto simp: well_formed_def acl_callbacks_def completions_def)
qed

end
