(* ===== verification/Ezusb_Image.thy ===== *)
theory Ezusb_Image
  imports Prelude
begin

text \<open>
  The image parsers of \<open>ezusb/ezusb.cpp\<close>: Intel HEX, the binary image and the IIC image. Each
  reads a file and hands its segments to the function \<open>poke\<close>, which may fail. A file is
  its remaining bytes; the context of \<open>poke\<close> is a state passed along.
\<close>

section \<open>Which addresses are external\<close>

definition fx_is_external :: "u32 \<Rightarrow> nat \<Rightarrow> bool" where
  "fx_is_external addr n = (if addr \<le> 0x1b3f then unat addr + n > 0x1b40 else True)"

definition fx2_is_external :: "u32 \<Rightarrow> nat \<Rightarrow> bool" where
  "fx2_is_external addr n =
     (if addr \<le> 0x1fff then unat addr + n > 0x2000
      else if addr \<ge> 0xe000 \<and> addr \<le> 0xe1ff then unat addr + n > 0xe200
      else True)"

definition fx2lp_is_external :: "u32 \<Rightarrow> nat \<Rightarrow> bool" where
  "fx2lp_is_external addr n =
     (if addr \<le> 0x3fff then unat addr + n > 0x4000
      else if addr \<ge> 0xe000 \<and> addr \<le> 0xe1ff then unat addr + n > 0xe200
      else True)"

section \<open>The C library\<close>

text \<open>\<open>fgets(buf, n, image)\<close>: up to a newline or \<open>n - 1\<close> bytes; \<open>None\<close> at the end of the file.\<close>

definition fgets :: "nat \<Rightarrow> bytes \<Rightarrow> (bytes \<times> bytes) option" where
  "fgets n file =
     (if file = [] then None
      else (let k = min (n - 1) (Suc (length (takeWhile (\<lambda>c. c \<noteq> 10) file)))
            in Some (take k file, drop k file)))"

lemma fgets_shorter: "fgets n file = Some (line, rest) \<Longrightarrow> 1 < n \<Longrightarrow> length rest < length file"
  by (auto simp: fgets_def Let_def split: if_splits)

definition is_space :: "u8 \<Rightarrow> bool" where
  "is_space c \<longleftrightarrow> c = 32 \<or> (9 \<le> c \<and> c \<le> 13)"

definition hex_digit :: "u8 \<Rightarrow> nat option" where
  "hex_digit c =
     (if 48 \<le> c \<and> c \<le> 57 then Some (unat c - 48)
      else if 65 \<le> c \<and> c \<le> 70 then Some (unat c - 55)
      else if 97 \<le> c \<and> c \<le> 102 then Some (unat c - 87)
      else None)"

fun hex_value :: "nat \<Rightarrow> bytes \<Rightarrow> nat" where
  "hex_value v [] = v"
| "hex_value v (c # cs) = (case hex_digit c of Some d \<Rightarrow> hex_value (16 * v + d) cs | None \<Rightarrow> v)"

text \<open>
  \<open>strtoul(s, NULL, 16)\<close> for an \<open>unsigned long\<close> of \<open>w\<close> bits: white space, a sign, a prefix
  \<open>0x\<close> that a digit follows, digits; a negative sign negates modulo \<open>2 ^ w\<close>.
\<close>

definition strtoul16 :: "nat \<Rightarrow> bytes \<Rightarrow> nat" where
  "strtoul16 w s =
     (let s = dropWhile is_space s;
          negative = (case s of c # _ \<Rightarrow> c = 45 | [] \<Rightarrow> False);
          s = (case s of c # t \<Rightarrow> if c = 45 \<or> c = 43 then t else s | [] \<Rightarrow> s);
          s = (case s of z # x # d # t \<Rightarrow>
                 if z = 48 \<and> (x = 120 \<or> x = 88) \<and> hex_digit d \<noteq> None then d # t else s
               | _ \<Rightarrow> s);
          v = hex_value 0 s
      in if 2 ^ w \<le> v then 2 ^ w - 1 else if negative then (2 ^ w - v) mod 2 ^ w else v)"

section \<open>One line of Intel HEX\<close>

text \<open>
  The local array \<open>buf\<close> of 512 bytes after \<open>fgets\<close>: the line, a zero, and what was in the
  array before, \<open>garbage\<close>.
\<close>

definition line_buffer :: "bytes \<Rightarrow> bytes \<Rightarrow> bytes" where
  "line_buffer garbage line = line @ [0] @ drop (length line + 1) garbage"

definition c_string :: "bytes \<Rightarrow> bytes" where
  "c_string b = takeWhile (\<lambda>c. c \<noteq> 0) b"

text \<open>\<open>cp = strchr(buf, '\n'); if (cp) *cp = 0;\<close>\<close>

definition strip_newline :: "bytes \<Rightarrow> bytes" where
  "strip_newline b =
     (let k = length (takeWhile (\<lambda>c. c \<noteq> 10) (c_string b))
      in if k < length (c_string b) then b[k := 0] else b)"

text \<open>
  \<open>tmp = buf[i + n]; buf[i + n] = 0; ... strtoul(buf + i, NULL, 16) ...; buf[i + n] = tmp\<close>:
  the string of at most \<open>n\<close> bytes at position \<open>i\<close>.
\<close>

definition field :: "bytes \<Rightarrow> nat \<Rightarrow> nat \<Rightarrow> bytes" where
  "field b i n = c_string (take n (drop i b))"

datatype ihex_line = Comment | Wrong int | End_Of_File | Data_Line u32 nat bytes

definition parse_line :: "nat \<Rightarrow> bytes \<Rightarrow> bytes \<Rightarrow> ihex_line" where
  "parse_line w garbage line =
     (let buf = line_buffer garbage line in
      if buf ! 0 = 35 then Comment
      else if buf ! 0 \<noteq> 58 then Wrong (-2)
      else
        (let buf = strip_newline buf;
             n = strtoul16 w (field buf 1 2);
             off = word_of_nat (strtoul16 w (field buf 3 4));
             rectype = word_of_nat (strtoul16 w (field buf 7 2)) :: u8
         in if rectype = 1 then End_Of_File
            else if rectype \<noteq> 0 then Wrong (-3)
            else if (n * 2 + 11) mod 2 ^ 64 > length (c_string buf) then Wrong (-4)
            else Data_Line off n buf))"

text \<open>
  The bytes of a data line appended to \<open>data\<close>, an array of 1023 bytes; the last access to
  the line is \<open>buf[9 + 2 * n]\<close>.
\<close>

definition ihex_data_size :: nat where "ihex_data_size = 1023"

definition append_data :: "nat \<Rightarrow> bytes \<Rightarrow> nat \<Rightarrow> bytes \<Rightarrow> bytes res" where
  "append_data w buf n data =
     (if n = 0 then Inr data
      else if 9 + 2 * n < length buf \<and> length data + n \<le> ihex_data_size then
        Inr (data @ map (\<lambda>i. word_of_nat (strtoul16 w (field buf (9 + 2 * i) 2))) [0..<n])
      else Inl Out_Of_Bounds)"

section \<open>The parsers\<close>

type_synonym external_test = "u32 \<Rightarrow> nat \<Rightarrow> bool"
type_synonym 's poke = "'s \<Rightarrow> u32 \<Rightarrow> bool \<Rightarrow> bytes \<Rightarrow> int \<times> 's"

text \<open>A segment goes to \<open>poke\<close> with the answer of \<open>is_external\<close>, if there is such a test.\<close>

definition poke_segment ::
  "external_test option \<Rightarrow> 's poke \<Rightarrow> 's \<Rightarrow> u32 \<Rightarrow> bytes \<Rightarrow> int \<times> 's" where
  "poke_segment ext poke c addr data =
     poke c addr (case ext of None \<Rightarrow> False | Some f \<Rightarrow> f addr (length data)) data"

text \<open>
  \<open>parse_ihex\<close>. \<open>w\<close> is the width of an \<open>unsigned long\<close>, \<open>g\<close> the old content of the line
  buffer, by the number of bytes left in the file. The loop with the saved data and its
  address, and whether the first record is still to come.
\<close>

definition must_flush :: "u32 \<Rightarrow> bytes \<Rightarrow> u32 \<Rightarrow> nat \<Rightarrow> bool" where
  "must_flush data_addr data off n \<longleftrightarrow>
     data \<noteq> [] \<and> (unat off \<noteq> unat data_addr + length data \<or>
       (length data + n) mod 2 ^ 64 > ihex_data_size)"

definition flush_rest ::
  "external_test option \<Rightarrow> 's poke \<Rightarrow> u32 \<Rightarrow> bytes \<Rightarrow> 's \<Rightarrow> (int \<times> 's) res" where
  "flush_rest ext poke data_addr data c =
     (if data = [] then Inr (0, c)
      else (let (rc, c) = poke_segment ext poke c data_addr data
            in Inr (if rc < 0 then -1 else 0, c)))"

function ihex_loop ::
  "nat \<Rightarrow> (nat \<Rightarrow> bytes) \<Rightarrow> external_test option \<Rightarrow> 's poke \<Rightarrow> u32 \<Rightarrow> bytes \<Rightarrow> bool \<Rightarrow> 's \<Rightarrow> bytes
     \<Rightarrow> (int \<times> 's) res" where
  "ihex_loop w g ext poke data_addr data first_line c file =
     (case fgets 512 file of
        None \<Rightarrow> flush_rest ext poke data_addr data c
      | Some (line, rest) \<Rightarrow>
          (case parse_line w (g (length rest)) line of
             Comment \<Rightarrow> ihex_loop w g ext poke data_addr data first_line c rest
           | Wrong e \<Rightarrow> Inr (e, c)
           | End_Of_File \<Rightarrow> flush_rest ext poke data_addr data c
           | Data_Line off n buf \<Rightarrow>
               (let data_addr = (if first_line then off else data_addr) in
                if must_flush data_addr data off n then
                  (let (rc, c) = poke_segment ext poke c data_addr data in
                   if rc < 0 then Inr (-1, c)
                   else andthen (append_data w buf n []) (\<lambda>data.
                     ihex_loop w g ext poke off data False c rest))
                else andthen (append_data w buf n data) (\<lambda>data.
                     ihex_loop w g ext poke data_addr data False c rest))))"
  by pat_completeness auto

termination
  by (relation "measure (\<lambda>(w, g, ext, poke, data_addr, data, first_line, c, file). length file)")
    (auto dest: fgets_shorter)

declare ihex_loop.simps [simp del]

definition parse_ihex ::
  "nat \<Rightarrow> (nat \<Rightarrow> bytes) \<Rightarrow> external_test option \<Rightarrow> 's poke \<Rightarrow> 's \<Rightarrow> bytes \<Rightarrow> (int \<times> 's) res" where
  "parse_ihex w g ext poke c file = ihex_loop w g ext poke 0 [] True c file"

text \<open>\<open>parse_bin\<close>: chunks of 4096 bytes; the end of the file is the only way a read ends.\<close>

function bin_loop :: "external_test option \<Rightarrow> 's poke \<Rightarrow> u32 \<Rightarrow> 's \<Rightarrow> bytes \<Rightarrow> int \<times> 's" where
  "bin_loop ext poke data_addr c file =
     (let data = take 4096 file in
      if data = [] then (0, c)
      else (let (rc, c) = poke_segment ext poke c data_addr data in
            if rc < 0 then (-1, c)
            else bin_loop ext poke (data_addr + word_of_nat (length data)) c (drop 4096 file)))"
  by pat_completeness auto

termination
  by (relation "measure (\<lambda>(ext, poke, data_addr, c, file). length file)") auto

declare bin_loop.simps [simp del]

definition parse_bin ::
  "external_test option \<Rightarrow> 's poke \<Rightarrow> 's \<Rightarrow> bytes \<Rightarrow> (int \<times> 's) res" where
  "parse_bin ext poke c file = Inr (bin_loop ext poke 0 c file)"

text \<open>
  \<open>parse_iic\<close>, from the current position of the file on: blocks of a length and an address in
  big endian and the data; the last five bytes of the file are ignored.
\<close>

function iic_loop :: "external_test option \<Rightarrow> 's poke \<Rightarrow> 's \<Rightarrow> bytes \<Rightarrow> int \<times> 's" where
  "iic_loop ext poke c file =
     (if length file \<le> 5 then (0, c)
      else
        (let data_len = unat (join16 (file ! 0) (file ! 1));
             data_addr = ucast (join16 (file ! 2) (file ! 3));
             data = take data_len (drop 4 file)
         in if 4096 < data_len \<or> length data \<noteq> data_len then (-1, c)
            else (let (rc, c) = poke_segment ext poke c data_addr data in
                  if rc < 0 then (-1, c) else iic_loop ext poke c (drop (4 + data_len) file))))"
  by pat_completeness auto

termination
  by (relation "measure (\<lambda>(ext, poke, c, file). length file)") auto

declare iic_loop.simps [simp del]

definition parse_iic ::
  "external_test option \<Rightarrow> 's poke \<Rightarrow> 's \<Rightarrow> bytes \<Rightarrow> (int \<times> 's) res" where
  "parse_iic ext poke c file = Inr (iic_loop ext poke c file)"

end
