(* ===== verification/Ezusb_Segments.thy ===== *)
theory Ezusb_Segments
  imports Ezusb_Image
begin

text \<open>
  The parsers separated from what is done with the segments. Each parser of
  \<open>Ezusb_Image\<close> behaves as if it first listed the segments of the file and then handed them
  over one by one until \<open>poke\<close> fails; the list does not depend on \<open>poke\<close>. The interface
  \<open>image_source\<close> states this for the loader, which is proved correct once for all formats.
\<close>

section \<open>Handing over segments\<close>

type_synonym segment = "u32 \<times> bytes"

fun poke_all :: "external_test option \<Rightarrow> 's poke \<Rightarrow> 's \<Rightarrow> segment list \<Rightarrow> int \<times> 's" where
  "poke_all ext poke c [] = (0, c)"
| "poke_all ext poke c ((addr, data) # segs) =
     (let (rc, c) = poke_segment ext poke c addr data in
      if rc < 0 then (-1, c) else poke_all ext poke c segs)"

definition deliver ::
  "external_test option \<Rightarrow> 's poke \<Rightarrow> 's \<Rightarrow> segment list \<times> int res \<Rightarrow> (int \<times> 's) res" where
  "deliver ext poke c p =
     (let (rc, c) = poke_all ext poke c (fst p) in
      if rc < 0 then Inr (-1, c) else andthen (snd p) (\<lambda>r. Inr (r, c)))"

lemma poke_all_result: "poke_all ext poke c segs = (rc, c') \<Longrightarrow> rc = 0 \<or> rc = -1"
  by (induction segs arbitrary: c) (auto simp: Let_def split: prod.splits if_splits)

lemma deliver_none [simp]: "deliver ext poke c ([], r) = andthen r (\<lambda>r. Inr (r, c))"
  by (simp add: deliver_def)

lemma deliver_Cons:
  "deliver ext poke c ((addr, data) # segs, r) =
   (let (rc, c) = poke_segment ext poke c addr data in
    if rc < 0 then Inr (-1, c) else deliver ext poke c (segs, r))"
  by (auto simp: deliver_def split: prod.splits)

section \<open>The segments of an image\<close>

definition rest_segment :: "u32 \<Rightarrow> bytes \<Rightarrow> segment list" where
  "rest_segment data_addr data = (if data = [] then [] else [(data_addr, data)])"

definition with_segment :: "segment \<Rightarrow> segment list \<times> int res \<Rightarrow> segment list \<times> int res" where
  "with_segment s p = (s # fst p, snd p)"

definition scan_on :: "bytes res \<Rightarrow> (bytes \<Rightarrow> segment list \<times> int res) \<Rightarrow> segment list \<times> int res" where
  "scan_on m f = (case m of Inl e \<Rightarrow> ([], Inl e) | Inr d \<Rightarrow> f d)"

lemma scan_on_simps [simp]: "scan_on (Inl e) f = ([], Inl e)" "scan_on (Inr d) f = f d"
  by (simp_all add: scan_on_def)

lemma scan_on_cong [fundef_cong]:
  "m = m' \<Longrightarrow> (\<And>d. m' = Inr d \<Longrightarrow> f d = f' d) \<Longrightarrow> scan_on m f = scan_on m' f'"
  by (cases m') auto

function ihex_scan ::
  "nat \<Rightarrow> (nat \<Rightarrow> bytes) \<Rightarrow> u32 \<Rightarrow> bytes \<Rightarrow> bool \<Rightarrow> bytes \<Rightarrow> segment list \<times> int res" where
  "ihex_scan w g data_addr data first_line file =
     (case fgets 512 file of
        None \<Rightarrow> (rest_segment data_addr data, Inr 0)
      | Some (line, rest) \<Rightarrow>
          (case parse_line w (g (length rest)) line of
             Comment \<Rightarrow> ihex_scan w g data_addr data first_line rest
           | Wrong e \<Rightarrow> ([], Inr e)
           | End_Of_File \<Rightarrow> (rest_segment data_addr data, Inr 0)
           | Data_Line off n buf \<Rightarrow>
               (let data_addr = (if first_line then off else data_addr) in
                if must_flush data_addr data off n then
                  with_segment (data_addr, data)
                    (scan_on (append_data w buf n []) (\<lambda>data. ihex_scan w g off data False rest))
                else scan_on (append_data w buf n data) (\<lambda>data.
                  ihex_scan w g data_addr data False rest))))"
  by pat_completeness auto

termination
  by (relation "measure (\<lambda>(w, g, data_addr, data, first_line, file). length file)")
    (auto dest: fgets_shorter)

declare ihex_scan.simps [simp del]

definition ihex_segments :: "nat \<Rightarrow> (nat \<Rightarrow> bytes) \<Rightarrow> bytes \<Rightarrow> segment list \<times> int res" where
  "ihex_segments w g file = ihex_scan w g 0 [] True file"

function bin_scan :: "u32 \<Rightarrow> bytes \<Rightarrow> segment list" where
  "bin_scan data_addr file =
     (let data = take 4096 file in
      if data = [] then []
      else (data_addr, data) # bin_scan (data_addr + word_of_nat (length data)) (drop 4096 file))"
  by pat_completeness auto

termination
  by (relation "measure (\<lambda>(data_addr, file). length file)") auto

declare bin_scan.simps [simp del]

function iic_scan :: "bytes \<Rightarrow> segment list \<times> int res" where
  "iic_scan file =
     (if length file \<le> 5 then ([], Inr 0)
      else
        (let data_len = unat (join16 (file ! 0) (file ! 1));
             data = take data_len (drop 4 file)
         in if 4096 < data_len \<or> length data \<noteq> data_len then ([], Inr (-1))
            else with_segment (ucast (join16 (file ! 2) (file ! 3)), data)
                   (iic_scan (drop (4 + data_len) file))))"
  by pat_completeness auto

termination
  by (relation "measure length") auto

declare iic_scan.simps [simp del]

section \<open>The parsers hand over these segments\<close>

lemma flush_rest_delivers:
  "flush_rest ext poke data_addr data c = deliver ext poke c (rest_segment data_addr data, Inr 0)"
  by (auto simp: flush_rest_def rest_segment_def deliver_Cons Let_def split: prod.splits)

lemma deliver_with_segment:
  "deliver ext poke c (with_segment (addr, data) p) =
   (let (rc, c) = poke_segment ext poke c addr data in
    if rc < 0 then Inr (-1, c) else deliver ext poke c p)"
  by (simp add: with_segment_def deliver_Cons split: prod.split)

lemma deliver_scan_on:
  "deliver ext poke c (scan_on m f) = andthen m (\<lambda>d. deliver ext poke c (f d))"
  by (cases m) simp_all

lemma ihex_loop_delivers:
  "ihex_loop w g ext poke data_addr data first_line c file =
   deliver ext poke c (ihex_scan w g data_addr data first_line file)"
proof (induction w g ext poke data_addr data first_line c "file" rule: ihex_loop.induct)
  case (1 w g ext poke data_addr data first_line c "file")
  show ?case
  proof (cases "fgets 512 file")
    case None
    then show ?thesis by (simp add: ihex_loop.simps ihex_scan.simps flush_rest_delivers)
  next
    case (Some p)
    obtain line rest where p: "p = (line, rest)" by fastforce
    note IH = 1 [OF Some p [symmetric]]
    show ?thesis
    proof (cases "parse_line w (g (length rest)) line")
      case (Data_Line off n buf)
      let ?a = "if first_line then off else data_addr"
      show ?thesis
      proof (cases "must_flush ?a data off n")
        case True
        obtain rc c' where poked: "poke_segment ext poke c ?a data = (rc, c')" by fastforce
        have "andthen (append_data w buf n []) (\<lambda>d. ihex_loop w g ext poke off d False c' rest) =
            andthen (append_data w buf n []) (\<lambda>d. deliver ext poke c' (ihex_scan w g off d False rest))"
          if "\<not> rc < 0"
          by (intro andthen_cong refl IH(2) [OF Data_Line refl True poked [symmetric] refl that])
        then show ?thesis
          using True Some p Data_Line poked
          by (subst ihex_loop.simps, subst ihex_scan.simps)
            (simp add: Let_def deliver_with_segment deliver_scan_on)
      next
        case False
        have "andthen (append_data w buf n data) (\<lambda>d. ihex_loop w g ext poke ?a d False c rest) =
            andthen (append_data w buf n data) (\<lambda>d. deliver ext poke c (ihex_scan w g ?a d False rest))"
          by (intro andthen_cong refl IH(3) [OF Data_Line refl False])
        then show ?thesis
          using False Some p Data_Line
          by (subst ihex_loop.simps, subst ihex_scan.simps) (simp add: Let_def deliver_scan_on)
      qed
    qed (use Some p IH(1) in \<open>subst ihex_loop.simps, subst ihex_scan.simps, simp add: flush_rest_delivers\<close>)+
  qed
qed

lemma bin_loop_delivers: "bin_loop ext poke data_addr c file = poke_all ext poke c (bin_scan data_addr file)"
proof (induction ext poke data_addr c "file" rule: bin_loop.induct)
  case (1 ext poke data_addr c "file")
  obtain rc c' where p: "poke_segment ext poke c data_addr (take 4096 file) = (rc, c')" by fastforce
  show ?case
    using 1 [OF refl _ p [symmetric] refl] p
    by (subst bin_loop.simps, subst bin_scan.simps) (simp add: Let_def)
qed

lemma iic_loop_delivers: "Inr (iic_loop ext poke c file) = deliver ext poke c (iic_scan file)"
proof (induction ext poke c "file" rule: iic_loop.induct)
  case (1 ext poke c "file")
  let ?n = "unat (join16 (file ! 0) (file ! 1))" and ?a = "ucast (join16 (file ! 2) (file ! 3)) :: u32"
  obtain rc c' where p: "poke_segment ext poke c ?a (take ?n (drop 4 file)) = (rc, c')" by fastforce
  show ?case
    using 1 [OF _ refl refl refl _ p [symmetric] refl] p
    by (subst iic_loop.simps, subst iic_scan.simps) (simp add: Let_def deliver_with_segment)
qed

section \<open>The interface of an image format\<close>

locale image_source =
  fixes parse :: "external_test option \<Rightarrow> 's poke \<Rightarrow> 's \<Rightarrow> bytes \<Rightarrow> (int \<times> 's) res"
    and segments :: "bytes \<Rightarrow> segment list \<times> int res"
  assumes delivers: "parse ext poke c f = deliver ext poke c (segments f)"
begin

text \<open>A parse that returns 0 has handed over every segment of the file.\<close>

lemma success:
  assumes "parse ext poke c f = Inr (0, c')"
  shows "snd (segments f) = Inr 0" and "poke_all ext poke c (fst (segments f)) = (0, c')"
proof -
  obtain rc c1 where p: "poke_all ext poke c (fst (segments f)) = (rc, c1)" by fastforce
  show "snd (segments f) = Inr 0" "poke_all ext poke c (fst (segments f)) = (0, c')"
    using assms p poke_all_result [OF p]
    by (auto simp: delivers deliver_def andthen_eq_Inr split: if_splits)
qed

text \<open>What every call of \<open>poke\<close> keeps is kept by the parser, whatever it returns.\<close>

lemma keeps:
  assumes "parse ext poke c f = Inr (rc, c')" and "P c"
    and "\<And>c a e d rc c'. P c \<Longrightarrow> poke c a e d = (rc, c') \<Longrightarrow> P c'"
  shows "P c'"
proof -
  have "P c2" if "P c1" "poke_all ext poke c1 segs = (r, c2)" for c1 segs r c2
    using that
  proof (induction segs arbitrary: c1)
    case (Cons s segs)
    obtain a d where s: "s = (a, d)" by fastforce
    obtain r1 c1' where p: "poke_segment ext poke c1 a d = (r1, c1')" by fastforce
    then have "P c1'" using assms(3) Cons.prems(1) unfolding poke_segment_def by blast
    then show ?case
      using Cons.IH [of c1'] Cons.prems(2) s p by (auto split: if_splits)
  qed simp
  then show ?thesis
    using assms(1,2) by (auto simp: delivers deliver_def andthen_eq_Inr split: prod.splits if_splits)
qed

end

interpretation ihex: image_source "parse_ihex w g" "ihex_segments w g" for w g
  by unfold_locales (simp add: parse_ihex_def ihex_segments_def ihex_loop_delivers)

interpretation iic: image_source parse_iic iic_scan
  by unfold_locales (simp add: parse_iic_def iic_loop_delivers)

interpretation bin: image_source parse_bin "\<lambda>f. (bin_scan 0 f, Inr 0)"
proof
  fix ext and poke :: "'a poke" and c f
  obtain rc c' where "poke_all ext poke c (bin_scan 0 f) = (rc, c')" by fastforce
  then show "parse_bin ext poke c f = deliver ext poke c (bin_scan 0 f, Inr 0)"
    using poke_all_result [of ext poke c "bin_scan 0 f" rc c']
    by (auto simp: parse_bin_def bin_loop_delivers deliver_def)
qed

end
