(* ===== verification/Ezusb_Hex.thy ===== *)
theory Ezusb_Hex
  imports Ezusb_Segments
begin

text \<open>
  What the Intel HEX parser promises: a file of well formed records is handed over as segments
  that write the same bytes to the same addresses in the same order, however the records
  were merged.
\<close>

section \<open>Writing Intel HEX\<close>

definition hex_char :: "nat \<Rightarrow> u8" where
  "hex_char d = word_of_nat (if d < 10 then 48 + d else 55 + d)"

definition hex2 :: "nat \<Rightarrow> bytes" where
  "hex2 v = [hex_char (v div 16 mod 16), hex_char (v mod 16)]"

definition hex4 :: "nat \<Rightarrow> bytes" where
  "hex4 v = hex2 (v div 256) @ hex2 (v mod 256)"

type_synonym hex_record = "u16 \<times> bytes"

text \<open>The checksum of a record; the parser does not read it.\<close>

definition hex_checksum :: "u16 \<Rightarrow> bytes \<Rightarrow> u8" where
  "hex_checksum off d = - (word_of_nat (length d) + high8 off + low8 off + sum_list d)"

definition render_record :: "hex_record \<Rightarrow> bytes" where
  "render_record r =
     (let (off, d) = r in
      [58] @ hex2 (length d) @ hex4 (unat off) @ hex2 0 @ concat (map (\<lambda>b. hex2 (unat b)) d)
        @ hex2 (unat (hex_checksum off d)) @ [10])"

definition render_end :: bytes where
  "render_end = [58] @ hex2 0 @ hex4 0 @ hex2 1 @ hex2 0xFF @ [10]"

definition render_hex :: "hex_record list \<Rightarrow> bytes" where
  "render_hex rs = concat (map render_record rs) @ render_end"

section \<open>What segments and records write\<close>

definition writes_at :: "nat \<Rightarrow> bytes \<Rightarrow> (nat \<times> u8) list" where
  "writes_at a d = zip [a..<a + length d] d"

definition segment_writes :: "segment list \<Rightarrow> (nat \<times> u8) list" where
  "segment_writes segs = concat (map (\<lambda>(a, d). writes_at (unat a) d) segs)"

definition record_writes :: "hex_record list \<Rightarrow> (nat \<times> u8) list" where
  "record_writes rs = concat (map (\<lambda>(a, d). writes_at (unat a) d) rs)"

lemma writes_at_append: "writes_at a (d @ e) = writes_at a d @ writes_at (a + length d) e"
proof -
  have "[a..<a + length (d @ e)] = [a..<a + length d] @ [a + length d..<a + length d + length e]"
    by (metis add.assoc le_add1 length_append upt_add_eq_append)
  then show ?thesis by (simp add: writes_at_def)
qed

lemma writes_at_Nil [simp]: "writes_at a [] = []"
  by (simp add: writes_at_def)

lemma segment_writes_simps [simp]:
  "segment_writes [] = []"
  "segment_writes ((a, d) # segs) = writes_at (unat a) d @ segment_writes segs"
  by (simp_all add: segment_writes_def)

lemma record_writes_simps [simp]:
  "record_writes [] = []"
  "record_writes ((a, d) # rs) = writes_at (unat a) d @ record_writes rs"
  by (simp_all add: record_writes_def)

section \<open>Hexadecimal digits\<close>

lemma less_16_cases:
  assumes "d < (16 :: nat)"
  shows "d \<in> {0, 1, 2, 3, 4, 5, 6, 7, 8, 9, 10, 11, 12, 13, 14, 15}"
  using assms by (auto simp: less_Suc_eq numeral_eq_Suc)

lemma hex_digit_char [simp]: "d < 16 \<Longrightarrow> hex_digit (hex_char d) = Some d"
  by (drule less_16_cases) (elim insertE emptyE; simp add: hex_digit_def hex_char_def)

lemma hex_char_plain:
  "d < 16 \<Longrightarrow> hex_char d \<noteq> 0 \<and> hex_char d \<noteq> 10 \<and> hex_char d \<noteq> 45 \<and> hex_char d \<noteq> 43
     \<and> hex_char d \<noteq> 120 \<and> hex_char d \<noteq> 88 \<and> hex_char d \<noteq> 58 \<and> hex_char d \<noteq> 35 \<and> \<not> is_space (hex_char d)"
  by (drule less_16_cases) (elim insertE emptyE; simp add: hex_char_def is_space_def)

fun hex_number :: "nat \<Rightarrow> nat list \<Rightarrow> nat" where
  "hex_number v [] = v"
| "hex_number v (d # ds) = hex_number (16 * v + d) ds"

text \<open>A function that gives each digit a character, upper or lower case.\<close>

definition digit_char :: "(nat \<Rightarrow> u8) \<Rightarrow> bool" where
  "digit_char f \<longleftrightarrow>
     (\<forall>d < 16. hex_digit (f d) = Some d \<and> f d \<noteq> 45 \<and> f d \<noteq> 43 \<and> f d \<noteq> 120 \<and> f d \<noteq> 88
        \<and> \<not> is_space (f d))"

lemma digit_char_upper: "digit_char hex_char"
  using hex_char_plain by (simp add: digit_char_def)

lemma hex_value_digits:
  "digit_char f \<Longrightarrow> \<forall>d\<in>set ds. d < 16 \<Longrightarrow> hex_value v (map f ds) = hex_number v ds"
  by (induction ds arbitrary: v) (auto simp: digit_char_def)

lemma strtoul16_digits:
  assumes f: "digit_char f"
    and "ds \<noteq> []" and "\<forall>d\<in>set ds. d < 16" and "hex_number 0 ds < 2 ^ w"
  shows "strtoul16 w (map f ds) = hex_number 0 ds"
proof -
  obtain d es where ds: "ds = d # es" using assms(2) by (cases ds) auto
  have d: "d < 16" using assms(3) ds by simp
  have v: "hex_value 0 (map f (d # es)) = hex_number 0 ds"
    using hex_value_digits [OF f assms(3), of 0] ds by simp
  show ?thesis
  proof (cases es)
    case Nil
    then show ?thesis
      using d f v assms(4) by (simp add: strtoul16_def ds Let_def digit_char_def)
  next
    case (Cons e fs)
    then have "e < 16" using assms(3) ds by simp
    from Cons show ?thesis
      using d \<open>e < 16\<close> f v assms(4)
      by (cases fs) (simp_all add: strtoul16_def ds Let_def digit_char_def)
  qed
qed

text \<open>The four digits of a 16-bit number.\<close>

definition digits4 :: "nat \<Rightarrow> nat list" where
  "digits4 v =
     [v div 256 div 16 mod 16, v div 256 mod 16, v mod 256 div 16 mod 16, v mod 256 mod 16]"

lemma digits4_less: "d \<in> set (digits4 v) \<Longrightarrow> d < 16"
  unfolding digits4_def list.set by (elim insertE emptyE; simp only: mod_less_divisor zero_less_numeral)

lemma digits4_Nil: "digits4 v \<noteq> []"
  by (simp add: digits4_def)

lemma digits4_number: "v < 65536 \<Longrightarrow> hex_number 0 (digits4 v) = v"
  by (simp add: digits4_def)

lemma strtoul16_digits4:
  assumes "digit_char f" and "v < 65536" and "16 \<le> w"
  shows "strtoul16 w (map f (digits4 v)) = v"
proof -
  have "v < 2 ^ w"
    using assms(2) power_increasing [OF assms(3), of "2 :: nat"] by simp
  then show ?thesis
    using strtoul16_digits [OF assms(1) digits4_Nil, of v w] digits4_less
    by (simp add: digits4_number [OF assms(2)])
qed

lemma hex2_chars: "hex2 v = map hex_char [v div 16 mod 16, v mod 16]"
  by (simp add: hex2_def)

lemma strtoul16_hex2: "v < 256 \<Longrightarrow> 16 \<le> w \<Longrightarrow> strtoul16 w (hex2 v) = v"
  using power_increasing [of 16 w "2 :: nat"]
  by (simp only: hex2_chars, subst strtoul16_digits [OF digit_char_upper]) auto

lemma strtoul16_hex4: "v < 65536 \<Longrightarrow> 16 \<le> w \<Longrightarrow> strtoul16 w (hex4 v) = v"
  using strtoul16_digits4 [OF digit_char_upper] by (simp add: hex4_def hex2_def digits4_def)

lemma hex2_plain: "0 \<notin> set (hex2 v)" "10 \<notin> set (hex2 v)"
  using hex_char_plain [of "v div 16 mod 16"] hex_char_plain [of "v mod 16"]
  by (auto simp: hex2_def)

lemma hex4_plain: "0 \<notin> set (hex4 v)" "10 \<notin> set (hex4 v)"
  using hex2_plain by (auto simp: hex4_def)

lemma length_hex [simp]: "length (hex2 v) = 2" "length (hex4 v) = 4"
  by (simp_all add: hex2_def hex4_def)

section \<open>The line of a record\<close>

definition record_text :: "hex_record \<Rightarrow> bytes" where
  "record_text r =
     (let (off, d) = r in
      [58] @ hex2 (length d) @ hex4 (unat off) @ hex2 0 @ concat (map (\<lambda>b. hex2 (unat b)) d)
        @ hex2 (unat (hex_checksum off d)))"

lemma render_record_text: "render_record r = record_text r @ [10]"
  by (cases r) (simp add: render_record_def record_text_def)

lemma record_text_plain: "0 \<notin> set (record_text r)" "10 \<notin> set (record_text r)"
  using hex2_plain hex4_plain by (auto simp: record_text_def split: prod.split)

lemma length_data_text: "length (concat (map (\<lambda>b. hex2 (unat b)) d)) = 2 * length d"
  by (induction d) auto

lemma length_record_text [simp]: "length (record_text (off, d)) = 11 + 2 * length d"
  by (simp add: record_text_def length_data_text)

lemma fgets_line:
  assumes "10 \<notin> set body" and "length body + 1 < n"
  shows "fgets n (body @ 10 # rest) = Some (body @ [10], rest)"
proof -
  have "takeWhile (\<lambda>c. c \<noteq> 10) (body @ 10 # rest) = body"
    using assms(1) by (subst takeWhile_append2) auto
  moreover have "min (n - 1) (Suc (length body)) = Suc (length body)"
    using assms(2) by simp
  ultimately show ?thesis by (simp add: fgets_def)
qed

lemma c_string_prefix: "0 \<notin> set s \<Longrightarrow> c_string (s @ 0 # t) = s"
  unfolding c_string_def by (subst takeWhile_append2) auto

lemma strip_newline_line:
  assumes "0 \<notin> set body" and "10 \<notin> set body"
  shows "strip_newline (line_buffer garbage (body @ [10])) = body @ 0 # 0 # drop (length body + 2) garbage"
proof -
  have c: "c_string (line_buffer garbage (body @ [10])) = body @ [10]"
    using c_string_prefix [of "body @ [10]" "drop (length body + 2) garbage"] assms(1)
    by (simp add: line_buffer_def)
  have "takeWhile (\<lambda>c. c \<noteq> 10) (body @ [10]) = body"
    using assms(2) by (subst takeWhile_append2) auto
  then show ?thesis
    unfolding strip_newline_def Let_def c by (simp add: line_buffer_def list_update_append)
qed

lemma field_text:
  assumes "length a = i" and "0 \<notin> set s" and "length s = n"
  shows "field (a @ s @ b) i n = s"
  using assms takeWhile_eq_all_conv [of "\<lambda>c. c \<noteq> 0" s]
  by (auto simp: field_def c_string_def)

lemma field_data:
  assumes "i < length d"
  shows "field (a @ concat (map (\<lambda>b. hex2 (unat b)) d) @ b) (length a + 2 * i) 2 = hex2 (unat (d ! i))"
proof -
  have "a @ concat (map (\<lambda>b. hex2 (unat b)) d) @ b =
      (a @ concat (map (\<lambda>b. hex2 (unat b)) (take i d))) @ hex2 (unat (d ! i))
        @ (concat (map (\<lambda>b. hex2 (unat b)) (drop (Suc i) d)) @ b)"
    by (subst id_take_nth_drop [OF assms], simp)
  then show ?thesis
    using assms by (simp only:) (rule field_text, simp_all add: length_data_text hex2_plain)
qed

lemma record_buffer:
  "record_text (off, d) @ t =
     (58 # hex2 (length d) @ hex4 (unat off) @ hex2 0) @ concat (map (\<lambda>b. hex2 (unat b)) d)
       @ (hex2 (unat (hex_checksum off d)) @ t)"
  by (simp add: record_text_def)

lemma parse_line_record:
  assumes "length d < 256" and "16 \<le> w"
  shows "parse_line w garbage (record_text (off, d) @ [10]) =
    Data_Line (ucast off) (length d)
      (record_text (off, d) @ 0 # 0 # drop (length (record_text (off, d)) + 2) garbage)"
proof -
  let ?b = "record_text (off, d) @ 0 # 0 # drop (length (record_text (off, d)) + 2) garbage"
  let ?e = "concat (map (\<lambda>b. hex2 (unat b)) d) @ (hex2 (unat (hex_checksum off d)) @ 0 # 0 # drop (length (record_text (off, d)) + 2) garbage)"
  have b: "?b = (58 # hex2 (length d) @ hex4 (unat off) @ hex2 0) @ ?e"
    by (rule record_buffer)
  have n: "strtoul16 w (field ?b 1 2) = length d"
    unfolding b using field_text [of "[58]" 1 "hex2 (length d)" 2] hex2_plain assms
    by (simp add: strtoul16_hex2)
  have a: "strtoul16 w (field ?b 3 4) = unat off"
    unfolding b using field_text [of "58 # hex2 (length d)" 3 "hex4 (unat off)" 4] hex4_plain assms
    by (simp add: strtoul16_hex4)
  have r: "strtoul16 w (field ?b 7 2) = 0"
    unfolding b using field_text [of "58 # hex2 (length d) @ hex4 (unat off)" 7 "hex2 0" 2] hex2_plain assms
    by (simp add: strtoul16_hex2)
  have c: "length (c_string ?b) = 11 + 2 * length d"
    by (simp add: c_string_prefix record_text_plain)
  have first: "line_buffer garbage (record_text (off, d) @ [10]) ! 0 = 58"
    by (simp add: line_buffer_def record_text_def)
  have off: "word_of_nat (unat off) = (ucast off :: u32)" by simp
  show ?thesis
    unfolding parse_line_def Let_def strip_newline_line [OF record_text_plain] n a r c
    using assms by (simp add: first off)
qed

lemma append_data_record:
  assumes "length d < 256" and "16 \<le> w" and "length data + length d \<le> ihex_data_size"
  shows "append_data w (record_text (off, d) @ 0 # 0 # t) (length d) data = Inr (data @ d)"
proof -
  have "strtoul16 w (field (record_text (off, d) @ 0 # 0 # t) (9 + 2 * i) 2) = unat (d ! i)"
    if "i < length d" for i
    using field_data [OF that, of "58 # hex2 (length d) @ hex4 (unat off) @ hex2 0"] assms(2)
    by (simp add: record_buffer strtoul16_hex2)
  then have "map (\<lambda>i. word_of_nat (strtoul16 w (field (record_text (off, d) @ 0 # 0 # t) (9 + 2 * i) 2))) [0..<length d] = d"
    by (intro nth_equalityI) (simp_all)
  then show ?thesis using assms(3) by (simp add: append_data_def)
qed

section \<open>The parser writes what the records say\<close>

lemma parse_line_end:
  "16 \<le> w \<Longrightarrow> parse_line w garbage render_end = End_Of_File"
proof -
  assume w: "16 \<le> w"
  let ?t = "58 # hex2 0 @ hex4 0 @ hex2 1 @ hex2 0xFF"
  let ?b = "?t @ 0 # 0 # drop (length ?t + 2) garbage"
  have b: "strip_newline (line_buffer garbage render_end) = ?b"
    using strip_newline_line [of ?t garbage] hex2_plain hex4_plain by (simp add: render_end_def)
  have r: "strtoul16 w (field ?b 7 2) = 1"
    using field_text [of "58 # hex2 0 @ hex4 0" 7 "hex2 1" 2] hex2_plain w
    by (simp add: strtoul16_hex2)
  have first: "line_buffer garbage render_end ! 0 = 58"
    by (simp add: line_buffer_def render_end_def)
  show "parse_line w garbage render_end = End_Of_File"
    unfolding parse_line_def Let_def b r by (simp add: first)
qed

lemma fgets_record:
  "length d \<le> 249 \<Longrightarrow> fgets 512 (render_record (off, d) @ f) = Some (render_record (off, d), f)"
  using fgets_line [of "record_text (off, d)" 512 f] record_text_plain
  by (simp add: render_record_text)

lemma fgets_end: "fgets 512 (render_end @ f) = Some (render_end, f)"
  using fgets_line [of "58 # hex2 0 @ hex4 0 @ hex2 1 @ hex2 0xFF" 512 f] hex2_plain hex4_plain
  by (simp add: render_end_def)

lemma ihex_scan_end:
  "16 \<le> w \<Longrightarrow> ihex_scan w g a data first_line (render_end @ f) = (rest_segment a data, Inr 0)"
  by (subst ihex_scan.simps) (simp add: fgets_end parse_line_end)

lemma ihex_scan_record:
  assumes "length d \<le> 249" and "16 \<le> w" and "length data \<le> ihex_data_size"
    and "a' = (if first_line then ucast off else a)"
  shows "ihex_scan w g a data first_line (render_record (off, d) @ f) =
    (if must_flush a' data (ucast off) (length d)
     then with_segment (a', data) (ihex_scan w g (ucast off) d False f)
     else ihex_scan w g a' (data @ d) False f)"
proof -
  have room: "data = [] \<or> length data + length d \<le> ihex_data_size"
    if "\<not> must_flush a' data (ucast off) (length d)"
    using that assms(1,3) by (auto simp: must_flush_def ihex_data_size_def)
  have small: "length d < 256" "length d \<le> ihex_data_size"
    using assms(1) by (simp_all add: ihex_data_size_def)
  then have room': "length data + length d \<le> ihex_data_size"
    if "\<not> must_flush a' data (ucast off) (length d)"
    using room [OF that] by auto
  show ?thesis
    using append_data_record [OF small(1) assms(2), of "[]"]
      append_data_record [OF small(1) assms(2) room'] small
    by (subst ihex_scan.simps)
      (simp add: fgets_record [OF assms(1)] parse_line_record [folded render_record_text] assms(2)
        Let_def assms(4) [symmetric])
qed

definition well_formed_record :: "hex_record \<Rightarrow> bool" where
  "well_formed_record r \<longleftrightarrow> snd r \<noteq> [] \<and> length (snd r) \<le> 249"

definition fits_buffer :: "segment list \<Rightarrow> bool" where
  "fits_buffer segs \<longleftrightarrow> (\<forall>s\<in>set segs. snd s \<noteq> [] \<and> length (snd s) \<le> ihex_data_size)"

lemma fits_buffer_simps [simp]:
  "fits_buffer []"
  "fits_buffer (s # segs) \<longleftrightarrow> snd s \<noteq> [] \<and> length (snd s) \<le> ihex_data_size \<and> fits_buffer segs"
  by (auto simp: fits_buffer_def)

lemma ihex_scan_records:
  assumes "\<forall>r\<in>set rs. well_formed_record r" and "16 \<le> w" and "length data \<le> ihex_data_size"
    and "data = [] \<longleftrightarrow> first_line"
  shows "\<exists>segs. ihex_scan w g a data first_line (render_hex rs @ f) = (segs, Inr 0) \<and> fits_buffer segs
    \<and> segment_writes segs = writes_at (unat a) data @ record_writes rs"
  using assms
proof (induction rs arbitrary: a data first_line)
  case Nil
  then show ?case
    by (auto simp: render_hex_def ihex_scan_end rest_segment_def)
next
  case (Cons r rs)
  obtain off d where r: "r = (off, d)" by fastforce
  have d: "d \<noteq> []" "length d \<le> 249" using Cons.prems(1) r by (auto simp: well_formed_record_def)
  define a' where "a' = (if first_line then ucast off else a)"
  note step = ihex_scan_record [OF d(2) Cons.prems(2,3) a'_def, of g "render_hex rs @ f"]
  have split: "render_hex (r # rs) @ f = render_record (off, d) @ render_hex rs @ f"
    by (simp add: render_hex_def r)
  have u: "unat (ucast off :: u32) = unat off"
    using mod_less [OF less_trans [OF unat_u16_less [of off], of "2 ^ 32"]]
    by (simp add: unsigned_ucast_eq take_bit_eq_mod)
  show ?case
  proof (cases "must_flush a' data (ucast off) (length d)")
    case True
    then have data: "data \<noteq> []" and a': "a' = a"
      using Cons.prems(4) by (auto simp: must_flush_def a'_def)
    have "length d \<le> ihex_data_size" using d by (simp add: ihex_data_size_def)
    then obtain segs where "ihex_scan w g (ucast off) d False (render_hex rs @ f) = (segs, Inr 0)"
      "fits_buffer segs" "segment_writes segs = writes_at (unat off) d @ record_writes rs"
      using Cons.IH [of d False "ucast off"] Cons.prems(1,2) d u by auto
    then show ?thesis
      using step True data a' Cons.prems(3) r unfolding split by (simp add: with_segment_def)
  next
    case False
    have room: "length (data @ d) \<le> ihex_data_size"
      using False Cons.prems(3) d by (auto simp: must_flush_def ihex_data_size_def)
    then obtain segs where s: "ihex_scan w g a' (data @ d) False (render_hex rs @ f) = (segs, Inr 0)"
      "fits_buffer segs" "segment_writes segs = writes_at (unat a') (data @ d) @ record_writes rs"
      using Cons.IH [of "data @ d" False a'] Cons.prems(1,2) d by auto
    have "writes_at (unat a') (data @ d) = writes_at (unat a) data @ writes_at (unat off) d"
      using False Cons.prems(4) u
      by (auto simp: must_flush_def a'_def writes_at_append split: if_splits)
    then show ?thesis
      using step False s r unfolding split by simp
  qed
qed

text \<open>
  C16. Intel HEX images are uploaded as written: for records of 1 to 249 bytes at any 16-bit
  addresses the parser reports success, and the segments it hands over write the same bytes
  to the same addresses in the same order as the records. No segment is empty or longer
  than the array of 1023 bytes. What is in the line buffer beforehand, the checksums and what
  follows the end record make no difference.
\<close>

theorem hex_image_is_written:
  assumes "\<forall>r\<in>set rs. well_formed_record r" and "16 \<le> w"
  shows "\<exists>segs. ihex_segments w g (render_hex rs @ f) = (segs, Inr 0) \<and> fits_buffer segs
    \<and> segment_writes segs = record_writes rs"
  using ihex_scan_records [OF assms, of "[]" True g 0 f] by (simp add: ihex_segments_def)

theorem hex_image_is_written_witness:
  "\<exists>segs. ihex_segments 32 (\<lambda>_. []) (render_hex [(0x100, [1, 2]), (0x102, [3]), (0x2000, [4])] @ [7])
        = (segs, Inr 0)
      \<and> segment_writes segs = [(0x100, 1), (0x101, 2), (0x102, 3), (0x2000, 4)]"
proof -
  have "record_writes [(0x100, [1, 2]), (0x102, [3]), (0x2000, [4])]
      = [(0x100, 1), (0x101, 2), (0x102, 3), (0x2000, 4 :: u8)]"
    by (simp add: record_writes_def writes_at_def upt_rec)
  moreover have "\<forall>r\<in>set [(0x100, [1, 2]), (0x102, [3]), (0x2000, [4])]. well_formed_record r"
    by (simp add: well_formed_record_def)
  ultimately show ?thesis
    using hex_image_is_written [of "[(0x100, [1, 2]), (0x102, [3]), (0x2000, [4])]" 32 "\<lambda>_. []" "[7]"]
    by auto
qed

section \<open>Records the parser does not handle\<close>

lemma fgets_full:
  assumes "10 \<notin> set body" and "n - 1 \<le> length body" and "1 < n"
  shows "fgets n (body @ rest) = Some (take (n - 1) body, drop (n - 1) body @ rest)"
proof -
  have "takeWhile (\<lambda>c. c \<noteq> 10) (body @ rest) = body @ takeWhile (\<lambda>c. c \<noteq> 10) rest"
    using assms(1) by (subst takeWhile_append2) auto
  then show ?thesis using assms(2,3) by (auto simp: fgets_def min_def Let_def)
qed

lemma strip_no_newline:
  assumes "0 \<notin> set body" and "10 \<notin> set body"
  shows "strip_newline (line_buffer garbage body) = body @ 0 # drop (length body + 1) garbage"
proof -
  have c: "c_string (line_buffer garbage body) = body"
    using c_string_prefix [of body] assms(1) by (simp add: line_buffer_def)
  have "takeWhile (\<lambda>c. c \<noteq> 10) body = body" using assms(2) by (auto simp: takeWhile_eq_all_conv)
  then show ?thesis unfolding strip_newline_def Let_def c by (simp only: less_irrefl if_False) (simp add: line_buffer_def)
qed

lemma parse_line_long:
  assumes "250 \<le> length d" and "length d \<le> 255" and "16 \<le> w"
  shows "\<exists>buf. length buf \<ge> 512 \<and> parse_line w garbage (take 511 (record_text (off, d))) =
    (if length d = 250 then Data_Line (ucast off) 250 buf else Wrong (-4))"
proof -
  obtain e where line: "take 511 (record_text (off, d)) = 58 # hex2 (length d) @ hex4 (unat off) @ hex2 0 @ e"
    by (simp add: record_text_def)
  let ?l = "58 # hex2 (length d) @ hex4 (unat off) @ hex2 0 @ e"
  let ?b = "?l @ 0 # drop (length ?l + 1) garbage"
  have plain: "0 \<notin> set ?l" "10 \<notin> set ?l"
    using record_text_plain [of "(off, d)"] unfolding line [symmetric] by (auto dest: in_set_takeD)
  have len: "length ?l = 511"
    using arg_cong [OF line, of length] assms(1) by simp
  have n: "strtoul16 w (field ?b 1 2) = length d"
    using field_text [of "[58]" 1 "hex2 (length d)" 2] hex2_plain assms by (simp add: strtoul16_hex2)
  have a: "strtoul16 w (field ?b 3 4) = unat off"
    using field_text [of "58 # hex2 (length d)" 3 "hex4 (unat off)" 4] hex4_plain assms
    by (simp add: strtoul16_hex4)
  have r: "strtoul16 w (field ?b 7 2) = 0"
    using field_text [of "58 # hex2 (length d) @ hex4 (unat off)" 7 "hex2 0" 2] hex2_plain assms
    by (simp add: strtoul16_hex2)
  have c: "length (c_string ?b) = 511" using c_string_prefix [OF plain(1)] len by simp
  have first: "line_buffer garbage ?l ! 0 = 58" by (simp add: line_buffer_def)
  show ?thesis
    unfolding line parse_line_def Let_def strip_no_newline [OF plain] n a r c
    using assms len by (intro exI [of _ ?b]) (simp add: first)
qed

lemma newline_alone: "parse_line w garbage [10] = Wrong (-2)"
  by (simp add: parse_line_def line_buffer_def)

text \<open>
  A record of 250 to 255 bytes, which Intel HEX allows, does not fit in the line buffer of
  512 bytes: the upload fails with -2 or -4. The comment on the loop expects at most 16 bytes.
\<close>

lemma long_record_is_refused:
  assumes "250 \<le> length d" and "length d \<le> 255" and "16 \<le> w"
  shows "ihex_segments w g (render_record (off, d) @ f) = ([], Inr (if length d = 250 then -2 else -4))"
proof -
  let ?t = "record_text (off, d)"
  have line: "fgets 512 (render_record (off, d) @ f) = Some (take 511 ?t, drop 511 ?t @ 10 # f)"
    using fgets_full [of ?t 512 "10 # f"] record_text_plain assms(1) by (simp add: render_record_text)
  obtain buf where buf: "length buf \<ge> 512"
    "parse_line w (g (length (drop 511 ?t @ 10 # f))) (take 511 ?t) =
      (if length d = 250 then Data_Line (ucast off) 250 buf else Wrong (-4))"
    using parse_line_long [OF assms] by blast
  show ?thesis
  proof (cases "length d = 250")
    case True
    then have "drop 511 ?t = []" by simp
    moreover obtain data where "append_data w buf 250 [] = Inr data"
      using buf(1) by (simp add: append_data_def ihex_data_size_def)
    moreover have "fgets 512 (10 # f) = Some ([10], f)" using fgets_line [of "[]" 512 f] by simp
    ultimately show ?thesis
      using line buf(2) True unfolding ihex_segments_def
      by (subst ihex_scan.simps) (simp add: must_flush_def ihex_scan.simps [of w g _ _ False] newline_alone)
  next
    case False
    then show ?thesis
      using line buf(2) unfolding ihex_segments_def by (subst ihex_scan.simps) simp
  qed
qed

theorem long_record_is_refused_witness:
  "ihex_segments 64 (\<lambda>_. []) (render_record (0, replicate 255 0)) = ([], Inr (-4))"
  using long_record_is_refused [of "replicate 255 0" 64 "\<lambda>_. []" 0 "[]"] by simp

text \<open>
  A record without data in front moves the data that follows: they are taken to start at the
  address of the empty record.
\<close>

lemma empty_record_moves_data:
  assumes "d \<noteq> []" and "length d \<le> 249" and "16 \<le> w"
  shows "ihex_segments w g (render_hex [(off, []), (off', d)]) = ([(ucast off, d)], Inr 0)"
proof -
  have "render_hex [(off, []), (off', d)] = render_record (off, []) @ render_record (off', d) @ render_end @ []"
    by (simp add: render_hex_def)
  then show ?thesis
    using assms unfolding ihex_segments_def
    by (simp only: ihex_scan_record ihex_scan_end list.size zero_le if_False if_True must_flush_def simp_thms
        append_Nil rest_segment_def split: if_split)
qed

end
