(* ===== verification/Ezusb_Image_Props.thy ===== *)
theory Ezusb_Image_Props
  imports Ezusb_Hex
begin

text \<open>
  The memory the parsers touch, and what the binary and the IIC format promise.
\<close>

section \<open>The line buffer of the Intel HEX parser\<close>

lemma strtoul16_less: "strtoul16 w s < 2 ^ w"
  unfolding strtoul16_def Let_def by (auto split: if_split)

lemma fgets_length: "fgets n f = Some (line, rest) \<Longrightarrow> length line \<le> n - 1"
  by (auto simp: fgets_def Let_def split: if_splits)

lemma length_strip_newline [simp]: "length (strip_newline b) = length b"
  by (simp add: strip_newline_def Let_def)

lemma c_string_stops: "i < length b \<Longrightarrow> b ! i = 0 \<Longrightarrow> length (c_string b) \<le> i"
proof (induction b arbitrary: i)
  case (Cons x b)
  then show ?case by (cases i) (auto simp: c_string_def)
qed simp

lemma zero_stays: "i < length b \<Longrightarrow> b ! i = 0 \<Longrightarrow> b[k := 0] ! i = (0 :: u8)"
  by (cases "k = i") simp_all

lemma strip_newline_keeps_zero: "i < length b \<Longrightarrow> b ! i = 0 \<Longrightarrow> strip_newline b ! i = 0"
  by (simp add: strip_newline_def Let_def zero_stays)

lemma data_line_32:
  assumes "parse_line 32 garbage line = Data_Line off n buf"
    and "length garbage = 512" and "length line \<le> 511"
  shows "n \<le> 250" and "length buf = 512"
proof -
  let ?b = "strip_newline (line_buffer garbage line)"
  have b: "buf = ?b" and n: "n = strtoul16 32 (field ?b 1 2)"
    and short: "(n * 2 + 11) mod 2 ^ 64 \<le> length (c_string ?b)"
    using assms(1) by (auto simp: parse_line_def Let_def split: if_splits)
  have "length (line_buffer garbage line) = 512"
    using assms(2,3) by (simp add: line_buffer_def)
  then show "length buf = 512" using b by simp
  have "length (c_string ?b) \<le> length line"
    using assms(2,3)
    by (intro c_string_stops strip_newline_keeps_zero) (simp_all add: line_buffer_def)
  moreover have "n * 2 + 11 < 2 ^ 64" using n strtoul16_less [of 32 "field ?b 1 2"] by simp
  ultimately show "n \<le> 250" using short assms(3) by simp
qed

lemma append_data_32:
  assumes "n \<le> 250" and "length buf = 512" and "data = [] \<or> length data + n \<le> ihex_data_size"
  shows "\<exists>d. append_data 32 buf n data = Inr d \<and> length d \<le> max (length data) ihex_data_size"
  using assms by (auto simp: append_data_def ihex_data_size_def)

lemma ihex_scan_32:
  assumes "\<forall>k. length (g k) = 512" and "length data \<le> ihex_data_size"
  shows "\<exists>r. snd (ihex_scan 32 g data_addr data first_line f) = Inr r"
  using assms(2)
proof (induction f arbitrary: data_addr data first_line rule: measure_induct_rule [of length])
  case (less f)
  show ?case
  proof (cases "fgets 512 f")
    case None
    then show ?thesis by (simp add: ihex_scan.simps)
  next
    case (Some p)
    obtain line rest where p: "p = (line, rest)" by fastforce
    note line = Some [unfolded p]
    have shorter: "length rest < length f" using fgets_shorter [OF line] by simp
    note IH = less.IH [OF shorter]
    show ?thesis
    proof (cases "parse_line 32 (g (length rest)) line")
      case (Data_Line off n buf)
      let ?a = "if first_line then off else data_addr"
      let ?old = "if must_flush ?a data off n then [] else data"
      have n: "n \<le> 250" and buf: "length buf = 512"
        using data_line_32 [OF Data_Line] assms(1) fgets_length [OF line] by auto
      have room: "?old = [] \<or> length ?old + n \<le> ihex_data_size"
        using n less.prems by (auto simp: must_flush_def ihex_data_size_def)
      obtain d where d: "append_data 32 buf n ?old = Inr d" "length d \<le> ihex_data_size"
        using append_data_32 [OF n buf room] less.prems by (auto split: if_splits)
      show ?thesis
        using line Data_Line d IH [OF d(2), of off False] IH [OF d(2), of ?a False]
        by (subst ihex_scan.simps) (auto simp: Let_def with_segment_def split: if_splits)
    qed (use line IH [OF less.prems] in \<open>auto simp: ihex_scan.simps [of 32 g data_addr data first_line f]\<close>)
  qed
qed

definition negative_length_line :: bytes where
  "negative_length_line = [58, 45, 49, 48, 48, 48, 48, 48, 48, 10]"

lemma negative_length:
  "parse_line 64 garbage negative_length_line =
     Data_Line 0 (2 ^ 64 - 1) ([58, 45, 49, 48, 48, 48, 48, 48, 48, 0, 0] @ drop 11 garbage)"
proof -
  let ?t = "[58, 45, 49, 48, 48, 48, 48, 48, 48] :: bytes"
  let ?b = "?t @ 0 # 0 # drop 11 garbage"
  have t: "negative_length_line = ?t @ [10]" by (simp add: negative_length_line_def)
  have plain: "0 \<notin> set ?t" "10 \<notin> set ?t" and l: "length ?t + 2 = 11" by simp_all
  have b: "strip_newline (line_buffer garbage negative_length_line) = ?b"
    unfolding t strip_newline_line [OF plain] l by (rule refl)
  have f: "field ?b 1 2 = [45, 49]" "field ?b 3 4 = [48, 48, 48, 48]" "field ?b 7 2 = [48, 48]"
    by (simp_all add: field_def c_string_def)
  have c: "length (c_string ?b) = 9" by (simp add: c_string_def)
  have v: "strtoul16 64 [45, 49] = 2 ^ 64 - 1" "strtoul16 64 [48, 48, 48, 48] = 0" "strtoul16 64 [48, 48] = 0"
    by (simp_all add: strtoul16_def is_space_def hex_digit_def Let_def)
  show ?thesis
    unfolding parse_line_def Let_def b f v c by (simp add: line_buffer_def negative_length_line_def)
qed

text \<open>
  C29. Memory safety depends on the width of an \<open>unsigned long\<close>. With 32 bits no file makes the
  Intel HEX parser read or write outside of its arrays of 512 and 1023 bytes, whatever they
  hold beforehand. With 64 bits a record whose length reads \<open>-1\<close> passes the test
  \<open>(len * 2) + 11 > strlen(buf)\<close>, because the sum wraps around to 9, and overruns them.
\<close>

theorem hex_parser_bounds:
  assumes "\<forall>k. length (g k) = 512"
  shows "(\<exists>segs r. ihex_segments 32 g f = (segs, Inr r))
    \<and> ihex_segments 64 g (negative_length_line @ f) = ([], Inl Out_Of_Bounds)"
proof
  obtain r where "snd (ihex_segments 32 g f) = Inr r"
    using ihex_scan_32 [OF assms, of "[]" 0 True f] by (auto simp: ihex_segments_def)
  then show "\<exists>segs r. ihex_segments 32 g f = (segs, Inr r)" by (metis prod.collapse)
  have line: "fgets 512 (negative_length_line @ f) = Some (negative_length_line, f)"
    using fgets_line [of "[58, 45, 49, 48, 48, 48, 48, 48, 48]" 512 f]
    by (simp add: negative_length_line_def)
  show "ihex_segments 64 g (negative_length_line @ f) = ([], Inl Out_Of_Bounds)"
    unfolding ihex_segments_def using assms
    by (subst ihex_scan.simps)
      (simp add: line negative_length must_flush_def append_data_def ihex_data_size_def)
qed

theorem hex_parser_bounds_witness:
  "ihex_segments 64 (\<lambda>_. replicate 512 0xFF) negative_length_line = ([], Inl Out_Of_Bounds)
   \<and> (\<exists>segs r. ihex_segments 32 (\<lambda>_. replicate 512 0xFF) negative_length_line = (segs, Inr r))"
  using hex_parser_bounds [of "\<lambda>_. replicate 512 0xFF" negative_length_line]
    hex_parser_bounds [of "\<lambda>_. replicate 512 0xFF" "[]"] by simp

section \<open>Binary images\<close>

lemma bin_scan_writes:
  assumes "unat a + length f < 2 ^ 32"
  shows "segment_writes (bin_scan a f) = writes_at (unat a) f
    \<and> (\<forall>s\<in>set (bin_scan a f). snd s \<noteq> [] \<and> length (snd s) \<le> 4096)"
  using assms
proof (induction a f rule: bin_scan.induct)
  case (1 a f)
  show ?case
  proof (cases "f = []")
    case True
    then show ?thesis by (simp add: bin_scan.simps)
  next
    case False
    let ?k = "length (take 4096 f)"
    have u: "unat (a + word_of_nat ?k) = unat a + ?k"
      using "1.prems" by (simp add: unat_word_ariths unat_of_nat)
    have "segment_writes (bin_scan (a + word_of_nat ?k) (drop 4096 f)) = writes_at (unat a + ?k) (drop 4096 f)
      \<and> (\<forall>s\<in>set (bin_scan (a + word_of_nat ?k) (drop 4096 f)). snd s \<noteq> [] \<and> length (snd s) \<le> 4096)"
      using 1 False u by simp
    moreover have "writes_at (unat a) f = writes_at (unat a) (take 4096 f) @ writes_at (unat a + ?k) (drop 4096 f)"
      using writes_at_append [of "unat a" "take 4096 f" "drop 4096 f"] by simp
    ultimately show ?thesis
      using False by (subst (1 2) bin_scan.simps) (simp add: Let_def)
  qed
qed

section \<open>IIC images\<close>

definition render_block :: "u16 \<times> bytes \<Rightarrow> bytes" where
  "render_block b =
     (let n = word_of_nat (length (snd b)) :: u16
      in [high8 n, low8 n, high8 (fst b), low8 (fst b)] @ snd b)"

lemma iic_scan_block:
  assumes "length d \<le> 4096" and "length f \<ge> 5"
  shows "iic_scan (render_block (a, d) @ f) = with_segment (ucast a, d) (iic_scan f)"
proof -
  obtain n where n: "n = (word_of_nat (length d) :: u16)" by simp
  have u: "unat n = length d" using assms(1) n by (simp add: unat_of_nat)
  have r: "render_block (a, d) @ f = high8 n # low8 n # high8 a # low8 a # d @ f"
    by (simp add: render_block_def n Let_def)
  have "drop (4 + length d) (high8 n # low8 n # high8 a # low8 a # d @ f) = f"
    by (subst add.commute, subst drop_drop [symmetric]) simp
  then show ?thesis
    unfolding r using assms u by (subst iic_scan.simps) (simp add: Let_def)
qed

lemma iic_scan_blocks:
  assumes "\<forall>b\<in>set bs. length (snd b) \<le> 4096" and "length trailer = 5"
  shows "iic_scan (concat (map render_block bs) @ trailer) = (map (\<lambda>(a, d). (ucast a, d)) bs, Inr 0)"
  using assms
proof (induction bs)
  case Nil
  then show ?case by (simp add: iic_scan.simps)
next
  case (Cons b bs)
  obtain a d where "b = (a, d)" by fastforce
  then show ?case
    using Cons iic_scan_block [of d "concat (map render_block bs) @ trailer" a]
    by (simp add: with_segment_def)
qed

text \<open>
  The other formats are written as they are: a binary image of less than 4 GB is cut into
  segments that write its bytes from address 0 on without a gap, and the blocks of an IIC
  image of at most 4096 bytes each come back from the parser as its segments, whatever its last five
  bytes are.
\<close>

lemma bin_and_iic_images_are_written:
  assumes "length f < 2 ^ 32"
    and "\<forall>b\<in>set bs. length (snd b) \<le> 4096" and "length trailer = 5"
  shows "segment_writes (bin_scan 0 f) = writes_at 0 f
    \<and> iic_scan (concat (map render_block bs) @ trailer) = (map (\<lambda>(a, d). (ucast a, d)) bs, Inr 0)"
  using bin_scan_writes [of 0 f] iic_scan_blocks [OF assms(2,3)] assms(1) by simp

theorem bin_and_iic_images_are_written_witness:
  "segment_writes (bin_scan 0 [7, 8]) = [(0, 7), (1, 8)]
   \<and> iic_scan ([0, 1, 0x12, 0x34, 9] @ [0x80, 1, 0xE6, 0, 0]) = ([(0x1234, [9])], Inr 0)"
proof -
  have "concat (map render_block [(0x1234, [9])]) = [0, 1, 0x12, 0x34, 9]"
    by (simp add: render_block_def high8_def low8_def Let_def)
  then show ?thesis
    using bin_and_iic_images_are_written [of "[7, 8]" "[(0x1234, [9])]" "[0x80, 1, 0xE6, 0, 0]"]
    by (simp add: writes_at_def upt_rec)
qed

end
