(* ===== verification/Ezusb_Loader.thy ===== *)
theory Ezusb_Loader
  imports Ezusb_Segments Libusb
begin

text \<open>
  The loader of \<open>ezusb/ezusb.cpp\<close>: the vendor requests, the writer of segments in its three
  modes, the upload in one or two stages, and the upload of FX3 images. The device is a
  parameter: it answers every request, given all requests so far, with the result of
  \<open>libusb_control_transfer\<close> and the bytes it returns.
\<close>

section \<open>Vendor requests\<close>

datatype request =
    Vendor_Out u8 u16 u16 bytes
  | Vendor_In u8 u16 u16 nat

type_synonym device_answers = "request list \<Rightarrow> int \<times> bytes"

definition RW_INTERNAL :: u8 where "RW_INTERNAL = 0xA0"
definition RW_MEMORY :: u8 where "RW_MEMORY = 0xA3"

text \<open>\<open>addr & 0xFFFF\<close>, \<open>addr >> 16\<close>, and the length as \<open>uint16_t\<close>.\<close>

definition write_request :: "u8 \<Rightarrow> u32 \<Rightarrow> bytes \<Rightarrow> request" where
  "write_request opcode addr data =
     Vendor_Out opcode (ucast (addr AND 0xFFFF)) (ucast (drop_bit 16 addr))
       (take (unat (word_of_nat (length data) :: u16)) data)"

definition read_request :: "u8 \<Rightarrow> u32 \<Rightarrow> nat \<Rightarrow> request" where
  "read_request opcode addr n =
     Vendor_In opcode (ucast (addr AND 0xFFFF)) (ucast (drop_bit 16 addr))
       (unat (word_of_nat n :: u16))"

text \<open>
  \<open>ezusb_write\<close>: -1 if the transfer failed, 0 otherwise, also if it was short. The second
  component are the requests so far.
\<close>

definition ezusb_write ::
  "device_answers \<Rightarrow> u8 \<Rightarrow> u32 \<Rightarrow> bytes \<Rightarrow> request list \<Rightarrow> int \<times> request list" where
  "ezusb_write dev opcode addr data log =
     (let log = log @ [write_request opcode addr data]
      in (if fst (dev log) < 0 then -1 else 0, log))"

text \<open>\<open>ezusb_read\<close> into an array: the bytes returned replace its first ones.\<close>

definition ezusb_read ::
  "device_answers \<Rightarrow> u8 \<Rightarrow> u32 \<Rightarrow> bytes \<Rightarrow> nat \<Rightarrow> request list \<Rightarrow> int \<times> bytes \<times> request list" where
  "ezusb_read dev opcode addr buf n log =
     (let log = log @ [read_request opcode addr n];
          got = take n (snd (dev log))
      in (if fst (dev log) < 0 then -1 else 0, got @ drop (length got) buf, log))"

definition LIBUSB_ERROR_IO :: int where "LIBUSB_ERROR_IO = -1"

definition ezusb_cpucs ::
  "device_answers \<Rightarrow> u32 \<Rightarrow> bool \<Rightarrow> request list \<Rightarrow> bool \<times> request list" where
  "ezusb_cpucs dev addr do_run log =
     (let log = log @ [write_request RW_INTERNAL addr [if do_run then 0x00 else 0x01]];
          status = fst (dev log)
      in (\<not> (status \<noteq> 1 \<and> (\<not> do_run \<or> status \<noteq> LIBUSB_ERROR_IO)), log))"

definition ezusb_fx3_jump ::
  "device_answers \<Rightarrow> u32 \<Rightarrow> request list \<Rightarrow> bool \<times> request list" where
  "ezusb_fx3_jump dev addr log =
     (let log = log @ [write_request RW_INTERNAL addr []];
          status = fst (dev log)
      in (\<not> (status \<noteq> 0 \<and> status \<noteq> LIBUSB_ERROR_IO), log))"

section \<open>Writing segments\<close>

datatype ram_mode = Undefined_Mode | Internal_Only | Skip_Internal | Skip_External

record ram_poke_context =
  ram_mode :: ram_mode
  ram_total :: nat
  ram_count :: nat
  requests :: "request list"

definition RETRY_LIMIT :: nat where "RETRY_LIMIT = 5"
definition LIBUSB_ERROR_TIMEOUT :: int where "LIBUSB_ERROR_TIMEOUT = -7"

text \<open>The loop of \<open>ram_poke\<close>, with the number of retries left.\<close>

fun write_retry ::
  "device_answers \<Rightarrow> u8 \<Rightarrow> u32 \<Rightarrow> bytes \<Rightarrow> nat \<Rightarrow> request list \<Rightarrow> int \<times> request list" where
  "write_retry dev opcode addr data 0 log = ezusb_write dev opcode addr data log"
| "write_retry dev opcode addr data (Suc left) log =
     (let (rc, log) = ezusb_write dev opcode addr data log in
      if rc < 0 then
        (if rc \<noteq> LIBUSB_ERROR_TIMEOUT then (rc, log)
         else write_retry dev opcode addr data left log)
      else (rc, log))"

definition ram_poke :: "device_answers \<Rightarrow> ram_poke_context poke" where
  "ram_poke dev ctx addr external data =
     (if ram_mode ctx = Undefined_Mode \<or> ram_mode ctx = Internal_Only \<and> external then (-1, ctx)
      else if ram_mode ctx = Skip_Internal \<and> \<not> external \<or> ram_mode ctx = Skip_External \<and> external
      then (0, ctx)
      else
        (let (rc, log) = write_retry dev (if external then RW_MEMORY else RW_INTERNAL) addr data
               RETRY_LIMIT (requests ctx)
         in (rc, ctx\<lparr>ram_total := ram_total ctx + length data, ram_count := ram_count ctx + 1,
                     requests := log\<rparr>)))"

section \<open>The upload\<close>

definition FX_TYPE_AN21 :: int where "FX_TYPE_AN21 = 0"
definition FX_TYPE_FX1 :: int where "FX_TYPE_FX1 = 1"
definition FX_TYPE_FX2 :: int where "FX_TYPE_FX2 = 2"
definition FX_TYPE_FX2LP :: int where "FX_TYPE_FX2LP = 3"
definition FX_TYPE_FX3 :: int where "FX_TYPE_FX3 = 4"

definition IMG_TYPE_HEX :: int where "IMG_TYPE_HEX = 0"
definition IMG_TYPE_IIC :: int where "IMG_TYPE_IIC = 1"
definition IMG_TYPE_BIX :: int where "IMG_TYPE_BIX = 2"
definition IMG_TYPE_IMG :: int where "IMG_TYPE_IMG = 3"

lemmas loader_codes =
  FX_TYPE_AN21_def FX_TYPE_FX1_def FX_TYPE_FX2_def FX_TYPE_FX2LP_def FX_TYPE_FX3_def
  IMG_TYPE_HEX_def IMG_TYPE_IIC_def IMG_TYPE_BIX_def IMG_TYPE_IMG_def

text \<open>
  The table \<open>parse\<close> has four entries and three initialisers. The bytes are those from the
  current position of the file on.
\<close>

definition parse_image ::
  "nat \<Rightarrow> (nat \<Rightarrow> bytes) \<Rightarrow> int \<Rightarrow> external_test option \<Rightarrow> 's poke \<Rightarrow> 's \<Rightarrow> bytes \<Rightarrow> (int \<times> 's) res" where
  "parse_image w g img_type ext poke c f =
     (if img_type = IMG_TYPE_HEX then parse_ihex w g ext poke c f
      else if img_type = IMG_TYPE_IIC then parse_iic ext poke c f
      else if img_type = IMG_TYPE_BIX then parse_bin ext poke c f
      else if img_type = IMG_TYPE_IMG then Inl Null_Pointer
      else Inl Out_Of_Bounds)"

text \<open>The first eight bytes of an IIC image, and what is wrong with them.\<close>

definition iic_header_wrong :: "int \<Rightarrow> bytes \<Rightarrow> bool" where
  "iic_header_wrong fx_type img \<longleftrightarrow>
     length img < 8
     \<or> (fx_type = FX_TYPE_FX2LP \<or> fx_type = FX_TYPE_FX2) \<and> img ! 0 \<noteq> 0xC2
     \<or> fx_type = FX_TYPE_AN21 \<and> img ! 0 \<noteq> 0xB2
     \<or> fx_type = FX_TYPE_FX1 \<and> img ! 0 \<noteq> 0xB6"

definition cpucs_addr :: "int \<Rightarrow> u32" where
  "cpucs_addr fx_type =
     (if fx_type = FX_TYPE_FX2LP \<or> fx_type = FX_TYPE_FX2 then 0xe600 else 0x7f92)"

definition external_for :: "int \<Rightarrow> external_test" where
  "external_for fx_type =
     (if fx_type = FX_TYPE_FX2LP then fx2lp_is_external
      else if fx_type = FX_TYPE_FX2 then fx2_is_external
      else fx_is_external)"

text \<open>The last step: the CPU is reset so that it runs what was uploaded.\<close>

definition run_cpu :: "device_answers \<Rightarrow> int \<Rightarrow> ram_poke_context \<Rightarrow> int \<times> request list" where
  "run_cpu dev fx_type ctx =
     (let (ok, log) = ezusb_cpucs dev (cpucs_addr fx_type) True (requests ctx)
      in (if ok then 0 else -1, log))"

text \<open>The second part of the second stage: the on-chip memory, always read as Intel HEX.\<close>

definition second_pass ::
  "device_answers \<Rightarrow> nat \<Rightarrow> (nat \<Rightarrow> bytes) \<Rightarrow> int \<Rightarrow> bytes \<Rightarrow> ram_poke_context
     \<Rightarrow> (int \<times> request list) res" where
  "second_pass dev w g fx_type img ctx =
     (let (ok, log) = ezusb_cpucs dev (cpucs_addr fx_type) False (requests ctx);
          ctx = ctx\<lparr>ram_mode := Skip_External, requests := log\<rparr>
      in if \<not> ok then Inr (-1, log)
         else andthen (parse_ihex w g (Some (external_for fx_type)) (ram_poke dev) ctx img) (\<lambda>(status, ctx).
           Inr (if status < 0 then (status, requests ctx) else run_cpu dev fx_type ctx)))"

text \<open>\<open>ezusb_load_ram\<close> for all parts but the FX3; \<open>None\<close> is a file that cannot be opened.\<close>

definition load_ram ::
  "device_answers \<Rightarrow> nat \<Rightarrow> (nat \<Rightarrow> bytes) \<Rightarrow> bytes option \<Rightarrow> int \<Rightarrow> int \<Rightarrow> int \<Rightarrow> (int \<times> request list) res" where
  "load_ram dev w g path fx_type img_type stage =
     (case path of None \<Rightarrow> Inr (-2, [])
      | Some img \<Rightarrow>
        if img_type = IMG_TYPE_IIC \<and> iic_header_wrong fx_type img then Inr (-1, [])
        else
          (let (ok, log) = (if stage = 0 then ezusb_cpucs dev (cpucs_addr fx_type) False [] else (True, []));
               ctx = \<lparr>ram_mode = (if stage = 0 then Internal_Only else Skip_Internal),
                      ram_total = 0, ram_count = 0, requests = log\<rparr>;
               rest = (if img_type = IMG_TYPE_IIC then drop 8 img else img)
           in if \<not> ok then Inr (-1, log)
              else andthen (parse_image w g img_type (Some (external_for fx_type)) (ram_poke dev) ctx rest)
                (\<lambda>(status, ctx).
                  if status < 0 then Inr (status, requests ctx)
                  else if stage \<noteq> 0 then second_pass dev w g fx_type img ctx
                  else Inr (run_cpu dev fx_type ctx))))"

end
