(* ===== verification/Ezusb_Loader_Props.thy ===== *)
theory Ezusb_Loader_Props
  imports Ezusb_Loader Ezusb_Image_Props
begin

text \<open>
  What the upload does to the device: the segments of an image, whatever its format, become
  vendor requests in the order of the file, between the requests that stop and start the CPU.
\<close>

section \<open>All image formats are one image source\<close>

definition image_segments ::
  "nat \<Rightarrow> (nat \<Rightarrow> bytes) \<Rightarrow> int \<Rightarrow> bytes \<Rightarrow> segment list \<times> int res" where
  "image_segments w g img_type f =
     (if img_type = IMG_TYPE_HEX then ihex_segments w g f
      else if img_type = IMG_TYPE_IIC then iic_scan f
      else if img_type = IMG_TYPE_BIX then (bin_scan 0 f, Inr 0)
      else if img_type = IMG_TYPE_IMG then ([], Inl Null_Pointer)
      else ([], Inl Out_Of_Bounds))"

interpretation img: image_source "parse_image w g img_type" "image_segments w g img_type"
  for w g img_type
  by unfold_locales
    (simp add: parse_image_def image_segments_def ihex.delivers iic.delivers bin.delivers)

lemma image_segments_hex [simp]: "image_segments w g IMG_TYPE_HEX f = ihex_segments w g f"
  by (simp add: image_segments_def)

section \<open>One segment\<close>

lemma no_retry: "write_retry dev opcode addr data n log = ezusb_write dev opcode addr data log"
  by (cases n) (auto simp: ezusb_write_def LIBUSB_ERROR_TIMEOUT_def Let_def)

definition stop_cpu :: "int \<Rightarrow> request" where
  "stop_cpu fx_type = write_request RW_INTERNAL (cpucs_addr fx_type) [1]"

definition start_cpu :: "int \<Rightarrow> request" where
  "start_cpu fx_type = write_request RW_INTERNAL (cpucs_addr fx_type) [0]"

lemma cpucs_log:
  "snd (ezusb_cpucs dev (cpucs_addr fx_type) False log) = log @ [stop_cpu fx_type]"
  "snd (ezusb_cpucs dev (cpucs_addr fx_type) True log) = log @ [start_cpu fx_type]"
  by (simp_all add: ezusb_cpucs_def stop_cpu_def start_cpu_def Let_def)

text \<open>What a mode does with the segments: it writes some of them and may refuse others.\<close>

definition is_external :: "int \<Rightarrow> segment \<Rightarrow> bool" where
  "is_external fx_type s = external_for fx_type (fst s) (length (snd s))"

definition segment_request :: "bool \<Rightarrow> segment \<Rightarrow> request" where
  "segment_request external s =
     write_request (if external then RW_MEMORY else RW_INTERNAL) (fst s) (snd s)"

fun mode_requests :: "ram_mode \<Rightarrow> int \<Rightarrow> segment list \<Rightarrow> request list" where
  "mode_requests Undefined_Mode fx_type segs = []"
| "mode_requests Internal_Only fx_type segs = map (segment_request False) segs"
| "mode_requests Skip_Internal fx_type segs = map (segment_request True) (filter (is_external fx_type) segs)"
| "mode_requests Skip_External fx_type segs =
     map (segment_request False) (filter (\<lambda>s. \<not> is_external fx_type s) segs)"

lemma mode_requests_append:
  "mode_requests m fx_type (s # segs) = mode_requests m fx_type [s] @ mode_requests m fx_type segs"
  by (cases m) auto

lemma ram_poke_success:
  assumes "poke_segment (Some (external_for fx_type)) (ram_poke dev) ctx addr data = (rc, ctx')"
    and "\<not> rc < 0"
  shows "ram_mode ctx' = ram_mode ctx"
    and "requests ctx' = requests ctx @ mode_requests (ram_mode ctx) fx_type [(addr, data)]"
    and "ram_mode ctx = Internal_Only \<longrightarrow> \<not> is_external fx_type (addr, data)"
  using assms
  by (cases "ram_mode ctx";
      auto simp: poke_segment_def ram_poke_def no_retry ezusb_write_def Let_def is_external_def
        segment_request_def split: if_splits)+

lemma upload_success:
  assumes "poke_all (Some (external_for fx_type)) (ram_poke dev) ctx segs = (0, ctx')"
  shows "ram_mode ctx' = ram_mode ctx \<and>
    requests ctx' = requests ctx @ mode_requests (ram_mode ctx) fx_type segs \<and>
    (ram_mode ctx = Internal_Only \<longrightarrow> (\<forall>s\<in>set segs. \<not> is_external fx_type s))"
  using assms
proof (induction segs arbitrary: ctx)
  case Nil
  then show ?case by (cases "ram_mode ctx") auto
next
  case (Cons s segs)
  obtain addr data where s: "s = (addr, data)" by fastforce
  obtain rc ctx1 where p: "poke_segment (Some (external_for fx_type)) (ram_poke dev) ctx addr data = (rc, ctx1)"
    by fastforce
  from Cons.prems p s have ok: "\<not> rc < 0"
    and rest: "poke_all (Some (external_for fx_type)) (ram_poke dev) ctx1 segs = (0, ctx')"
    by (auto split: if_splits)
  note one = ram_poke_success [OF p ok]
  show ?case
    using Cons.IH [OF rest] one by (subst mode_requests_append) (auto simp: s)
qed

section \<open>Uploads that succeed\<close>

text \<open>The part of the file that the format's parser reads.\<close>

definition image_body :: "int \<Rightarrow> bytes \<Rightarrow> bytes" where
  "image_body img_type img = (if img_type = IMG_TYPE_IIC then drop 8 img else img)"

lemma parse_image_success:
  assumes "parse_image w g img_type (Some (external_for fx_type)) (ram_poke dev) ctx f = Inr (rc, ctx')"
    and "\<not> rc < 0"
  shows "snd (image_segments w g img_type f) = Inr rc"
    and "poke_all (Some (external_for fx_type)) (ram_poke dev) ctx (fst (image_segments w g img_type f)) = (0, ctx')"
proof -
  let ?p = "poke_all (Some (external_for fx_type)) (ram_poke dev) ctx (fst (image_segments w g img_type f))"
  obtain r c where p: "?p = (r, c)" by fastforce
  show "snd (image_segments w g img_type f) = Inr rc" "?p = (0, ctx')"
    using assms p poke_all_result [OF p]
    by (auto simp: img.delivers deliver_def andthen_eq_Inr split: if_splits)
qed

lemma run_cpu_result: "run_cpu dev fx_type ctx = (rc, log) \<Longrightarrow> log = requests ctx @ [start_cpu fx_type] \<and> rc \<le> 0"
  using cpucs_log(2) [of dev fx_type "requests ctx"]
  by (auto simp: run_cpu_def Let_def split: prod.splits if_splits)

lemma parse_line_wrong: "parse_line w garbage line = Wrong e \<Longrightarrow> e \<in> {-2, -3, -4}"
  by (auto simp: parse_line_def Let_def split: if_splits)

lemma snd_with_segment [simp]: "snd (with_segment s p) = snd p"
  by (simp add: with_segment_def)

lemma snd_scan_on: "snd (scan_on m f) = Inr r \<Longrightarrow> \<exists>d. m = Inr d \<and> snd (f d) = Inr r"
  by (cases m) auto

lemma ihex_scan_result:
  "snd (ihex_scan w g data_addr data first_line f) = Inr r \<Longrightarrow> r \<in> {0, -2, -3, -4}"
proof (induction w g data_addr data first_line f rule: ihex_scan.induct)
  case (1 w g data_addr data first_line f)
  show ?case
  proof (cases "fgets 512 f")
    case None
    then show ?thesis using "1.prems" by (simp add: ihex_scan.simps)
  next
    case (Some p)
    obtain line rest where p: "p = (line, rest)" by fastforce
    note IH = "1.IH" [OF Some p [symmetric]]
    show ?thesis
    proof (cases "parse_line w (g (length rest)) line")
      case (Data_Line off n buf)
      let ?a = "if first_line then off else data_addr"
      have scan: "snd (ihex_scan w g data_addr data first_line f) =
          snd (if must_flush ?a data off n
            then scan_on (append_data w buf n []) (\<lambda>data. ihex_scan w g off data False rest)
            else scan_on (append_data w buf n data) (\<lambda>data. ihex_scan w g ?a data False rest))"
        using Some p Data_Line by (subst ihex_scan.simps) (simp add: Let_def)
      show ?thesis
        using "1.prems" IH(2,3) [OF Data_Line refl] unfolding scan
        by (auto dest!: snd_scan_on split: if_splits)
    qed (use "1.prems" Some p IH(1) parse_line_wrong in \<open>auto simp: ihex_scan.simps [of w g data_addr data first_line f]\<close>)
  qed
qed

lemma iic_scan_result: "snd (iic_scan f) = Inr r \<Longrightarrow> r \<in> {0, -1}"
proof (induction f rule: iic_scan.induct)
  case (1 f)
  show ?case
    using "1.prems" "1.IH" [OF _ refl refl]
    by (auto simp: iic_scan.simps [of f] Let_def split: if_splits)
qed

lemma image_segments_result: "snd (image_segments w g img_type f) = Inr r \<Longrightarrow> r \<le> 0"
  using ihex_scan_result [of w g 0 "[]" True f r] iic_scan_result [of f r]
  by (auto simp: image_segments_def ihex_segments_def split: if_splits)

lemma parse_image_ok:
  assumes "parse_image w g img_type (Some (external_for fx_type)) (ram_poke dev) ctx f = Inr (rc, ctx')"
    and "\<not> rc < 0"
  shows "\<exists>segs. image_segments w g img_type f = (segs, Inr 0) \<and>
    requests ctx' = requests ctx @ mode_requests (ram_mode ctx) fx_type segs \<and>
    (ram_mode ctx = Internal_Only \<longrightarrow> (\<forall>s\<in>set segs. \<not> is_external fx_type s))"
  using parse_image_success [OF assms] image_segments_result [of w g img_type f rc] assms(2)
    upload_success [of fx_type dev ctx "fst (image_segments w g img_type f)" ctx']
  by (intro exI [of _ "fst (image_segments w g img_type f)"]) (auto simp: prod_eq_iff)

text \<open>
  An upload in one stage that succeeds stops the CPU, writes every segment of the image in
  the order of the file with the request of the hardware loader, and starts the CPU; no
  segment of the image is in external memory.
\<close>

lemma one_stage_upload:
  assumes "load_ram dev w g (Some img) fx_type img_type 0 = Inr (0, log)"
  shows "\<exists>segs. image_segments w g img_type (image_body img_type img) = (segs, Inr 0)
    \<and> (\<forall>s\<in>set segs. \<not> is_external fx_type s)
    \<and> log = [stop_cpu fx_type] @ map (segment_request False) segs @ [start_cpu fx_type]"
proof -
  obtain ok log1 where c: "ezusb_cpucs dev (cpucs_addr fx_type) False [] = (ok, log1)" by fastforce
  have log1: "log1 = [stop_cpu fx_type]" using cpucs_log(1) [of dev fx_type "[]"] c by simp
  let ?ctx = "\<lparr>ram_mode = Internal_Only, ram_total = 0, ram_count = 0, requests = log1\<rparr>"
  from assms c obtain status ctx where
    p: "parse_image w g img_type (Some (external_for fx_type)) (ram_poke dev) ?ctx (image_body img_type img)
      = Inr (status, ctx)"
    and "\<not> status < 0" and r: "run_cpu dev fx_type ctx = (0, log)"
    by (auto simp: load_ram_def image_body_def Let_def andthen_eq_Inr split: if_splits)
  then show ?thesis
    using parse_image_ok [OF p] run_cpu_result [OF r] log1 by auto
qed

text \<open>
  C17. An upload of Intel HEX in two stages that succeeds first writes the segments in external
  memory with the request of the second stage loader, then stops the CPU, writes the
  segments of on-chip memory with the request of the hardware, and starts the CPU; every
  segment of the file is written exactly once, each group in the order of the file.
\<close>

theorem two_stage_upload:
  assumes "load_ram dev w g (Some img) fx_type IMG_TYPE_HEX stage = Inr (0, log)" and "stage \<noteq> 0"
  shows "\<exists>segs. ihex_segments w g img = (segs, Inr 0)
    \<and> log = map (segment_request True) (filter (is_external fx_type) segs) @ [stop_cpu fx_type]
        @ map (segment_request False) (filter (\<lambda>s. \<not> is_external fx_type s) segs) @ [start_cpu fx_type]"
proof -
  let ?ctx = "\<lparr>ram_mode = Skip_Internal, ram_total = 0, ram_count = 0, requests = []\<rparr>"
  let ?ext = "Some (external_for fx_type)"
  from assms obtain status ctx where
    p: "parse_image w g IMG_TYPE_HEX ?ext (ram_poke dev) ?ctx img = Inr (status, ctx)"
    and "\<not> status < 0" and r: "second_pass dev w g fx_type img ctx = Inr (0, log)"
    by (auto simp: load_ram_def loader_codes Let_def andthen_eq_Inr split: if_splits)
  then obtain segs where segs: "ihex_segments w g img = (segs, Inr 0)"
    and log1: "requests ctx = map (segment_request True) (filter (is_external fx_type) segs)"
    using parse_image_ok [OF p] by auto
  obtain ok log2 where c: "ezusb_cpucs dev (cpucs_addr fx_type) False (requests ctx) = (ok, log2)" by fastforce
  have log2: "log2 = requests ctx @ [stop_cpu fx_type]"
    using cpucs_log(1) [of dev fx_type "requests ctx"] c by simp
  let ?ctx2 = "ctx\<lparr>ram_mode := Skip_External, requests := log2\<rparr>"
  from r c obtain status2 ctx2 where
    p2: "parse_image w g IMG_TYPE_HEX ?ext (ram_poke dev) ?ctx2 img = Inr (status2, ctx2)"
    and "\<not> status2 < 0" and r2: "run_cpu dev fx_type ctx2 = (0, log)"
    by (auto simp: second_pass_def parse_image_def Let_def andthen_eq_Inr split: if_splits)
  then have "requests ctx2 = log2 @ map (segment_request False) (filter (\<lambda>s. \<not> is_external fx_type s) segs)"
    using parse_image_ok [OF p2] segs by auto
  then show ?thesis
    using run_cpu_result [OF r2] segs log1 log2 by simp
qed

section \<open>Concrete uploads\<close>

text \<open>A device that acknowledges one byte of every request, and two images.\<close>

definition willing_device :: device_answers where
  "willing_device log = (1, [])"

definition two_records :: bytes where
  "two_records = render_hex [(0x10, [1]), (0x2000, [2])]"

lemma two_records_segments: "16 \<le> w \<Longrightarrow> ihex_segments w g two_records = ([(0x10, [1]), (0x2000, [2])], Inr 0)"
proof -
  assume w: "16 \<le> w"
  have r: "two_records = render_record (0x10, [1]) @ render_record (0x2000, [2]) @ render_end @ []"
    by (simp add: two_records_def render_hex_def)
  show "ihex_segments w g two_records = ([(0x10, [1]), (0x2000, [2])], Inr 0)"
    unfolding ihex_segments_def r using w
    by (simp add: ihex_scan_record ihex_scan_end must_flush_def with_segment_def rest_segment_def
        ihex_data_size_def del: append_Nil2)
qed

lemma bin_two_bytes: "bin_scan 0 [7, 8] = [(0, [7, 8])]"
  by (simp add: bin_scan.simps)

lemmas upload_evaluation =
  load_ram_def second_pass_def run_cpu_def parse_image_def loader_codes img.delivers ihex.delivers
  iic.delivers bin.delivers deliver_def poke_segment_def ram_poke_def no_retry ezusb_write_def
  ezusb_cpucs_def willing_device_def external_for_def fx_is_external_def fx2_is_external_def
  cpucs_addr_def Let_def

theorem one_stage_upload_witness:
  "\<exists>log. load_ram willing_device 32 (\<lambda>_. []) (Some [7, 8]) FX_TYPE_FX2 IMG_TYPE_BIX 0 = Inr (0, log)
    \<and> log = [stop_cpu FX_TYPE_FX2, segment_request False (0, [7, 8]), start_cpu FX_TYPE_FX2]"
proof -
  obtain log where log: "load_ram willing_device 32 (\<lambda>_. []) (Some [7, 8]) FX_TYPE_FX2 IMG_TYPE_BIX 0 = Inr (0, log)"
    by (simp add: upload_evaluation bin_two_bytes)
  then show ?thesis
    using one_stage_upload [OF log]
    by (auto simp: image_segments_def image_body_def loader_codes bin_two_bytes)
qed

theorem two_stage_upload_witness:
  "\<exists>log. load_ram willing_device 32 (\<lambda>_. []) (Some two_records) FX_TYPE_FX2 IMG_TYPE_HEX 1 = Inr (0, log)
    \<and> log = [segment_request True (0x2000, [2]), stop_cpu FX_TYPE_FX2,
        segment_request False (0x10, [1]), start_cpu FX_TYPE_FX2]"
proof -
  obtain log where log: "load_ram willing_device 32 (\<lambda>_. []) (Some two_records) FX_TYPE_FX2 IMG_TYPE_HEX 1 = Inr (0, log)"
    by (simp add: upload_evaluation two_records_segments)
  then show ?thesis
    using two_stage_upload [OF log]
    by (auto simp: two_records_segments is_external_def external_for_def loader_codes fx2_is_external_def)
qed

section \<open>Uploads that fail\<close>

text \<open>A one stage upload hands over a prefix of the segments, up to the first refusal.\<close>

lemma upload_prefix:
  assumes "poke_all (Some (external_for fx_type)) (ram_poke dev) ctx segs = (rc, ctx')"
    and "ram_mode ctx = Internal_Only"
  shows "\<exists>sent unsent. segs = sent @ unsent \<and> (\<forall>s\<in>set sent. \<not> is_external fx_type s) \<and>
    requests ctx' = requests ctx @ map (segment_request False) sent \<and> (rc = 0 \<longrightarrow> unsent = [])"
  using assms
proof (induction segs arbitrary: ctx)
  case Nil
  then show ?case by simp
next
  case (Cons s segs)
  obtain addr data where s: "s = (addr, data)" by fastforce
  let ?poke = "poke_segment (Some (external_for fx_type)) (ram_poke dev) ctx addr data"
  obtain rc1 ctx1 where p: "?poke = (rc1, ctx1)" by fastforce
  show ?case
  proof (cases "rc1 < 0")
    case False
    note one = ram_poke_success [OF p False]
    have "poke_all (Some (external_for fx_type)) (ram_poke dev) ctx1 segs = (rc, ctx')"
      using Cons.prems(1) p s False by simp
    then obtain sent unsent where ih: "segs = sent @ unsent" "\<forall>s\<in>set sent. \<not> is_external fx_type s"
      "requests ctx' = requests ctx1 @ map (segment_request False) sent" "rc = 0 \<longrightarrow> unsent = []"
      using Cons.IH [of ctx1] one(1) Cons.prems(2) by auto
    then show ?thesis
      using one Cons.prems(2) s by (intro exI [of _ "s # sent"] exI [of _ unsent]) simp
  next
    case True
    then have rc: "rc = -1" "ctx' = ctx1" using Cons.prems(1) p s by auto
    consider "is_external fx_type s" "requests ctx1 = requests ctx"
      | "\<not> is_external fx_type s" "requests ctx1 = requests ctx @ [segment_request False s]"
      using p s Cons.prems(2)
      by (auto simp: poke_segment_def ram_poke_def no_retry ezusb_write_def Let_def is_external_def
          segment_request_def split: if_splits)
    then show ?thesis
    proof cases
      case 1
      then show ?thesis using rc by (intro exI [of _ "[]"] exI [of _ "s # segs"]) simp
    next
      case 2
      then show ?thesis using rc by (intro exI [of _ "[s]"] exI [of _ segs]) simp
    qed
  qed
qed

text \<open>
  C18. An upload in one stage, whether it succeeds or fails, never touches external memory and
  never runs a part of an image: whatever the device answers and whatever is wrong with the file,
  the requests are none, or the stop of the CPU and the writes, with the request of the hardware
  loader, of a prefix of the segments, which are all in on-chip memory. The CPU is started only
  behind the last segment.
\<close>

theorem failed_upload_stays_stopped:
  assumes "load_ram dev w g (Some img) fx_type img_type 0 = Inr (rc, log)"
  shows "\<exists>sent unsent. fst (image_segments w g img_type (image_body img_type img)) = sent @ unsent
    \<and> (\<forall>s\<in>set sent. \<not> is_external fx_type s)
    \<and> (log = [] \<or> log = stop_cpu fx_type # map (segment_request False) sent
      \<or> unsent = [] \<and> log = stop_cpu fx_type # map (segment_request False) sent @ [start_cpu fx_type])"
proof -
  let ?segs = "fst (image_segments w g img_type (image_body img_type img))"
  let ?ctx = "\<lparr>ram_mode = Internal_Only, ram_total = 0, ram_count = 0, requests = [stop_cpu fx_type]\<rparr>"
  obtain ok log1 where c: "ezusb_cpucs dev (cpucs_addr fx_type) False [] = (ok, log1)" by fastforce
  have log1: "log1 = [stop_cpu fx_type]" using cpucs_log(1) [of dev fx_type "[]"] c by simp
  have alternatives: "log = [] \<or> log = [stop_cpu fx_type] \<or>
    (\<exists>status ctx. parse_image w g img_type (Some (external_for fx_type)) (ram_poke dev) ?ctx
        (image_body img_type img) = Inr (status, ctx)
      \<and> (status < 0 \<and> log = requests ctx \<or> \<not> status < 0 \<and> log = requests ctx @ [start_cpu fx_type]))"
    using assms(1) c log1
    by (auto simp: load_ram_def image_body_def Let_def andthen_eq_Inr dest!: run_cpu_result split: if_splits)
  then show ?thesis
  proof (elim disjE exE conjE)
    fix status ctx
    assume p: "parse_image w g img_type (Some (external_for fx_type)) (ram_poke dev) ?ctx
        (image_body img_type img) = Inr (status, ctx)"
      and "status < 0" and log: "log = requests ctx"
    obtain r where "poke_all (Some (external_for fx_type)) (ram_poke dev) ?ctx ?segs = (r, ctx)"
      using p by (auto simp: img.delivers deliver_def andthen_eq_Inr split: prod.splits if_splits)
    from upload_prefix [OF this] show ?thesis using log by auto
  next
    fix status ctx
    assume p: "parse_image w g img_type (Some (external_for fx_type)) (ram_poke dev) ?ctx
        (image_body img_type img) = Inr (status, ctx)"
      and ok: "\<not> status < 0" and log: "log = requests ctx @ [start_cpu fx_type]"
    from upload_prefix [OF parse_image_success(2) [OF p ok]] show ?thesis using log by auto
  qed (intro exI [of _ "[]"] exI [of _ ?segs], simp)+
qed

theorem failed_upload_stays_stopped_witness:
  "\<exists>rc log. load_ram willing_device 32 (\<lambda>_. []) (Some two_records) FX_TYPE_FX2 IMG_TYPE_HEX 0 = Inr (rc, log)
    \<and> rc \<noteq> 0 \<and> log = [stop_cpu FX_TYPE_FX2, segment_request False (0x10, [1])]
    \<and> (\<exists>sent unsent. [(0x10, [1]), (0x2000, [2])] = sent @ unsent \<and> log = stop_cpu FX_TYPE_FX2 # map (segment_request False) sent)"
proof -
  have run: "load_ram willing_device 32 (\<lambda>_. []) (Some two_records) FX_TYPE_FX2 IMG_TYPE_HEX 0
      = Inr (-1, [stop_cpu FX_TYPE_FX2, segment_request False (0x10, [1])])"
    by (simp add: upload_evaluation two_records_segments stop_cpu_def segment_request_def)
  show ?thesis
    using failed_upload_stays_stopped [OF run] run
    by (auto simp: image_segments_def image_body_def loader_codes two_records_segments)
qed

section \<open>Other images in two stages\<close>

lemma not_ihex:
  assumes "0 < length img" and "img ! 0 \<noteq> 35" and "img ! 0 \<noteq> 58"
  shows "ihex_segments w g img = ([], Inr (-2))"
proof -
  obtain c t where img: "img = c # t" using assms(1) by (cases img) auto
  obtain m where m: "m = length (takeWhile (\<lambda>c. c \<noteq> 10) img)" by simp
  have "min (512 - 1) (Suc m) = Suc (min 510 m)" by simp
  then obtain l rest where "fgets 512 img = Some (c # l, rest)"
    unfolding fgets_def Let_def m [symmetric] by (simp add: img)
  moreover have "parse_line w garbage (c # l) = Wrong (-2)" for garbage
    using assms img by (simp add: parse_line_def line_buffer_def)
  ultimately show ?thesis
    unfolding ihex_segments_def by (subst ihex_scan.simps) simp
qed

text \<open>The first pass of two stages issues only requests to the second stage loader.\<close>

definition memory_writes_only :: "request list \<Rightarrow> bool" where
  "memory_writes_only log \<longleftrightarrow> (\<forall>r\<in>set log. \<exists>a d. r = write_request RW_MEMORY a d)"

lemma ram_poke_skips_internal:
  assumes "ram_poke dev ctx a e d = (rc, ctx')"
    and "ram_mode ctx = Skip_Internal \<and> memory_writes_only (requests ctx)"
  shows "ram_mode ctx' = Skip_Internal \<and> memory_writes_only (requests ctx')"
  using assms
  by (auto simp: ram_poke_def no_retry ezusb_write_def Let_def memory_writes_only_def split: if_splits)
    blast+

lemma first_pass_log:
  assumes "parse_image w g img_type ext (ram_poke dev)
      \<lparr>ram_mode = Skip_Internal, ram_total = 0, ram_count = 0, requests = []\<rparr> f = Inr (r, ctx)"
  shows "memory_writes_only (requests ctx)"
  using img.keeps [OF assms, of "\<lambda>c. ram_mode c = Skip_Internal \<and> memory_writes_only (requests c)"]
    ram_poke_skips_internal
  by (fastforce simp: memory_writes_only_def)

lemma start_is_no_memory_write: "memory_writes_only log \<Longrightarrow> start_cpu fx_type \<notin> set log"
  by (auto simp: memory_writes_only_def start_cpu_def write_request_def RW_MEMORY_def RW_INTERNAL_def)

lemma start_is_not_stop: "start_cpu fx_type \<noteq> stop_cpu fx_type"
  by (simp add: start_cpu_def stop_cpu_def write_request_def)

text \<open>
  An IIC image cannot be uploaded in two stages: the second pass reads it as Intel HEX from its
  first byte on, which is the code of the memory type, and fails. The upload ends with an
  error, after the external segments were written and perhaps the CPU was stopped; it is not
  started again.
\<close>

lemma two_stage_iic_fails:
  assumes "load_ram dev w g (Some img) fx_type IMG_TYPE_IIC stage = Inr (rc, log)" and "stage \<noteq> 0"
    and "fx_type \<in> {FX_TYPE_AN21, FX_TYPE_FX1, FX_TYPE_FX2, FX_TYPE_FX2LP}"
  shows "rc < 0 \<and> start_cpu fx_type \<notin> set log"
proof (cases "iic_header_wrong fx_type img")
  case True
  then show ?thesis using assms(1) by (simp add: load_ram_def)
next
  case False
  then have hex: "ihex_segments w g img = ([], Inr (-2))"
    using assms(3) by (intro not_ihex) (auto simp: iic_header_wrong_def loader_codes)
  from assms(1,2) False obtain status ctx where
    p: "parse_image w g IMG_TYPE_IIC (Some (external_for fx_type)) (ram_poke dev)
      \<lparr>ram_mode = Skip_Internal, ram_total = 0, ram_count = 0, requests = []\<rparr> (drop 8 img) = Inr (status, ctx)"
    and r: "if status < 0 then rc = status \<and> log = requests ctx
      else second_pass dev w g fx_type img ctx = Inr (rc, log)"
    by (auto simp: load_ram_def Let_def andthen_eq_Inr split: if_splits)
  note quiet = start_is_no_memory_write [OF first_pass_log [OF p], of fx_type]
  show ?thesis
  proof (cases "status < 0")
    case True
    then show ?thesis using r quiet by simp
  next
    case False
    obtain ok log1 where c: "ezusb_cpucs dev (cpucs_addr fx_type) False (requests ctx) = (ok, log1)" by fastforce
    have log1: "log1 = requests ctx @ [stop_cpu fx_type]"
      using cpucs_log(1) [of dev fx_type "requests ctx"] c by simp
    show ?thesis
      using r False c log1 quiet start_is_not_stop
      by (auto simp: second_pass_def ihex.delivers hex deliver_def Let_def split: if_splits)
  qed
qed

definition small_iic :: bytes where
  "small_iic = [0xC2, 0, 0, 0, 0, 0, 0, 0] @ [0, 1, 0, 0x10, 9] @ [0x80, 1, 0xE6, 0, 0]"

theorem two_stage_iic_fails_witness:
  "\<exists>rc log. load_ram willing_device 64 (\<lambda>_. []) (Some small_iic) FX_TYPE_FX2 IMG_TYPE_IIC 1 = Inr (rc, log)
    \<and> rc < 0 \<and> start_cpu FX_TYPE_FX2 \<notin> set log"
proof -
  have "concat (map render_block [(0x10, [9])]) = [0, 1, 0, 0x10, 9]"
    by (simp add: render_block_def high8_def low8_def Let_def)
  then have "iic_scan ([0, 1, 0, 0x10, 9] @ [0x80, 1, 0xE6, 0, 0]) = ([(0x10, [9])], Inr 0)"
    using iic_scan_blocks [of "[(0x10, [9])]" "[0x80, 1, 0xE6, 0, 0]"] by simp
  moreover have "ihex_segments 64 (\<lambda>_. []) small_iic = ([], Inr (-2))"
    by (rule not_ihex) (simp_all add: small_iic_def)
  ultimately obtain rc log where
    run: "load_ram willing_device 64 (\<lambda>_. []) (Some small_iic) FX_TYPE_FX2 IMG_TYPE_IIC 1 = Inr (rc, log)"
    by (simp add: upload_evaluation iic_header_wrong_def small_iic_def)
  then show ?thesis
    using two_stage_iic_fails [OF run] by (auto simp: loader_codes)
qed

text \<open>
  The loop of \<open>ram_poke\<close> around the write is meant to repeat it when the device does not
  answer in time.
\<close>

text \<open>
  \<open>ram_poke\<close> ends after at most one request: the loop that repeats a write compares its
  result with \<open>LIBUSB_ERROR_TIMEOUT\<close>, but \<open>ezusb_write\<close> reports every error as -1, so a
  request that timed out is never repeated and the limit of five retries has no effect.
\<close>

lemma timeouts_are_not_retried:
  assumes "ram_mode ctx = Internal_Only" and "\<not> external"
    and "fst (dev (requests ctx @ [segment_request False (addr, data)])) = LIBUSB_ERROR_TIMEOUT"
  shows "\<exists>ctx'. ram_poke dev ctx addr external data = (-1, ctx')
    \<and> requests ctx' = requests ctx @ [segment_request False (addr, data)]"
  using assms
  by (auto simp: ram_poke_def no_retry ezusb_write_def Let_def segment_request_def LIBUSB_ERROR_TIMEOUT_def)

theorem timeouts_are_not_retried_witness:
  "\<exists>ctx'. ram_poke (\<lambda>log. (if length log = 1 then -7 else 1, []))
      \<lparr>ram_mode = Internal_Only, ram_total = 0, ram_count = 0, requests = []\<rparr> 0 False [1] = (-1, ctx')
    \<and> requests ctx' = [segment_request False (0, [1])]"
  using timeouts_are_not_retried [of "\<lparr>ram_mode = Internal_Only, ram_total = 0, ram_count = 0, requests = []\<rparr>"
      False "\<lambda>log. (if length log = 1 then -7 else 1, [])" 0 "[1]"]
  by (simp add: LIBUSB_ERROR_TIMEOUT_def)

end
