(* ===== verification/Ezusb_Fx3.thy ===== *)
theory Ezusb_Fx3
  imports Ezusb_Loader
begin

text \<open>
  \<open>fx3_load_ram\<close> of \<open>ezusb/ezusb.cpp\<close>: the upload of a Cypress image into an FX3. The image is
  a header, sections of a length in words, an address and the words, a section of length 0
  with the entry address, and the sum of all words. Every chunk is written, read back and
  compared. \<open>None\<close> as a file cannot be opened; \<open>alloc_ok n\<close> tells whether a buffer of \<open>n\<close> words
  can be allocated; the version of the bootloader is read if \<open>verbose\<close> is set; words are stored in the byte order of the machine (little endian).
\<close>

definition le32 :: "bytes \<Rightarrow> u32" where
  "le32 b = word_of_nat (foldr (\<lambda>v n. unat v + 256 * n) (take 4 b) 0)"

definition read_u32 :: "bytes \<Rightarrow> (u32 \<times> bytes) option" where
  "read_u32 f = (if length f < 4 then None else Some (le32 f, drop 4 f))"

text \<open>The words of a section, for the sum.\<close>

fun words_of :: "nat \<Rightarrow> bytes \<Rightarrow> u32 list" where
  "words_of 0 b = []"
| "words_of (Suc n) b = le32 b # words_of n (drop 4 b)"

text \<open>
  Writing one section in chunks of at most 4096 bytes; \<open>rbuf\<close> is the array that is read
  back into, 4096 bytes. The result is 0, -5 or -6, the address behind the section, the
  array and the requests.
\<close>

function fx3_chunks ::
  "device_answers \<Rightarrow> u32 \<Rightarrow> bytes \<Rightarrow> bytes \<Rightarrow> request list \<Rightarrow> int \<times> u32 \<times> bytes \<times> request list" where
  "fx3_chunks dev addr data rbuf log =
     (if data = [] then (0, addr, rbuf, log)
      else
        (let chunk = take 4096 data;
             (rc, log) = ezusb_write dev RW_INTERNAL addr chunk log
         in if rc < 0 then (-5, addr, rbuf, log)
            else
              (let (rc, rbuf, log) = ezusb_read dev RW_INTERNAL addr rbuf (length chunk) log
               in if rc < 0 then (-5, addr, rbuf, log)
                  else if take (length chunk) rbuf \<noteq> chunk then (-6, addr, rbuf, log)
                  else fx3_chunks dev (addr + word_of_nat (length chunk)) (drop 4096 data) rbuf log)))"
  by pat_completeness auto

termination
  by (relation "measure (\<lambda>(dev, addr, data, rbuf, log). length data)") auto

declare fx3_chunks.simps [simp del]

text \<open>
  The loop over the sections: an error, or the sum, the entry address and the rest of the
  file. \<open>dLength <<= 2\<close> is computed in 32 bits. The address of the last section read is the
  entry.
\<close>

function fx3_sections ::
  "device_answers \<Rightarrow> (u32 \<Rightarrow> bool) \<Rightarrow> u32 \<Rightarrow> bytes \<Rightarrow> request list \<Rightarrow> bytes
     \<Rightarrow> (int + u32 \<times> u32 \<times> bytes) \<times> request list" where
  "fx3_sections dev alloc_ok checksum rbuf log f =
     (case read_u32 f of None \<Rightarrow> (Inl (-3), log)
      | Some (dLength, f1) \<Rightarrow>
        (case read_u32 f1 of None \<Rightarrow> (Inl (-3), log)
         | Some (dAddress, f2) \<Rightarrow>
            if dLength = 0 then (Inr (checksum, dAddress, f2), log)
            else if \<not> alloc_ok dLength then (Inl (-4), log)
            else if length f2 < 4 * unat dLength then (Inl (-3), log)
            else
              (let data = take (unat (push_bit 2 dLength)) f2;
                   (rc, addr, rbuf, log) = fx3_chunks dev dAddress data rbuf log
               in if rc \<noteq> 0 then (Inl rc, log)
                  else fx3_sections dev alloc_ok (checksum + sum_list (words_of (unat dLength) f2))
                         rbuf log (drop (4 * unat dLength) f2))))"
  by pat_completeness auto

termination
  by (relation "measure (\<lambda>(dev, alloc_ok, checksum, rbuf, log, f). length f)")
    (auto simp: read_u32_def split: if_splits)

declare fx3_sections.simps [simp del]

text \<open>The header: \<open>CY\<close>, a control byte, the type \<open>0xB0\<close> for an image with a checksum.\<close>

definition fx3_header_ok :: "bytes \<Rightarrow> bool" where
  "fx3_header_ok f \<longleftrightarrow> 4 \<le> length f \<and> f ! 0 = 67 \<and> f ! 1 = 89 \<and> f ! 3 = 0xB0"

definition fx3_load_ram ::
  "device_answers \<Rightarrow> int \<Rightarrow> (u32 \<Rightarrow> bool) \<Rightarrow> bytes \<Rightarrow> bytes option \<Rightarrow> int \<times> request list" where
  "fx3_load_ram dev verbose alloc_ok rbuf path =
     (case path of None \<Rightarrow> (-2, [])
      | Some f \<Rightarrow>
        if \<not> fx3_header_ok f then (-3, [])
        else
          (let (rc, _, log) =
             (if verbose \<noteq> 0 then ezusb_read dev RW_INTERNAL 0xFFFF0020 (replicate 4 0) 4 []
              else (0, [], []))
           in
           if rc < 0 then (-8, log)
           else
             (case fx3_sections dev alloc_ok 0 rbuf log (drop 4 f) of
                (Inl e, log) \<Rightarrow> (e, log)
              | (Inr (checksum, entry, rest), log) \<Rightarrow>
                  (case read_u32 rest of
                     None \<Rightarrow> (-7, log)
                   | Some (expected, _) \<Rightarrow>
                       if checksum \<noteq> expected then (-7, log)
                       else (let (ok, log) = ezusb_fx3_jump dev entry log
                             in (if ok then 0 else -6, log))))))"

text \<open>\<open>ezusb_load_ram\<close>: the FX3 has an upload of its own.\<close>

definition ezusb_load_ram ::
  "device_answers \<Rightarrow> int \<Rightarrow> nat \<Rightarrow> (nat \<Rightarrow> bytes) \<Rightarrow> (u32 \<Rightarrow> bool) \<Rightarrow> bytes \<Rightarrow> bytes option
     \<Rightarrow> int \<Rightarrow> int \<Rightarrow> int \<Rightarrow> (int \<times> request list) res" where
  "ezusb_load_ram dev verbose w g alloc_ok rbuf path fx_type img_type stage =
     (if fx_type = FX_TYPE_FX3 then Inr (fx3_load_ram dev verbose alloc_ok rbuf path)
      else load_ram dev w g path fx_type img_type stage)"

end
