(* ===== verification/Ezusb_Fx3_Props.thy ===== *)
theory Ezusb_Fx3_Props
  imports Ezusb_Fx3 Ezusb_Loader_Props
begin

text \<open>
  What an FX3 upload that reports success has done. The image is read by a reference parser
  that knows nothing of the device; its sections are cut into the chunks that are written,
  read back and compared.
\<close>

section \<open>The reference parser of an image\<close>

text \<open>The sections behind the header, the sum of all words, the entry address, the rest.\<close>

function fx3_parse :: "u32 \<Rightarrow> bytes \<Rightarrow> (segment list \<times> u32 \<times> u32 \<times> bytes) option" where
  "fx3_parse checksum f =
     (case read_u32 f of None \<Rightarrow> None
      | Some (n, f1) \<Rightarrow>
        (case read_u32 f1 of None \<Rightarrow> None
         | Some (addr, f2) \<Rightarrow>
            if n = 0 then Some ([], checksum, addr, f2)
            else if length f2 < 4 * unat n then None
            else (case fx3_parse (checksum + sum_list (words_of (unat n) f2)) (drop (4 * unat n) f2) of
                None \<Rightarrow> None
              | Some (secs, r) \<Rightarrow> Some ((addr, take (unat (push_bit 2 n)) f2) # secs, r))))"
  by pat_completeness auto

termination
  by (relation "measure (\<lambda>(checksum, f). length f)") (auto simp: read_u32_def split: if_splits)

declare fx3_parse.simps [simp del]

definition chunks_of :: "segment list \<Rightarrow> segment list" where
  "chunks_of secs = concat (map (\<lambda>(addr, data). bin_scan addr data) secs)"

lemma chunks_of_simps [simp]:
  "chunks_of [] = []"
  "chunks_of ((addr, data) # secs) = bin_scan addr data @ chunks_of secs"
  by (simp_all add: chunks_of_def)

section \<open>Chunks that are written and read back\<close>

definition chunk_requests :: "segment list \<Rightarrow> request list" where
  "chunk_requests chunks =
     concat (map (\<lambda>(addr, c). [write_request RW_INTERNAL addr c, read_request RW_INTERNAL addr (length c)]) chunks)"

lemma chunk_requests_simps [simp]:
  "chunk_requests [] = []"
  "chunk_requests ((addr, c) # cs) =
     [write_request RW_INTERNAL addr c, read_request RW_INTERNAL addr (length c)] @ chunk_requests cs"
  "chunk_requests (cs @ ds) = chunk_requests cs @ chunk_requests ds"
  by (simp_all add: chunk_requests_def)

text \<open>
  The device accepted both requests of every chunk, and where it returned as many bytes as
  were asked for, they are those written.
\<close>

fun chunks_read_back :: "device_answers \<Rightarrow> request list \<Rightarrow> segment list \<Rightarrow> bool" where
  "chunks_read_back dev log [] \<longleftrightarrow> True"
| "chunks_read_back dev log ((addr, c) # cs) \<longleftrightarrow>
     (let log1 = log @ [write_request RW_INTERNAL addr c];
          log2 = log1 @ [read_request RW_INTERNAL addr (length c)]
      in 0 \<le> fst (dev log1) \<and> 0 \<le> fst (dev log2)
         \<and> (length c \<le> length (snd (dev log2)) \<longrightarrow> take (length c) (snd (dev log2)) = c)
         \<and> chunks_read_back dev log2 cs)"

lemma reads_back_append:
  "chunks_read_back dev log (cs @ ds) \<longleftrightarrow> chunks_read_back dev log cs \<and> chunks_read_back dev (log @ chunk_requests cs) ds"
  by (induction cs arbitrary: log) (auto simp: Let_def)

lemma fx3_chunks_step:
  assumes "data \<noteq> []" and "c = take 4096 data"
    and "log1 = log @ [write_request RW_INTERNAL addr c]"
    and "log2 = log1 @ [read_request RW_INTERNAL addr (length c)]"
    and "got = take (length c) (snd (dev log2))"
  shows "fx3_chunks dev addr data rbuf log =
    (if fst (dev log1) < 0 then (-5, addr, rbuf, log1)
     else if fst (dev log2) < 0 then (-5, addr, got @ drop (length got) rbuf, log2)
     else if take (length c) (got @ drop (length got) rbuf) \<noteq> c
       then (-6, addr, got @ drop (length got) rbuf, log2)
     else fx3_chunks dev (addr + word_of_nat (length c)) (drop 4096 data)
       (got @ drop (length got) rbuf) log2)"
  using assms(1) unfolding assms(2-5)
  by (subst fx3_chunks.simps) (simp add: ezusb_write_def ezusb_read_def Let_def del: length_take)

lemma bin_scan_step:
  "data \<noteq> [] \<Longrightarrow> c = take 4096 data \<Longrightarrow>
    bin_scan addr data = (addr, c) # bin_scan (addr + word_of_nat (length c)) (drop 4096 data)"
  by (subst bin_scan.simps) (simp add: Let_def)

lemma fx3_chunks_success:
  "fx3_chunks dev addr data rbuf log = (0, addr', rbuf', log') \<Longrightarrow>
    log' = log @ chunk_requests (bin_scan addr data) \<and> chunks_read_back dev log (bin_scan addr data)"
proof (induction data arbitrary: addr rbuf log rule: measure_induct_rule [of length])
  case (less data)
  show ?case
  proof (cases "data = []")
    case True
    then show ?thesis using less.prems by (simp add: fx3_chunks.simps bin_scan.simps)
  next
    case False
    obtain c where c: "c = take 4096 data" by simp
    obtain log1 where log1: "log1 = log @ [write_request RW_INTERNAL addr c]" by simp
    obtain log2 where log2: "log2 = log1 @ [read_request RW_INTERNAL addr (length c)]" by simp
    obtain got where got: "got = take (length c) (snd (dev log2))" by simp
    have step: "fx3_chunks dev addr data rbuf log =
      (if fst (dev log1) < 0 then (-5, addr, rbuf, log1)
       else if fst (dev log2) < 0 then (-5, addr, got @ drop (length got) rbuf, log2)
       else if take (length c) (got @ drop (length got) rbuf) \<noteq> c
         then (-6, addr, got @ drop (length got) rbuf, log2)
       else fx3_chunks dev (addr + word_of_nat (length c)) (drop 4096 data)
         (got @ drop (length got) rbuf) log2)"
      by (rule fx3_chunks_step) (fact False c log1 log2 got)+
    have ok: "0 \<le> fst (dev log1)" "0 \<le> fst (dev log2)"
        "take (length c) (got @ drop (length got) rbuf) = c"
      and rest: "fx3_chunks dev (addr + word_of_nat (length c)) (drop 4096 data)
        (got @ drop (length got) rbuf) log2 = (0, addr', rbuf', log')"
      using less.prems unfolding step by (simp_all split: if_splits)
    have "take (length c) (snd (dev log2)) = c" if "length c \<le> length (snd (dev log2))"
      using ok(3) that unfolding got by simp
    moreover have "length (drop 4096 data) < length data" using False by simp
    note less.IH [OF this rest]
    ultimately show ?thesis
      using ok(1,2) log1 log2 unfolding bin_scan_step [OF False c] by (simp add: Let_def)
  qed
qed

section \<open>Sections\<close>

lemma fx3_sections_success:
  "fx3_sections dev alloc_ok checksum rbuf log f = (Inr (csum, entry, rest), log') \<Longrightarrow>
    \<exists>secs. fx3_parse checksum f = Some (secs, csum, entry, rest)
      \<and> log' = log @ chunk_requests (chunks_of secs) \<and> chunks_read_back dev log (chunks_of secs)"
proof (induction f arbitrary: checksum rbuf log rule: measure_induct_rule [of length])
  case (less f)
  obtain n f1 where n: "read_u32 f = Some (n, f1)"
    using less.prems by (subst (asm) fx3_sections.simps) (auto split: option.splits)
  obtain addr f2 where a: "read_u32 f1 = Some (addr, f2)"
    using less.prems n by (subst (asm) fx3_sections.simps) (auto split: option.splits)
  show ?case
  proof (cases "n = 0")
    case True
    then show ?thesis
      using less.prems n a by (subst (asm) fx3_sections.simps, subst fx3_parse.simps) simp
  next
    case False
    let ?d = "take (unat (push_bit 2 n)) f2"
    obtain rc a1 r1 log1 where c: "fx3_chunks dev addr ?d rbuf log = (rc, a1, r1, log1)"
      by (metis prod_cases4)
    have rc: "rc = 0" and room: "\<not> length f2 < 4 * unat n"
      and rest: "fx3_sections dev alloc_ok (checksum + sum_list (words_of (unat n) f2)) r1 log1
        (drop (4 * unat n) f2) = (Inr (csum, entry, rest), log')"
      using less.prems n a False c
      by (subst (asm) fx3_sections.simps, simp split: if_splits)+
    have "length (drop (4 * unat n) f2) < length f"
      using n a by (auto simp: read_u32_def split: if_splits)
    from less.IH [OF this rest] obtain secs where
      p: "fx3_parse (checksum + sum_list (words_of (unat n) f2)) (drop (4 * unat n) f2) = Some (secs, csum, entry, rest)"
      and l: "log' = log1 @ chunk_requests (chunks_of secs)" and r: "chunks_read_back dev log1 (chunks_of secs)"
      by blast
    have "fx3_parse checksum f = Some ((addr, ?d) # secs, csum, entry, rest)"
      using n a False room p by (subst fx3_parse.simps) simp
    then show ?thesis
      using fx3_chunks_success [OF c [unfolded rc]] l r
      by (intro exI [of _ "(addr, ?d) # secs"]) (simp add: reads_back_append)
  qed
qed

lemma fx3_sections_error:
  "fx3_sections dev alloc_ok checksum rbuf log f = (Inl e, log') \<Longrightarrow> e \<noteq> 0"
proof (induction f arbitrary: checksum rbuf log rule: measure_induct_rule [of length])
  case (less f)
  show ?case
  proof
    assume e: "e = 0"
    obtain n f1 where n: "read_u32 f = Some (n, f1)"
      using less.prems e by (subst (asm) fx3_sections.simps) (auto split: option.splits)
    obtain addr f2 where a: "read_u32 f1 = Some (addr, f2)"
      using less.prems e n by (subst (asm) fx3_sections.simps) (auto split: option.splits)
    obtain rc a1 r1 log1 where c: "fx3_chunks dev addr (take (unat (push_bit 2 n)) f2) rbuf log = (rc, a1, r1, log1)"
      by (metis prod_cases4)
    have shorter: "length (drop (4 * unat n) f2) < length f"
      using n a by (auto simp: read_u32_def split: if_splits)
    have "fx3_sections dev alloc_ok (checksum + sum_list (words_of (unat n) f2)) r1 log1
        (drop (4 * unat n) f2) = (Inl e, log')"
      using less.prems e n a c by (subst (asm) fx3_sections.simps) (auto split: if_splits)
    from less.IH [OF shorter this] e show False by simp
  qed
qed

text \<open>
  C19. An FX3 upload that reports success uploaded a complete image: the file has the signature
  and the type with a checksum, its sections end with the record of length 0, and the sum of
  its words is the stored one. The requests are the writes of all sections in chunks of at
  most 4096 bytes, each followed by a read of the same range; wherever the device returned as many
  bytes as were asked for, they are those written. At the end comes the jump to the address
  of the last record.
\<close>

theorem fx3_upload_is_verified:
  assumes "fx3_load_ram dev verbose alloc_ok rbuf (Some f) = (0, log)"
  shows "\<exists>secs csum entry rest version.
    fx3_header_ok f \<and> fx3_parse 0 (drop 4 f) = Some (secs, csum, entry, rest)
    \<and> 4 \<le> length rest \<and> le32 rest = csum
    \<and> version = (if verbose \<noteq> 0 then [read_request RW_INTERNAL 0xFFFF0020 4] else [])
    \<and> chunks_read_back dev version (chunks_of secs)
    \<and> log = version @ chunk_requests (chunks_of secs) @ [write_request RW_INTERNAL entry []]"
proof -
  obtain version where v: "version = (if verbose \<noteq> 0 then [read_request RW_INTERNAL 0xFFFF0020 4] else [])"
    by simp
  have h: "fx3_header_ok f" using assms by (simp add: fx3_load_ram_def split: if_splits)
  obtain result log1 where s: "fx3_sections dev alloc_ok 0 rbuf version (drop 4 f) = (result, log1)"
    by fastforce
  obtain csum entry rest where r: "result = Inr (csum, entry, rest)" "4 \<le> length rest" "le32 rest = csum"
      "log = log1 @ [write_request RW_INTERNAL entry []]"
    using assms h s v fx3_sections_error [of dev alloc_ok 0 rbuf version "drop 4 f" 0 log1]
    by (auto simp: fx3_load_ram_def ezusb_read_def ezusb_fx3_jump_def read_u32_def Let_def
        split: if_splits sum.splits option.splits prod.splits)
  show ?thesis
    using fx3_sections_success [OF s [unfolded r(1)]] r(2-) h v by auto
qed

text \<open>A device that returns what was written, and a small image.\<close>

definition echo_device :: device_answers where
  "echo_device log =
     (case last log of
        Vendor_Out _ _ _ d \<Rightarrow> (int (length d), [])
      | Vendor_In _ _ _ n \<Rightarrow>
          (case last (butlast log) of Vendor_Out _ _ _ d \<Rightarrow> (int n, d) | Vendor_In _ _ _ _ \<Rightarrow> (-1, [])))"

definition small_fx3 :: bytes where
  "small_fx3 = [67, 89, 0, 0xB0] @ [1, 0, 0, 0, 0, 0, 0, 0x40, 9, 8, 7, 6]
     @ [0, 0, 0, 0, 4, 0, 0, 0x40] @ [9, 8, 7, 6]"

lemma small_fx3_chunk:
  "\<exists>r. fx3_chunks echo_device 0x40000000 [9, 8, 7, 6] (replicate 4096 0) [] =
    (0, 0x40000004, r, chunk_requests [(0x40000000, [9, 8, 7, 6])])"
  by (simp add: fx3_chunks.simps ezusb_write_def ezusb_read_def echo_device_def write_request_def
      read_request_def Let_def)

lemma small_fx3_run:
  "fx3_sections echo_device (\<lambda>_. True) 0 (replicate 4096 0) []
     ([1, 0, 0, 0, 0, 0, 0, 0x40, 9, 8, 7, 6] @ [0, 0, 0, 0, 4, 0, 0, 0x40] @ [9, 8, 7, 6]) =
   (Inr (0x06070809, 0x40000004, [9, 8, 7, 6]), chunk_requests [(0x40000000, [9, 8, 7, 6])])"
proof -
  obtain r where c: "fx3_chunks echo_device 0x40000000 [9, 8, 7, 6] (replicate 4096 0) [] =
    (0, 0x40000004, r, chunk_requests [(0x40000000, [9, 8, 7, 6])])"
    using small_fx3_chunk by blast
  have last: "fx3_sections echo_device (\<lambda>_. True) k r log ([0, 0, 0, 0, 4, 0, 0, 0x40] @ [9, 8, 7, 6]) =
      (Inr (k, 0x40000004, [9, 8, 7, 6]), log)" for k log
    by (subst fx3_sections.simps) (simp add: read_u32_def le32_def)
  show ?thesis
    using last
    by (subst fx3_sections.simps) (simp add: read_u32_def le32_def c Let_def)
qed

theorem fx3_upload_is_verified_witness:
  "\<exists>log. fx3_load_ram echo_device 0 (\<lambda>_. True) (replicate 4096 0) (Some small_fx3) = (0, log)
    \<and> (\<exists>secs csum entry rest. fx3_parse 0 (drop 4 small_fx3) = Some (secs, csum, entry, rest)
        \<and> chunks_read_back echo_device [] (chunks_of secs)
        \<and> log = chunk_requests (chunks_of secs) @ [write_request RW_INTERNAL entry []])"
proof -
  obtain log where log: "fx3_load_ram echo_device 0 (\<lambda>_. True) (replicate 4096 0) (Some small_fx3) = (0, log)"
    by (simp add: fx3_load_ram_def small_fx3_def fx3_header_ok_def small_fx3_run [simplified] read_u32_def le32_def
        ezusb_fx3_jump_def echo_device_def write_request_def Let_def)
  then show ?thesis using fx3_upload_is_verified [OF log] by auto
qed

end
