(* ===== verification/Xgetopt.thy ===== *)
theory Xgetopt
  imports Prelude
begin

text \<open>
  \<open>getopt\<close> of \<open>xgetopt/XGetopt.cpp\<close>: the globals \<open>optind\<close> and \<open>optarg\<close> and the static pointer
  \<open>next\<close> into the current argument. A string is the list of its characters; a null pointer is
  \<open>None\<close>, and so is the result \<open>EOF\<close>.
\<close>

section \<open>The function\<close>

type_synonym wide = "u16 list"

record getopt_state =
  optind :: nat
  optarg :: "wide option"
  next_chars :: "wide option"

definition getopt_start :: getopt_state where
  "getopt_start = \<lparr>optind = 0, optarg = None, next_chars = None\<rparr>"

definition arg_at :: "wide list \<Rightarrow> nat \<Rightarrow> wide option" where
  "arg_at argv i = (if i < length argv then Some (argv ! i) else None)"

definition looks_like_option :: "wide \<Rightarrow> bool" where
  "looks_like_option a = (case a of c # d # _ \<Rightarrow> c = 45 | _ \<Rightarrow> False)"

text \<open>What \<open>_tcschr\<close> finds: the option string from the first occurrence on.\<close>

definition find_char :: "wide \<Rightarrow> u16 \<Rightarrow> wide option" where
  "find_char s c = (case dropWhile (\<lambda>x. x \<noteq> c) s of [] \<Rightarrow> None | t \<Rightarrow> Some t)"

text \<open>The part behind \<open>c = *next++\<close>.\<close>

fun getopt_letter :: "wide list \<Rightarrow> wide \<Rightarrow> wide \<Rightarrow> nat \<Rightarrow> u16 option \<times> getopt_state" where
  "getopt_letter argv optstring [] i = (Some 63, \<lparr>optind = i, optarg = None, next_chars = Some []\<rparr>)"
| "getopt_letter argv optstring (c # cs) i =
     (case find_char optstring c of
        None \<Rightarrow> (Some 63, \<lparr>optind = i, optarg = None, next_chars = Some cs\<rparr>)
      | Some cp \<Rightarrow>
          if c = 58 then (Some 63, \<lparr>optind = i, optarg = None, next_chars = Some cs\<rparr>)
          else if take 1 (tl cp) = [58] then
            (if cs \<noteq> [] then (Some c, \<lparr>optind = i, optarg = Some cs, next_chars = None\<rparr>)
             else if i < length argv
             then (Some c, \<lparr>optind = i + 1, optarg = Some (argv ! i), next_chars = Some []\<rparr>)
             else (Some 63, \<lparr>optind = i, optarg = None, next_chars = Some []\<rparr>))
          else (Some c, \<lparr>optind = i, optarg = None, next_chars = Some cs\<rparr>))"

definition getopt :: "wide list \<Rightarrow> wide \<Rightarrow> getopt_state \<Rightarrow> u16 option \<times> getopt_state" where
  "getopt argv optstring s =
     (case (if optind s = 0 then None else next_chars s) of
        Some (c # cs) \<Rightarrow> getopt_letter argv optstring (c # cs) (optind s)
      | nxt \<Rightarrow>
          (let i = (if optind s = 0 then 1 else optind s) in
           if \<not> i < length argv \<or> \<not> looks_like_option (argv ! i)
           then (None, \<lparr>optind = i, optarg = arg_at argv i, next_chars = nxt\<rparr>)
           else if argv ! i = [45, 45]
           then (None, \<lparr>optind = i + 1, optarg = arg_at argv (i + 1), next_chars = nxt\<rparr>)
           else getopt_letter argv optstring (tl (argv ! i)) (i + 1)))"

section \<open>The loop around it\<close>

text \<open>What is left to be read; every call that returns an option takes something away.\<close>

definition unread :: "wide list \<Rightarrow> getopt_state \<Rightarrow> nat" where
  "unread argv s =
     sum_list (map (\<lambda>a. length a + 1) (drop (max 1 (optind s)) argv)) +
     (if optind s = 0 then 0 else case next_chars s of Some t \<Rightarrow> length t | None \<Rightarrow> 0)"

lemma unread_drop:
  "i < length argv \<Longrightarrow> sum_list (map (\<lambda>a. length a + 1) (drop i argv)) =
     length (argv ! i) + 1 + sum_list (map (\<lambda>a. length a + 1) (drop (Suc i) argv))"
  by (simp add: Cons_nth_drop_Suc [symmetric])

lemma getopt_letter_unread:
  assumes "getopt_letter argv optstring (c # cs) i = (r, s')" and "0 < i"
  shows "unread argv s' \<le> sum_list (map (\<lambda>a. length a + 1) (drop i argv)) + length cs"
    and "0 < optind s'"
  using assms unread_drop [of i argv]
  by (auto simp: unread_def max_def split: option.splits if_splits)

lemma getopt_unread:
  assumes "getopt argv optstring s = (Some c, s')"
  shows "unread argv s' < unread argv s"
proof (cases "optind s \<noteq> 0 \<and> (\<exists>d t. next_chars s = Some (d # t))")
  case True
  then obtain d t where t: "optind s \<noteq> 0" "next_chars s = Some (d # t)" by blast
  then have "getopt_letter argv optstring (d # t) (optind s) = (Some c, s')"
    using assms by (simp add: getopt_def)
  from getopt_letter_unread(1) [OF this] t show ?thesis
    by (simp add: unread_def max_def)
next
  case False
  let ?i = "if optind s = 0 then 1 else optind s"
  have i: "?i < length argv" and a: "looks_like_option (argv ! ?i)"
    and letter: "getopt_letter argv optstring (tl (argv ! ?i)) (?i + 1) = (Some c, s')"
    using assms False by (auto simp: getopt_def Let_def split: if_splits option.splits list.splits)
  obtain d t where t: "tl (argv ! ?i) = d # t"
    using a by (auto simp: looks_like_option_def split: list.splits)
  have "length (argv ! ?i) = length t + 2"
    using a t by (auto simp: looks_like_option_def split: list.splits)
  moreover have "max 1 (optind s) = ?i" by simp
  ultimately show ?thesis
    using getopt_letter_unread(1) [OF letter [unfolded t]] unread_drop [OF i]
    unfolding unread_def by simp
qed

text \<open>The options and their arguments, up to the first call that returns \<open>EOF\<close>.\<close>

function options ::
  "wide list \<Rightarrow> wide \<Rightarrow> getopt_state \<Rightarrow> (u16 \<times> wide option) list \<times> getopt_state" where
  "options argv optstring s =
     (case getopt argv optstring s of
        (None, s) \<Rightarrow> ([], s)
      | (Some c, s) \<Rightarrow> (let (found, s') = options argv optstring s in ((c, optarg s) # found, s')))"
  by pat_completeness auto

termination
  by (relation "measure (\<lambda>(argv, optstring, s). unread argv s)") (auto dest: getopt_unread [OF sym])

declare options.simps [simp del]

section \<open>The command line by its structure\<close>

text \<open>
  The reference: an argument that begins with a dash is a cluster of letters; a letter that
  takes an argument takes the rest of the cluster or else the next argument.
\<close>

datatype letter_kind = Unknown_Letter | Flag | Takes_Argument

definition letter_kind_of :: "wide \<Rightarrow> u16 \<Rightarrow> letter_kind" where
  "letter_kind_of optstring c =
     (case find_char optstring c of
        None \<Rightarrow> Unknown_Letter
      | Some cp \<Rightarrow> if c = 58 then Unknown_Letter else if take 1 (tl cp) = [58] then Takes_Argument else Flag)"

fun cluster :: "wide \<Rightarrow> wide \<Rightarrow> wide list \<Rightarrow> (u16 \<times> wide option) list \<times> wide list" where
  "cluster optstring [] args = ([], args)"
| "cluster optstring (c # cs) args =
     (case letter_kind_of optstring c of
        Unknown_Letter \<Rightarrow> (let (found, rest) = cluster optstring cs args in ((63, None) # found, rest))
      | Flag \<Rightarrow> (let (found, rest) = cluster optstring cs args in ((c, None) # found, rest))
      | Takes_Argument \<Rightarrow>
          if cs \<noteq> [] then ([(c, Some cs)], args)
          else (case args of [] \<Rightarrow> ([(63, None)], []) | a # args \<Rightarrow> ([(c, Some a)], args)))"

lemma cluster_shrinks: "length (snd (cluster optstring w args)) \<le> length args"
  by (induction optstring w args rule: cluster.induct)
    (auto split: letter_kind.splits list.splits prod.splits)

function command_line :: "wide \<Rightarrow> wide list \<Rightarrow> (u16 \<times> wide option) list \<times> wide list" where
  "command_line optstring [] = ([], [])"
| "command_line optstring (a # args) =
     (if \<not> looks_like_option a then ([], a # args)
      else if a = [45, 45] then ([], args)
      else (let (found, args) = cluster optstring (tl a) args;
                (found', rest) = command_line optstring args
            in (found @ found', rest)))"
  by pat_completeness auto

termination
  by (relation "measure (\<lambda>(optstring, args). length args)")
    (auto, metis cluster_shrinks le_imp_less_Suc snd_conv)

text \<open>A run of the loop that ends with these arguments unread.\<close>

definition reads ::
  "wide list \<Rightarrow> wide \<Rightarrow> getopt_state \<Rightarrow> (u16 \<times> wide option) list \<times> wide list \<Rightarrow> bool" where
  "reads argv optstring s p \<longleftrightarrow>
     (\<exists>s'. options argv optstring s = (fst p, s') \<and> drop (optind s') argv = snd p
       \<and> optarg s' = (case snd p of [] \<Rightarrow> None | a # _ \<Rightarrow> Some a))"

definition prefixed :: "(u16 \<times> wide option) list \<Rightarrow> (u16 \<times> wide option) list \<times> wide list
    \<Rightarrow> (u16 \<times> wide option) list \<times> wide list" where
  "prefixed xs p = (xs @ fst p, snd p)"

definition from_cluster :: "wide \<Rightarrow> (u16 \<times> wide option) list \<times> wide list
    \<Rightarrow> (u16 \<times> wide option) list \<times> wide list" where
  "from_cluster optstring p = prefixed (fst p) (command_line optstring (snd p))"

definition pending_letters :: "getopt_state \<Rightarrow> wide" where
  "pending_letters s = (case next_chars s of Some t \<Rightarrow> t | None \<Rightarrow> [])"

lemma reads_end:
  "getopt argv optstring s = (None, s') \<Longrightarrow> drop (optind s') argv = rest \<Longrightarrow>
    optarg s' = (case rest of [] \<Rightarrow> None | a # _ \<Rightarrow> Some a) \<Longrightarrow> reads argv optstring s ([], rest)"
  unfolding reads_def by (subst options.simps) simp

lemma reads_step:
  "getopt argv optstring s = (Some c, s1) \<Longrightarrow> reads argv optstring s1 p \<Longrightarrow>
    reads argv optstring s (prefixed [(c, optarg s1)] p)"
  unfolding reads_def prefixed_def by (subst options.simps) auto

lemma cluster_Cons:
  "from_cluster optstring (cluster optstring (c # cs) args) =
   (case letter_kind_of optstring c of
      Unknown_Letter \<Rightarrow> prefixed [(63, None)] (from_cluster optstring (cluster optstring cs args))
    | Flag \<Rightarrow> prefixed [(c, None)] (from_cluster optstring (cluster optstring cs args))
    | Takes_Argument \<Rightarrow>
        if cs \<noteq> [] then prefixed [(c, Some cs)] (from_cluster optstring (cluster optstring [] args))
        else (case args of
            [] \<Rightarrow> prefixed [(63, None)] (from_cluster optstring (cluster optstring [] []))
          | a # args \<Rightarrow> prefixed [(c, Some a)] (from_cluster optstring (cluster optstring [] args))))"
  by (auto simp: from_cluster_def prefixed_def split: letter_kind.split list.split prod.split)

lemma arg_at_drop: "arg_at argv i = (case drop i argv of [] \<Rightarrow> None | a # _ \<Rightarrow> Some a)"
  by (cases "i < length argv") (auto simp: arg_at_def Cons_nth_drop_Suc [symmetric])

lemma reads_letter:
  assumes g: "getopt argv optstring s = getopt_letter argv optstring (c # cs) i" and "0 < i"
    and IH: "\<And>s1. unread argv s1 < unread argv s \<Longrightarrow> optind s1 \<noteq> 0 \<Longrightarrow>
      reads argv optstring s1 (from_cluster optstring (cluster optstring (pending_letters s1) (drop (optind s1) argv)))"
  shows "reads argv optstring s (from_cluster optstring (cluster optstring (c # cs) (drop i argv)))"
proof -
  have "\<exists>d s1. getopt_letter argv optstring (c # cs) i = (Some d, s1)"
    by (cases "find_char optstring c") simp_all
  then obtain d s1 where l: "getopt_letter argv optstring (c # cs) i = (Some d, s1)" by blast
  have "optind s1 \<noteq> 0" using getopt_letter_unread(2) [OF l \<open>0 < i\<close>] by simp
  from reads_step [OF g [unfolded l] IH [OF getopt_unread [OF g [unfolded l]] this]]
  show ?thesis
    using l \<open>0 < i\<close>
    by (auto simp: cluster_Cons letter_kind_of_def pending_letters_def Cons_nth_drop_Suc [symmetric]
        simp del: cluster.simps(2) split: option.splits if_splits)
qed

text \<open>The call at the start of an argument: the options end, or a new cluster begins.\<close>

lemma getopt_next_argument:
  assumes "optind s \<noteq> 0" and "pending_letters s = []"
  shows "getopt argv optstring s =
    (let i = optind s
     in if \<not> i < length argv \<or> \<not> looks_like_option (argv ! i)
        then (None, \<lparr>optind = i, optarg = arg_at argv i, next_chars = next_chars s\<rparr>)
        else if argv ! i = [45, 45]
        then (None, \<lparr>optind = i + 1, optarg = arg_at argv (i + 1), next_chars = next_chars s\<rparr>)
        else getopt_letter argv optstring (tl (argv ! i)) (i + 1))"
  using assms by (auto simp: getopt_def pending_letters_def Let_def split: option.splits)

lemma options_end:
  assumes "optind s \<noteq> 0" and "pending_letters s = []" and "drop (optind s) argv = args"
    and "case args of [] \<Rightarrow> True | a # _ \<Rightarrow> \<not> looks_like_option a \<or> a = [45, 45]"
  shows "reads argv optstring s (command_line optstring args)"
proof (cases args)
  case Nil
  then have "getopt argv optstring s = (None, \<lparr>optind = optind s, optarg = None, next_chars = next_chars s\<rparr>)"
    using getopt_next_argument [OF assms(1,2)] assms(3) by (simp add: arg_at_def)
  from reads_end [OF this refl] show ?thesis using Nil assms(3) by simp
next
  case (Cons a rest)
  have i: "optind s < length argv" using Cons assms(3) by (metis drop_all list.distinct(1) not_le)
  have a: "argv ! optind s = a" and rest: "drop (Suc (optind s)) argv = rest"
    using Cons assms(3) Cons_nth_drop_Suc [OF i] by auto
  show ?thesis
  proof (cases "looks_like_option a")
    case False
    then have "getopt argv optstring s =
        (None, \<lparr>optind = optind s, optarg = Some a, next_chars = next_chars s\<rparr>)"
      using getopt_next_argument [OF assms(1,2)] a i by (simp add: arg_at_def)
    from reads_end [OF this refl] show ?thesis using False Cons assms(3) by simp
  next
    case True
    then have two: "a = [45, 45]" using Cons assms(4) by simp
    then have "getopt argv optstring s =
        (None, \<lparr>optind = Suc (optind s), optarg = arg_at argv (Suc (optind s)), next_chars = next_chars s\<rparr>)"
      using getopt_next_argument [OF assms(1,2)] a i True by (simp add: Let_def)
    from reads_end [OF this refl] show ?thesis
      using True two Cons rest by (simp add: arg_at_drop)
  qed
qed

lemma options_read:
  "optind s \<noteq> 0 \<Longrightarrow>
    reads argv optstring s (from_cluster optstring (cluster optstring (pending_letters s) (drop (optind s) argv)))"
proof (induction s rule: measure_induct_rule [of "unread argv"])
  case (less s)
  let ?i = "optind s"
  show ?case
  proof (cases "pending_letters s")
    case (Cons c cs)
    then have "getopt argv optstring s = getopt_letter argv optstring (c # cs) ?i"
      using less.prems by (auto simp: getopt_def pending_letters_def split: option.splits)
    from reads_letter [OF this _ less.IH] Cons less.prems show ?thesis by simp
  next
    case Nil
    have start: "from_cluster optstring (cluster optstring [] (drop ?i argv)) = command_line optstring (drop ?i argv)"
      by (simp add: from_cluster_def prefixed_def)
    show ?thesis
    proof (cases "case drop ?i argv of [] \<Rightarrow> True | a # _ \<Rightarrow> \<not> looks_like_option a \<or> a = [45, 45]")
      case True
      from options_end [OF less.prems Nil refl True] show ?thesis using Nil start by simp
    next
      case False
      then obtain a args where args: "drop ?i argv = a # args" and a: "looks_like_option a" "a \<noteq> [45, 45]"
        by (auto split: list.splits)
      have i: "?i < length argv" using args by (metis drop_all list.distinct(1) not_le)
      have "argv ! ?i = a" and rest: "drop (Suc ?i) argv = args"
        using args Cons_nth_drop_Suc [OF i] by auto
      moreover obtain c cs where t: "tl a = c # cs"
        using a(1) by (auto simp: looks_like_option_def split: list.splits)
      ultimately have "getopt argv optstring s = getopt_letter argv optstring (c # cs) (Suc ?i)"
        using getopt_next_argument [OF less.prems Nil] a i by (simp add: Let_def)
      from reads_letter [OF this _ less.IH] rest
      have "reads argv optstring s (from_cluster optstring (cluster optstring (tl a) args))"
        using t by simp
      moreover have "from_cluster optstring (cluster optstring (tl a) args) = command_line optstring (a # args)"
        using a by (simp add: from_cluster_def prefixed_def split: prod.split)
      ultimately show ?thesis using Nil start args by simp
    qed
  qed
qed

text \<open>
  C30. \<open>getopt\<close> reads a command line by its structure: the loop that calls it until \<open>EOF\<close> ends, and
  returns the same options with the same arguments, and leaves the same remaining
  arguments, as the recursive reference on clusters of letters. At the end \<open>optind\<close> is the
  index of the first remaining argument and \<open>optarg\<close> points to it.
\<close>

theorem getopt_reads_command_line:
  "\<exists>s. options argv optstring getopt_start = (fst (command_line optstring (tl argv)), s)
    \<and> drop (optind s) argv = snd (command_line optstring (tl argv))
    \<and> optarg s = (case snd (command_line optstring (tl argv)) of [] \<Rightarrow> None | a # _ \<Rightarrow> Some a)"
proof -
  let ?s = "\<lparr>optind = 1, optarg = None, next_chars = None\<rparr>"
  have "getopt argv optstring getopt_start = getopt argv optstring ?s"
    by (simp add: getopt_def getopt_start_def)
  then have "options argv optstring getopt_start = options argv optstring ?s"
    by (subst (1 2) options.simps) simp
  moreover have "reads argv optstring ?s (command_line optstring (tl argv))"
    using options_read [of ?s argv optstring]
    by (simp add: pending_letters_def from_cluster_def prefixed_def drop_Suc)
  ultimately show ?thesis unfolding reads_def by auto
qed

end
