(* ===== verification/Fxload.thy ===== *)
theory Fxload
  imports Xgetopt Ezusb_Fx3
begin

text \<open>
  The command line program around the loader, \<open>main_deactivated\<close> of \<open>fxload.cpp\<close>, built for
  wide characters: the arguments are wide strings, and a \<open>const char *\<close> made from one by a
  cast reads its bytes. The value of the wide literal \<open>'v - Increase verbosity'\<close> is up to the
  compiler, \<open>v_label\<close>. libusb's results and the files are parameters.
\<close>

section \<open>Strings\<close>

definition wide_of :: "string \<Rightarrow> wide" where
  "wide_of s = map (\<lambda>c. word_of_nat (of_char c)) s"

definition narrow_of :: "string \<Rightarrow> bytes" where
  "narrow_of s = map (\<lambda>c. word_of_nat (of_char c)) s"

text \<open>\<open>(const char *)optarg\<close>: the bytes of the wide characters, low byte first, up to a zero.\<close>

definition narrow_cast :: "wide \<Rightarrow> bytes" where
  "narrow_cast s = c_string (concat (map (\<lambda>c. [low8 c, high8 c]) s) @ [0, 0])"

text \<open>\<open>wcstombs_s\<close> in the C locale: a character above 255 is an error that leaves an empty string.\<close>

definition wcstombs :: "wide \<Rightarrow> bytes" where
  "wcstombs s = (if \<forall>c\<in>set s. high8 c = 0 then map low8 s else [])"

text \<open>One number of \<open>sscanf\<close>, \<open>%x\<close> or \<open>%u\<close>.\<close>

definition digit_below :: "nat \<Rightarrow> u8 \<Rightarrow> bool" where
  "digit_below base c = (case hex_digit c of Some d \<Rightarrow> d < base | None \<Rightarrow> False)"

definition scan_number :: "nat \<Rightarrow> bytes \<Rightarrow> (u32 \<times> bytes) option" where
  "scan_number base s =
     (let s = dropWhile is_space s;
          negative = (take 1 s = [45]);
          s = (if take 1 s \<in> {[45], [43]} then tl s else s);
          s = (case s of z # x # d # t \<Rightarrow>
                 if base = 16 \<and> z = 48 \<and> (x = 120 \<or> x = 88) \<and> hex_digit d \<noteq> None then d # t else s
               | _ \<Rightarrow> s);
          digits = takeWhile (digit_below base) s;
          v = word_of_nat (foldl (\<lambda>v c. base * v + the (hex_digit c)) 0 digits)
      in if digits = [] then None
         else Some (if negative then - v else v, dropWhile (digit_below base) s))"

text \<open>\<open>sscanf(s, "%x:%x", ...) == 2\<close>, with the separator.\<close>

definition scan_pair :: "nat \<Rightarrow> u8 \<Rightarrow> bytes \<Rightarrow> (u32 \<times> u32) option" where
  "scan_pair base sep s =
     (case scan_number base s of
        Some (a, c # t) \<Rightarrow> if c \<noteq> sep then None else map_option (\<lambda>(b, _). (a, b)) (scan_number base t)
      | _ \<Rightarrow> None)"

section \<open>Options\<close>

record settings =
  vid :: u32
  pid :: u32
  busnum :: u32
  devaddr :: u32
  device_id :: bytes
  device_path :: bytes
  firmware :: "bytes option"
  loader :: "bytes option"
  type_name :: "bytes option"
  verbosity :: int

definition no_settings :: settings where
  "no_settings =
     \<lparr>vid = 0, pid = 0, busnum = 0, devaddr = 0, device_id = [], device_path = [],
      firmware = None, loader = None, type_name = None, verbosity = 1\<rparr>"

definition option_letters :: wide where
  "option_letters = wide_of ''qvV?hd:p:i:I:s:S:t:''"

definition letter :: "char \<Rightarrow> u16" where
  "letter c = word_of_nat (of_char c)"

text \<open>One round of the loop: \<open>None\<close> is a return with -1.\<close>

definition handle_option :: "u16 \<Rightarrow> u16 \<Rightarrow> wide option \<Rightarrow> settings \<Rightarrow> settings option res" where
  "handle_option v_label opt arg s =
     (if opt = letter CHR ''d'' then
        (case arg of None \<Rightarrow> Inl Null_Pointer
         | Some a \<Rightarrow>
            Inr (case scan_pair 16 58 (wcstombs a) of None \<Rightarrow> None
                 | Some (v, p) \<Rightarrow> Some (s\<lparr>device_id := wcstombs a, vid := v, pid := p\<rparr>)))
      else if opt = letter CHR ''p'' then
        (case arg of None \<Rightarrow> Inl Null_Pointer
         | Some a \<Rightarrow>
            Inr (case scan_pair 10 44 (wcstombs a) of None \<Rightarrow> None
                 | Some (b, d) \<Rightarrow> Some (s\<lparr>device_path := wcstombs a, busnum := b, devaddr := d\<rparr>)))
      else if opt = letter CHR ''i'' \<or> opt = letter CHR ''I'' then
        (case arg of None \<Rightarrow> Inl Null_Pointer
         | Some a \<Rightarrow> Inr (Some (s\<lparr>firmware := Some (wcstombs a)\<rparr>)))
      else if opt = letter CHR ''s'' \<or> opt = letter CHR ''S'' then
        Inr (Some (s\<lparr>loader := map_option narrow_cast arg\<rparr>))
      else if opt = letter CHR ''V'' then Inr (Some s)
      else if opt = letter CHR ''t'' then Inr (Some (s\<lparr>type_name := map_option narrow_cast arg\<rparr>))
      else if opt = v_label then Inr (Some (s\<lparr>verbosity := verbosity s + 1\<rparr>))
      else if opt = letter CHR ''q'' then Inr (Some (s\<lparr>verbosity := verbosity s - 1\<rparr>))
      else Inr None)"

text \<open>\<open>while ((opt = getopt(argcc, argvv, optstring)) != EOF)\<close>.\<close>

function option_loop ::
  "u16 \<Rightarrow> wide list \<Rightarrow> getopt_state \<Rightarrow> settings \<Rightarrow> settings option res" where
  "option_loop v_label argv g s =
     (case getopt argv option_letters g of
        (None, _) \<Rightarrow> Inr (Some s)
      | (Some opt, g) \<Rightarrow>
          andthen (handle_option v_label opt (optarg g) s) (\<lambda>r.
            case r of None \<Rightarrow> Inr None | Some s \<Rightarrow> option_loop v_label argv g s))"
  by pat_completeness auto

termination
  by (relation "measure (\<lambda>(v_label, argv, g, s). unread argv g)") (auto dest: getopt_unread [OF sym])

declare option_loop.simps [simp del]

section \<open>The device\<close>

definition FX_TYPE_UNDEFINED :: int where "FX_TYPE_UNDEFINED = -1"

definition fx_names :: "bytes list" where
  "fx_names = map narrow_of [''an21'', ''fx'', ''fx2'', ''fx2lp'', ''fx3'']"

definition known_devices :: "(u16 \<times> u16 \<times> int) list" where
  "known_devices =
     [(0x0547, 0x2122, FX_TYPE_AN21), (0x0547, 0x2125, FX_TYPE_AN21), (0x0547, 0x2126, FX_TYPE_AN21),
      (0x0547, 0x2131, FX_TYPE_AN21), (0x0547, 0x2136, FX_TYPE_AN21), (0x0547, 0x2225, FX_TYPE_AN21),
      (0x0547, 0x2226, FX_TYPE_AN21), (0x0547, 0x2235, FX_TYPE_AN21), (0x0547, 0x2236, FX_TYPE_AN21),
      (0x04b4, 0x6473, FX_TYPE_FX1), (0x04b4, 0x8613, FX_TYPE_FX2LP), (0x04b4, 0x00f3, FX_TYPE_FX3)]"

text \<open>A device as libusb lists it: bus, address, and vendor and product if they can be read.\<close>

record listed_device =
  bus_number :: u8
  device_address :: u8
  ids :: "(u16 \<times> u16) option"

text \<open>\<open>device_id\<close> and \<open>device_path\<close> are arrays, so their addresses are never null.\<close>

definition device_id_null :: bool where "device_id_null = False"
definition device_path_null :: bool where "device_path_null = False"

text \<open>The condition under which entry \<open>(v, p, t)\<close> of the table stands for the device.\<close>

definition entry_matches :: "settings \<Rightarrow> int \<Rightarrow> listed_device \<Rightarrow> u16 \<times> u16 \<Rightarrow> u16 \<times> u16 \<times> int \<Rightarrow> bool" where
  "entry_matches s fx_type d desc e =
     (case (desc, e) of ((dv, dp), (v, p, t)) \<Rightarrow>
       dv = v \<and> dp = p \<and>
       (type_name s = None \<and> device_id_null \<and> device_path_null \<or>
        type_name s = None \<and> \<not> device_id_null \<and> vid s = ucast dv \<and> pid s = ucast dp \<or>
        type_name s = None \<and> \<not> device_path_null \<and> busnum s = ucast (bus_number d)
          \<and> devaddr s = ucast (device_address d) \<or>
        type_name s \<noteq> None \<and> device_id_null \<and> device_path_null \<and> fx_type = t))"

text \<open>The loop over the devices: the index of the one it stops at, and its type.\<close>

fun find_loop :: "settings \<Rightarrow> int \<Rightarrow> nat \<Rightarrow> listed_device list \<Rightarrow> (nat \<times> int) option" where
  "find_loop s fx_type i [] = None"
| "find_loop s fx_type i (d # ds) =
     (if type_name s \<noteq> None \<and> \<not> device_path_null then
        (if ucast (bus_number d) = busnum s \<and> ucast (device_address d) = devaddr s
         then Some (i, fx_type) else find_loop s fx_type (i + 1) ds)
      else
        (case ids d of None \<Rightarrow> find_loop s fx_type (i + 1) ds
         | Some desc \<Rightarrow>
            (case filter (entry_matches s fx_type d desc) known_devices of
               [] \<Rightarrow> find_loop s fx_type (i + 1) ds
             | (_, _, t) # _ \<Rightarrow> Some (i, t))))"

section \<open>The image\<close>

definition to_lower :: "u8 \<Rightarrow> u8" where
  "to_lower c = (if 65 \<le> c \<and> c \<le> 90 then c + 32 else c)"

text \<open>
  The type by the last four bytes of the path, \<open>path[i] + strlen(path[i]) - 4\<close>, which lie in
  front of a shorter string; \<open>None\<close> is an unknown type.
\<close>

definition image_type :: "bytes \<Rightarrow> int option res" where
  "image_type path =
     (if length path < 4 then Inl Out_Of_Bounds
      else
        (let ext = drop (length path - 4) path; low = map to_lower ext in
         Inr (if low = narrow_of ''.hex'' \<or> ext = narrow_of ''.ihx'' then Some IMG_TYPE_HEX
              else if low = narrow_of ''.iic'' then Some IMG_TYPE_IIC
              else if low = narrow_of ''.bix'' then Some IMG_TYPE_BIX
              else if low = narrow_of ''.img'' then Some IMG_TYPE_IMG
              else None)))"

section \<open>The program\<close>

text \<open>The calls to libusb and the requests of an upload.\<close>

datatype fx_call =
    Open_Listed nat | Open_By_Id | Claim | Upload "request list" | Release | Close | Exit

record loader_environment =
  init_status :: int
  device_list :: "listed_device list option"
  open_status :: "nat \<Rightarrow> int"
  id_opens :: bool
  claim_status :: int
  files :: "bytes \<Rightarrow> bytes option"
  answers :: device_answers
  long_bits :: nat
  old_lines :: "nat \<Rightarrow> bytes"
  alloc_ok :: "u32 \<Rightarrow> bool"
  read_array :: bytes

definition upload ::
  "loader_environment \<Rightarrow> int \<Rightarrow> request list \<Rightarrow> bytes \<Rightarrow> int \<Rightarrow> int \<Rightarrow> int \<Rightarrow> (int \<times> request list) res" where
  "upload env verbose before path fx_type img_type stage =
     ezusb_load_ram (\<lambda>log. answers env (before @ log)) verbose (long_bits env) (old_lines env)
       (alloc_ok env) (read_array env) (files env path) fx_type img_type stage"

text \<open>From the claimed interface on.\<close>

definition upload_images ::
  "loader_environment \<Rightarrow> settings \<Rightarrow> bytes \<Rightarrow> int \<Rightarrow> (int \<times> fx_call list) res" where
  "upload_images env s path fx_type =
     andthen (image_type path) (\<lambda>firmware_type.
       case firmware_type of None \<Rightarrow> Inr (-1, [Exit])
       | Some ft \<Rightarrow>
         (case loader s of
            None \<Rightarrow>
              andthen (upload env (verbosity s) [] path fx_type ft 0) (\<lambda>(r, log).
                Inr (r, [Upload log, Release, Close, Exit]))
          | Some lpath \<Rightarrow>
              andthen (image_type lpath) (\<lambda>loader_type.
                case loader_type of None \<Rightarrow> Inr (-1, [Exit])
                | Some lt \<Rightarrow>
                    andthen (upload env (verbosity s) [] lpath fx_type lt 0) (\<lambda>(r, log).
                      if r \<noteq> 0 then Inr (r, [Upload log, Release, Close, Exit])
                      else
                        andthen (upload env (verbosity s) log path fx_type ft 1) (\<lambda>(r, log').
                          Inr (r, [Upload log, Upload log', Release, Close, Exit]))))))"

definition claim_and_upload ::
  "loader_environment \<Rightarrow> settings \<Rightarrow> bytes \<Rightarrow> int \<Rightarrow> fx_call \<Rightarrow> (int \<times> fx_call list) res" where
  "claim_and_upload env s path fx_type opened =
     (if claim_status env \<noteq> 0 then Inr (-1, [opened, Claim, Close, Exit])
      else andthen (upload_images env s path fx_type) (\<lambda>(r, calls). Inr (r, opened # Claim # calls)))"

text \<open>With the options read; the index of a type name is its number.\<close>

definition run_loader :: "loader_environment \<Rightarrow> settings \<Rightarrow> (int \<times> fx_call list) res" where
  "run_loader env s =
     (case firmware s of None \<Rightarrow> Inr (-1, [])
      | Some path \<Rightarrow>
        if device_id s \<noteq> [] \<and> device_path s \<noteq> [] then Inr (-1, [])
        else
          (let fx_type = (case type_name s of None \<Rightarrow> FX_TYPE_UNDEFINED
                 | Some n \<Rightarrow> int (length (takeWhile (\<lambda>m. m \<noteq> n) fx_names)))
           in if type_name s \<noteq> None \<and> 5 \<le> fx_type then Inr (-1, [])
              else if init_status env < 0 then Inr (-1, [])
              else if type_name s = None \<or> device_id_null \<or> \<not> device_path_null then
                (case device_list env of None \<Rightarrow> Inr (-1, [Exit])
                 | Some ds \<Rightarrow>
                   (case find_loop s fx_type 0 ds of None \<Rightarrow> Inr (-1, [Exit])
                    | Some (i, fx_type) \<Rightarrow>
                        if open_status env i < 0 then Inr (-1, [Open_Listed i, Exit])
                        else claim_and_upload env s path fx_type (Open_Listed i)))
              else if \<not> id_opens env then Inr (-1, [Open_By_Id, Exit])
              else claim_and_upload env s path fx_type Open_By_Id))"

text \<open>The arguments are copied into arrays of 256 characters.\<close>

definition fxload_main :: "u16 \<Rightarrow> loader_environment \<Rightarrow> wide list \<Rightarrow> (int \<times> fx_call list) res" where
  "fxload_main v_label env argv =
     (if \<exists>a\<in>set argv. 256 \<le> length a then Inl Out_Of_Bounds
      else andthen (option_loop v_label argv getopt_start no_settings) (\<lambda>r.
        case r of None \<Rightarrow> Inr (-1, []) | Some s \<Rightarrow> run_loader env s))"

end
