(* ===== verification/Fxload_Props.thy ===== *)
theory Fxload_Props
  imports Fxload Ezusb_Loader_Props
begin

text \<open>
  What the program around the loader can do: with plain arguments it only ever uploads in one
  stage, to a device of its table.
\<close>

section \<open>Arguments cast to narrow strings\<close>

definition plain :: "wide \<Rightarrow> bool" where
  "plain a \<longleftrightarrow> (\<forall>c\<in>set a. high8 c = 0)"

lemma narrow_cast_plain: "plain a \<Longrightarrow> length (narrow_cast a) \<le> 1"
  by (cases a) (auto simp: plain_def narrow_cast_def c_string_def)

lemma plain_drop: "plain a \<Longrightarrow> plain (drop n a)" "plain (c # a) \<Longrightarrow> plain a" "plain a \<Longrightarrow> plain (tl a)" "plain []"
  by (auto simp: plain_def dest: in_set_dropD) (cases a; simp)

definition plain_state :: "getopt_state \<Rightarrow> bool" where
  "plain_state g \<longleftrightarrow> (\<forall>t. next_chars g = Some t \<or> optarg g = Some t \<longrightarrow> plain t)"

lemma getopt_letter_plain:
  assumes "getopt_letter argv optstring w i = (r, g')" and "plain w" and "\<forall>a\<in>set argv. plain a"
  shows "plain_state g'"
  using assms
  by (cases w) (auto simp: plain_state_def plain_drop split: option.splits if_splits)

lemma getopt_plain:
  assumes "getopt argv optstring g = (Some c, g')" and "plain_state g" and "\<forall>a\<in>set argv. plain a"
  shows "plain_state g'"
proof -
  have "\<exists>w i. getopt_letter argv optstring w i = (Some c, g') \<and> plain w"
  proof (cases "optind g \<noteq> 0 \<and> (\<exists>d t. next_chars g = Some (d # t))")
    case True
    then obtain d t where t: "optind g \<noteq> 0" "next_chars g = Some (d # t)" by blast
    then have "getopt_letter argv optstring (d # t) (optind g) = (Some c, g')"
      using assms(1) by (simp add: getopt_def)
    moreover have "plain (d # t)" using assms(2) t by (simp add: plain_state_def)
    ultimately show ?thesis by blast
  next
    case False
    let ?i = "if optind g = 0 then 1 else optind g"
    have i: "?i < length argv" and letter: "getopt_letter argv optstring (tl (argv ! ?i)) (?i + 1) = (Some c, g')"
      using assms(1) False by (auto simp: getopt_def Let_def split: if_splits option.splits list.splits)
    have "plain (tl (argv ! ?i))" using assms(3) nth_mem [OF i] plain_drop(3) by blast
    then show ?thesis using letter by blast
  qed
  then show ?thesis using getopt_letter_plain assms(3) by blast
qed

text \<open>The type and the loader given on a plain command line have at most one character.\<close>

definition short_names :: "settings \<Rightarrow> bool" where
  "short_names s \<longleftrightarrow> (\<forall>n. type_name s = Some n \<or> loader s = Some n \<longrightarrow> length n \<le> 1)"

lemma handle_option_short:
  assumes "handle_option v_label opt arg s = Inr (Some s')" and "short_names s"
    and "\<forall>a. arg = Some a \<longrightarrow> plain a"
  shows "short_names s'"
  using assms narrow_cast_plain
  by (auto simp: handle_option_def short_names_def split: if_splits option.splits)

lemma option_loop_short:
  "option_loop v_label argv g s = Inr (Some s') \<Longrightarrow> plain_state g \<Longrightarrow> short_names s \<Longrightarrow>
    \<forall>a\<in>set argv. plain a \<Longrightarrow> short_names s'"
proof (induction v_label argv g s rule: option_loop.induct)
  case (1 v_label argv g s)
  show ?case
  proof (cases "getopt argv option_letters g")
    case (Pair r g')
    show ?thesis
    proof (cases r)
      case None
      then show ?thesis using 1 Pair by (simp add: option_loop.simps)
    next
      case (Some opt)
      obtain s1 where h: "handle_option v_label opt (optarg g') s = Inr (Some s1)"
        and rest: "option_loop v_label argv g' s1 = Inr (Some s')"
        using 1(2) Pair Some
        by (subst (asm) option_loop.simps) (auto simp: andthen_eq_Inr split: option.splits)
      have g': "plain_state g'" using getopt_plain Pair Some 1(3,5) by metis
      have "short_names s1"
        using handle_option_short [OF h 1(4)] g' by (simp add: plain_state_def)
      then show ?thesis
        using 1(1) [OF Pair [symmetric] Some h _ rest] g' 1(5) rest by blast
    qed
  qed
qed

section \<open>The device\<close>

text \<open>The device is in the table under type \<open>t\<close>, and its identifiers or its bus and address are the given ones.\<close>

definition chosen_device :: "settings \<Rightarrow> listed_device \<Rightarrow> int \<Rightarrow> bool" where
  "chosen_device s d t \<longleftrightarrow>
     (\<exists>v p. ids d = Some (v, p) \<and> (v, p, t) \<in> set known_devices \<and>
       (vid s = ucast v \<and> pid s = ucast p \<or>
        busnum s = ucast (bus_number d) \<and> devaddr s = ucast (device_address d)))"

lemma entry_matches_chosen:
  assumes "ids d = Some desc" and "e \<in> set known_devices" and "entry_matches s fx_type d desc e"
    and "type_name s = None"
  shows "chosen_device s d (snd (snd e))"
proof -
  obtain v p t where e: "e = (v, p, t)" using prod_cases3 by blast
  show ?thesis
    using assms unfolding chosen_device_def e
    by (auto simp: entry_matches_def device_id_null_def device_path_null_def split: prod.splits)
qed

lemma find_loop_chosen:
  "find_loop s fx_type i ds = Some (j, t) \<Longrightarrow> type_name s = None \<Longrightarrow>
    \<exists>k. j = i + k \<and> k < length ds \<and> chosen_device s (ds ! k) t"
proof (induction ds arbitrary: i)
  case (Cons d ds)
  have later: ?case if "find_loop s fx_type (i + 1) ds = Some (j, t)"
  proof -
    from Cons.IH [OF that Cons.prems(2)]
    obtain k where "j = i + 1 + k" "k < length ds" "chosen_device s (ds ! k) t" by blast
    then show ?thesis by (intro exI [of _ "Suc k"]) simp
  qed
  show ?case
  proof (cases "ids d")
    case None
    then show ?thesis using Cons.prems later by simp
  next
    case (Some desc)
    let ?m = "filter (entry_matches s fx_type d desc) known_devices"
    show ?thesis
    proof (cases ?m)
      case Nil
      then show ?thesis using Cons.prems Some later by simp
    next
      case m: (Cons e es)
      then have "e \<in> set ?m" by simp
      then have "chosen_device s d (snd (snd e))"
        using entry_matches_chosen [OF Some, of e s fx_type] Cons.prems(2) by auto
      moreover have "j = i \<and> t = snd (snd e)"
        using Cons.prems Some m by (cases e) auto
      ultimately show ?thesis by (intro exI [of _ 0]) simp
    qed
  qed
qed simp

section \<open>The program\<close>

lemma short_is_no_type: "length n \<le> 1 \<Longrightarrow> takeWhile (\<lambda>m. m \<noteq> n) fx_names = fx_names"
  by (auto simp: fx_names_def narrow_of_def takeWhile_eq_all_conv)

lemma run_loader_short:
  assumes "run_loader env s = Inr (0, calls)" and "short_names s"
  shows "type_name s = None" and "loader s = None"
proof -
  have five: "length fx_names = 5" by (simp add: fx_names_def)
  show t: "type_name s = None"
  proof (rule ccontr)
    assume "type_name s \<noteq> None"
    then obtain n where n: "type_name s = Some n" "length n \<le> 1"
      using assms(2) by (auto simp: short_names_def)
    show False
      using assms(1) n five
      by (auto simp: run_loader_def short_is_no_type [OF n(2)] split: option.splits if_splits)
  qed
  have "loader s = None" if "upload_images env s path fx_type = Inr (0, calls')" for path fx_type calls'
  proof (rule ccontr)
    assume "loader s \<noteq> None"
    then obtain l where l: "loader s = Some l" "length l \<le> 1"
      using assms(2) by (auto simp: short_names_def)
    then have "image_type l = Inl Out_Of_Bounds" by (simp add: image_type_def)
    then show False
      using that l by (auto simp: upload_images_def andthen_eq_Inr split: option.splits)
  qed
  then show "loader s = None"
    using assms(1) t
    by (auto simp: run_loader_def claim_and_upload_def andthen_eq_Inr device_path_null_def
        split: option.splits if_splits)
qed

lemma upload_images_one_stage:
  assumes "upload_images env s path t = Inr (0, calls)" and "loader s = None"
  shows "\<exists>ft log. image_type path = Inr (Some ft) \<and> upload env (verbosity s) [] path t ft 0 = Inr (0, log)
    \<and> calls = [Upload log, Release, Close, Exit]"
  using assms by (auto simp: upload_images_def andthen_eq_Inr split: option.splits)

lemma run_loader_success:
  assumes "run_loader env s = Inr (0, calls)" and "short_names s"
  shows "\<exists>path ds i t ft log. firmware s = Some path \<and> device_list env = Some ds \<and> i < length ds
    \<and> chosen_device s (ds ! i) t \<and> image_type path = Inr (Some ft)
    \<and> upload env (verbosity s) [] path t ft 0 = Inr (0, log)
    \<and> calls = [Open_Listed i, Claim, Upload log, Release, Close, Exit]"
proof -
  note none = run_loader_short [OF assms]
  obtain path ds i t where p: "firmware s = Some path" "device_list env = Some ds"
    and f: "find_loop s FX_TYPE_UNDEFINED 0 ds = Some (i, t)"
    and c: "claim_and_upload env s path t (Open_Listed i) = Inr (0, calls)"
    using assms(1) none
    by (auto simp: run_loader_def device_path_null_def split: option.splits if_splits)
  obtain calls' where u: "upload_images env s path t = Inr (0, calls')" "calls = Open_Listed i # Claim # calls'"
    using c by (auto simp: claim_and_upload_def andthen_eq_Inr split: if_splits)
  show ?thesis
    using find_loop_chosen [OF f none(1)] upload_images_one_stage [OF u(1) none(2)] p u(2) by auto
qed

text \<open>
  C31. With plain arguments the program succeeds only in one way: it uploads the firmware in one
  stage, with the requests of \<open>ezusb_load_ram\<close>, to a listed device that is in the table of known
  devices and has the given identifiers or the given bus and address, between opening and
  claiming it and releasing, closing and leaving libusb. The options for the type and for a
  second stage never lead to a success: their arguments are wide strings cast to narrow ones
  and have at most one character left.
\<close>

theorem fxload_uploads_in_one_stage:
  assumes "fxload_main v_label env argv = Inr (0, calls)" and "\<forall>a\<in>set argv. plain a"
  shows "\<exists>s path ds i t ft log. option_loop v_label argv getopt_start no_settings = Inr (Some s)
    \<and> firmware s = Some path \<and> loader s = None \<and> type_name s = None
    \<and> device_list env = Some ds \<and> i < length ds
    \<and> chosen_device s (ds ! i) t \<and> image_type path = Inr (Some ft)
    \<and> upload env (verbosity s) [] path t ft 0 = Inr (0, log)
    \<and> calls = [Open_Listed i, Claim, Upload log, Release, Close, Exit]"
proof -
  obtain s where s: "option_loop v_label argv getopt_start no_settings = Inr (Some s)"
    and r: "run_loader env s = Inr (0, calls)"
    using assms(1) by (auto simp: fxload_main_def andthen_eq_Inr split: if_splits option.splits)
  have "short_names s"
    using option_loop_short [OF s _ _ assms(2)]
    by (simp add: plain_state_def getopt_start_def short_names_def no_settings_def)
  then show ?thesis
    using run_loader_success [OF r] run_loader_short [OF r] s by blast
qed

text \<open>A concrete command line: \<open>fxload -d 04b4:8613 -i fw.bix\<close>.\<close>

definition fxload_line :: "wide list" where
  "fxload_line = map wide_of [''fxload'', ''-d'', ''04b4:8613'', ''-i'', ''fw.bix'']"

definition one_device :: loader_environment where
  "one_device =
     \<lparr>init_status = 0,
      device_list = Some [\<lparr>bus_number = 1, device_address = 2, ids = Some (0x04b4, 0x8613)\<rparr>],
      open_status = (\<lambda>_. 0), id_opens = True, claim_status = 0, files = (\<lambda>_. Some [7, 8]),
      answers = willing_device, long_bits = 32, old_lines = (\<lambda>_. []), alloc_ok = (\<lambda>_. True),
      read_array = []\<rparr>"

lemma fxload_line_words:
  "fxload_line = [[102, 120, 108, 111, 97, 100], [45, 100], [48, 52, 98, 52, 58, 56, 54, 49, 51],
     [45, 105], [102, 119, 46, 98, 105, 120]]"
  by (simp add: fxload_line_def wide_of_def)

lemma option_letters_words:
  "option_letters = [113, 118, 86, 63, 104, 100, 58, 112, 58, 105, 58, 73, 58, 115, 58, 83, 58, 116, 58]"
  by (simp add: option_letters_def wide_of_def)

lemma fxload_line_getopt:
  "getopt fxload_line option_letters getopt_start =
     (Some 100, \<lparr>optind = 3, optarg = Some [48, 52, 98, 52, 58, 56, 54, 49, 51], next_chars = Some []\<rparr>)"
  "getopt fxload_line option_letters \<lparr>optind = 3, optarg = a, next_chars = Some []\<rparr> =
     (Some 105, \<lparr>optind = 5, optarg = Some [102, 119, 46, 98, 105, 120], next_chars = Some []\<rparr>)"
  "getopt fxload_line option_letters \<lparr>optind = 5, optarg = a, next_chars = Some []\<rparr> =
     (None, \<lparr>optind = 5, optarg = None, next_chars = Some []\<rparr>)"
  by (simp_all add: getopt_def getopt_start_def fxload_line_words option_letters_words
      looks_like_option_def find_char_def arg_at_def)

lemma fxload_line_ids:
  "scan_pair 16 58 (wcstombs [48, 52, 98, 52, 58, 56, 54, 49, 51]) = Some (0x04b4, 0x8613)"
  by (simp add: scan_pair_def scan_number_def wcstombs_def low8_def high8_def is_space_def hex_digit_def
      digit_below_def Let_def)

lemma fxload_line_options:
  "option_loop 118 fxload_line getopt_start no_settings =
     Inr (Some (no_settings\<lparr>device_id := wcstombs [48, 52, 98, 52, 58, 56, 54, 49, 51], vid := 0x04b4, pid := 0x8613,
       firmware := Some (wcstombs [102, 119, 46, 98, 105, 120])\<rparr>))"
  by (simp add: option_loop.simps fxload_line_getopt handle_option_def letter_def fxload_line_ids no_settings_def)

theorem fxload_uploads_in_one_stage_witness:
  "\<exists>calls log. fxload_main 118 one_device fxload_line = Inr (0, calls)
    \<and> calls = [Open_Listed 0, Claim, Upload log, Release, Close, Exit]
    \<and> log = [stop_cpu FX_TYPE_FX2LP, segment_request False (0, [7, 8]), start_cpu FX_TYPE_FX2LP]"
proof -
  have bix: "image_type (wcstombs [102, 119, 46, 98, 105, 120]) = Inr (Some IMG_TYPE_BIX)"
    by (simp add: image_type_def wcstombs_def low8_def high8_def narrow_of_def to_lower_def Let_def)
  have short: "\<not> (\<exists>a\<in>set fxload_line. 256 \<le> length a)" and plain: "\<forall>a\<in>set fxload_line. plain a"
    by (simp_all add: fxload_line_words plain_def high8_def)
  have up: "upload one_device 1 [] p FX_TYPE_FX2LP IMG_TYPE_BIX 0 =
      Inr (0, [stop_cpu FX_TYPE_FX2LP, segment_request False (0, [7, 8]), start_cpu FX_TYPE_FX2LP])" for p
    by (simp add: upload_def ezusb_load_ram_def one_device_def upload_evaluation bin_two_bytes
        fx2lp_is_external_def stop_cpu_def start_cpu_def segment_request_def)
  let ?s = "no_settings\<lparr>device_id := wcstombs [48, 52, 98, 52, 58, 56, 54, 49, 51], vid := 0x04b4, pid := 0x8613,
       firmware := Some (wcstombs [102, 119, 46, 98, 105, 120])\<rparr>"
  have find: "find_loop ?s FX_TYPE_UNDEFINED 0 [\<lparr>bus_number = 1, device_address = 2, ids = Some (0x04b4, 0x8613)\<rparr>]
      = Some (0, FX_TYPE_FX2LP)"
    by (simp add: no_settings_def device_path_null_def device_id_null_def entry_matches_def known_devices_def)
  have run: "run_loader one_device ?s = Inr (0, [Open_Listed 0, Claim,
      Upload [stop_cpu FX_TYPE_FX2LP, segment_request False (0, [7, 8]), start_cpu FX_TYPE_FX2LP], Release, Close, Exit])"
    using find up bix
    by (simp add: run_loader_def claim_and_upload_def upload_images_def one_device_def no_settings_def)
  then have main: "fxload_main 118 one_device fxload_line = Inr (0, [Open_Listed 0, Claim,
      Upload [stop_cpu FX_TYPE_FX2LP, segment_request False (0, [7, 8]), start_cpu FX_TYPE_FX2LP], Release, Close, Exit])"
    using short fxload_line_options by (simp add: fxload_main_def)
  from fxload_uploads_in_one_stage [OF main plain] show ?thesis
    using main by blast
qed

end
