(* ===== verification/Usb_Names.thy ===== *)
theory Usb_Names
  imports Ezusb_Hex
begin

text \<open>
  The database of USB vendors and products, \<open>usb/usb-human-name.cpp\<close> and its header: the
  parser of the file \<open>usb.ids\<close> and the lookups. A string is a list of bytes; an exception of
  the string library is the result \<open>Inl Out_Of_Range\<close>.
\<close>

section \<open>The string library\<close>

text \<open>\<open>ltrim\<close>, \<open>rtrim\<close> and \<open>trim\<close>.\<close>

definition ltrim :: "bytes \<Rightarrow> bytes" where
  "ltrim s = dropWhile is_space s"

definition rtrim :: "bytes \<Rightarrow> bytes" where
  "rtrim s = rev (dropWhile is_space (rev s))"

definition trim :: "bytes \<Rightarrow> bytes" where
  "trim s = rtrim (ltrim s)"

text \<open>
  \<open>start = s.find(" ", 0)\<close>, then \<open>s.substr(0, start)\<close> and \<open>s.substr(start)\<close>. Without a space
  \<open>start\<close> is \<open>npos\<close> and the second call throws.
\<close>

definition split_at_space :: "bytes \<Rightarrow> (bytes \<times> bytes) res" where
  "split_at_space s =
     (if 32 \<in> set s then Inr (takeWhile (\<lambda>c. c \<noteq> 32) s, dropWhile (\<lambda>c. c \<noteq> 32) s)
      else Inl Out_Of_Range)"

text \<open>\<open>line.rfind(prefix, 0) == 0\<close>.\<close>

definition starts_with :: "bytes \<Rightarrow> bytes \<Rightarrow> bool" where
  "starts_with prefix s \<longleftrightarrow> take (length prefix) s = prefix"

text \<open>The lines that \<open>getline\<close> returns one after the other.\<close>

function lines_of :: "bytes \<Rightarrow> bytes list" where
  "lines_of f =
     (if f = [] then []
      else takeWhile (\<lambda>c. c \<noteq> 10) f # lines_of (tl (dropWhile (\<lambda>c. c \<noteq> 10) f)))"
  by pat_completeness auto

termination
proof (relation "measure length")
  fix f :: bytes
  assume "f \<noteq> []"
  then have "length (dropWhile (\<lambda>c. c \<noteq> 10) f) - 1 < length f"
    using length_dropWhile_le [of "\<lambda>c. c \<noteq> 10" f] unfolding length_greater_0_conv [symmetric]
    by linarith
  then show "(tl (dropWhile (\<lambda>c. c \<noteq> 10) f), f) \<in> measure length"
    by (simp only: in_measure length_tl)
qed simp

declare lines_of.simps [simp del]

section \<open>The parser\<close>

record usb_device_desc =
  vendor_id :: u16
  vendor_name :: bytes
  product_id :: u16
  product_name :: bytes

text \<open>\<open># List of known device classes, subclasses and protocols\<close>\<close>

definition class_list_line :: bytes where
  "class_list_line =
     map (\<lambda>c. word_of_nat (of_char c)) ''# List of known device classes, subclasses and protocols''"

text \<open>The number and the name on a line; \<open>w\<close> is the width of an \<open>unsigned long\<close>.\<close>

definition id_and_name :: "nat \<Rightarrow> bytes \<Rightarrow> (u16 \<times> bytes) res" where
  "id_and_name w line =
     andthen (split_at_space line) (\<lambda>(number, name).
       Inr (word_of_nat (strtoul16 w number), trim name))"

text \<open>
  The loop of \<open>parseFile\<close> with the last vendor, whose number is uninitialised before the
  first one; its name is then empty.
\<close>

fun parse_names :: "nat \<Rightarrow> u16 \<Rightarrow> bytes \<Rightarrow> bytes list \<Rightarrow> usb_device_desc list res" where
  "parse_names w last_id last_name [] = Inr []"
| "parse_names w last_id last_name (line # lines) =
     (if starts_with class_list_line line then Inr []
      else if starts_with [35] line \<or> line = [] then parse_names w last_id last_name lines
      else if hd line \<noteq> 9 then
        andthen (id_and_name w line) (\<lambda>(vid, vname). parse_names w vid vname lines)
      else
        andthen (id_and_name w (trim line)) (\<lambda>(pid, pname).
          andthen (parse_names w last_id last_name lines) (\<lambda>ds.
            Inr (\<lparr>vendor_id = last_id, vendor_name = last_name, product_id = pid,
                  product_name = pname\<rparr> # ds))))"

text \<open>The constructor: a file that cannot be opened gives an empty database.\<close>

definition parse_file :: "nat \<Rightarrow> u16 \<Rightarrow> bytes option \<Rightarrow> usb_device_desc list res" where
  "parse_file w uninitialised f =
     (case f of None \<Rightarrow> Inr [] | Some f \<Rightarrow> parse_names w uninitialised [] (lines_of f))"

section \<open>The lookups\<close>

fun find_by_vendor_id :: "usb_device_desc list \<Rightarrow> u16 \<Rightarrow> usb_device_desc option" where
  "find_by_vendor_id [] v = None"
| "find_by_vendor_id (d # ds) v = (if vendor_id d = v then Some d else find_by_vendor_id ds v)"

fun find_by_product_id :: "usb_device_desc list \<Rightarrow> u16 \<Rightarrow> usb_device_desc option" where
  "find_by_product_id [] p = None"
| "find_by_product_id (d # ds) p = (if product_id d = p then Some d else find_by_product_id ds p)"

fun find_by_vendor_and_product ::
  "usb_device_desc list \<Rightarrow> u16 \<Rightarrow> u16 \<Rightarrow> usb_device_desc option" where
  "find_by_vendor_and_product [] v p = None"
| "find_by_vendor_and_product (d # ds) v p =
     (if vendor_id d = v \<and> product_id d = p then Some d else find_by_vendor_and_product ds v p)"

text \<open>The lines printed by the three functions for output: the names of the entries, in order.\<close>

definition output_all :: "usb_device_desc list \<Rightarrow> (bytes \<times> bytes) list" where
  "output_all ds = map (\<lambda>d. (vendor_name d, product_name d)) ds"

definition output_by_vendor :: "usb_device_desc list \<Rightarrow> u16 \<Rightarrow> (bytes \<times> bytes) list" where
  "output_by_vendor ds v = output_all (filter (\<lambda>d. vendor_id d = v) ds)"

fun output_by_vendor_and_product ::
  "usb_device_desc list \<Rightarrow> u16 \<Rightarrow> u16 \<Rightarrow> (bytes \<times> bytes) list" where
  "output_by_vendor_and_product [] v p = []"
| "output_by_vendor_and_product (d # ds) v p =
     (if vendor_id d = v
      then (vendor_name d, product_name d)
        # (if product_id d = p then [(vendor_name d, product_name d)] else [])
      else []) @ output_by_vendor_and_product ds v p"

section \<open>What a file describes\<close>

type_synonym vendor = "u16 \<times> bytes \<times> (u16 \<times> bytes) list"

text \<open>The numbers are written in lower case.\<close>

definition lower_char :: "nat \<Rightarrow> u8" where
  "lower_char d = word_of_nat (if d < 10 then 48 + d else 87 + d)"

definition id_text :: "u16 \<Rightarrow> bytes" where
  "id_text i = map lower_char (digits4 (unat i))"

definition product_line :: "u16 \<times> bytes \<Rightarrow> bytes" where
  "product_line p = [9] @ id_text (fst p) @ [32, 32] @ snd p"

definition vendor_lines :: "vendor \<Rightarrow> bytes list" where
  "vendor_lines v =
     (let (vid, name, products) = v in (id_text vid @ [32, 32] @ name) # map product_line products)"

text \<open>
  A name as the file has it: one line, not empty, no white space at its ends. The lines above
  have two spaces before it; a few product lines of the \<open>usb.ids\<close> in the repository are not
  of this form.
\<close>

definition clean_name :: "bytes \<Rightarrow> bool" where
  "clean_name s \<longleftrightarrow> s \<noteq> [] \<and> 10 \<notin> set s \<and> \<not> is_space (hd s) \<and> \<not> is_space (last s)"

definition clean_vendor :: "vendor \<Rightarrow> bool" where
  "clean_vendor v \<longleftrightarrow> clean_name (fst (snd v)) \<and> (\<forall>p\<in>set (snd (snd v)). clean_name (snd p))"

definition vendor_entries :: "vendor \<Rightarrow> usb_device_desc list" where
  "vendor_entries v =
     (let (vid, name, products) = v
      in map (\<lambda>(pid, pname). \<lparr>vendor_id = vid, vendor_name = name, product_id = pid,
              product_name = pname\<rparr>) products)"

section \<open>The parts of a line\<close>

lemma rtrim_clean: "s \<noteq> [] \<Longrightarrow> \<not> is_space (last s) \<Longrightarrow> rtrim s = s"
  by (cases s rule: rev_cases) (simp_all add: rtrim_def)

lemma trim_clean:
  assumes "clean_name s" "\<forall>c\<in>set sp. is_space c"
  shows "trim (sp @ s) = s"
proof -
  have "dropWhile is_space (sp @ s) = dropWhile is_space s"
    by (rule dropWhile_append2) (use assms(2) in blast)
  also have "\<dots> = s"
    using assms(1) by (cases s) (auto simp: clean_name_def)
  finally show ?thesis
    using assms(1) by (simp add: trim_def ltrim_def rtrim_clean clean_name_def)
qed

lemma split_at_space_first: "32 \<notin> set a \<Longrightarrow> split_at_space (a @ 32 # b) = Inr (a, 32 # b)"
  by (induction a) (auto simp: split_at_space_def)

lemma space_32 [simp]: "is_space 32"
  by (simp add: is_space_def)

lemma digit_char_lower: "digit_char lower_char"
  unfolding digit_char_def
  by (intro allI impI, drule less_16_cases, elim insertE emptyE;
      simp add: lower_char_def hex_digit_def is_space_def)

lemma id_text_number: "16 \<le> w \<Longrightarrow> strtoul16 w (id_text i) = unat i"
  using unat_u16_less [of i] by (simp add: id_text_def strtoul16_digits4 digit_char_lower)

lemma lower_char_plain: "d < 16 \<Longrightarrow> lower_char d \<noteq> 35"
  by (drule less_16_cases) (elim insertE emptyE; simp add: lower_char_def)

lemma id_text_char:
  assumes "c \<in> set (id_text i)"
  shows "\<not> is_space c \<and> c \<noteq> 35"
proof -
  obtain d where "d < 16" "c = lower_char d"
    using assms digits4_less by (auto simp: id_text_def)
  then show ?thesis
    using digit_char_lower lower_char_plain by (simp add: digit_char_def)
qed

lemma id_text_plain: "32 \<notin> set (id_text i)" "10 \<notin> set (id_text i)" "9 \<notin> set (id_text i)"
  "35 \<notin> set (id_text i)" "id_text i \<noteq> []"
proof -
  show "32 \<notin> set (id_text i)" "10 \<notin> set (id_text i)" "9 \<notin> set (id_text i)" "35 \<notin> set (id_text i)"
    using id_text_char [of 32 i] id_text_char [of 10 i] id_text_char [of 9 i] id_text_char [of 35 i]
    by (auto simp: is_space_def)
  show "id_text i \<noteq> []"
    by (simp add: id_text_def digits4_Nil)
qed

lemma id_and_name_line:
  assumes "16 \<le> w" "clean_name s"
  shows "id_and_name w (id_text i @ [32, 32] @ s) = Inr (i, s)"
proof -
  have "split_at_space (id_text i @ 32 # 32 # s) = Inr (id_text i, 32 # 32 # s)"
    by (rule split_at_space_first [OF id_text_plain(1)])
  moreover have "trim (32 # 32 # s) = s"
    using trim_clean [OF assms(2), of "[32, 32]"] by simp
  ultimately show ?thesis
    by (simp add: id_and_name_def id_text_number assms(1))
qed

text \<open>The lines the loop looks at: up to the list of classes, without comments and empty lines.\<close>

definition database_lines :: "bytes list \<Rightarrow> bytes list" where
  "database_lines ls =
     filter (\<lambda>l. l \<noteq> [] \<and> \<not> starts_with [35] l)
       (takeWhile (\<lambda>l. \<not> starts_with class_list_line l) ls)"

text \<open>The two-level dictionary a file describes.\<close>

definition names_in :: "vendor list \<Rightarrow> u16 \<Rightarrow> u16 \<Rightarrow> usb_device_desc option" where
  "names_in db v p =
     (case map_of db v of
        None \<Rightarrow> None
      | Some (vname, products) \<Rightarrow>
          map_option (\<lambda>pname. \<lparr>vendor_id = v, vendor_name = vname, product_id = p,
                                product_name = pname\<rparr>) (map_of products p))"

section \<open>The parser reads back the dictionary\<close>

lemma starts_with_class: "starts_with class_list_line s \<Longrightarrow> starts_with [35] s"
  by (cases s) (simp_all add: starts_with_def class_list_line_def)

lemma starts_with_hd: "s \<noteq> [] \<Longrightarrow> starts_with [c] s \<longleftrightarrow> hd s = c"
  by (cases s) (simp_all add: starts_with_def)

lemma database_lines_Cons:
  "database_lines (l # ls) =
     (if starts_with class_list_line l then []
      else if l \<noteq> [] \<and> \<not> starts_with [35] l then l # database_lines ls else database_lines ls)"
  by (simp add: database_lines_def)

lemma parse_names_database_lines:
  "parse_names w i n ls = parse_names w i n (database_lines ls)"
proof (induction ls arbitrary: i n)
  case (Cons l ls)
  have step: "parse_names w i n ls = parse_names w i n (database_lines ls)" for i n
    by (rule Cons.IH)
  show ?case
    using starts_with_class [of l]
    by (cases "id_and_name w l"; cases "id_and_name w (trim l)")
      (auto simp: database_lines_Cons step)
qed (simp add: database_lines_def)

lemma clean_line:
  assumes "clean_name s"
  shows "clean_name (id_text i @ [32, 32] @ s)"
proof -
  have "hd (id_text i) \<in> set (id_text i)"
    by (rule hd_in_set [OF id_text_plain(5)])
  then have "\<not> is_space (hd (id_text i))"
    using id_text_char by blast
  then show ?thesis
    using assms id_text_plain [of i] by (simp add: clean_name_def)
qed

lemma parse_products:
  assumes "16 \<le> w" "\<forall>p\<in>set ps. clean_name (snd p)"
  shows "parse_names w i n (map product_line ps @ ls) =
    andthen (parse_names w i n ls) (\<lambda>ds. Inr (vendor_entries (i, n, ps) @ ds))"
  using assms(2)
proof (induction ps)
  case Nil
  then show ?case by (cases "parse_names w i n ls") (simp_all add: vendor_entries_def)
next
  case (Cons p ps)
  have line: "trim (product_line p) = id_text (fst p) @ [32, 32] @ snd p"
    using trim_clean [OF clean_line, of "snd p" "[9]" "fst p"] Cons.prems
    by (simp add: product_line_def is_space_def)
  have first: "product_line p \<noteq> []" "hd (product_line p) = 9"
    by (simp_all add: product_line_def)
  then have "\<not> starts_with [35] (product_line p)"
    by (simp add: starts_with_hd)
  then show ?case
    using first Cons starts_with_class [of "product_line p"] id_and_name_line [OF assms(1), of "snd p" "fst p"]
    by (cases "parse_names w i n ls") (auto simp: line vendor_entries_def split: prod.splits)
qed

lemma parse_vendor:
  assumes "16 \<le> w" "clean_vendor v"
  shows "parse_names w i n (vendor_lines v @ ls) =
    andthen (parse_names w (fst v) (fst (snd v)) ls) (\<lambda>ds. Inr (vendor_entries v @ ds))"
proof -
  obtain vid name ps where v: "v = (vid, name, ps)"
    by (cases v)
  let ?l = "id_text vid @ [32, 32] @ name"
  have "?l \<noteq> []" "hd ?l \<noteq> 9" "hd ?l \<noteq> 35"
    using id_text_plain [of vid] by (cases "id_text vid"; simp)+
  then show ?thesis
    using assms parse_products [OF assms(1), of ps vid name ls] starts_with_class [of ?l]
      id_and_name_line [OF assms(1), of name vid]
    by (auto simp: v vendor_lines_def clean_vendor_def starts_with_hd)
qed

lemma parse_database:
  assumes "16 \<le> w" "\<forall>v\<in>set db. clean_vendor v"
  shows "parse_names w i n (concat (map vendor_lines db)) = Inr (concat (map vendor_entries db))"
  using assms(2) by (induction db arbitrary: i n) (simp_all add: parse_vendor assms(1))

section \<open>The lookup\<close>

lemma find_append:
  "find_by_vendor_and_product (a @ b) v p =
     (case find_by_vendor_and_product a v p of Some d \<Rightarrow> Some d | None \<Rightarrow> find_by_vendor_and_product b v p)"
  by (induction a) auto

lemma find_entries:
  "find_by_vendor_and_product (vendor_entries (i, n, ps)) v p =
     (if v = i then names_in [(i, n, ps)] v p else None)"
  by (induction ps) (auto simp: vendor_entries_def names_in_def)

lemma find_other_vendor:
  "v \<notin> fst ` set db \<Longrightarrow> find_by_vendor_and_product (concat (map vendor_entries db)) v p = None"
  by (induction db) (auto simp: find_append find_entries)

lemma find_in_database:
  "distinct (map fst db) \<Longrightarrow>
   find_by_vendor_and_product (concat (map vendor_entries db)) v p = names_in db v p"
proof (induction db)
  case (Cons x db)
  obtain i n ps where x: "x = (i, n, ps)" by (cases x)
  show ?case
    using Cons find_other_vendor [of i db p]
    by (auto simp: x find_append find_entries names_in_def split: option.splits)
qed (simp add: names_in_def)

text \<open>
  C23. For a file whose entries have the form of \<open>vendor_lines\<close>, the constructor and the lookup
  together are the dictionary that the file describes.
\<close>

theorem usb_names_are_found:
  assumes "16 \<le> w"
    and "database_lines (lines_of f) = concat (map vendor_lines db)"
    and "\<forall>v\<in>set db. clean_vendor v" and "distinct (map fst db)"
  shows "\<exists>ds. parse_file w u (Some f) = Inr ds \<and>
    (\<forall>v p. find_by_vendor_and_product ds v p = names_in db v p)"
proof -
  have "parse_file w u (Some f) = Inr (concat (map vendor_entries db))"
    unfolding parse_file_def option.case parse_names_database_lines [of w u "[]" "lines_of f"] assms(2)
    by (rule parse_database [OF assms(1,3)])
  then show ?thesis
    using find_in_database [OF assms(4)] by blast
qed

lemma split_line:
  "10 \<notin> set l \<Longrightarrow> takeWhile (\<lambda>c. c \<noteq> 10) (l @ 10 # s) = l"
  "10 \<notin> set l \<Longrightarrow> dropWhile (\<lambda>c. c \<noteq> 10) (l @ 10 # s) = 10 # s"
  by (induction l) auto

lemma lines_of_line: "10 \<notin> set l \<Longrightarrow> lines_of (l @ 10 # s) = l # lines_of s"
  by (subst lines_of.simps) (simp add: split_line)

lemma lines_of_Nil [simp]: "lines_of [] = []"
  by (subst lines_of.simps) simp

text \<open>A file with a comment, an empty line, one vendor and one product.\<close>

definition example_names :: bytes where
  "example_names =
     [35, 32, 97] @ 10 # [] @ 10 # [48, 97, 49, 50, 32, 32, 67] @ 10
       # [9, 48, 48, 48, 49, 32, 32, 66] @ 10 # []"

lemma lines_of_example:
  "lines_of example_names =
     [[35, 32, 97], [], [48, 97, 49, 50, 32, 32, 67], [9, 48, 48, 48, 49, 32, 32, 66]]"
proof -
  have "lines_of (10 # s) = [] # lines_of s" for s
    using lines_of_line [of "[]" s] by simp
  then show ?thesis
    unfolding example_names_def append_Nil by (simp del: append_Cons add: lines_of_line)
qed

theorem usb_names_are_found_witness:
  "\<exists>ds. parse_file 32 0 (Some example_names) = Inr ds \<and>
    find_by_vendor_and_product ds 0x0A12 1 =
      Some \<lparr>vendor_id = 0x0A12, vendor_name = [67], product_id = 1, product_name = [66]\<rparr>"
proof -
  let ?db = "[(0x0A12, [67], [(1, [66])])] :: vendor list"
  have "database_lines (lines_of example_names) = concat (map vendor_lines ?db)"
    by (simp add: lines_of_example database_lines_def starts_with_def class_list_line_def
        vendor_lines_def product_line_def id_text_def digits4_def lower_char_def)
  moreover have "\<forall>v\<in>set ?db. clean_vendor v"
    by (simp add: clean_vendor_def clean_name_def is_space_def)
  ultimately have "\<exists>ds. parse_file 32 0 (Some example_names) = Inr ds \<and>
      (\<forall>v p. find_by_vendor_and_product ds v p = names_in ?db v p)"
    by (intro usb_names_are_found) simp_all
  then show ?thesis
    by (auto simp: names_in_def)
qed

end
