(* ===== verification/Usb_Devices.thy ===== *)
theory Usb_Devices
  imports Usb_Names Server_Program_Props Link_Keys
begin

text \<open>
  The classes \<open>USBDevice\<close> and \<open>USBDeviceFactory\<close> (\<open>usb/usb_device.cpp\<close>,
  \<open>usb/usb_device_factory.cpp\<close>) and the beginning of \<open>main\<close> of \<open>hci_test.cpp\<close>, which lists,
  opens and displays every device before it loads the link keys and searches the dongle.
  The results of libusb are parameters; the model gives the calls and the printed values.
\<close>

section \<open>What is printed and called\<close>

text \<open>The values on each line of output, without the words around them.\<close>

datatype line =
    Device_Information
  | Ids u16 u16
  | Names bytes bytes
  | I_Product u8
  | Can_Be_Opened bool
  | Product_String bytes
  | Interfaces nat
  | Interface_Endpoints nat nat
  | Endpoint_Line u8 u8
  | Interrupt_Line | Bulk_Line | Isochronous_Line | Unknown_Line

datatype enum_event = Init_Context | Usb server_call | Said line

text \<open>
  A device as the enumeration finds it: the result of the first \<open>libusb_open\<close> and what
  \<open>libusb_get_string_descriptor_ascii\<close> writes, with its zero.
\<close>

record found_device = device +
  first_open :: int
  product_text :: bytes

section \<open>USBDevice\<close>

text \<open>
  A pointer is the position in the list of devices, a handle that of its device. The
  descriptor is uninitialised until libusb has filled it.
\<close>

record usb_device =
  device_pointer :: "nat option"
  device_handle :: "nat option"
  device_desc :: "device_descriptor option"
  string_descriptor_ascii :: bytes
  can_be_opened :: bool

definition USBDevice :: usb_device where
  "USBDevice = \<lparr>device_pointer = None, device_handle = None, device_desc = None,
     string_descriptor_ascii = replicate 256 0, can_be_opened = False\<rparr>"

definition retrieve_device_information ::
  "'a found_device_scheme list \<Rightarrow> usb_device \<Rightarrow> (enum_event list \<times> usb_device) res" where
  "retrieve_device_information devs d =
     (case device_pointer d of
        None \<Rightarrow> Inr ([], d)
      | Some i \<Rightarrow>
          (case descriptor (devs ! i) of
             Inl r \<Rightarrow> Inr ([Usb (Describe i)], d)
           | Inr desc \<Rightarrow>
               let d = d\<lparr>device_desc := Some desc\<rparr>; calls = [Usb (Describe i), Usb (Open i)]
               in if first_open (devs ! i) < 0 then Inr (calls, d\<lparr>can_be_opened := False\<rparr>)
               else
                 andthen (copy_in (string_descriptor_ascii d) 0 (product_text (devs ! i))) (\<lambda>text.
                   Inr (calls @ [Usb (Read_Product i (iProduct desc))],
                     d\<lparr>device_handle := Some i, can_be_opened := True,
                       string_descriptor_ascii := text\<rparr>))))"

text \<open>A char array printed as a string, up to its first zero.\<close>

definition printed_string :: "bytes \<Rightarrow> bytes res" where
  "printed_string b = (if 0 \<in> set b then Inr (takeWhile (\<lambda>c. c \<noteq> 0) b) else Inl Out_Of_Bounds)"

definition read_desc :: "usb_device \<Rightarrow> device_descriptor res" where
  "read_desc d = (case device_desc d of None \<Rightarrow> Inl Indeterminate | Some desc \<Rightarrow> Inr desc)"

definition display_device_information :: "usb_device_desc list \<Rightarrow> usb_device \<Rightarrow> line list res" where
  "display_device_information names d =
     andthen (read_desc d) (\<lambda>desc.
     andthen (if can_be_opened d
              then andthen (printed_string (string_descriptor_ascii d)) (\<lambda>s. Inr [Product_String s])
              else Inr []) (\<lambda>product.
       Inr ([Device_Information, Ids (idVendor desc) (idProduct desc)]
         @ (case find_by_vendor_and_product names (idVendor desc) (idProduct desc) of
              None \<Rightarrow> [] | Some n \<Rightarrow> [Names (vendor_name n) (product_name n)])
         @ [I_Product (iProduct desc), Can_Be_Opened (can_be_opened d)] @ product)))"

definition endpoint_lines :: "endpoint_descriptor \<Rightarrow> line list" where
  "endpoint_lines e =
     (let kind = bmAttributes e AND 0x03 in
      [Endpoint_Line (bEndpointAddress e) (bmAttributes e),
       if kind = LIBUSB_TRANSFER_TYPE_INTERRUPT then Interrupt_Line
       else if kind = LIBUSB_TRANSFER_TYPE_BULK then Bulk_Line
       else if kind = LIBUSB_TRANSFER_TYPE_ISOCHRONOUS then Isochronous_Line
       else Unknown_Line])"

fun interface_lines :: "nat \<Rightarrow> usb_interface list \<Rightarrow> line list res" where
  "interface_lines i [] = Inr []"
| "interface_lines i (interface # rest) =
     (case altsetting interface of
        [] \<Rightarrow> Inl Out_Of_Bounds
      | s # _ \<Rightarrow>
          andthen (interface_lines (Suc i) rest) (\<lambda>more.
            Inr (Interface_Endpoints i (length (endpoint_array s))
              # concat (map endpoint_lines (endpoint_array s)) @ more)))"

text \<open>The method \<open>scan_for_bt_endpoints\<close>: it only prints; the result is a \<open>uint8_t\<close>.\<close>

definition display_endpoints :: "int + config_descriptor \<Rightarrow> (line list \<times> u8) res" where
  "display_endpoints config =
     (case config of
        Inl r \<Rightarrow> Inr ([], word_of_int r)
      | Inr c \<Rightarrow>
          andthen (interface_lines 0 (interface_array c)) (\<lambda>ls.
            Inr (Interfaces (length (interface_array c)) # ls, 0)))"

definition get_vendor_id :: "usb_device \<Rightarrow> u16 res" where
  "get_vendor_id d = andthen (read_desc d) (\<lambda>desc. Inr (idVendor desc))"

definition get_device_id :: "usb_device \<Rightarrow> u16 res" where
  "get_device_id d = andthen (read_desc d) (\<lambda>desc. Inr (idProduct desc))"

text \<open>\<open>open()\<close>; the argument is the result of \<open>libusb_open\<close>, if it is called.\<close>

definition device_open :: "int \<Rightarrow> usb_device \<Rightarrow> int \<times> usb_device" where
  "device_open result d =
     (if device_handle d \<noteq> None then (LIBUSB_SUCCESS, d)
      else
        (let d = d\<lparr>can_be_opened := True\<rparr>
         in (result, if result < 0 then d\<lparr>can_be_opened := False\<rparr>
               else d\<lparr>device_handle := device_pointer d\<rparr>)))"

definition is_open :: "usb_device \<Rightarrow> bool" where
  "is_open d \<longleftrightarrow> device_handle d \<noteq> None"

section \<open>USBDeviceFactory\<close>

text \<open>The member \<open>libusb_devices\<close> is uninitialised until a list was obtained.\<close>

datatype device_array = Uninitialised | Listed "nat list" | Freed

record factory =
  libusb_devices :: device_array
  amount_of_libusb_devices :: int
  human_names :: "usb_device_desc list"

text \<open>\<open>start\<close>: the outcome of \<open>libusb_get_device_list\<close> is an error or the devices.\<close>

definition factory_start :: "int + nat list \<Rightarrow> factory \<Rightarrow> factory" where
  "factory_start outcome f =
     (case outcome of
        Inl r \<Rightarrow> f\<lparr>amount_of_libusb_devices := r\<rparr>
      | Inr ds \<Rightarrow> f\<lparr>libusb_devices := Listed ds, amount_of_libusb_devices := int (length ds)\<rparr>)"

definition factory_create :: "factory \<Rightarrow> usb_device list \<Rightarrow> usb_device list res" where
  "factory_create f devices =
     (case libusb_devices f of
        Uninitialised \<Rightarrow> Inl Indeterminate
      | Freed \<Rightarrow> Inl Out_Of_Bounds
      | Listed ds \<Rightarrow> Inr (devices @ map (\<lambda>i. USBDevice\<lparr>device_pointer := Some i\<rparr>) ds))"

text \<open>
  \<open>stop\<close> reads the first entry, frees the list if there is one, and then writes a null into
  the first entry, also when the list was just freed.
\<close>

definition factory_stop :: "factory \<Rightarrow> (enum_event list \<times> factory) res" where
  "factory_stop f =
     (case libusb_devices f of
        Uninitialised \<Rightarrow> Inl Indeterminate
      | Freed \<Rightarrow> Inl Out_Of_Bounds
      | Listed [] \<Rightarrow> Inr ([], f\<lparr>amount_of_libusb_devices := -1\<rparr>)
      | Listed (_ # _) \<Rightarrow> Inl Out_Of_Bounds)"

section \<open>The program\<close>

text \<open>The loop over the devices.\<close>

fun show_devices ::
  "'a found_device_scheme list \<Rightarrow> usb_device_desc list \<Rightarrow> usb_device list \<Rightarrow>
     (enum_event list \<times> usb_device list) res" where
  "show_devices devs names [] = Inr ([], [])"
| "show_devices devs names (d # ds) =
     andthen (retrieve_device_information devs d) (\<lambda>(calls, d).
     andthen (display_device_information names d) (\<lambda>info.
     andthen (case device_pointer d of
                None \<Rightarrow> Inl Null_Pointer
              | Some i \<Rightarrow> andthen (display_endpoints (configuration (devs ! i))) (\<lambda>(ls, r).
                  Inr (Usb (Scan_Endpoints i) # map Said ls))) (\<lambda>scan.
     andthen (show_devices devs names ds) (\<lambda>(more, ds).
       Inr (calls @ map Said info @ scan @ more, d # ds)))))"

text \<open>
  \<open>main\<close>: \<open>long\<close> and \<open>u\<close> are the width of a long and the uninitialised vendor of the parser of
  names, \<open>list1\<close> is the result of the first \<open>libusb_get_device_list\<close>, that of the second is in
  the environment. The result: events, devices, link keys, end of the search and returned
  value.
\<close>

definition hci_test_main ::
  "'a server_environment_scheme \<Rightarrow> nat \<Rightarrow> u16 \<Rightarrow> bytes option \<Rightarrow> bytes option \<Rightarrow> int \<Rightarrow> found_device list \<Rightarrow>
     (enum_event list \<times> usb_device list \<times> data_store \<times> search_end option \<times> int option) res" where
  "hci_test_main w long u names_file keys_file list1 devs =
     (if init_result w \<noteq> 0 then Inr ([Init_Context], [], [], None, Some 1)
      else
        andthen (parse_file long u names_file) (\<lambda>names.
        let f = \<lparr>libusb_devices = Uninitialised, amount_of_libusb_devices = 0, human_names = names\<rparr>;
            f = factory_start (if list1 < 0 then Inl list1 else Inr [0..<length devs]) f
        in andthen (factory_create f []) (\<lambda>ds.
        andthen (show_devices devs (human_names f) ds) (\<lambda>(events, ds).
        andthen (load_from_file keys_file) (\<lambda>db.
        andthen (server_main w (map device.truncate devs)) (\<lambda>(calls, out, r).
          Inr ([Init_Context, Usb List_Devices] @ events @ map Usb calls, ds, db, out, r)))))))"

section \<open>What the enumeration does\<close>

fun usb_calls :: "enum_event list \<Rightarrow> server_call list" where
  "usb_calls [] = []"
| "usb_calls (Usb c # es) = c # usb_calls es"
| "usb_calls (_ # es) = usb_calls es"

lemma usb_calls_append [simp]: "usb_calls (a @ b) = usb_calls a @ usb_calls b"
  by (induction a rule: usb_calls.induct) auto

lemma usb_calls_map [simp]: "usb_calls (map Usb cs) = cs" "usb_calls (map Said ls) = []"
  by (induction cs, simp_all, induction ls, simp_all)

text \<open>The calls for the \<open>i\<close>-th device and the object afterwards.\<close>

definition enumeration_calls :: "'a found_device_scheme list \<Rightarrow> nat \<Rightarrow> server_call list" where
  "enumeration_calls devs i =
     [Describe i, Open i]
     @ (if first_open (devs ! i) < 0 then []
        else (case descriptor (devs ! i) of Inl _ \<Rightarrow> [] | Inr desc \<Rightarrow> [Read_Product i (iProduct desc)]))
     @ [Scan_Endpoints i]"

definition enumerated :: "'a found_device_scheme list \<Rightarrow> nat \<Rightarrow> usb_device \<Rightarrow> bool" where
  "enumerated devs i d \<longleftrightarrow>
     device_pointer d = Some i \<and> Inr (the (device_desc d)) = descriptor (devs ! i) \<and>
     is_open d = (0 \<le> first_open (devs ! i)) \<and> can_be_opened d = is_open d"

lemma retrieve_enumerates:
  assumes "retrieve_device_information devs (USBDevice\<lparr>device_pointer := Some i\<rparr>) = Inr (calls, d)"
    and "device_desc d \<noteq> None"
  shows "usb_calls calls @ [Scan_Endpoints i] = enumeration_calls devs i \<and> enumerated devs i d"
  using assms
  by (auto simp: retrieve_device_information_def USBDevice_def enumeration_calls_def enumerated_def
      is_open_def andthen_eq_Inr Let_def split: sum.splits if_splits)

lemma display_needs_descriptor:
  "display_device_information names d = Inr info \<Longrightarrow> device_desc d \<noteq> None"
  by (cases "device_desc d") (simp_all add: display_device_information_def read_desc_def)

lemma show_devices_calls:
  "show_devices devs names (map (\<lambda>i. USBDevice\<lparr>device_pointer := Some i\<rparr>) is) = Inr (es, ds) \<Longrightarrow>
   usb_calls es = concat (map (enumeration_calls devs) is) \<and> list_all2 (enumerated devs) is ds"
proof (induction "is" arbitrary: es ds)
  case (Cons i "is")
  obtain calls d info scan more ds' where
    r: "retrieve_device_information devs (USBDevice\<lparr>device_pointer := Some i\<rparr>) = Inr (calls, d)"
      "display_device_information names d = Inr info" and
    rest: "show_devices devs names (map (\<lambda>i. USBDevice\<lparr>device_pointer := Some i\<rparr>) is) = Inr (more, ds')"
      "ds = d # ds'" "es = calls @ map Said info @ scan @ more" and
    scan: "(case device_pointer d of None \<Rightarrow> Inl Null_Pointer
        | Some i \<Rightarrow> andthen (display_endpoints (configuration (devs ! i))) (\<lambda>(ls, r).
            Inr (Usb (Scan_Endpoints i) # map Said ls))) = Inr scan"
    using Cons.prems by (auto simp: andthen_eq_Inr)
  note d = retrieve_enumerates [OF r(1) display_needs_descriptor [OF r(2)]]
  then have "usb_calls scan = [Scan_Endpoints i]"
    using scan by (auto simp: enumerated_def andthen_eq_Inr)
  then show ?case
    using d Cons.IH [OF rest(1)] rest(2,3) by simp
qed simp

lemma hci_test_main_parts:
  assumes "hci_test_main w long u names_file keys_file list1 devs = Inr (es, ds, db, Some out, r)"
  shows "\<exists>calls. usb_calls es =
      List_Devices # concat (map (enumeration_calls devs) [0..<length devs]) @ calls \<and>
    list_all2 (enumerated devs) [0..<length devs] ds \<and> load_from_file keys_file = Inr db \<and>
    server_main w (map device.truncate devs) = Inr (calls, Some out, r)"
proof -
  obtain names events calls where
    "show_devices devs names (map (\<lambda>i. USBDevice\<lparr>device_pointer := Some i\<rparr>) [0..<length devs]) = Inr (events, ds)"
    "load_from_file keys_file = Inr db" "server_main w (map device.truncate devs) = Inr (calls, Some out, r)"
    "es = [Init_Context, Usb List_Devices] @ events @ map Usb calls"
    using assms by (auto simp: hci_test_main_def andthen_eq_Inr Let_def factory_create_def factory_start_def
        split: if_splits)
  then show ?thesis
    using show_devices_calls [of devs names "[0..<length devs]" events ds] by simp
qed

section \<open>The whole program\<close>

lemma enumeration_counts:
  "count_list (enumeration_calls devs j) (Open i) = of_bool (i = j)"
  "Close i \<notin> set (enumeration_calls devs j)"
  "Free_List \<notin> set (enumeration_calls devs j)"
  by (auto simp: enumeration_calls_def split: sum.split)

lemma enumeration_opens:
  "count_list (concat (map (enumeration_calls devs) [0..<n])) (Open i) = of_bool (i < n)"
  by (induction n) (auto simp: enumeration_counts)

lemma serving_calls_counts:
  "count_list (serving_calls k a) (Open i) = 0" "Close i \<notin> set (serving_calls k a)"
  "Free_List \<notin> set (serving_calls k a)"
  by (auto simp: serving_calls_def count_list_0_iff)

lemma server_main_opens:
  assumes "server_main w devs = Inr (calls, Some Serving, r)"
  shows "\<exists>k a. served devs 0 k a \<and> r = None \<and>
    (\<forall>i. count_list calls (Open i) = of_bool (i = k) \<and> Close i \<notin> set calls) \<and> Free_List \<notin> set calls"
proof -
  obtain more where "server_find_dev w 0 devs = Inr (more, Serving)" and
    calls: "calls = [Set_Log_Level, List_Devices] @ more" "r = None"
    using server_main_serving [OF assms] by blast
  then obtain k a p rest where k: "served devs 0 k a" "claim_device w k a = (rest, Serving)" and
    more: "more = map Describe [0..<Suc k] @ [Open_Log, Open k, Read_Product k p, Scan_Endpoints k] @ rest"
    using server_find_dev_serving [of w 0 devs more] by auto
  have "count_list rest (Open i) = 0 \<and> Close i \<notin> set rest \<and> Free_List \<notin> set rest" for i
    by (auto simp: claim_device_serving(1) [OF k(2)] count_list_0_iff serving_calls_counts
        simp flip: count_list_0_iff)
  then show ?thesis
    using k(1) calls by (auto simp: more count_list_0_iff intro!: exI [of _ k] exI [of _ a])
qed

text \<open>
  C13. When \<open>hci_test.cpp\<close> reaches its event loop every device of the machine was opened by the
  display at its start and the dongle was opened a second time; no handle was closed and
  neither device list was freed, so every device that can be opened stays open. The link keys
  are those of the file.
\<close>

theorem every_device_stays_open:
  assumes "hci_test_main w long u names_file keys_file list1 devs = Inr (es, ds, db, Some Serving, r)"
  shows "\<exists>k a. served (map device.truncate devs) 0 k a \<and>
    (\<forall>i. count_list (usb_calls es) (Open i) = of_bool (i < length devs) + of_bool (i = k) \<and>
         Close i \<notin> set (usb_calls es)) \<and>
    Free_List \<notin> set (usb_calls es) \<and>
    map is_open ds = map (\<lambda>dev. 0 \<le> first_open dev) devs \<and> load_from_file keys_file = Inr db"
proof -
  obtain calls where es: "usb_calls es =
      List_Devices # concat (map (enumeration_calls devs) [0..<length devs]) @ calls" and
    ds: "list_all2 (enumerated devs) [0..<length devs] ds" "load_from_file keys_file = Inr db" and
    server: "server_main w (map device.truncate devs) = Inr (calls, Some Serving, r)"
    using hci_test_main_parts [OF assms] by blast
  have "map is_open ds = map (\<lambda>dev. 0 \<le> first_open dev) devs"
    using ds(1) by (auto simp: list_all2_conv_all_nth enumerated_def intro!: nth_equalityI)
  then show ?thesis
    using server_main_opens [OF server] ds(2)
    by (auto simp: es enumeration_opens enumeration_counts)
qed

text \<open>The two devices of the example, the first of which cannot be opened.\<close>

definition example_devices :: "found_device list" where
  "example_devices =
     [device.extend other_device \<lparr>first_open = -3, product_text = []\<rparr>,
      device.extend bt400 \<lparr>first_open = 0, product_text = [66, 84, 0]\<rparr>]"

lemma example_devices_truncate [simp]: "map device.truncate example_devices = [other_device, bt400]"
  by (simp add: example_devices_def device.defs other_device_def bt400_def)

lemma example_devices_shown:
  "\<exists>es ds. show_devices example_devices []
     (map (\<lambda>i. USBDevice\<lparr>device_pointer := Some i\<rparr>) [0..<length example_devices]) = Inr (es, ds)"
  by (simp add: example_devices_def device.defs other_device_def bt400_def USBDevice_def Let_def
      retrieve_device_information_def display_device_information_def read_desc_def
      display_endpoints_def dongle_config_def copy_in_def printed_string_def)

theorem every_device_stays_open_witness:
  "\<exists>es ds. hci_test_main working_server 32 0 None None 2 example_devices = Inr (es, ds, [], Some Serving, None) \<and>
     map is_open ds = [False, True] \<and> count_list (usb_calls es) (Open 0) + count_list (usb_calls es) (Open 1) = 3"
proof -
  obtain calls where "server_main working_server [other_device, bt400] = Inr (calls, Some Serving, None)"
    using working_server_serves by blast
  moreover have "init_result working_server = 0"
    by (simp add: working_server_def working_environment_def environment.defs)
  ultimately have "\<exists>es ds. hci_test_main working_server 32 0 None None 2 example_devices = Inr (es, ds, [], Some Serving, None)"
    using example_devices_shown
    by (auto simp: hci_test_main_def parse_file_def factory_start_def factory_create_def Let_def
        load_from_file_def simp del: upt_Suc)
  then obtain es ds where run: "hci_test_main working_server 32 0 None None 2 example_devices = Inr (es, ds, [], Some Serving, None)"
    by blast
  obtain k a where k: "served [other_device, bt400] 0 k a"
    "\<And>i. count_list (usb_calls es) (Open i) = of_bool (i < length example_devices) + of_bool (i = k)"
    "map is_open ds = map (\<lambda>dev. 0 \<le> first_open dev) example_devices"
    using every_device_stays_open [OF run] by auto
  then have "k = 0 \<or> k = 1"
    by (auto simp: served_def)
  then show ?thesis
    using run k(2,3) by (auto simp: example_devices_def device.defs other_device_def bt400_def)
qed

end
