(* ===== verification/Sdp_Tests.thy ===== *)
theory Sdp_Tests
  imports Sdp_Encoder Sdp_Reader
begin

text \<open>
  The test functions of \<open>sdp_test.cpp\<close>, run against the model of the serializer and of the
  reader. A failed check throws the number of the test.
\<close>

section \<open>Checks\<close>

text \<open>A sequence of \<open>if (...) throw id;\<close>.\<close>

definition check_all :: "u8 \<Rightarrow> bool list \<Rightarrow> unit res" where
  "check_all n cs = (if list_all (\<lambda>c. c) cs then Inr () else Inl (Thrown (uint n)))"

text \<open>The loop that compares \<open>data[i]\<close> with \<open>target.at(i)\<close>.\<close>

fun compare_bytes :: "u8 \<Rightarrow> bytes \<Rightarrow> bytes \<Rightarrow> unit res" where
  "compare_bytes n [] target = Inr ()"
| "compare_bytes n (d # ds) [] = Inl Out_Of_Range"
| "compare_bytes n (d # ds) (t # ts) =
     (if d \<noteq> t then Inl (Thrown (uint n)) else compare_bytes n ds ts)"

definition SPP_Counter :: bytes where
  "SPP_Counter = [0x53, 0x50, 0x50, 0x20, 0x43, 0x6f, 0x75, 0x6e, 0x74, 0x65, 0x72]"

section \<open>The tests of the serializer\<close>

text \<open>An element is serialized into an array of zeros; size and bytes are compared.\<close>

definition serializer_test :: "u8 \<Rightarrow> element \<Rightarrow> bytes \<Rightarrow> unit res" where
  "serializer_test n el data =
     andthen (serializeDataElement (replicate 256 0) el 0) (\<lambda>(target, bytes_created).
     andthen (check_all n [unat bytes_created = length data]) (\<lambda>_. compare_bytes n data target))"

definition uint_element :: "u16 \<Rightarrow> u32 \<Rightarrow> element" where
  "uint_element n v =
     Element (reset_element\<lparr>etype := Uint, dataElementVarSizeInBytes := n, value_uint32 := v\<rparr>) []"

definition uuid_element :: "u16 \<Rightarrow> u16 \<Rightarrow> element" where
  "uuid_element n v =
     Element (reset_element\<lparr>etype := Uuid, dataElementVarSizeInBytes := n, value_uuid := v\<rparr>) []"

definition text_element :: "u16 \<Rightarrow> bytes \<Rightarrow> element" where
  "text_element n v =
     Element (reset_element\<lparr>etype := Text_string, dataElementVarSizeInBytes := n, value_text := v\<rparr>) []"

definition sequence_element :: "u16 \<Rightarrow> u32 \<Rightarrow> element list \<Rightarrow> element" where
  "sequence_element n v cs =
     Element (reset_element\<lparr>etype := Sequence, dataElementVarSizeInBytes := n, value_uint32 := v\<rparr>) cs"

lemmas element_defs =
  uint_element_def uuid_element_def text_element_def sequence_element_def reset_element_def

definition test_serialize_1 :: "u8 \<Rightarrow> unit res" where
  "test_serialize_1 n = serializer_test n (uint_element 4 0x0000FFFF) [0x0a, 0x00, 0x00, 0xff, 0xff]"

definition test_serialize_2 :: "u8 \<Rightarrow> unit res" where
  "test_serialize_2 n = serializer_test n (uint_element 2 0x1234) [0x09, 0x12, 0x34]"

definition test_serialize_3 :: "u8 \<Rightarrow> unit res" where
  "test_serialize_3 n = serializer_test n (uuid_element 2 0x1101) [0x19, 0x11, 0x01]"

definition test_serialize_4 :: "u8 \<Rightarrow> unit res" where
  "test_serialize_4 n = serializer_test n (text_element 13 SPP_Counter)
     [0x25, 0x0b, 0x53, 0x50, 0x50, 0x20, 0x43, 0x6f, 0x75, 0x6e, 0x74, 0x65, 0x72]"

definition test_serialize_5 :: "u8 \<Rightarrow> unit res" where
  "test_serialize_5 n = serializer_test n
     (sequence_element 9 0 [uint_element 2 0x656e, uint_element 2 0x006a, uint_element 2 0x0100])
     [0x36, 0x00, 0x09, 0x09, 0x65, 0x6e, 0x09, 0x00, 0x6a, 0x09, 0x01, 0x00]"

text \<open>The record of the serial port service, without the channel of RFCOMM.\<close>

definition spp_record :: element where
  "spp_record =
     sequence_element 95 0
       [sequence_element 92 0
          [uint_element 2 0x0000, uint_element 4 0x00010001,
           uint_element 2 0x0001, sequence_element 3 1 [uuid_element 2 0x1101],
           uint_element 2 0x0004,
           sequence_element 14 1
             [sequence_element 3 0 [uuid_element 2 0x0100],
              sequence_element 5 0 [uuid_element 2 0x0003]],
           uint_element 2 0x0005, sequence_element 3 0 [uuid_element 2 0x1002],
           uint_element 2 0x0006,
           sequence_element 9 0 [uint_element 2 0x656e, uint_element 2 0x006a, uint_element 2 0x0100],
           uint_element 2 0x0009,
           sequence_element 9 0
             [sequence_element 6 0 [uuid_element 2 0x1101, uint_element 2 0x1102]],
           uint_element 2 0x0100, text_element 11 SPP_Counter]]"

definition spp_record_bytes :: bytes where
  "spp_record_bytes =
     [0x36, 0x00, 0x5f, 0x36, 0x00, 0x5c, 0x09, 0x00, 0x00, 0x0a, 0x00, 0x01, 0x00, 0x01,
      0x09, 0x00, 0x01, 0x36, 0x00, 0x03, 0x19, 0x11, 0x01, 0x09, 0x00, 0x04, 0x36, 0x00,
      0x0e, 0x36, 0x00, 0x03, 0x19, 0x01, 0x00, 0x36, 0x00, 0x05, 0x19, 0x00, 0x03, 0x09,
      0x00, 0x05, 0x36, 0x00, 0x03, 0x19, 0x10, 0x02, 0x09, 0x00, 0x06, 0x36, 0x00, 0x09,
      0x09, 0x65, 0x6e, 0x09, 0x00, 0x6a, 0x09, 0x01, 0x00, 0x09, 0x00, 0x09, 0x36, 0x00,
      0x09, 0x36, 0x00, 0x06, 0x19, 0x11, 0x01, 0x09, 0x11, 0x02, 0x09, 0x01, 0x00, 0x25,
      0x0b, 0x53, 0x50, 0x50, 0x20, 0x43, 0x6f, 0x75, 0x6e, 0x74, 0x65, 0x72]"

text \<open>
  The last test compares no size, and the bytes up to the position \<open>bytes_created\<close>.
\<close>

definition test_serialize_6 :: "u8 \<Rightarrow> unit res" where
  "test_serialize_6 n =
     andthen (serializeDataElement (replicate 256 0) spp_record 0) (\<lambda>(target, bytes_created).
       compare_bytes n (take (Suc (unat bytes_created)) spp_record_bytes) target)"

section \<open>The tests of the reader\<close>

text \<open>
  A test reads a packet into a fresh element, cell 0 of the store, and checks the result; as
  in the reader, \<open>wn\<close> is the outcome of the comparison of the uninitialised member \<open>parent\<close>
  with null.
\<close>

definition reader_test ::
  "bytes \<Rightarrow> u8 \<Rightarrow> bool \<Rightarrow> (u8 \<times> store \<Rightarrow> unit res) \<Rightarrow> unit res option" where
  "reader_test data start wn check =
     map_option (\<lambda>r. andthen r check) (deserializeDataElement data start wn)"

definition is_null :: "bool \<Rightarrow> pointer \<Rightarrow> bool" where
  "is_null wn p = (case p of Null \<Rightarrow> True | Cell n \<Rightarrow> False | Wild \<Rightarrow> wn)"

definition test_4byte_integer :: "u8 \<Rightarrow> bool \<Rightarrow> unit res option" where
  "test_4byte_integer n wn =
     reader_test
       [0x0a, 0x00, 0x00, 0xff, 0xff]
       0 wn (\<lambda>(bytes_consumed, h).
       let e = elem (h ! 0) in
       check_all n
         [bytes_consumed = 5, start_index e = 0, dataElementVarSizeInBytes e = 4,
          etype e = Uint, value_uint32 e = 0x0000FFFF, value_uuid e = 0, value_text e = [],
          \<not> value_bool e, value_url e = [], is_null wn (parent (h ! 0)), children (h ! 0) = []])"

definition test_2byte_integer :: "u8 \<Rightarrow> bool \<Rightarrow> unit res option" where
  "test_2byte_integer n wn =
     reader_test
       [0x09, 0x12, 0x34]
       0 wn (\<lambda>(bytes_consumed, h).
       let e = elem (h ! 0) in
       check_all n
         [bytes_consumed = 3, start_index e = 0, dataElementVarSizeInBytes e = 2,
          etype e = Uint, value_uint32 e = 0x1234, value_uuid e = 0, value_text e = [],
          \<not> value_bool e, value_url e = [], is_null wn (parent (h ! 0)), children (h ! 0) = []])"

definition test_2byte_uuid :: "u8 \<Rightarrow> bool \<Rightarrow> unit res option" where
  "test_2byte_uuid n wn =
     reader_test
       [0x19, 0x11, 0x01]
       0 wn (\<lambda>(bytes_consumed, h).
       let e = elem (h ! 0) in
       check_all n
         [bytes_consumed = 3, start_index e = 0, dataElementVarSizeInBytes e = 2,
          etype e = Uuid, value_uint32 e = 0, value_uuid e = 0x1101, value_text e = [],
          \<not> value_bool e, value_url e = [], is_null wn (parent (h ! 0)), children (h ! 0) = []])"

definition test_string :: "u8 \<Rightarrow> bool \<Rightarrow> unit res option" where
  "test_string n wn =
     reader_test
       [0x25, 0x0b, 0x53, 0x50, 0x50, 0x20, 0x43, 0x6f, 0x75, 0x6e, 0x74, 0x65, 0x72]
       0 wn (\<lambda>(bytes_consumed, h).
       let e = elem (h ! 0) in
       check_all n
         [bytes_consumed = 13, start_index e = 0, dataElementVarSizeInBytes e = 11,
          etype e = Text_string, value_uint32 e = 0, value_uuid e = 0, value_text e = SPP_Counter,
          \<not> value_bool e, value_url e = [], is_null wn (parent (h ! 0)), children (h ! 0) = []])"

text \<open>The checks of a child: its place in the packet, its value and the other members.\<close>

definition child_checks :: "u16 \<Rightarrow> u32 \<Rightarrow> bool \<Rightarrow> cell \<Rightarrow> bool list" where
  "child_checks start v wn c =
     (let e = elem c in
      [start_index e = start, dataElementVarSizeInBytes e = 2, etype e = Uint, value_uint32 e = v,
       value_uuid e = 0, value_text e = [], \<not> value_bool e, value_url e = [],
       \<not> is_null wn (parent c), children c = []])"

definition test_sequence_with_three_nested_2byte_integer :: "u8 \<Rightarrow> bool \<Rightarrow> unit res option" where
  "test_sequence_with_three_nested_2byte_integer n wn =
     reader_test [0x36, 0x00, 0x09, 0x09, 0x65, 0x6e, 0x09, 0x00, 0x6a, 0x09, 0x01, 0x00]
       0 wn (\<lambda>(bytes_consumed, h).
       let e = elem (h ! 0); cs = children (h ! 0) in
       andthen (check_all n
         [bytes_consumed = 12, start_index e = 0, dataElementVarSizeInBytes e = 9,
          value_uint32 e = 0, value_uuid e = 0, value_text e = [],
          \<not> value_bool e, value_url e = [], is_null wn (parent (h ! 0)), length cs = 3]) (\<lambda>_.
       andthen (check_all n (child_checks 3 0x0000656e wn (h ! (cs ! 0)))) (\<lambda>_.
       andthen (check_all n (child_checks 6 0x0000006a wn (h ! (cs ! 1)))) (\<lambda>_.
       check_all n (child_checks 9 0x00000100 wn (h ! (cs ! 2)))))))"

definition request_packet :: bytes where
  "request_packet =
     [0x03, 0x0b, 0x20, 0x18, 0x00, 0x14, 0x00, 0x41, 0x00, 0x06, 0x00, 0x00, 0x00, 0x0f,
      0x35, 0x03, 0x19, 0x11, 0x01, 0x03, 0xf0, 0x35, 0x05, 0x0a, 0x00, 0x00, 0xff, 0xff,
      0x00]"

definition test_request :: "u8 \<Rightarrow> bool \<Rightarrow> unit res option" where
  "test_request n wn =
     reader_test request_packet 21 wn (\<lambda>(bytes_consumed, h).
       andthen (dump_ok (tree_of (length h) h 0)) (\<lambda>_. check_all n [bytes_consumed = 7]))"

definition response_packet :: bytes where
  "response_packet =
     [0x36, 0x00, 0x5f, 0x36, 0x00, 0x5c, 0x09, 0x00, 0x00, 0x0a, 0x00, 0x01, 0x00, 0x01,
      0x09, 0x00, 0x01, 0x36, 0x00, 0x03, 0x19, 0x11, 0x01, 0x09, 0x00, 0x04, 0x36, 0x00,
      0x0e, 0x36, 0x00, 0x03, 0x19, 0x01, 0x00, 0x36, 0x00, 0x05, 0x19, 0x00, 0x03, 0x08,
      0x01, 0x09, 0x00, 0x05, 0x36, 0x00, 0x03, 0x19, 0x10, 0x02, 0x09, 0x00, 0x06, 0x36,
      0x00, 0x09, 0x09, 0x65, 0x6e, 0x09, 0x00, 0x6a, 0x09, 0x01, 0x00, 0x09, 0x00, 0x09,
      0x36, 0x00, 0x09, 0x36, 0x00, 0x06, 0x19, 0x11, 0x01, 0x09, 0x11, 0x02, 0x09, 0x01,
      0x00, 0x25, 0x0b, 0x53, 0x50, 0x50, 0x20, 0x43, 0x6f, 0x75, 0x6e, 0x74, 0x65, 0x72]"

definition test_response :: "u8 \<Rightarrow> bool \<Rightarrow> unit res option" where
  "test_response n wn =
     reader_test response_packet 0 wn (\<lambda>(bytes_consumed, h).
       andthen (dump_ok (tree_of (length h) h 0)) (\<lambda>_. check_all n [bytes_consumed = 98]))"

section \<open>Running the tests\<close>

lemma compare_bytes_prefix [simp]: "compare_bytes n d (d @ t) = Inr ()"
  by (induction d) auto

lemma serializer_test_passes:
  assumes "all_serializable el" and "encode el = data" and "length data < 256"
  shows "serializer_test n el data = Inr ()"
  using assms serialize_encodes [of el "replicate 256 0"]
  by (simp add: serializer_test_def check_all_def unat_of_nat)

lemma upt_2_4: "[0..<2] = [0, 1 :: nat]" "[0..<4] = [0, 1, 2, 3 :: nat]"
  by (simp_all add: upt_conv_Cons)

lemmas encode_eval =
  upt_2_4 element_defs SPP_Counter_def serializable_def encode_simple_def size_code_def be_bytes_def

lemma serializer_tests_pass:
  "test_serialize_1 n = Inr ()" "test_serialize_2 n = Inr ()" "test_serialize_3 n = Inr ()"
  "test_serialize_4 n = Inr ()" "test_serialize_5 n = Inr ()"
  unfolding test_serialize_1_def test_serialize_2_def test_serialize_3_def test_serialize_4_def
    test_serialize_5_def
  by (rule serializer_test_passes; simp add: encode_eval)+

lemma encode_spp_record: "encode spp_record = spp_record_bytes"
  by (simp add: spp_record_def spp_record_bytes_def encode_eval)

lemma test_serialize_6_passes: "test_serialize_6 n = Inr ()"
proof -
  have "all_serializable spp_record"
    by (simp add: spp_record_def encode_eval)
  moreover have "length spp_record_bytes = 96"
    by (simp add: spp_record_bytes_def)
  ultimately show ?thesis
    using serialize_encodes [of spp_record "replicate 256 0"]
    by (simp add: test_serialize_6_def encode_spp_record unat_of_nat)
qed

text \<open>The record of the last test declares two bytes more than it has.\<close>

lemma spp_record_is_not_well_sized: "\<not> well_sized spp_record"
  by (simp add: spp_record_def encode_eval)

lemma reader_tests_with_null_parent:
  "test_4byte_integer n True = Some (Inr ())" "test_2byte_integer n True = Some (Inr ())"
  "test_2byte_uuid n True = Some (Inr ())" "test_string n True = Some (Inr ())"
  "test_sequence_with_three_nested_2byte_integer n True = Some (Inr ())"
  by code_simp+

lemma reader_tests_with_wild_parent:
  "test_4byte_integer n False = Some (Inl Indeterminate)"
  "test_2byte_integer n False = Some (Inl Indeterminate)"
  "test_2byte_uuid n False = Some (Inl Indeterminate)" "test_string n False = Some (Inl Indeterminate)"
  "test_sequence_with_three_nested_2byte_integer n False = Some (Inl Indeterminate)"
  by code_simp+

lemma test_request_passes: "test_request n wn = Some (Inr ())"
  by code_simp

lemma test_response_passes: "test_response n wn = Some (Inr ())"
  by code_simp

text \<open>
  The tests of \<open>sdp_test.cpp\<close>. The six tests of the serializer pass. The seven tests of
  the reader all return; the two that read whole packets pass whatever the uninitialised
  member \<open>parent\<close> of the root holds, the five that look at the root pass if it compares equal to
  null and follow an indeterminate pointer otherwise.
\<close>

lemma sdp_tests_outcome:
  "test_serialize_1 n = Inr () \<and> test_serialize_2 n = Inr () \<and> test_serialize_3 n = Inr () \<and>
   test_serialize_4 n = Inr () \<and> test_serialize_5 n = Inr () \<and> test_serialize_6 n = Inr () \<and>
   test_request n wn = Some (Inr ()) \<and> test_response n wn = Some (Inr ()) \<and>
   (\<exists>r. r = (if wn then Some (Inr ()) else Some (Inl Indeterminate)) \<and>
     test_4byte_integer n wn = r \<and> test_2byte_integer n wn = r \<and> test_2byte_uuid n wn = r \<and>
     test_string n wn = r \<and> test_sequence_with_three_nested_2byte_integer n wn = r)"
  using serializer_tests_pass [of n] test_serialize_6_passes [of n] test_request_passes [of n wn]
    test_response_passes [of n wn] reader_tests_with_null_parent [of n]
    reader_tests_with_wild_parent [of n]
  by (cases wn) simp_all

end
