(* ===== verification/Hci_Opcodes.thy ===== *)
theory Hci_Opcodes
  imports Main_Program
begin

text \<open>
  The opcodes of the host controller interface: the macros and the enumeration \<open>hci_opcode_t\<close>
  of \<open>hci/hci.h\<close>, the macros for opcodes of \<open>main.c\<close>, and the packets of
  \<open>command_template.h\<close>.
\<close>

section \<open>The macros\<close>

definition OGF_LINK_CONTROL :: u32 where "OGF_LINK_CONTROL = 0x01"
definition OGF_LINK_POLICY :: u32 where "OGF_LINK_POLICY = 0x02"
definition OGF_CONTROLLER_BASEBAND :: u32 where "OGF_CONTROLLER_BASEBAND = 0x03"
definition OGF_INFORMATIONAL_PARAMETERS :: u32 where "OGF_INFORMATIONAL_PARAMETERS = 0x04"
definition OGF_STATUS_PARAMETERS :: u32 where "OGF_STATUS_PARAMETERS = 0x05"
definition OGF_TESTING :: u32 where "OGF_TESTING = 0x06"
definition OGF_LE_CONTROLLER :: u32 where "OGF_LE_CONTROLLER = 0x08"

lemmas ogf_defs =
  OGF_LINK_CONTROL_def OGF_LINK_POLICY_def OGF_CONTROLLER_BASEBAND_def
  OGF_INFORMATIONAL_PARAMETERS_def OGF_STATUS_PARAMETERS_def OGF_TESTING_def OGF_LE_CONTROLLER_def

definition HCI_OPCODE :: "u32 \<Rightarrow> u32 \<Rightarrow> u32" where
  "HCI_OPCODE ogf ocf = ocf OR push_bit 10 ogf"

definition HCI_OPCODE_HIGH :: "u32 \<Rightarrow> u8" where
  "HCI_OPCODE_HIGH data = ucast (drop_bit 8 data)"

definition HCI_OPCODE_LOW :: "u32 \<Rightarrow> u8" where
  "HCI_OPCODE_LOW data = ucast (data AND 0xFF)"

definition HCI_OPCODE_TO_ARRAY :: "u32 \<Rightarrow> bytes" where
  "HCI_OPCODE_TO_ARRAY data = [HCI_OPCODE_LOW data, HCI_OPCODE_HIGH data]"

text \<open>\<open>ARRAY_TO_UINT16\<close> takes the high byte first.\<close>

definition ARRAY_TO_UINT16 :: "bytes \<Rightarrow> u16" where
  "ARRAY_TO_UINT16 data = push_bit 8 (ucast (data ! 0)) + ucast (data ! 1)"

section \<open>The enumeration\<close>

definition link_control_opcodes :: "(string \<times> u32) list" where
  "link_control_opcodes = map (\<lambda>(n, ocf). (n, HCI_OPCODE OGF_LINK_CONTROL ocf))
     [(''HCI_INQUIRY'', 0x01),
      (''HCI_INQUIRY_CANCEL'', 0x02),
      (''HCI_PERIODIC_INQUIRY_MODE'', 0x03),
      (''HCI_EXIT_PERIODIC_INQUIRY_MODE'', 0x04),
      (''HCI_CREATE_CONNECTION'', 0x05),
      (''HCI_DISCONNECT'', 0x06),
      (''HCI_CREATE_CONNECTION_CANCEL'', 0x08),
      (''HCI_ACCEPT_CONNECTION_REQUEST'', 0x09),
      (''HCI_REJECT_CONNECTION_REQUEST'', 0x0a),
      (''HCI_LINK_KEY_REQUEST_REPLY'', 0x0b),
      (''HCI_LINK_KEY_REQUEST_NEGATIVE_REPLY'', 0x0c),
      (''HCI_PIN_CODE_REQUEST_REPLY'', 0x0d),
      (''HCI_PIN_CODE_REQUEST_NEGATIVE_REPLY'', 0x0e),
      (''HCI_CHANGE_CONNECTION_PACKET_TYPE'', 0x0f),
      (''HCI_AUTHENTICATION_REQUESTED'', 0x11),
      (''HCI_SET_CONNECTION_ENCRYPTION'', 0x13),
      (''HCI_CHANGE_CONNECTION_LINK_KEY'', 0x15),
      (''HCI_REMOTE_NAME_REQUEST'', 0x19),
      (''HCI_REMOTE_NAME_REQUEST_CANCEL'', 0x1A),
      (''HCI_READ_REMOTE_SUPPORTED_FEATURES_COMMAND'', 0x1B),
      (''HCI_READ_REMOTE_EXTENDED_FEATURES_COMMAND'', 0x1C),
      (''HCI_READ_REMOTE_VERSION_INFORMATION'', 0x1D),
      (''HCI_SETUP_SYNCHRONOUS_CONNECTION'', 0x0028),
      (''HCI_ACCEPT_SYNCHRONOUS_CONNECTION'', 0x0029),
      (''HCI_IO_CAPABILITY_REQUEST_REPLY'', 0x2b),
      (''HCI_USER_CONFIRMATION_REQUEST_REPLY'', 0x2c),
      (''HCI_USER_CONFIRMATION_REQUEST_NEGATIVE_REPLY'', 0x2d),
      (''HCI_USER_PASSKEY_REQUEST_REPLY'', 0x2e),
      (''HCI_USER_PASSKEY_REQUEST_NEGATIVE_REPLY'', 0x2f),
      (''HCI_REMOTE_OOB_DATA_REQUEST_REPLY'', 0x30),
      (''HCI_REMOTE_OOB_DATA_REQUEST_NEGATIVE_REPLY'', 0x33),
      (''HCI_IO_CAPABILITY_REQUEST_NEGATIVE_REPLY'', 0x34),
      (''HCI_ENHANCED_SETUP_SYNCHRONOUS_CONNECTION'', 0x3d),
      (''HCI_ENHANCED_ACCEPT_SYNCHRONOUS_CONNECTION'', 0x3e),
      (''HCI_REMOTE_OOB_EXTENDED_DATA_REQUEST_REPLY'', 0x45)]"

definition link_policy_opcodes :: "(string \<times> u32) list" where
  "link_policy_opcodes = map (\<lambda>(n, ocf). (n, HCI_OPCODE OGF_LINK_POLICY ocf))
     [(''HCI_HOLD_MODE'', 0x01),
      (''HCI_SNIFF_MODE'', 0x03),
      (''HCI_EXIT_SNIFF_MODE'', 0x04),
      (''HCI_PARK_STATE'', 0x05),
      (''HCI_EXIT_PARK_STATE'', 0x06),
      (''HCI_QOS_SETUP'', 0x07),
      (''HCI_ROLE_DISCOVERY'', 0x09),
      (''HCI_SWITCH_ROLE_COMMAND'', 0x0b),
      (''HCI_READ_LINK_POLICY_SETTINGS'', 0x0c),
      (''HCI_WRITE_LINK_POLICY_SETTINGS'', 0x0d),
      (''HCI_WRITE_DEFAULT_LINK_POLICY_SETTING'', 0x0F),
      (''HCI_FLOW_SPECIFICATION'', 0x10),
      (''HCI_SNIFF_SUBRATING'', 0x11)]"

definition baseband_opcodes :: "(string \<times> u32) list" where
  "baseband_opcodes = map (\<lambda>(n, ocf). (n, HCI_OPCODE OGF_CONTROLLER_BASEBAND ocf))
     [(''HCI_SET_EVENT_MASK'', 0x01),
      (''HCI_RESET'', 0x03),
      (''HCI_FLUSH'', 0x08),
      (''HCI_READ_PIN_TYPE'', 0x09),
      (''HCI_WRITE_PIN_TYPE'', 0x0A),
      (''HCI_DELETE_STORED_LINK_KEY'', 0x12),
      (''HCI_WRITE_LOCAL_NAME'', 0x13),
      (''HCI_READ_LOCAL_NAME'', 0x14),
      (''HCI_READ_PAGE_TIMEOUT'', 0x17),
      (''HCI_WRITE_PAGE_TIMEOUT'', 0x18),
      (''HCI_WRITE_SCAN_ENABLE'', 0x1A),
      (''HCI_READ_PAGE_SCAN_ACTIVITY'', 0x1B),
      (''HCI_WRITE_PAGE_SCAN_ACTIVITY'', 0x1C),
      (''HCI_READ_INQUIRY_SCAN_ACTIVITY'', 0x1D),
      (''HCI_WRITE_INQUIRY_SCAN_ACTIVITY'', 0x1E),
      (''HCI_WRITE_AUTHENTICATION_ENABLE'', 0x20),
      (''HCI_WRITE_CLASS_OF_DEVICE'', 0x24),
      (''HCI_WRITE_AUTOMATIC_FLUSH_TIMEOUT'', 0x28),
      (''HCI_READ_NUM_BROADCAST_RETRANSMISSIONS'', 0x29),
      (''HCI_WRITE_NUM_BROADCAST_RETRANSMISSIONS'', 0x2a),
      (''HCI_READ_TRANSMIT_POWER_LEVEL'', 0x2D),
      (''HCI_WRITE_SYNCHRONOUS_FLOW_CONTROL_ENABLE'', 0x2f),
      (''HCI_SET_CONTROLLER_TO_HOST_FLOW_CONTROL'', 0x31),
      (''HCI_HOST_BUFFER_SIZE'', 0x33),
      (''HCI_HOST_NUMBER_OF_COMPLETED_PACKETS'', 0x35),
      (''HCI_READ_LINK_SUPERVISION_TIMEOUT'', 0x36),
      (''HCI_WRITE_LINK_SUPERVISION_TIMEOUT'', 0x37),
      (''HCI_WRITE_CURRENT_IAC_LAP_TWO_IACS'', 0x3A),
      (''HCI_READ_INQUIRY_SCAN_TYPE'', 0x42),
      (''HCI_WRITE_INQUIRY_SCAN_TYPE'', 0x43),
      (''HCI_READ_INQUIRY_MODE'', 0x44),
      (''HCI_WRITE_INQUIRY_MODE'', 0x45),
      (''HCI_READ_PAGE_SCAN_TYPE'', 0x46),
      (''HCI_WRITE_PAGE_SCAN_TYPE'', 0x47),
      (''HCI_WRITE_EXTENDED_INQUIRY_RESPONSE'', 0x52),
      (''HCI_WRITE_SIMPLE_PAIRING_MODE'', 0x56),
      (''HCI_READ_LOCAL_OOB_DATA'', 0x57),
      (''HCI_WRITE_DEFAULT_ERRONEOUS_DATA_REPORTING'', 0x5B),
      (''HCI_SET_EVENT_MASK_2'', 0x63),
      (''HCI_READ_LE_HOST_SUPPORTED'', 0x6c),
      (''HCI_WRITE_LE_HOST_SUPPORTED'', 0x6d),
      (''HCI_WRITE_SECURE_CONNECTIONS_HOST_SUPPORT'', 0x7a),
      (''HCI_READ_LOCAL_EXTENDED_OOB_DATA'', 0x7d),
      (''HCI_READ_EXTENDED_PAGE_TIMEOUT'', 0x7e),
      (''HCI_WRITE_EXTENDED_PAGE_TIMEOUT'', 0x7f),
      (''HCI_READ_EXTENDED_INQUIRY_LENGTH'', 0x80),
      (''HCI_WRITE_EXTENDED_INQUIRY_LENGTH'', 0x81),
      (''HCI_SET_ECOSYSTEM_BASE_INTERVAL'', 0x82),
      (''HCI_CONFIGURE_DATA_PATH'', 0x83),
      (''HCI_SET_MIN_ENCRYPTION_KEY_SIZE'', 0x84)]"

definition informational_opcodes :: "(string \<times> u32) list" where
  "informational_opcodes = map (\<lambda>(n, ocf). (n, HCI_OPCODE OGF_INFORMATIONAL_PARAMETERS ocf))
     [(''HCI_READ_LOCAL_VERSION_INFORMATION'', 0x01),
      (''HCI_READ_LOCAL_SUPPORTED_COMMANDS'', 0x02),
      (''HCI_READ_LOCAL_SUPPORTED_FEATURES'', 0x03),
      (''HCI_READ_BUFFER_SIZE'', 0x05),
      (''HCI_READ_BD_ADDR'', 0x09)]"

definition status_opcodes :: "(string \<times> u32) list" where
  "status_opcodes = map (\<lambda>(n, ocf). (n, HCI_OPCODE OGF_STATUS_PARAMETERS ocf))
     [(''HCI_READ_RSSI'', 0x05),
      (''HCI_READ_ENCRYPTION_KEY_SIZE'', 0x08)]"

definition testing_opcodes :: "(string \<times> u32) list" where
  "testing_opcodes = map (\<lambda>(n, ocf). (n, HCI_OPCODE OGF_TESTING ocf))
     [(''HCI_READ_LOOPBACK_MODE'', 0x01),
      (''HCI_WRITE_LOOPBACK_MODE'', 0x02),
      (''HCI_ENABLE_DEVICE_UNDER_TEST_MODE'', 0x03),
      (''HCI_WRITE_SIMPLE_PAIRING_DEBUG_MODE'', 0x04),
      (''HCI_WRITE_SECURE_CONNECTIONS_TEST_MODE'', 0x0a)]"

definition le_opcodes :: "(string \<times> u32) list" where
  "le_opcodes = map (\<lambda>(n, ocf). (n, HCI_OPCODE OGF_LE_CONTROLLER ocf))
     [(''HCI_LE_SET_EVENT_MASK'', 0x01),
      (''HCI_LE_READ_BUFFER_SIZE'', 0x02),
      (''HCI_LE_READ_LOCAL_SUPPORTED_FEATURES'', 0x03),
      (''HCI_LE_SET_RANDOM_ADDRESS'', 0x05),
      (''HCI_LE_SET_ADVERTISING_PARAMETERS'', 0x06),
      (''HCI_LE_READ_ADVERTISING_CHANNEL_TX_POWER'', 0x07),
      (''HCI_LE_SET_ADVERTISING_DATA'', 0x08),
      (''HCI_LE_SET_SCAN_RESPONSE_DATA'', 0x09),
      (''HCI_LE_SET_ADVERTISE_ENABLE'', 0x0a),
      (''HCI_LE_SET_SCAN_PARAMETERS'', 0x0b),
      (''HCI_LE_SET_SCAN_ENABLE'', 0x0c),
      (''HCI_LE_CREATE_CONNECTION'', 0x0d),
      (''HCI_LE_CREATE_CONNECTION_CANCEL'', 0x0e),
      (''HCI_LE_READ_WHITE_LIST_SIZE'', 0x0f),
      (''HCI_LE_CLEAR_WHITE_LIST'', 0x10),
      (''HCI_LE_ADD_DEVICE_TO_WHITE_LIST'', 0x11),
      (''HCI_LE_REMOVE_DEVICE_FROM_WHITE_LIST'', 0x12),
      (''HCI_LE_CONNECTION_UPDATE'', 0x13),
      (''HCI_LE_SET_HOST_CHANNEL_CLASSIFICATION'', 0x14),
      (''HCI_LE_READ_CHANNEL_MAP'', 0x15),
      (''HCI_LE_READ_REMOTE_USED_FEATURES'', 0x16),
      (''HCI_LE_ENCRYPT'', 0x17),
      (''HCI_LE_RAND'', 0x18),
      (''HCI_LE_START_ENCRYPTION'', 0x19),
      (''HCI_LE_LONG_TERM_KEY_REQUEST_REPLY'', 0x1a),
      (''HCI_LE_LONG_TERM_KEY_NEGATIVE_REPLY'', 0x1b),
      (''HCI_LE_READ_SUPPORTED_STATES'', 0x1c),
      (''HCI_LE_RECEIVER_TEST'', 0x1d),
      (''HCI_LE_TRANSMITTER_TEST'', 0x1e),
      (''HCI_LE_TEST_END'', 0x1f),
      (''HCI_LE_REMOTE_CONNECTION_PARAMETER_REQUEST_REPLY'', 0x20),
      (''HCI_LE_REMOTE_CONNECTION_PARAMETER_REQUEST_NEGATIVE_REPLY'', 0x21),
      (''HCI_LE_SET_DATA_LENGTH'', 0x22),
      (''HCI_LE_READ_SUGGESTED_DEFAULT_DATA_LENGTH'', 0x23),
      (''HCI_LE_WRITE_SUGGESTED_DEFAULT_DATA_LENGTH'', 0x24),
      (''HCI_LE_READ_LOCAL_P256_PUBLIC_KEY'', 0x25),
      (''HCI_LE_GENERATE_DHKEY'', 0x26),
      (''HCI_LE_ADD_DEVICE_TO_RESOLVING_LIST'', 0x27),
      (''HCI_LE_REMOVE_DEVICE_FROM_RESOLVING_LIST'', 0x28),
      (''HCI_LE_CLEAR_RESOLVING_LIST'', 0x29),
      (''HCI_LE_READ_RESOLVING_LIST_SIZE'', 0x2A),
      (''HCI_LE_READ_PEER_RESOLVABLE_ADDRESS'', 0x2B),
      (''HCI_LE_READ_LOCAL_RESOLVABLE_ADDRESS'', 0x2C),
      (''HCI_LE_SET_ADDRESS_RESOLUTION_ENABLED'', 0x2D),
      (''HCI_LE_SET_RESOLVABLE_PRIVATE_ADDRESS_TIMEOUT'', 0x2E),
      (''HCI_LE_READ_MAXIMUM_DATA_LENGTH'', 0x2F),
      (''HCI_LE_READ_PHY'', 0x30),
      (''HCI_LE_SET_DEFAULT_PHY'', 0x31),
      (''HCI_LE_SET_PHY'', 0x32),
      (''HCI_LE_RECEIVER_TEST_V2'', 0x33),
      (''HCI_LE_TRANSMITTER_TEST_V2'', 0x34),
      (''HCI_LE_SET_ADVERTISING_SET_RANDOM_ADDRESS'', 0x35),
      (''HCI_LE_SET_EXTENDED_ADVERTISING_PARAMETERS'', 0x36),
      (''HCI_LE_SET_EXTENDED_ADVERTISING_DATA'', 0x37),
      (''HCI_LE_SET_EXTENDED_SCAN_RESPONSE_DATA'', 0x38),
      (''HCI_LE_SET_EXTENDED_ADVERTISING_ENABLE'', 0x39),
      (''HCI_LE_READ_MAXIMUM_ADVERTISING_DATA_LENGTH'', 0x3a),
      (''HCI_LE_READ_NUMBER_OF_SUPPORTED_ADVERTISING_SETS'', 0x3b),
      (''HCI_LE_REMOVE_ADVERTISING_SET'', 0x3c),
      (''HCI_LE_CLEAR_ADVERTISING_SETS'', 0x3d),
      (''HCI_LE_SET_PERIODIC_ADVERTISING_PARAMETERS'', 0x3e),
      (''HCI_LE_SET_PERIODIC_ADVERTISING_DATA'', 0x3f),
      (''HCI_LE_SET_PERIODIC_ADVERTISING_ENABLE'', 0x40),
      (''HCI_LE_SET_EXTENDED_SCAN_PARAMETERS'', 0x41),
      (''HCI_LE_SET_EXTENDED_SCAN_ENABLE'', 0x42),
      (''HCI_LE_EXTENDED_CREATE_CONNECTION'', 0x43),
      (''HCI_LE_PERIODIC_ADVERTISING_CREATE_SYNC'', 0x44),
      (''HCI_LE_PERIODIC_ADVERTISING_CREATE_SYNC_CANCEL'', 0x45),
      (''HCI_LE_PERIODIC_ADVERTISING_TERMINATE_SYNC'', 0x46),
      (''HCI_LE_ADD_DEVICE_TO_PERIODIC_ADVERTISER_LIST'', 0x47),
      (''HCI_LE_REMOVE_DEVICE_FROM_PERIODIC_ADVERTISER_LIST'', 0x48),
      (''HCI_LE_CLEAR_PERIODIC_ADVERTISER_LIST'', 0x49),
      (''HCI_LE_READ_PERIODIC_ADVERTISER_LIST_SIZE'', 0x4a),
      (''HCI_LE_READ_TRANSMIT_POWER'', 0x4b),
      (''HCI_LE_READ_RF_PATH_COMPENSATION'', 0x4c),
      (''HCI_LE_WRITE_RF_PATH_COMPENSATION'', 0x4d),
      (''HCI_LE_SET_PRIVACY_MODE'', 0x4e),
      (''HCI_LE_RECEIVER_TEST_V3'', 0x4f),
      (''HCI_LE_TRANSMITTER_TEST_V3'', 0x50),
      (''HCI_LE_SET_CONNECTIONLESS_CTE_TRANSMIT_PARAMETERS'', 0x51),
      (''HCI_LE_SET_CONNECTIONLESS_CTE_TRANSMIT_ENABLE'', 0x52),
      (''HCI_LE_SET_CONNECTIONLESS_IQ_SAMPLING_ENABLE'', 0x53),
      (''HCI_LE_SET_CONNECTION_CTE_RECEIVE_PARAMETERS'', 0x54),
      (''HCI_LE_SET_CONNECTION_CTE_TRANSMIT_PARAMETERS'', 0x55),
      (''HCI_LE_CONNECTION_CTE_REQUEST_ENABLE'', 0x56),
      (''HCI_LE_CONNECTION_CTE_RESPONSE_ENABLE'', 0x57),
      (''HCI_LE_READ_ANTENNA_INFORMATION'', 0x58),
      (''HCI_LE_SET_PERIODIC_ADVERTISING_RECEIVE_ENABLE'', 0x59),
      (''HCI_LE_PERIODIC_ADVERTISING_SYNC_TRANSFER'', 0x5a),
      (''HCI_LE_PERIODIC_ADVERTISING_SET_INFO_TRANSFER'', 0x5b),
      (''HCI_LE_SET_PERIODIC_ADVERTISING_SYNC_TRANSFER_PARAMETERS'', 0x5c),
      (''HCI_LE_SET_DEFAULT_PERIODIC_ADVERTISING_SYNC_TRANSFER_PARAMETERS'', 0x5d),
      (''HCI_LE_GENERATE_DHKEY_V2'', 0x5e),
      (''HCI_LE_MODIFY_SLEEP_CLOCK_ACCURACY'', 0x5f),
      (''HCI_LE_READ_BUFFER_SIZE_V2'', 0x60),
      (''HCI_LE_READ_ISO_TX_SYNC'', 0x61),
      (''HCI_LE_SET_CIG_PARAMETERS'', 0x62),
      (''HCI_LE_SET_CIG_PARAMETERS_TEST'', 0x63),
      (''HCI_LE_CREATE_CIS'', 0x64),
      (''HCI_LE_REMOVE_CIG'', 0x65),
      (''HCI_LE_ACCEPT_CIS_REQUEST'', 0x66),
      (''HCI_LE_REJECT_CIS_REQUEST'', 0x67),
      (''HCI_LE_CREATE_BIG'', 0x68),
      (''HCI_LE_CREATE_BIG_TEST'', 0x69),
      (''HCI_LE_TERMINATE_BIG'', 0x6a),
      (''HCI_LE_BIG_CREATE_SYNC'', 0x6b),
      (''HCI_LE_BIG_TERMINATE_SYNC'', 0x6c),
      (''HCI_LE_REQUEST_PEER_SCA'', 0x6d),
      (''HCI_LE_SETUP_ISO_DATA_PATH'', 0x6e),
      (''HCI_LE_REMOVE_ISO_DATA_PATH'', 0x6f),
      (''HCI_LE_ISO_TRANSMIT_TEST'', 0x70),
      (''HCI_LE_ISO_RECEIVE_TEST'', 0x71),
      (''HCI_LE_ISO_READ_TEST_COUNTERS'', 0x72),
      (''HCI_LE_ISO_TEST_END'', 0x73),
      (''HCI_LE_SET_HOST_FEATURE'', 0x74),
      (''HCI_LE_READ_ISO_LINK_QUALITY'', 0x75),
      (''HCI_LE_ENHANCED_READ_TRANSMIT_POWER_LEVEL'', 0x76),
      (''HCI_LE_READ_REMOTE_TRANSMIT_POWER_LEVEL'', 0x77),
      (''HCI_LE_SET_PATH_LOSS_REPORTING_PARAMETERS'', 0x78),
      (''HCI_LE_SET_PATH_LOSS_REPORTING_ENABLE'', 0x79),
      (''HCI_LE_SET_TRANSMIT_POWER_REPORTING_ENABLE'', 0x7a),
      (''HCI_LE_TRANSMITTER_TEST_V4'', 0x7B)]"

definition vendor_opcodes :: "(string \<times> u32) list" where
  "vendor_opcodes = map (\<lambda>(n, ocf). (n, HCI_OPCODE 0x3f ocf))
     [(''HCI_BCM_WRITE_SCO_PCM_INT'', 0x1c),
      (''HCI_BCM_SET_SLEEP_MODE'', 0x27),
      (''HCI_BCM_WRITE_I2SPCM_INTERFACE_PARAM'', 0x6d),
      (''HCI_BCM_ENABLE_WBS'', 0x7e),
      (''HCI_BCM_WRITE_TX_POWER_TABLE'', 0x1C9),
      (''HCI_BCM_SET_TX_PWR'', 0x1A5)]
     @ [(''HCI_TI_VS_CONFIGURE_DDIP'', 0xFD55)]"

definition hci_opcode_t :: "(string \<times> u32) list" where
  "hci_opcode_t =
     link_control_opcodes @ link_policy_opcodes @ baseband_opcodes @ informational_opcodes
     @ status_opcodes @ testing_opcodes @ le_opcodes @ vendor_opcodes"

text \<open>The value of an enumerator, by its group and its name.\<close>

definition enumerator :: "(string \<times> u32) list \<Rightarrow> string \<Rightarrow> u32" where
  "enumerator table n = the (map_of table n)"

section \<open>The macros of main.c\<close>

text \<open>
  The macros with opcodes; \<open>HCI_Read_Logical_Link_Accept_Timeout\<close> is missing, because its name
  and its value are written without a space.
\<close>

definition baseband_macros :: "(string \<times> u32) list" where
  "baseband_macros =
     [(''HCI_Set_Event_Mask'', 0x0c01),
      (''HCI_Reset'', 0x0c03),
      (''HCI_Set_Event_Filter'', 0x0c05),
      (''HCI_Flush'', 0x0c08),
      (''HCI_Read_Pin_Type'', 0x0c09),
      (''HCI_Write_Pin_Type'', 0x0c0a),
      (''HCI_Create_New_Unit_Key'', 0x0c0b),
      (''HCI_Read_Stored_Link_Key'', 0x0c0d),
      (''HCI_Write_Stored_Link_Key'', 0x0c11),
      (''HCI_Delete_Stored_Link_Key'', 0x0c12),
      (''HCI_Write_Local_Name'', 0x0c13),
      (''HCI_Read_Local_Name'', 0x0c14),
      (''HCI_Read_Connection_Accept_Timeout'', 0x0c15),
      (''HCI_Write_Connection_Accept_Timeout'', 0x0c16),
      (''HCI_Read_Page_Timeout'', 0x0c17),
      (''HCI_Write_Page_Timeout'', 0x0c18),
      (''HCI_Read_Scan_Enable'', 0x0c19),
      (''HCI_Write_Scan_Enable'', 0x0c1a),
      (''HCI_Read_Page_Scan_Activity'', 0x0c1b),
      (''HCI_Write_Page_Scan_Activity'', 0x0c1c),
      (''HCI_Read_Inquiry_Scan_Activity'', 0x0c1d),
      (''HCI_Write_Inquiry_Scan_Activity'', 0x0c1e),
      (''HCI_Read_Authentication_Enable'', 0x0c1f),
      (''HCI_Write_Authentication_Enable'', 0x0c20),
      (''HCI_Read_Class_of_Device'', 0x0c23),
      (''HCI_Write_Class_of_Device'', 0x0c24),
      (''HCI_Read_Voice_Setting'', 0x0c25),
      (''HCI_Write_Voice_Setting'', 0x0c26),
      (''HCI_Read_Automatic_Flush_Timeout'', 0x0c27),
      (''HCI_Write_Automatic_Flush_Timeout'', 0x0c28),
      (''HCI_Read_Num_Broadcast_Retransmissions'', 0x0c29),
      (''HCI_Write_Num_Broadcast_Retransmissions'', 0x0c2a),
      (''HCI_Read_Hold_Mode_Activity'', 0x0c2b),
      (''HCI_Write_Hold_Mode_Activity'', 0x0c2c),
      (''HCI_Read_Transmit_Power_Level'', 0x0c2d),
      (''HCI_Read_Synchronous_Flow_Control_Enable'', 0x0c2e),
      (''HCI_Write_Synchronous_Flow_Control_Enable'', 0x0c2f),
      (''HCI_Set_Controller_To_Host_Flow_Control'', 0x0c31),
      (''HCI_Host_Buffer_Size'', 0x0c33),
      (''HCI_Host_Number_Of_Completed_Packets'', 0x0c35),
      (''HCI_Read_Link_Supervision_Timeout'', 0x0c36),
      (''HCI_Write_Link_Supervision_Timeout'', 0x0c37),
      (''HCI_Read_Number_Of_Supported_IAC'', 0x0c38),
      (''HCI_Read_Current_IAC_LAP'', 0x0c39),
      (''HCI_Write_Current_IAC_LAP'', 0x0c3a),
      (''Set_AFH_Host_Channel_Classification'', 0x0c3f),
      (''HCI_Read_Inquiry_Scan_Type'', 0x0c42),
      (''HCI_Write_Inquiry_Scan_Type'', 0x0c43),
      (''HCI_Read_Inquiry_Mode'', 0x0c44),
      (''HCI_Write_Inquiry_Mode'', 0x0c45),
      (''HCI_Read_Page_Scan_Type'', 0x0c46),
      (''HCI_Write_Page_Scan_Type'', 0x0c47),
      (''Read_AFH_Channel_Assessment_Mode'', 0x0c48),
      (''Write_AFH_Channel_Assessment_Mode'', 0x0c49),
      (''HCI_Read_Extended_Inquiry_Response'', 0x0c51),
      (''HCI_Write_Extended_Inquiry_Response'', 0x0c52),
      (''HCI_Refresh_Encryption_Key'', 0x0c53),
      (''HCI_Read_Simple_Pairing_Mode'', 0x0c55),
      (''HCI_Write_Simple_Pairing_Mode'', 0x0c56),
      (''HCI_Read_Local_OOB_Data'', 0x0c57),
      (''HCI_Read_Inquiry_Response_Transmit_Power_Level'', 0x0c58),
      (''HCI_Write_Inquiry_Transmit_Power_Level'', 0x0c59),
      (''HCI_Send_Keypress_Notification'', 0x0c60),
      (''HCI_Read_Default_Erroneous_Data_Reporting'', 0x0c5a),
      (''HCI_Write_Default_Erroneous_Data_Reporting'', 0x0c5b),
      (''HCI_Enhanced_Flush'', 0x0c5f),
      (''HCI_Write_Logical_Link_Accept_Timeout'', 0x0c62),
      (''HCI_Set_Event_Mask_Page_2'', 0x0c63),
      (''HCI_Read_Location_Data'', 0x0c64),
      (''HCI_Write_Location_Data'', 0x0c65),
      (''HCI_Read_Flow_Control_Mode'', 0x0c66),
      (''HCI_Write_Flow_Control_Mode'', 0x0c67),
      (''HCI_Read_Enhance_Transmit_Power_Level'', 0x0c68),
      (''HCI_Read_Best_Effort_Flush_Timeout'', 0x0c69),
      (''HCI_Write_Best_Effort_Flush_Timeout'', 0x0c6a),
      (''HCI_Short_Range_Mode'', 0x0c6b),
      (''HCI_Read_LE_Host_Support'', 0x0c6c),
      (''HCI_Write_LE_Host_Support'', 0x0c6d)]"

definition informational_macros :: "(string \<times> u32) list" where
  "informational_macros =
     [(''HCI_Read_Local_Version_Information'', 0x1001),
      (''HCI_Read_Local_Supported_Commands'', 0x1002),
      (''HCI_Read_Local_Supported_Features'', 0x1003),
      (''HCI_Read_Buffer_Size'', 0x1005),
      (''HCI_Read_BD_ADDR'', 0x1009)]"

definition le_macros :: "(string \<times> u32) list" where
  "le_macros =
     [(''LE_Read_Buffer_Size'', 0x2002)]"

section \<open>The command templates\<close>

record command_template =
  opcode :: bytes
  payload :: bytes

definition reset_command_template :: command_template where
  "reset_command_template = \<lparr>opcode = HCI_OPCODE_TO_ARRAY (enumerator baseband_opcodes ''HCI_RESET''),
     payload = [0x00]\<rparr>"

definition read_local_version_information_template :: command_template where
  "read_local_version_information_template = \<lparr>opcode = HCI_OPCODE_TO_ARRAY (enumerator informational_opcodes ''HCI_READ_LOCAL_VERSION_INFORMATION''),
     payload = [0x00]\<rparr>"

definition read_local_name_template :: command_template where
  "read_local_name_template = \<lparr>opcode = HCI_OPCODE_TO_ARRAY (enumerator baseband_opcodes ''HCI_READ_LOCAL_NAME''),
     payload = [0x00]\<rparr>"

definition read_local_supported_commands_template :: command_template where
  "read_local_supported_commands_template = \<lparr>opcode = HCI_OPCODE_TO_ARRAY (enumerator informational_opcodes ''HCI_READ_LOCAL_SUPPORTED_COMMANDS''),
     payload = [0x00]\<rparr>"

definition read_bd_addr_template :: command_template where
  "read_bd_addr_template = \<lparr>opcode = HCI_OPCODE_TO_ARRAY (enumerator informational_opcodes ''HCI_READ_BD_ADDR''),
     payload = [0x00]\<rparr>"

definition read_buffer_size_template :: command_template where
  "read_buffer_size_template = \<lparr>opcode = HCI_OPCODE_TO_ARRAY (enumerator informational_opcodes ''HCI_READ_BUFFER_SIZE''),
     payload = [0x00]\<rparr>"

definition read_local_supported_features_template :: command_template where
  "read_local_supported_features_template = \<lparr>opcode = HCI_OPCODE_TO_ARRAY (enumerator informational_opcodes ''HCI_READ_LOCAL_SUPPORTED_FEATURES''),
     payload = [0x00]\<rparr>"

definition send_set_event_mask_template :: command_template where
  "send_set_event_mask_template = \<lparr>opcode = HCI_OPCODE_TO_ARRAY (enumerator baseband_opcodes ''HCI_SET_EVENT_MASK''),
     payload = [0x08, 0xFF, 0xFF, 0xFF, 0xFF, 0xFF, 0xFF, 0xFF, 0x3F]\<rparr>"

definition inquiry_template :: command_template where
  "inquiry_template = \<lparr>opcode = HCI_OPCODE_TO_ARRAY (enumerator link_control_opcodes ''HCI_INQUIRY''),
     payload = [0x05, 0x33, 0x8b, 0x9E, 0x20, 0x00]\<rparr>"

definition create_connection_template :: command_template where
  "create_connection_template = \<lparr>opcode = HCI_OPCODE_TO_ARRAY (enumerator link_control_opcodes ''HCI_CREATE_CONNECTION''),
     payload = [0x0D, 0x32, 0x87, 0xA4, 0x70, 0xF3, 0x5C, 0x18, 0xCC, 0x01, 0x00, 0x00, 0x00, 0x00]\<rparr>"

definition read_remote_supported_features_template :: command_template where
  "read_remote_supported_features_template = \<lparr>opcode = HCI_OPCODE_TO_ARRAY (enumerator link_control_opcodes ''HCI_READ_REMOTE_SUPPORTED_FEATURES_COMMAND''),
     payload = [0x02, 0x0b, 0x00]\<rparr>"

definition write_simple_pairing_mode_template :: command_template where
  "write_simple_pairing_mode_template = \<lparr>opcode = HCI_OPCODE_TO_ARRAY (enumerator baseband_opcodes ''HCI_WRITE_SIMPLE_PAIRING_MODE''),
     payload = [0x01, 0x01]\<rparr>"

definition packet :: "command_template \<Rightarrow> bytes" where
  "packet t = opcode t @ payload t"

lemmas template_defs =
  reset_command_template_def
  read_local_version_information_template_def
  read_local_name_template_def
  read_local_supported_commands_template_def
  read_bd_addr_template_def
  read_buffer_size_template_def
  read_local_supported_features_template_def
  send_set_event_mask_template_def
  inquiry_template_def
  create_connection_template_def
  read_remote_supported_features_template_def
  write_simple_pairing_mode_template_def

section \<open>Opcodes as numbers and as bytes\<close>

lemma take_bit_eq_self: "take_bit n (w :: u32) = w \<longleftrightarrow> unat w < 2 ^ n"
  by (simp only: word_unat_eq_iff unsigned_take_bit_eq take_bit_nat_eq_self_iff)

lemma HCI_OPCODE_split:
  assumes "ogf < 64" and "ocf < 1024"
  shows "drop_bit 10 (HCI_OPCODE ogf ocf) = ogf" and "HCI_OPCODE ogf ocf AND 0x3FF = ocf"
    and "HCI_OPCODE ogf ocf < 0x10000"
proof -
  have ocf: "take_bit 10 ocf = ocf" and ogf: "take_bit 6 ogf = ogf"
    using assms by (simp_all add: take_bit_eq_self word_less_nat_alt)
  have high: "n < 10" if "bit ocf n" for n
    using that by (subst (asm) ocf [symmetric]) (simp add: bit_take_bit_iff)
  have high': "n < 6" if "bit ogf n" for n
    using that by (subst (asm) ogf [symmetric]) (simp add: bit_take_bit_iff)
  show "drop_bit 10 (HCI_OPCODE ogf ocf) = ogf"
    by (intro bit_word_eqI)
      (auto simp: HCI_OPCODE_def bit_drop_bit_eq bit_or_iff bit_push_bit_iff dest: high high')
  have "HCI_OPCODE ogf ocf AND mask 10 = ocf"
    by (intro bit_word_eqI)
      (auto simp: HCI_OPCODE_def bit_and_iff bit_mask_iff bit_or_iff bit_push_bit_iff dest: high)
  then show "HCI_OPCODE ogf ocf AND 0x3FF = ocf"
    by (simp add: mask_eq_exp_minus_1)
  have "take_bit 16 (HCI_OPCODE ogf ocf) = HCI_OPCODE ogf ocf"
    by (intro bit_word_eqI)
      (auto simp: HCI_OPCODE_def bit_take_bit_iff bit_or_iff bit_push_bit_iff dest: high high')
  then show "HCI_OPCODE ogf ocf < 0x10000"
    by (simp add: take_bit_eq_self word_less_nat_alt)
qed

lemma HCI_OPCODE_TO_ARRAY_inject:
  assumes "HCI_OPCODE_TO_ARRAY c = HCI_OPCODE_TO_ARRAY d" and "c < 0x10000" and "d < 0x10000"
  shows "c = d"
proof -
  have split: "unat (HCI_OPCODE_HIGH x) = unat x div 256 \<and> unat (HCI_OPCODE_LOW x) = unat x mod 256"
    if "x < 0x10000" for x
  proof -
    have "unat x div 256 < 256" using that by (simp add: word_less_nat_alt)
    moreover have "unat (drop_bit 8 x) = unat x div 256"
      by (simp only: unat_drop_bit_eq) (simp add: drop_bit_eq_div)
    moreover have "x AND 0xFF = take_bit 8 x"
      by (simp add: take_bit_eq_mask mask_eq_exp_minus_1)
    moreover have "unat (take_bit 8 x) = unat x mod 256"
      by (simp only: unsigned_take_bit_eq) (simp add: take_bit_eq_mod)
    ultimately show ?thesis
      by (simp add: HCI_OPCODE_HIGH_def HCI_OPCODE_LOW_def unsigned_ucast_eq take_bit_nat_eq_self)
  qed
  have "unat c div 256 = unat d div 256" "unat c mod 256 = unat d mod 256"
    using assms(1) split [OF assms(2)] split [OF assms(3)] by (simp_all add: HCI_OPCODE_TO_ARRAY_def)
  then have "unat c = unat d"
    by (metis div_mult_mod_eq)
  then show ?thesis by (simp only: word_unat_eq_iff)
qed

text \<open>\<open>ARRAY_TO_UINT16\<close> does not undo \<open>HCI_OPCODE_TO_ARRAY\<close>: it exchanges the bytes.\<close>

lemma array_to_uint16_exchanges:
  "ARRAY_TO_UINT16 (HCI_OPCODE_TO_ARRAY c) = join16 (HCI_OPCODE_LOW c) (HCI_OPCODE_HIGH c)"
  by (simp add: ARRAY_TO_UINT16_def HCI_OPCODE_TO_ARRAY_def join16_def)

lemma assigned_opcodes_ascend:
  "successively (<)
     (map snd (link_control_opcodes @ link_policy_opcodes @ baseband_opcodes @ informational_opcodes
       @ status_opcodes @ testing_opcodes @ le_opcodes))"
  by code_simp

lemma opcodes_fit: "list_all (\<lambda>(n, c). c < 0x10000) hci_opcode_t"
  by code_simp

lemma opcode_fits: "c \<in> set (map snd hci_opcode_t) \<Longrightarrow> c < 0x10000"
  using opcodes_fit by (auto simp: list_all_iff)

lemma vendor_opcodes_values: "map snd vendor_opcodes = [0xfc1c, 0xfc27, 0xfc6d, 0xfc7e, 0xfdc9, 0xfda5, 0xfd55]"
  by (simp add: vendor_opcodes_def HCI_OPCODE_def)

lemma groups:
  "list_all (\<lambda>(n, c). drop_bit 10 c = OGF_LINK_CONTROL) link_control_opcodes"
  "list_all (\<lambda>(n, c). drop_bit 10 c = OGF_LINK_POLICY) link_policy_opcodes"
  "list_all (\<lambda>(n, c). drop_bit 10 c = OGF_CONTROLLER_BASEBAND) baseband_opcodes"
  "list_all (\<lambda>(n, c). drop_bit 10 c = OGF_INFORMATIONAL_PARAMETERS) informational_opcodes"
  "list_all (\<lambda>(n, c). drop_bit 10 c = OGF_STATUS_PARAMETERS) status_opcodes"
  "list_all (\<lambda>(n, c). drop_bit 10 c = OGF_TESTING) testing_opcodes"
  "list_all (\<lambda>(n, c). drop_bit 10 c = OGF_LE_CONTROLLER) le_opcodes"
  "list_all (\<lambda>(n, c). drop_bit 10 c = 0x3f) vendor_opcodes"
  by code_simp+

lemma sorted_le_last: "sorted_wrt (<) (xs :: u32 list) \<Longrightarrow> c \<in> set xs \<Longrightarrow> c \<le> last xs"
  by (cases xs rule: rev_cases) (auto simp: sorted_wrt_append)

lemma distinct_opcodes: "distinct (map snd hci_opcode_t)"
proof -
  obtain a where a: "a = link_control_opcodes @ link_policy_opcodes @ baseband_opcodes
      @ informational_opcodes @ status_opcodes @ testing_opcodes @ le_opcodes"
    by blast
  then have "successively (<) (map snd a)"
    using assigned_opcodes_ascend by simp
  then have sorted: "sorted_wrt (<) (map snd a)"
    by (subst (asm) successively_conv_sorted_wrt) (auto simp: transp_def)
  then have distinct: "distinct (map snd a)"
    by (simp add: strict_sorted_iff)
  have last: "last (map snd a) = 0x207B"
    by (simp add: a le_opcodes_def HCI_OPCODE_def OGF_LE_CONTROLLER_def)
  have "\<forall>c \<in> set (map snd a). c \<le> 0x207B"
    using sorted_le_last [OF sorted, unfolded last] by blast
  moreover have "\<forall>c \<in> set (map snd vendor_opcodes). \<not> c \<le> 0x207B"
    by (simp add: vendor_opcodes_values)
  ultimately have disjoint: "set (map snd a) \<inter> set (map snd vendor_opcodes) = {}"
    by blast
  have vendor: "distinct (map snd vendor_opcodes)"
    by (simp add: vendor_opcodes_values)
  have parts: "hci_opcode_t = a @ vendor_opcodes"
    by (simp add: hci_opcode_t_def a)
  show ?thesis
    unfolding parts map_append distinct_append using distinct vendor disjoint by blast
qed

text \<open>
  The 239 opcodes of \<open>hci.h\<close> are different commands: no two of them have the same bytes on
  the bus, and each is in the group it is listed under.
\<close>

lemma hci_opcodes_identify_commands:
  "distinct (map (\<lambda>(n, c). HCI_OPCODE_TO_ARRAY c) hci_opcode_t) \<and> length hci_opcode_t = 239 \<and>
   map (\<lambda>(n, c). drop_bit 10 c) hci_opcode_t =
     replicate 35 OGF_LINK_CONTROL @ replicate 13 OGF_LINK_POLICY @ replicate 50 OGF_CONTROLLER_BASEBAND
     @ replicate 5 OGF_INFORMATIONAL_PARAMETERS @ replicate 2 OGF_STATUS_PARAMETERS
     @ replicate 5 OGF_TESTING @ replicate 122 OGF_LE_CONTROLLER @ replicate 7 0x3f"
proof (intro conjI)
  have "distinct (map HCI_OPCODE_TO_ARRAY (map snd hci_opcode_t))"
    unfolding distinct_map [of HCI_OPCODE_TO_ARRAY] inj_on_def
    using distinct_opcodes opcode_fits HCI_OPCODE_TO_ARRAY_inject by blast
  then show "distinct (map (\<lambda>(n, c). HCI_OPCODE_TO_ARRAY c) hci_opcode_t)"
    by (simp add: comp_def case_prod_unfold)
  have eq: "map (\<lambda>(n, c). drop_bit 10 c) xs = replicate (length xs) g"
    if "list_all (\<lambda>(n, c). drop_bit 10 c = g) xs" for xs :: "(string \<times> u32) list" and g
    using that by (induction xs) auto
  have len: "length link_control_opcodes = 35" "length link_policy_opcodes = 13"
    "length baseband_opcodes = 50" "length informational_opcodes = 5" "length status_opcodes = 2"
    "length testing_opcodes = 5" "length le_opcodes = 122" "length vendor_opcodes = 7"
    by (simp_all add: link_control_opcodes_def link_policy_opcodes_def baseband_opcodes_def
        informational_opcodes_def status_opcodes_def testing_opcodes_def le_opcodes_def
        vendor_opcodes_def)
  then show "length hci_opcode_t = 239"
    by (simp add: hci_opcode_t_def)
  show "map (\<lambda>(n, c). drop_bit 10 c) hci_opcode_t =
     replicate 35 OGF_LINK_CONTROL @ replicate 13 OGF_LINK_POLICY @ replicate 50 OGF_CONTROLLER_BASEBAND
     @ replicate 5 OGF_INFORMATIONAL_PARAMETERS @ replicate 2 OGF_STATUS_PARAMETERS
     @ replicate 5 OGF_TESTING @ replicate 122 OGF_LE_CONTROLLER @ replicate 7 0x3f"
    unfolding hci_opcode_t_def map_append
    using eq [OF groups(1)] eq [OF groups(2)] eq [OF groups(3)] eq [OF groups(4)] eq [OF groups(5)]
      eq [OF groups(6)] eq [OF groups(7)] eq [OF groups(8)]
    by (simp only: len)
qed

text \<open>The macros of \<open>main.c\<close> are different commands of the groups their values say.\<close>

lemma macros_in_groups:
  "list_all (\<lambda>(n, c). drop_bit 10 c = OGF_CONTROLLER_BASEBAND) baseband_macros"
  "list_all (\<lambda>(n, c). drop_bit 10 c = OGF_INFORMATIONAL_PARAMETERS) informational_macros"
  "list_all (\<lambda>(n, c). drop_bit 10 c = OGF_LE_CONTROLLER) le_macros"
  by code_simp+

lemma distinct_macros: "distinct (map snd (baseband_macros @ informational_macros @ le_macros))"
  by (simp add: baseband_macros_def informational_macros_def le_macros_def)

section \<open>The templates and the scripts\<close>

lemmas opcode_tables =
  enumerator_def HCI_OPCODE_def ogf_defs HCI_OPCODE_TO_ARRAY_def HCI_OPCODE_LOW_def HCI_OPCODE_HIGH_def

lemma template_packets:
  "packet reset_command_template = [0x03, 0x0c, 0x00]"
  "packet read_local_version_information_template = [0x01, 0x10, 0x00]"
  "packet read_local_name_template = [0x14, 0x0c, 0x00]"
  "packet read_local_supported_commands_template = [0x02, 0x10, 0x00]"
  "packet read_bd_addr_template = [0x09, 0x10, 0x00]"
  "packet read_buffer_size_template = [0x05, 0x10, 0x00]"
  "packet read_local_supported_features_template = [0x03, 0x10, 0x00]"
  "packet send_set_event_mask_template =
     [0x01, 0x0c, 0x08, 0xFF, 0xFF, 0xFF, 0xFF, 0xFF, 0xFF, 0xFF, 0x3F]"
  "packet write_simple_pairing_mode_template = [0x56, 0x0c, 0x01, 0x01]"
  by (simp_all add: packet_def template_defs opcode_tables baseband_opcodes_def informational_opcodes_def)

lemma link_template_packets:
  "packet inquiry_template = [0x01, 0x04, 0x05, 0x33, 0x8b, 0x9E, 0x20, 0x00]"
  "packet create_connection_template =
     [0x05, 0x04, 0x0D, 0x32, 0x87, 0xA4, 0x70, 0xF3, 0x5C, 0x18, 0xCC, 0x01, 0x00, 0x00, 0x00, 0x00]"
  "packet read_remote_supported_features_template = [0x1b, 0x04, 0x02, 0x0b, 0x00]"
  by (simp_all add: packet_def template_defs opcode_tables link_control_opcodes_def)

text \<open>
  The packets of \<open>command_template.h\<close>: each is well formed, its length byte counts the
  parameters behind it, and nine of the twelve are byte for byte the reset command and the
  packets that the initialisation of \<open>main.c\<close> sends first.
\<close>

lemma templates_are_the_script_packets:
  "list_all command_lengths_ok (map packet
     [reset_command_template, read_local_version_information_template, read_local_name_template,
      read_local_supported_commands_template, read_bd_addr_template, read_buffer_size_template,
      read_local_supported_features_template, send_set_event_mask_template, inquiry_template,
      create_connection_template, read_remote_supported_features_template,
      write_simple_pairing_mode_template]) \<and>
   map packet
     [read_local_version_information_template, read_local_name_template,
      read_local_supported_commands_template, read_bd_addr_template, read_buffer_size_template,
      read_local_supported_features_template, send_set_event_mask_template] = take 7 script_packets \<and>
   packet write_simple_pairing_mode_template = script_packets ! 10 \<and>
   packet reset_command_template = reset_command"
  by (simp add: template_packets link_template_packets command_lengths_ok_def script_packets_def
      script_defs packet_of_def reset_command_def)

end
