(* ===== verification/Pcap.thy ===== *)
theory Pcap
  imports Pklg
begin

text \<open>
  The headers of the pcap format (\<open>libpcap/libpcap.h\<close>) and the function of \<open>hci_test.cpp\<close> that
  writes a record of that format, with a reader of the format as the reference. The machine
  has its low byte first.
\<close>

section \<open>The headers\<close>

record pcap_hdr =
  magic_number :: u32
  version_major :: u16
  version_minor :: u16
  thiszone :: "32 word"
  sigfigs :: u32
  snaplen :: u32
  network :: u32

record pcaprec_hdr =
  ts_sec :: u32
  ts_usec :: u32
  incl_len :: u32
  orig_len :: u32

definition reset_pcap_hdr_t :: "pcap_hdr \<Rightarrow> pcap_hdr" where
  "reset_pcap_hdr_t h =
     h\<lparr>magic_number := 0, version_major := 0, version_minor := 0, thiszone := 0, sigfigs := 0,
       snaplen := 0, network := 0\<rparr>"

definition reset_pcaprec_hdr_t :: "pcaprec_hdr \<Rightarrow> pcaprec_hdr" where
  "reset_pcaprec_hdr_t h = h\<lparr>ts_sec := 0, ts_usec := 0, incl_len := 0, orig_len := 0\<rparr>"

lemma reset_is_zero:
  "reset_pcap_hdr_t h = \<lparr>magic_number = 0, version_major = 0, version_minor = 0, thiszone = 0,
     sigfigs = 0, snaplen = 0, network = 0\<rparr>"
  "reset_pcaprec_hdr_t r = \<lparr>ts_sec = 0, ts_usec = 0, incl_len = 0, orig_len = 0\<rparr>"
  by (simp_all add: reset_pcap_hdr_t_def reset_pcaprec_hdr_t_def)

section \<open>Writing a record\<close>

text \<open>A number as it lies in memory.\<close>

definition memory32 :: "u32 \<Rightarrow> bytes" where
  "memory32 x = rev (be32 x)"

text \<open>
  The bytes appended to the file; \<open>garbage\<close> is the local header before it is reset. The copied
  length is that of the parameter \<open>len\<close>.
\<close>

definition write_pcaprec_hdr_t ::
  "pcaprec_hdr \<Rightarrow> u32 \<Rightarrow> bool \<Rightarrow> u8 \<Rightarrow> u32 \<Rightarrow> bytes \<Rightarrow> bytes res" where
  "write_pcaprec_hdr_t garbage time is_sent packet_type n data =
     (let h = reset_pcaprec_hdr_t garbage;
          h = h\<lparr>ts_sec := time, ts_usec := time, incl_len := n + 4 + 1, orig_len := n + 4 + 1\<rparr>;
          direction = (if is_sent then 0x00000000 else 0x01000000)
      in andthen (fetch_up data 0 (unat n)) (\<lambda>payload.
           Inr (memory32 (ts_sec h) @ memory32 (ts_usec h) @ memory32 (incl_len h) @ memory32 (orig_len h)
             @ memory32 direction @ [packet_type] @ payload)))"

section \<open>The reference reader\<close>

text \<open>
  A record of the format: a header of four numbers, then \<open>incl_len\<close> bytes; \<open>None\<close> at the end of
  the file. In a capture of Bluetooth packets these bytes are the direction, four bytes with
  the high one first, and the packet behind its type.
\<close>

definition from_le :: "bytes \<Rightarrow> nat" where
  "from_le bs = from_be (rev bs)"

definition read_pcap_record :: "bytes \<Rightarrow> ((pcaprec_hdr \<times> bytes) \<times> bytes) option res" where
  "read_pcap_record f =
     (if f = [] then Inr None
      else if length f < 16 then Inl Out_Of_Bounds
      else
        (let h = \<lparr>ts_sec = word_of_nat (from_le (take 4 f)), ts_usec = word_of_nat (from_le (take 4 (drop 4 f))),
                  incl_len = word_of_nat (from_le (take 4 (drop 8 f))),
                  orig_len = word_of_nat (from_le (take 4 (drop 12 f)))\<rparr>;
             body = drop 16 f;
             n = unat (incl_len h)
         in if length body < n then Inl Out_Of_Bounds else Inr (Some ((h, take n body), drop n body))))"

definition was_received :: "bytes \<Rightarrow> bool" where
  "was_received body \<longleftrightarrow> from_be (take 4 body) = 1"

section \<open>Writing and reading\<close>

text \<open>A packet: its time, whether it was sent, its type and its bytes.\<close>

type_synonym captured = "u32 \<times> bool \<times> u8 \<times> bytes"

definition put_captured :: "captured \<Rightarrow> bytes" where
  "put_captured p =
     (let (time, is_sent, t, data) = p
      in memory32 time @ memory32 time @ memory32 (word_of_nat (length data) + 5) @ memory32 (word_of_nat (length data) + 5)
           @ (if is_sent then [0, 0, 0, 0] else [0, 0, 0, 1]) @ [t] @ data)"

definition captured_view :: "captured \<Rightarrow> pcaprec_hdr \<times> bytes" where
  "captured_view p =
     (let (time, is_sent, t, data) = p; n = word_of_nat (length data) + 5
      in (\<lparr>ts_sec = time, ts_usec = time, incl_len = n, orig_len = n\<rparr>,
          (if is_sent then [0, 0, 0, 0] else [0, 0, 0, 1]) @ [t] @ data))"

definition capturable :: "captured \<Rightarrow> bool" where
  "capturable p \<longleftrightarrow> length (snd (snd (snd p))) + 5 < 2 ^ 32"

lemma memory32_direction: "memory32 0 = [0, 0, 0, 0]" "memory32 0x01000000 = [0, 0, 0, 1]"
  by (simp_all add: memory32_def be32_def)

lemma from_le_memory32 [simp]: "from_le (memory32 x) = unat x"
  by (simp add: from_le_def memory32_def from_be_be32)

lemma length_memory32 [simp]: "length (memory32 x) = 4"
  by (simp add: memory32_def)

lemma write_pcap_record:
  assumes "length data < 2 ^ 32"
  shows "write_pcaprec_hdr_t g time is_sent t (word_of_nat (length data)) data =
    Inr (put_captured (time, is_sent, t, data))"
proof -
  have n: "unat (word_of_nat (length data) :: u32) = length data"
    using assms by (simp add: unat_of_nat)
  have "fetch_up data 0 (length data) = Inr data"
    using fetch_up_in_range [of 0 "length data" data] by simp
  then show ?thesis
    by (simp add: write_pcaprec_hdr_t_def n put_captured_def memory32_direction Let_def add.assoc)
qed

interpretation pcap: framing put_captured read_pcap_record captured_view capturable
proof
  fix p :: captured and rest :: bytes
  assume ok: "capturable p"
  obtain time is_sent t data where p: "p = (time, is_sent, t, data)"
    by (cases p)
  let ?n = "word_of_nat (length data) + 5 :: u32"
  have "unat ?n = length data + 5"
    using ok by (simp add: p capturable_def unat_word_ariths unat_of_nat)
  then show "read_pcap_record (put_captured p @ rest) = Inr (Some (captured_view p, rest))"
    by (simp add: p read_pcap_record_def put_captured_def captured_view_def Let_def)
qed

lemma captured_direction: "was_received (snd (captured_view (time, is_sent, t, data))) \<longleftrightarrow> \<not> is_sent"
  by (simp add: was_received_def captured_view_def from_be_def Let_def)

text \<open>
  C25. A capture is read back record by record: the reader of the pcap format takes off the
  records that \<open>write_pcaprec_hdr_t\<close> wrote, with their time, their length, the packet behind its
  type, and the direction by which it travelled, and stops at the end of the file.
\<close>

theorem pcap_records_round_trip:
  assumes "list_all (\<lambda>(time, is_sent, t, data). length data + 5 < 2 ^ 32) ps"
  shows "\<exists>chunks. map Inr chunks =
      map (\<lambda>(time, is_sent, t, data).
        write_pcaprec_hdr_t g time is_sent t (word_of_nat (length data)) data) ps \<and>
    take_all read_pcap_record (Suc (length ps)) (concat chunks) = Inr (map captured_view ps) \<and>
    map (\<lambda>p. was_received (snd (captured_view p))) ps = map (\<lambda>p. \<not> fst (snd p)) ps"
proof (intro exI conjI)
  have ok: "list_all capturable ps"
    using assms by (auto simp: list_all_iff capturable_def)
  then show "map Inr (map put_captured ps) =
      map (\<lambda>(time, is_sent, t, data).
        write_pcaprec_hdr_t g time is_sent t (word_of_nat (length data)) data) ps"
    by (auto simp: list_all_iff capturable_def write_pcap_record)
  show "take_all read_pcap_record (Suc (length ps)) (concat (map put_captured ps)) = Inr (map captured_view ps)"
    using pcap.take_all_file [OF ok] by (simp add: read_pcap_record_def)
  show "map (\<lambda>p. was_received (snd (captured_view p))) ps = map (\<lambda>p. \<not> fst (snd p)) ps"
    by (auto simp: captured_direction)
qed

theorem pcap_records_round_trip_witness:
  "\<exists>a b. write_pcaprec_hdr_t \<lparr>ts_sec = 1, ts_usec = 2, incl_len = 3, orig_len = 4\<rparr>
      1000 True hci_command 3 [0x03, 0x0C, 0x00] = Inr a \<and>
     write_pcaprec_hdr_t \<lparr>ts_sec = 1, ts_usec = 2, incl_len = 3, orig_len = 4\<rparr>
      1001 False hci_event 6 [0x0E, 4, 1, 3, 0x0C, 0] = Inr b \<and>
     take_all read_pcap_record 3 (a @ b) =
       Inr [captured_view (1000, True, hci_command, [0x03, 0x0C, 0x00]),
            captured_view (1001, False, hci_event, [0x0E, 4, 1, 3, 0x0C, 0])]"
proof -
  let ?ps = "[(1000, True, hci_command, [0x03, 0x0C, 0x00]),
              (1001, False, hci_event, [0x0E, 4, 1, 3, 0x0C, 0])] :: captured list"
  have "list_all (\<lambda>(time, is_sent, t, data). length data + 5 < 2 ^ 32) ?ps"
    by simp
  from pcap_records_round_trip [OF this, of "\<lparr>ts_sec = 1, ts_usec = 2, incl_len = 3, orig_len = 4\<rparr>"]
  obtain chunks where c: "map Inr chunks = map (\<lambda>(time, is_sent, t, data).
        write_pcaprec_hdr_t \<lparr>ts_sec = 1, ts_usec = 2, incl_len = 3, orig_len = 4\<rparr>
          time is_sent t (word_of_nat (length data)) data) ?ps"
    "take_all read_pcap_record (Suc (length ?ps)) (concat chunks) = Inr (map captured_view ?ps)"
    by blast
  then obtain a b where ab: "chunks = [a, b]"
    by (cases chunks; cases "tl chunks"; cases "tl (tl chunks)") simp_all
  have "take_all read_pcap_record 3 (a @ b) = Inr (map captured_view ?ps)"
    using c(2) by (simp only: ab concat.simps append_Nil2 list.size numeral_3_eq_3 add_0 add_Suc One_nat_def plus_nat.simps)
  then show ?thesis
    using c(1) ab by (intro exI [of _ a] exI [of _ b]) simp
qed

end
