(* ===== verification/Libusb_Iso.thy ===== *)
theory Libusb_Iso
  imports Libusb
begin

text \<open>
  The remaining inline functions of \<open>libusb.h\<close>: the parts of a control transfer's buffer, bulk
  stream and isochronous transfers with the two functions that locate a packet in the buffer,
  and the requests for descriptors. A pointer into a buffer is a position, null is \<open>None\<close>.
\<close>

section \<open>The buffer of a control transfer\<close>

definition libusb_control_transfer_get_data :: "'a libusb_transfer_scheme \<Rightarrow> nat" where
  "libusb_control_transfer_get_data t = LIBUSB_CONTROL_SETUP_SIZE"

record control_setup =
  bmRequestType :: u8
  bRequest :: u8
  wValue :: u16
  wIndex :: u16
  wLength :: u16

text \<open>The setup packet at the start of the buffer, its numbers in host byte order.\<close>

definition libusb_control_transfer_get_setup :: "'a libusb_transfer_scheme \<Rightarrow> control_setup res" where
  "libusb_control_transfer_get_setup t =
     (case tbuffer t of
        rt # r # v0 # v1 # i0 # i1 # l0 # l1 # _ \<Rightarrow>
          Inr \<lparr>bmRequestType = rt, bRequest = r, wValue = join16 v1 v0, wIndex = join16 i1 i0,
               wLength = join16 l1 l0\<rparr>
      | _ \<Rightarrow> Inl Out_Of_Bounds)"

lemma get_setup_of_filled:
  assumes "libusb_fill_control_setup (tbuffer t) rt r v i n = Inr buf"
  shows "libusb_control_transfer_get_setup (t\<lparr>tbuffer := buf\<rparr>) =
      Inr \<lparr>bmRequestType = rt, bRequest = r, wValue = v, wIndex = i, wLength = n\<rparr>"
    and "drop (libusb_control_transfer_get_data t) buf = drop 8 (tbuffer t)"
  using assms
  by (auto simp: libusb_fill_control_setup_def libusb_control_transfer_get_setup_def setup_packet_def
      libusb_cpu_to_le16_def libusb_control_transfer_get_data_def LIBUSB_CONTROL_SETUP_SIZE_def
      split: if_splits)

section \<open>Bulk streams\<close>

definition LIBUSB_TRANSFER_TYPE_BULK_STREAM :: u8 where "LIBUSB_TRANSFER_TYPE_BULK_STREAM = 4"

text \<open>The transfer and the stream that \<open>libusb_transfer_set_stream_id\<close> is told.\<close>

definition libusb_fill_bulk_stream_transfer ::
  "libusb_transfer \<Rightarrow> u8 \<Rightarrow> u32 \<Rightarrow> bytes \<Rightarrow> int \<Rightarrow> string \<Rightarrow> nat \<Rightarrow> libusb_transfer \<times> u32" where
  "libusb_fill_bulk_stream_transfer t ep stream_id buf n cb tmo =
     ((libusb_fill_bulk_transfer t ep buf n cb tmo)\<lparr>ttype := LIBUSB_TRANSFER_TYPE_BULK_STREAM\<rparr>,
      stream_id)"

section \<open>Isochronous transfers\<close>

text \<open>A transfer with the array of packet descriptors, of which only the lengths matter here.\<close>

record iso_transfer = libusb_transfer +
  num_iso_packets :: int
  iso_packet_desc :: "u32 list"

definition libusb_fill_iso_transfer ::
  "iso_transfer \<Rightarrow> u8 \<Rightarrow> bytes \<Rightarrow> int \<Rightarrow> int \<Rightarrow> string \<Rightarrow> nat \<Rightarrow> iso_transfer" where
  "libusb_fill_iso_transfer t ep buf n packets cb tmo =
     t\<lparr>endpoint := ep, ttype := LIBUSB_TRANSFER_TYPE_ISOCHRONOUS, timeout := tmo, tbuffer := buf,
       tlength := n, num_iso_packets := packets, callback := cb\<rparr>"

text \<open>The loop of \<open>libusb_set_iso_packet_lengths\<close>, from packet \<open>i\<close> on.\<close>

fun set_lengths :: "nat \<Rightarrow> nat \<Rightarrow> u32 \<Rightarrow> u32 list \<Rightarrow> u32 list res" where
  "set_lengths i 0 n ls = Inr ls"
| "set_lengths i (Suc k) n ls =
     (if i < length ls then set_lengths (Suc i) k n (ls[i := n]) else Inl Out_Of_Bounds)"

definition libusb_set_iso_packet_lengths :: "iso_transfer \<Rightarrow> u32 \<Rightarrow> iso_transfer res" where
  "libusb_set_iso_packet_lengths t n =
     andthen (set_lengths 0 (nat (num_iso_packets t)) n (iso_packet_desc t)) (\<lambda>ls.
       Inr (t\<lparr>iso_packet_desc := ls\<rparr>))"

text \<open>The sum of the lengths of the packets before, in a \<open>size_t\<close> of \<open>w\<close> bits.\<close>

fun offset_of :: "nat \<Rightarrow> nat \<Rightarrow> u32 list \<Rightarrow> nat \<Rightarrow> nat res" where
  "offset_of w 0 ls offset = Inr offset"
| "offset_of w (Suc k) [] offset = Inl Out_Of_Bounds"
| "offset_of w (Suc k) (l # ls) offset = offset_of w k ls ((offset + unat l) mod 2 ^ w)"

definition INT_MAX :: int where "INT_MAX = 0x7FFFFFFF"

definition libusb_get_iso_packet_buffer :: "nat \<Rightarrow> iso_transfer \<Rightarrow> u32 \<Rightarrow> nat option res" where
  "libusb_get_iso_packet_buffer w t packet =
     (if uint packet > INT_MAX then Inr None
      else if uint packet \<ge> num_iso_packets t then Inr None
      else andthen (offset_of w (unat packet) (iso_packet_desc t) 0) (\<lambda>offset. Inr (Some offset)))"

text \<open>
  The simple form multiplies in \<open>int\<close>: an overflow is undefined. The position is an integer,
  for a length above \<open>INT_MAX\<close> becomes negative.
\<close>

definition libusb_get_iso_packet_buffer_simple :: "iso_transfer \<Rightarrow> u32 \<Rightarrow> int option res" where
  "libusb_get_iso_packet_buffer_simple t packet =
     (if uint packet > INT_MAX then Inr None
      else if uint packet \<ge> num_iso_packets t then Inr None
      else
        (case iso_packet_desc t of
           [] \<Rightarrow> Inl Out_Of_Bounds
         | l # _ \<Rightarrow>
             (let p = sint l * uint packet
              in if - INT_MAX - 1 \<le> p \<and> p \<le> INT_MAX then Inr (Some p) else Inl Indeterminate)))"

section \<open>Descriptor requests\<close>

text \<open>
  The arguments of \<open>libusb_control_transfer\<close>: request type, request, value, index, length and
  timeout.
\<close>

type_synonym control_request = "u8 \<times> u8 \<times> u16 \<times> u16 \<times> u16 \<times> nat"

definition LIBUSB_ENDPOINT_IN :: u8 where "LIBUSB_ENDPOINT_IN = 0x80"
definition LIBUSB_REQUEST_GET_DESCRIPTOR :: u8 where "LIBUSB_REQUEST_GET_DESCRIPTOR = 0x06"
definition LIBUSB_DT_STRING :: u8 where "LIBUSB_DT_STRING = 0x03"

definition libusb_get_descriptor :: "u8 \<Rightarrow> u8 \<Rightarrow> int \<Rightarrow> control_request" where
  "libusb_get_descriptor desc_type desc_index n =
     (LIBUSB_ENDPOINT_IN, LIBUSB_REQUEST_GET_DESCRIPTOR,
      push_bit 8 (ucast desc_type) OR ucast desc_index, 0, word_of_int n, 1000)"

definition libusb_get_string_descriptor :: "u8 \<Rightarrow> u16 \<Rightarrow> int \<Rightarrow> control_request" where
  "libusb_get_string_descriptor desc_index langid n =
     (LIBUSB_ENDPOINT_IN, LIBUSB_REQUEST_GET_DESCRIPTOR,
      push_bit 8 (ucast LIBUSB_DT_STRING) OR ucast desc_index, langid, word_of_int n, 1000)"

text \<open>The language 0 gives the general request for a descriptor of the type of strings.\<close>

lemma string_descriptor_request:
  "libusb_get_string_descriptor i 0 n = libusb_get_descriptor LIBUSB_DT_STRING i n"
  by (simp add: libusb_get_string_descriptor_def libusb_get_descriptor_def)

section \<open>The two ways to a packet\<close>

lemma set_lengths_all:
  "i + k \<le> length ls \<Longrightarrow> set_lengths i k n ls = Inr (take i ls @ replicate k n @ drop (i + k) ls)"
proof (induction k arbitrary: i ls)
  case (Suc k)
  then have "i < length ls" by simp
  then have "take (Suc i) (ls[i := n]) = take i ls @ [n]"
    by (simp add: take_Suc_conv_app_nth)
  then show ?case
    using Suc by simp
qed simp

lemma set_lengths_bound: "set_lengths i k n ls = Inr ls' \<Longrightarrow> k = 0 \<or> i + k \<le> length ls"
  by (induction k arbitrary: i ls) (auto split: if_splits; fastforce)+

lemma offset_of_equal:
  "k \<le> length ls \<Longrightarrow> \<forall>l \<in> set (take k ls). l = n \<Longrightarrow> offset + k * unat n < 2 ^ w \<Longrightarrow>
   offset_of w k ls offset = Inr (offset + k * unat n)"
proof (induction k arbitrary: ls offset)
  case (Suc k)
  then obtain l ls' where ls: "ls = l # ls'" by (cases ls) auto
  have "offset + unat n < 2 ^ w"
    using Suc.prems(3) by simp
  then show ?case
    using Suc.IH [of ls' "offset + unat n"] Suc.prems by (simp add: ls add.assoc)
qed simp

lemma sint_small: "uint (l :: u32) < 2 ^ 31 \<Longrightarrow> sint l = uint l"
proof -
  assume l: "uint l < 2 ^ 31"
  have "- (2 ^ 31) \<le> uint l"
    by (rule order_trans [OF _ uint_ge_0]) simp
  then have "signed_take_bit 31 (uint l) = uint l"
    using l by (rule signed_take_bit_int_eq_self)
  then show ?thesis
    by (simp add: sint_uint)
qed

text \<open>
  After \<open>libusb_set_iso_packet_lengths\<close> the two functions that locate a packet agree, and
  each packet lies behind the ones before it: for every packet of the transfer both return
  the same position, its number times the length, and for every other number both return
  null, as long as the buffer is below two gigabytes.
\<close>

lemma iso_packet_buffers_agree:
  assumes "libusb_set_iso_packet_lengths t n = Inr t'"
    and "num_iso_packets t \<le> INT_MAX" and "num_iso_packets t * uint n \<le> INT_MAX"
    and "uint n \<le> INT_MAX" and "32 \<le> w"
  shows "if int (unat packet) < num_iso_packets t
    then libusb_get_iso_packet_buffer w t' packet = Inr (Some (unat packet * unat n)) \<and>
         libusb_get_iso_packet_buffer_simple t' packet = Inr (Some (int (unat packet * unat n)))
    else libusb_get_iso_packet_buffer w t' packet = Inr None \<and>
         libusb_get_iso_packet_buffer_simple t' packet = Inr None"
proof (cases "int (unat packet) < num_iso_packets t")
  case False
  then have "num_iso_packets t' \<le> uint packet"
    using assms(1) by (auto simp: libusb_set_iso_packet_lengths_def andthen_eq_Inr)
  then show ?thesis
    using False by (simp add: libusb_get_iso_packet_buffer_def libusb_get_iso_packet_buffer_simple_def)
next
  case True
  let ?k = "unat packet" and ?m = "nat (num_iso_packets t)"
  obtain ls where ls: "set_lengths 0 ?m n (iso_packet_desc t) = Inr ls" "t' = t\<lparr>iso_packet_desc := ls\<rparr>"
    using assms(1) by (auto simp: libusb_set_iso_packet_lengths_def andthen_eq_Inr)
  have m: "?k < ?m" using True by linarith
  then have "?m \<le> length (iso_packet_desc t)"
    using set_lengths_bound [OF ls(1)] by linarith
  then have all: "ls = replicate ?m n @ drop ?m (iso_packet_desc t)"
    using ls(1) set_lengths_all [of 0 ?m "iso_packet_desc t" n] by simp
  then have len: "?k \<le> length ls" and eq: "\<forall>l \<in> set (take ?k ls). l = n"
    using m by (auto simp: take_append dest: in_set_takeD)
  have "int ?k * uint n \<le> num_iso_packets t * uint n"
    using True by (intro mult_right_mono) simp_all
  then have le: "int (?k * unat n) \<le> INT_MAX"
    using assms(3) by simp
  have "int (?k * unat n) < int (2 ^ 32)"
    by (rule le_less_trans [OF le]) (simp add: INT_MAX_def)
  then have "?k * unat n < 2 ^ 32"
    by (simp only: of_nat_less_iff)
  also have "\<dots> \<le> 2 ^ w"
    using assms(5) by (rule power_increasing) simp
  finally have offset: "offset_of w ?k ls 0 = Inr (?k * unat n)"
    using offset_of_equal [OF len eq, of 0 w] by simp
  have "sint n = uint n"
    using assms(4) by (intro sint_small) (simp add: INT_MAX_def)
  moreover have "- 2147483648 \<le> uint n * uint packet"
    by (rule order_trans [OF _ mult_nonneg_nonneg]) simp_all
  moreover obtain rest where "ls = n # rest"
    using all m by (cases ?m) auto
  ultimately show ?thesis
    using True le assms(2) offset ls(2)
    by (simp add: libusb_get_iso_packet_buffer_def libusb_get_iso_packet_buffer_simple_def Let_def
        mult.commute INT_MAX_def)
qed

text \<open>Three packets of 192 bytes.\<close>

definition example_iso :: iso_transfer where
  "example_iso = \<lparr>flags = 0, endpoint = 0x83, ttype = 1, timeout = 0,
     status = LIBUSB_TRANSFER_COMPLETED, tlength = 576, actual_length = 0, callback = [],
     tbuffer = replicate 576 0, num_iso_packets = 3, iso_packet_desc = [0, 0, 0]\<rparr>"

lemma iso_packet_buffers_agree_witness:
  "\<exists>t'. libusb_set_iso_packet_lengths example_iso 192 = Inr t' \<and>
     libusb_get_iso_packet_buffer 64 t' 2 = Inr (Some 384) \<and>
     libusb_get_iso_packet_buffer_simple t' 2 = Inr (Some 384) \<and>
     libusb_get_iso_packet_buffer 64 t' 3 = Inr None"
proof -
  obtain t' where t: "libusb_set_iso_packet_lengths example_iso 192 = Inr t'"
    by (simp add: libusb_set_iso_packet_lengths_def example_iso_def numeral_3_eq_3)
  have "num_iso_packets example_iso = 3"
    by (simp add: example_iso_def)
  then show ?thesis
    using t iso_packet_buffers_agree [OF t, of 64 2] iso_packet_buffers_agree [OF t, of 64 3]
    by (simp add: INT_MAX_def)
qed

end
