(* ===== verification/Libusb_Test.thy ===== *)
theory Libusb_Test
  imports Libusb
begin

text \<open>
  The program \<open>libusb_test.cpp\<close>, which lists the devices of the machine: the loop over the
  extra descriptors of an endpoint, which may not end, and the calls to libusb around it. The
  results of libusb are parameters. A result is \<open>None\<close> if the code does not return.
\<close>

section \<open>What is printed and called\<close>

datatype test_event =
    Line string "int list"
  | Text string bytes
  | Get_Companion | Free_Companion
  | Get_Bos | Free_Bos | Get_Capability | Free_Capability
  | Get_Config nat nat | Free_Config nat nat
  | Open nat | Get_String nat u8 | Close nat
  | Init | Get_List | Free_List | Exit

type_synonym run = "test_event list res option"

text \<open>One part of the program after the other.\<close>

definition events :: "test_event list \<Rightarrow> run" where
  "events es = Some (Inr es)"

definition seq :: "run \<Rightarrow> run \<Rightarrow> run" where
  "seq a b =
     (case a of
        None \<Rightarrow> None
      | Some (Inl e) \<Rightarrow> Some (Inl e)
      | Some (Inr es) \<Rightarrow> map_option (\<lambda>r. andthen r (\<lambda>es'. Inr (es @ es'))) b)"

definition seq_all :: "run list \<Rightarrow> run" where
  "seq_all rs = foldr seq rs (events [])"

section \<open>Descriptors\<close>

text \<open>The companion descriptor, and the outcome of the call that asks for it.\<close>

record companion =
  bMaxBurst :: u8
  comp_attributes :: u8
  wBytesPerInterval :: u16

record full_endpoint =
  ep_address :: u8
  ep_attributes :: u8
  wMaxPacketSize :: u16
  bInterval :: u8
  bRefresh :: u8
  bSynchAddress :: u8
  extra :: bytes
  companion_call :: "int + companion"

record full_altsetting =
  bInterfaceNumber :: u8
  bAlternateSetting :: u8
  bInterfaceClass :: u8
  bInterfaceSubClass :: u8
  bInterfaceProtocol :: u8
  iInterface :: u8
  alt_endpoints :: "full_endpoint list"

record full_config =
  wTotalLength :: u16
  bConfigurationValue :: u8
  iConfiguration :: u8
  config_attributes :: u8
  MaxPower :: u8
  interfaces :: "full_altsetting list list"

text \<open>A capability of a device and the outcome of the call that decodes it.\<close>

datatype capability =
    Usb_2_0 "int + u8 \<times> u32"
  | Superspeed "int + u8 \<times> u8 \<times> u16 \<times> u8 \<times> u8 \<times> u16"
  | Other_Capability

record bos =
  bos_length :: u16
  capabilities :: "capability list"

record full_device =
  speed :: nat
  bus_number :: u8
  device_address :: u8
  dev_descriptor :: "int + u16 \<times> u16 \<times> u16"
  iManufacturer :: u8
  iProduct_index :: u8
  iSerialNumber :: u8
  open_ok :: bool
  string_of_index :: "u8 \<Rightarrow> bytes option"
  configs :: "(int + full_config) list"
  bos_call :: "int + bos"

section \<open>The functions\<close>

definition print_endpoint_comp :: "companion \<Rightarrow> test_event list" where
  "print_endpoint_comp c =
     [Line ''USB 3.0 Endpoint Companion'' [], Line ''bMaxBurst'' [uint (bMaxBurst c)],
      Line ''bmAttributes'' [uint (comp_attributes c)],
      Line ''wBytesPerInterval'' [uint (wBytesPerInterval c)]]"

definition LIBUSB_DT_SS_ENDPOINT_COMPANION :: u8 where "LIBUSB_DT_SS_ENDPOINT_COMPANION = 0x30"

text \<open>
  The loop over the extra descriptors, at position \<open>i\<close>: a descriptor that cannot be obtained is
  asked for again, at the same position. The call for the companion descriptor has the same
  arguments, the whole endpoint, in every round (it only decodes the bytes in
  \<open>endpoint->extra\<close>), so its result \<open>outcome\<close> is one value.
\<close>

partial_function (option) extra_loop ::
  "bytes \<Rightarrow> int + companion \<Rightarrow> nat \<Rightarrow> test_event list \<Rightarrow> run" where
  "extra_loop ex outcome i es =
     (if length ex \<le> i then Some (Inr es)
      else if length ex \<le> i + 1 then Some (Inl Out_Of_Bounds)
      else if ex ! (i + 1) = LIBUSB_DT_SS_ENDPOINT_COMPANION then
        (case outcome of
           Inl r \<Rightarrow> extra_loop ex outcome i (es @ [Get_Companion])
         | Inr c \<Rightarrow> extra_loop ex outcome (i + unat (ex ! i))
             (es @ [Get_Companion] @ print_endpoint_comp c @ [Free_Companion]))
      else extra_loop ex outcome (i + unat (ex ! i)) es)"

definition print_endpoint :: "full_endpoint \<Rightarrow> run" where
  "print_endpoint e =
     seq (events [Line ''Endpoint'' [], Line ''bEndpointAddress'' [uint (ep_address e)],
            Line ''bmAttributes'' [uint (ep_attributes e)],
            Line ''wMaxPacketSize'' [uint (wMaxPacketSize e)], Line ''bInterval'' [uint (bInterval e)],
            Line ''bRefresh'' [uint (bRefresh e)], Line ''bSynchAddress'' [uint (bSynchAddress e)]])
       (extra_loop (extra e) (companion_call e) 0 [])"

definition print_altsetting :: "full_altsetting \<Rightarrow> run" where
  "print_altsetting a =
     seq (events [Line ''Interface'' [], Line ''bInterfaceNumber'' [uint (bInterfaceNumber a)],
            Line ''bAlternateSetting'' [uint (bAlternateSetting a)],
            Line ''bNumEndpoints'' [int (length (alt_endpoints a))],
            Line ''bInterfaceClass'' [uint (bInterfaceClass a)],
            Line ''bInterfaceSubClass'' [uint (bInterfaceSubClass a)],
            Line ''bInterfaceProtocol'' [uint (bInterfaceProtocol a)],
            Line ''iInterface'' [uint (iInterface a)]])
       (seq_all (map print_endpoint (alt_endpoints a)))"

definition print_2_0_ext_cap :: "u8 \<times> u32 \<Rightarrow> test_event list" where
  "print_2_0_ext_cap c =
     [Line ''USB 2.0 Extension Capabilities'' [], Line ''bDevCapabilityType'' [uint (fst c)],
      Line ''bmAttributes'' [uint (snd c)]]"

definition print_ss_usb_cap :: "u8 \<times> u8 \<times> u16 \<times> u8 \<times> u8 \<times> u16 \<Rightarrow> test_event list" where
  "print_ss_usb_cap c =
     (let (t, attributes, speeds, functionality, u1, u2) = c in
      [Line ''USB 3.0 Capabilities'' [], Line ''bDevCapabilityType'' [uint t],
       Line ''bmAttributes'' [uint attributes], Line ''wSpeedSupported'' [uint speeds],
       Line ''bFunctionalitySupport'' [uint functionality], Line ''bU1devExitLat'' [uint u1],
       Line ''bU2devExitLat'' [uint u2]])"

text \<open>The loop over the capabilities: a call that fails leaves the function at once.\<close>

fun capability_loop :: "capability list \<Rightarrow> test_event list" where
  "capability_loop [] = [Free_Bos]"
| "capability_loop (Usb_2_0 (Inl r) # cs) = [Get_Capability]"
| "capability_loop (Usb_2_0 (Inr c) # cs) =
     [Get_Capability] @ print_2_0_ext_cap c @ [Free_Capability] @ capability_loop cs"
| "capability_loop (Superspeed (Inl r) # cs) = [Get_Capability]"
| "capability_loop (Superspeed (Inr c) # cs) =
     [Get_Capability] @ print_ss_usb_cap c @ [Free_Capability] @ capability_loop cs"
| "capability_loop (Other_Capability # cs) = capability_loop cs"

definition print_bos :: "int + bos \<Rightarrow> test_event list" where
  "print_bos outcome =
     (case outcome of
        Inl r \<Rightarrow> [Get_Bos]
      | Inr b \<Rightarrow>
          [Get_Bos, Line ''Binary Object Store (BOS)'' [], Line ''wTotalLength'' [uint (bos_length b)],
           Line ''bNumDeviceCaps'' [int (length (capabilities b))]] @ capability_loop (capabilities b))"

definition print_interface :: "full_altsetting list \<Rightarrow> run" where
  "print_interface altsettings = seq_all (map print_altsetting altsettings)"

definition print_configuration :: "full_config \<Rightarrow> run" where
  "print_configuration c =
     seq (events [Line ''Configuration'' [], Line ''wTotalLength'' [uint (wTotalLength c)],
            Line ''bNumInterfaces'' [int (length (interfaces c))],
            Line ''bConfigurationValue'' [uint (bConfigurationValue c)],
            Line ''iConfiguration'' [uint (iConfiguration c)],
            Line ''bmAttributes'' [uint (config_attributes c)], Line ''MaxPower'' [uint (MaxPower c)]])
       (seq_all (map print_interface (interfaces c)))"

definition speed_text :: "nat \<Rightarrow> string" where
  "speed_text s =
     (if s = 1 then ''1.5M'' else if s = 2 then ''12M'' else if s = 3 then ''480M''
      else if s = 4 then ''5G'' else if s = 5 then ''10G'' else ''Unknown'')"

text \<open>The string of an index that is not zero, printed if it can be read.\<close>

definition string_lines :: "nat \<Rightarrow> full_device \<Rightarrow> string \<Rightarrow> u8 \<Rightarrow> test_event list" where
  "string_lines n d label i =
     (if i = 0 then []
      else Get_String n i # (case string_of_index d i of None \<Rightarrow> [] | Some s \<Rightarrow> [Text label s]))"

definition config_run :: "nat \<Rightarrow> nat \<times> (int + full_config) \<Rightarrow> run" where
  "config_run n c =
     (case snd c of
        Inl r \<Rightarrow> events [Get_Config n (fst c), Line ''Couldn't retrieve descriptors'' []]
      | Inr config \<Rightarrow>
          seq (events [Get_Config n (fst c)])
            (seq (print_configuration config) (events [Free_Config n (fst c)])))"

text \<open>\<open>print_device\<close> for the \<open>n\<close>-th device without a handle; \<open>verbose\<close> is the global variable.\<close>

definition print_device :: "bool \<Rightarrow> nat \<Rightarrow> full_device \<Rightarrow> run" where
  "print_device verbose n d =
     (case dev_descriptor d of
        Inl r \<Rightarrow> events [Line ''failed to get device descriptor'' []]
      | Inr (vendor, product, bcdUSB) \<Rightarrow>
          seq (events ([Line (''Dev '' @ speed_text (speed d))
                    [uint (bus_number d), uint (device_address d), uint vendor, uint product],
                  Open n]
                @ (if open_ok d then
                     string_lines n d ''Manufacturer'' (iManufacturer d)
                     @ string_lines n d ''Product'' (iProduct_index d)
                     @ (if verbose then string_lines n d ''Serial Number'' (iSerialNumber d) else [])
                   else [])))
          (seq (if verbose then
                  seq (seq_all (map (config_run n) (enumerate 0 (configs d))))
                    (events (if open_ok d \<and> 0x0201 \<le> bcdUSB then print_bos (bos_call d) else []))
                else events [])
             (events (if open_ok d then [Close n] else []))))"

text \<open>\<open>main\<close>; the variable \<open>verbose\<close> is 0 and never assigned.\<close>

definition test_main :: "int \<Rightarrow> int \<Rightarrow> full_device list \<Rightarrow> run \<times> int" where
  "test_main init_result list_result devs =
     (if init_result < 0 then (events [Init], init_result)
      else if list_result < 0 then (events [Init, Get_List, Exit], 1)
      else
        (seq (events [Init, Get_List])
           (seq (seq_all (map (\<lambda>(n, d). print_device False n d) (enumerate 0 devs)))
              (events [Free_List, Exit])), 0))"

definition test_wrapped_device :: "string \<Rightarrow> test_event list \<times> int" where
  "test_wrapped_device device_name =
     ([Line ''Testing wrapped devices is not supported on your platform'' []], 1)"

section \<open>When the loop over the extra descriptors ends\<close>

lemma seq_simps [simp]:
  "seq (Some (Inr es)) (Some (Inr es')) = Some (Inr (es @ es'))"
  "seq (Some (Inr es)) None = None"
  by (simp_all add: seq_def)

text \<open>A failing call for the companion descriptor is repeated for ever.\<close>

lemma companion_diverges:
  assumes "i + 1 < length ex" and "ex ! (i + 1) = LIBUSB_DT_SS_ENDPOINT_COMPANION"
  shows "extra_loop ex (Inl r) i es = None"
proof (rule ccontr)
  assume "extra_loop ex (Inl r) i es \<noteq> None"
  then obtain y where "extra_loop ex (Inl r) i es = Some y" by blast
  then have "\<not> (i + 1 < length ex \<and> ex ! (i + 1) = LIBUSB_DT_SS_ENDPOINT_COMPANION \<and> (\<exists>r'. (Inl r :: int + companion) = Inl r'))"
    by (rule extra_loop.raw_induct [rotated]) (auto split: if_splits sum.splits)
  then show False using assms by simp
qed

text \<open>So is a descriptor of length zero.\<close>

lemma zero_length_diverges:
  assumes "i + 1 < length ex" and "ex ! (i + 1) \<noteq> LIBUSB_DT_SS_ENDPOINT_COMPANION" and "ex ! i = 0"
  shows "extra_loop ex outcome i es = None"
proof (rule ccontr)
  assume "extra_loop ex outcome i es \<noteq> None"
  then obtain y where "extra_loop ex outcome i es = Some y" by blast
  then have "\<not> (i + 1 < length ex \<and> ex ! (i + 1) \<noteq> LIBUSB_DT_SS_ENDPOINT_COMPANION \<and> ex ! i = 0)"
    by (rule extra_loop.raw_induct [rotated]) (auto split: if_splits sum.splits)
  then show False using assms by simp
qed

text \<open>A descriptor as a device has it: its length, its type, the rest.\<close>

definition descriptor_ok :: "bytes \<Rightarrow> bool" where
  "descriptor_ok d \<longleftrightarrow> 2 \<le> length d \<and> unat (d ! 0) = length d"

definition is_companion :: "bytes \<Rightarrow> bool" where
  "is_companion d \<longleftrightarrow> d ! 1 = LIBUSB_DT_SS_ENDPOINT_COMPANION"

definition companion_events :: "companion \<Rightarrow> bytes \<Rightarrow> test_event list" where
  "companion_events c d =
     (if is_companion d then [Get_Companion] @ print_endpoint_comp c @ [Free_Companion] else [])"

lemma extra_step:
  assumes "descriptor_ok d"
  shows "extra_loop (pre @ d @ post) outcome (length pre) es =
    (if is_companion d then
       (case outcome of
          Inl r \<Rightarrow> None
        | Inr c \<Rightarrow> extra_loop ((pre @ d) @ post) outcome (length (pre @ d)) (es @ companion_events c d))
     else extra_loop ((pre @ d) @ post) outcome (length (pre @ d)) es)"
proof -
  have d: "2 \<le> length d" "unat (d ! 0) = length d"
    using assms by (simp_all add: descriptor_ok_def)
  obtain x y t where xy: "d = x # y # t"
    using d(1) by (cases d; cases "tl d") auto
  have n0: "(pre @ d @ post) ! length pre = d ! 0" and n1: "(pre @ d @ post) ! (length pre + 1) = d ! 1"
    unfolding xy by (simp_all add: nth_append)
  have len: "\<not> length (pre @ d @ post) \<le> length pre" "\<not> length (pre @ d @ post) \<le> length pre + 1"
    unfolding xy by simp_all
  show ?thesis
  proof (cases "is_companion d \<and> isl outcome")
    case True
    then show ?thesis
      using companion_diverges [of "length pre" "pre @ d @ post"] n1 len(2)
      by (auto simp: is_companion_def isl_def)
  next
    case False
    then show ?thesis
      by (subst extra_loop.simps)
        (use len n0 n1 d in \<open>auto simp: is_companion_def companion_events_def split: sum.split\<close>)
  qed
qed

lemma extra_loop_result:
  "list_all descriptor_ok ds \<Longrightarrow>
   extra_loop (pre @ concat ds) outcome (length pre) es =
     (case outcome of
        Inl r \<Rightarrow> if list_ex is_companion ds then None else Some (Inr es)
      | Inr c \<Rightarrow> Some (Inr (es @ concat (map (companion_events c) ds))))"
proof (induction ds arbitrary: pre es)
  case Nil
  then show ?case by (subst extra_loop.simps) (simp split: sum.split)
next
  case (Cons d ds)
  then show ?case
    using extra_step [of d pre "concat ds" outcome es] Cons.IH [of "pre @ d"]
    by (auto simp: companion_events_def split: sum.splits)
qed

text \<open>
  C24. The listing of an endpoint whose extra descriptors are well formed returns, except when
  one of them is a companion descriptor that libusb cannot decode: then the loop asks for it
  for ever. When it returns, every companion descriptor was obtained, printed and freed once.
\<close>

theorem print_endpoint_returns:
  assumes "extra e = concat ds" and "list_all descriptor_ok ds"
  shows "(print_endpoint e = None \<longleftrightarrow> isl (companion_call e) \<and> list_ex is_companion ds) \<and>
    (\<forall>r. print_endpoint e = Some r \<longrightarrow>
       (\<exists>es. r = Inr es \<and> count_list es Free_Companion = count_list es Get_Companion \<and>
          (\<not> isl (companion_call e) \<longrightarrow> count_list es Get_Companion = length (filter is_companion ds))))"
proof -
  have run: "extra_loop (extra e) (companion_call e) 0 [] =
     (case companion_call e of
        Inl r \<Rightarrow> if list_ex is_companion ds then None else Some (Inr [])
      | Inr c \<Rightarrow> Some (Inr (concat (map (companion_events c) ds))))"
    using extra_loop_result [OF assms(2), of "[]" "companion_call e" "[]"] assms(1)
    by (cases "companion_call e") simp_all
  have counts: "count_list (concat (map (companion_events c) ds)) Get_Companion = length (filter is_companion ds)"
    "count_list (concat (map (companion_events c) ds)) Free_Companion = length (filter is_companion ds)" for c
    by (induction ds) (simp_all add: companion_events_def print_endpoint_comp_def)
  show ?thesis
    unfolding print_endpoint_def run events_def
    by (cases "companion_call e") (auto simp: counts)
qed

text \<open>An endpoint with a descriptor of its class and a companion that cannot be decoded.\<close>

definition example_endpoint :: full_endpoint where
  "example_endpoint = \<lparr>ep_address = 0x81, ep_attributes = 2, wMaxPacketSize = 1024, bInterval = 0,
     bRefresh = 0, bSynchAddress = 0, extra = [3, 0x24, 1, 6, 0x30, 0, 0, 0, 0],
     companion_call = Inl (-5)\<rparr>"

theorem print_endpoint_returns_witness:
  "print_endpoint example_endpoint = None \<and>
   print_endpoint (example_endpoint\<lparr>companion_call := Inr \<lparr>bMaxBurst = 0, comp_attributes = 0, wBytesPerInterval = 0\<rparr>\<rparr>) \<noteq> None"
proof -
  let ?ds = "[[3, 0x24, 1], [6, 0x30, 0, 0, 0, 0]] :: bytes list"
  have ds: "list_all descriptor_ok ?ds" "list_ex is_companion ?ds"
    by (simp_all add: descriptor_ok_def is_companion_def LIBUSB_DT_SS_ENDPOINT_COMPANION_def)
  show ?thesis
    using print_endpoint_returns [OF _ ds(1), of example_endpoint]
      print_endpoint_returns [OF _ ds(1), of "example_endpoint\<lparr>companion_call := Inr \<lparr>bMaxBurst = 0, comp_attributes = 0, wBytesPerInterval = 0\<rparr>\<rparr>"] ds(2)
    by (simp add: example_endpoint_def)
qed

section \<open>The program\<close>

text \<open>What happens for one device; without \<open>verbose\<close> nothing in it can loop.\<close>

definition device_events :: "nat \<Rightarrow> full_device \<Rightarrow> test_event list" where
  "device_events n d =
     (case dev_descriptor d of
        Inl r \<Rightarrow> [Line ''failed to get device descriptor'' []]
      | Inr (vendor, product, bcdUSB) \<Rightarrow>
          [Line (''Dev '' @ speed_text (speed d))
             [uint (bus_number d), uint (device_address d), uint vendor, uint product], Open n]
          @ (if open_ok d then
               string_lines n d ''Manufacturer'' (iManufacturer d)
               @ string_lines n d ''Product'' (iProduct_index d) @ [Close n]
             else []))"

lemma print_device_events: "print_device False n d = Some (Inr (device_events n d))"
  by (auto simp: print_device_def device_events_def events_def split: sum.split prod.split)

lemma seq_all_events: "seq_all (map (\<lambda>x. Some (Inr (f x))) xs) = Some (Inr (concat (map f xs)))"
  by (induction xs) (auto simp: seq_all_def events_def)

text \<open>The devices that were asked for their descriptor and those that were opened.\<close>

definition described :: "full_device list \<Rightarrow> nat \<Rightarrow> bool" where
  "described devs n \<longleftrightarrow> n < length devs \<and> \<not> isl (dev_descriptor (devs ! n))"

lemma string_lines_counts:
  "count_list (string_lines n d label i) (Open m) = 0" "count_list (string_lines n d label i) (Close m) = 0"
  "count_list (string_lines n d label i) Free_List = 0" "count_list (string_lines n d label i) Exit = 0"
  by (auto simp: string_lines_def split: option.split)

lemma device_events_counts:
  "count_list (device_events n d) (Open m) = of_bool (n = m \<and> \<not> isl (dev_descriptor d))"
  "count_list (device_events n d) (Close m) = of_bool (n = m \<and> \<not> isl (dev_descriptor d) \<and> open_ok d)"
  "count_list (device_events n d) Free_List = 0" "count_list (device_events n d) Exit = 0"
  by (auto simp: device_events_def string_lines_counts split: sum.split)

lemma list_counts:
  "count_list (concat (map (\<lambda>(n, d). device_events n d) (enumerate k devs))) (Open m) =
     of_bool (k \<le> m \<and> described devs (m - k))"
  "count_list (concat (map (\<lambda>(n, d). device_events n d) (enumerate k devs))) (Close m) =
     of_bool (k \<le> m \<and> described devs (m - k) \<and> open_ok (devs ! (m - k)))"
  "count_list (concat (map (\<lambda>(n, d). device_events n d) (enumerate k devs))) Free_List = 0"
  "count_list (concat (map (\<lambda>(n, d). device_events n d) (enumerate k devs))) Exit = 0"
  by (induction devs arbitrary: k)
    (auto simp: device_events_counts described_def nth_Cons' Suc_le_eq)

text \<open>
  C37. When libusb and the list of devices can be had, \<open>libusb_test\<close> returns 0 whatever the
  devices are and whatever else fails: it tries to open exactly the devices whose descriptor
  could be read, each once, closes exactly those that it could open, each once, and frees
  the list and leaves libusb once.
\<close>

theorem listing_is_balanced:
  assumes "0 \<le> init_result" and "0 \<le> list_result"
  shows "\<exists>es. test_main init_result list_result devs = (Some (Inr es), 0) \<and>
    (\<forall>n. count_list es (Open n) = of_bool (described devs n) \<and>
         count_list es (Close n) = of_bool (described devs n \<and> open_ok (devs ! n))) \<and>
    count_list es Free_List = 1 \<and> count_list es Exit = 1"
proof -
  have "seq_all (map (\<lambda>(n, d). print_device False n d) (enumerate 0 devs)) =
      Some (Inr (concat (map (\<lambda>(n, d). device_events n d) (enumerate 0 devs))))"
    using seq_all_events [of "\<lambda>(n, d). device_events n d" "enumerate 0 devs"]
    by (simp add: print_device_events case_prod_unfold)
  then show ?thesis
    using assms list_counts [where k = 0 and devs = devs]
    by (simp add: test_main_def events_def)
qed

text \<open>Two devices, of which the second cannot be opened.\<close>

definition example_device :: full_device where
  "example_device = \<lparr>speed = 2, bus_number = 1, device_address = 4,
     dev_descriptor = Inr (0x0b05, 0x17cb, 0x0200), iManufacturer = 1, iProduct_index = 2,
     iSerialNumber = 3, open_ok = True, string_of_index = (\<lambda>i. Some [0x42, 0x54]), configs = [],
     bos_call = Inl (-5)\<rparr>"

theorem listing_is_balanced_witness:
  "\<exists>es. test_main 0 2 [example_device, example_device\<lparr>open_ok := False\<rparr>] = (Some (Inr es), 0) \<and>
     count_list es (Open 0) = 1 \<and> count_list es (Close 0) = 1 \<and>
     count_list es (Open 1) = 1 \<and> count_list es (Close 1) = 0 \<and> count_list es (Open 2) = 0"
  using listing_is_balanced [of 0 2 "[example_device, example_device\<lparr>open_ok := False\<rparr>]"]
  by (auto simp: described_def example_device_def)

end
