(* ===== verification/Spec2Isabelle.thy ===== *)
theory Spec2Isabelle
  imports Prelude Libusb Scan_Endpoints Usb_Send Main_Events Main_Events_Props Init_Script
    Main_Driver Main_Program Rfcomm_Fcs Sdp_Element Sdp_Encoder Sdp_Reader Sdp_Reader_Props
    Sdp_Flat Sdp_Server Hci_Codec Link_Keys Pklg L2cap_Server L2cap_Props
    Rfcomm_Server Acl_Callback Acl_Props Mtu_Negotiation Packet_Sender Acl_Sender
    Command_Sender Server_Events Server_Events_Props Server_Driver Given_Back
    Server_Driver_Props Server_Runs Server_Program Server_Program_Props
    Ezusb_Image Ezusb_Segments Ezusb_Hex Ezusb_Image_Props Ezusb_Loader Ezusb_Loader_Props
    Ezusb_Fx3 Ezusb_Fx3_Props Xgetopt Fxload Fxload_Props Usb_Names Usb_Devices Sdp_Tests
    Hci_Opcodes Pcap Libusb_Iso Libusb_Test
begin

text \<open>
  A Bluetooth host stack over libusb, in two programs. \<open>main.c\<close> looks for an ASUS BT400
  dongle, initialises its controller with a fixed script of HCI commands and answers the
  first events of a peer. \<open>hci_test.cpp\<close> (under
  \<open>windows/visual_studio/hci_test/hci_test\<close>) is its successor: on top of the same start it
  serves the L2CAP signaling channel, an SDP channel that announces a serial port, and an
  RFCOMM channel. Both run in callbacks of libusb: a completed transfer is interpreted, the
  answers are sent from the callback, and the state is in global variables.

  The model. A handler is a function from the buffer of a transfer and the state to a
  result: \<open>Inl\<close> of an error or \<open>Inr\<close> of the effects, in order, and the new state
  (\<open>Prelude\<close>). The errors are the ways in which the C and C++ code leaves its defined
  behaviour or its normal path: an access outside an array, a use of an uninitialised
  value, a throw. The effects are the packets sent, the pauses, the transfers given back,
  the records logged and the lines printed (by label and numbers, without their layout; lines that
  only mark a place in the code are left out).
  Integers have their width; an index of type \<open>uint8_t\<close> wraps. Loops that may not end are
  partial functions into options. libusb itself is not modelled: its results are
  parameters, and so are the devices.

  The theories, from the bottom up.

  \<^item> \<open>Prelude\<close>: words, results, reads from buffers, packets and their lengths, effects.

  \<^item> \<open>Libusb\<close>, \<open>Libusb_Iso\<close>: the constants, structures and inline functions of \<open>libusb.h\<close>. The
    two functions that locate a packet in an isochronous buffer agree when all packets have
    one length.

  \<^item> \<open>Hci_Opcodes\<close>: the opcodes of \<open>hci/hci.h\<close> and of \<open>main.c\<close> against the numbers of group and
    command, and the packets of \<open>command_template.h\<close>.

  \<^item> \<open>Scan_Endpoints\<close>, \<open>Usb_Send\<close>: \<open>scan_for_bt_endpoints\<close> and \<open>usb_send_cmd_packet\<close> of
    \<open>main.c\<close>. The scan chooses the first endpoint of each kind; the sender puts exactly the
    command on the bus and never overruns its static buffer.

  \<^item> \<open>Main_Events\<close>, \<open>Main_Events_Props\<close>: \<open>dump_hci_event\<close> of \<open>main.c\<close>, case by case. Some cases
    read an index that was never initialised; its value is the parameter \<open>g\<close>. It is shown
    what is answered, that at most one command is sent per event and the transfer is given
    back exactly then, for which \<open>g\<close> the handler stays in its buffers, and how much depends
    on \<open>g\<close>.

  \<^item> \<open>Init_Script\<close>, \<open>Main_Driver\<close>: \<open>async_callback\<close> of \<open>main.c\<close> with the script of the
    initialisation, and the transition system of callback, libusb and controller. In every
    reachable state the commands sent are a prefix of the script; if completions come
    before events the script is carried out, otherwise it may get stuck.

  \<^item> \<open>Main_Program\<close>: \<open>find_dev\<close> and \<open>main\<close> of \<open>main.c\<close> as the sequence of their calls to libusb,
    for all results of these calls: the complete sequence that leads into the event loop.

  \<^item> \<open>Sdp_Element\<close>, \<open>Sdp_Encoder\<close>: data elements of \<open>sdp/sdp.cpp\<close> and their serializer, which is
    proved to refine a recursive encoder.

  \<^item> \<open>Sdp_Reader\<close>, \<open>Sdp_Reader_Props\<close>, \<open>Sdp_Flat\<close>: the reader, a loop over a store of elements
    with parent pointers. It recovers flat sequences; on two packets it does not return,
    or mistakes the nesting.

  \<^item> \<open>Sdp_Server\<close>: the request parser and the response of the server.

  \<^item> \<open>Rfcomm_Fcs\<close>: the checksum of RFCOMM, proved equal to the bitwise CRC.

  \<^item> \<open>Hci_Codec\<close>, \<open>Link_Keys\<close>, \<open>Pklg\<close>: addresses and keys (\<open>hci/hci.cpp\<close>), the link key
    database with its file (\<open>hci/link_key_database.cpp\<close>), and the packet log
    (\<open>apple_pklg/pklg.cpp\<close>), with their round trips.

  \<^item> \<open>L2cap_Server\<close>, \<open>L2cap_Props\<close>: \<open>process_control\<close> of \<open>hci_test.cpp\<close>, the channel map and the
    flags. Every answer belongs to its request; the map stays well formed.

  \<^item> \<open>Rfcomm_Server\<close>: \<open>process_rfcomm\<close>; every frame sent is well formed.

  \<^item> \<open>Acl_Callback\<close>, \<open>Acl_Props\<close>: \<open>process_sdp\<close>, \<open>async_acl_callback\<close> and the MTU negotiation of
    \<open>async_callback\<close>. From the callback on: channels follow the requests, the SDP answer, the
    two steps of the negotiation, and where the lengths of a peer are trusted.

  \<^item> \<open>Mtu_Negotiation\<close>: both callbacks together negotiate the MTU as an automaton of three phases;
    and when each own request completes before the next event, it is taken for one of the peer
    and the response is never sent.

  \<^item> \<open>Packet_Sender\<close>, \<open>Acl_Sender\<close>, \<open>Command_Sender\<close>: \<open>usb_send_acl_packet\<close> with its retries and
    the transfers it allocates, \<open>usb_send_cmd_packet\<close>, and the contract that both keep: of all
    that a handler sends, what reaches the bus, what is lost, and what is left behind.

  \<^item> \<open>Server_Events\<close>, \<open>Server_Events_Props\<close>: \<open>dump_hci_event\<close> of \<open>hci_test.cpp\<close> with the link
    key database. A pairing survives a restart; every answer and its length; the handler is
    total up to two kinds of events; it agrees with \<open>main.c\<close> on command complete events.

  \<^item> \<open>Server_Driver\<close>, \<open>Server_Driver_Props\<close>: \<open>async_callback\<close> of \<open>hci_test.cpp\<close> with its script,
    and the transition system of both callbacks, libusb and the controller. A transfer that
    has come back, completed or failed, is libusb's again only by the submissions in the effects of the
    callback. The initialisation refines that of \<open>main.c\<close> and cannot get stuck, unless an event
    that answers no command comes in between; the database and the channel map stay well formed in
    every run.

  \<^item> \<open>Given_Back\<close>, \<open>Server_Runs\<close>: the callbacks give no completed transfer back, as \<open>submit\<close> is empty,
    so a run takes at most as many completed events and packets as there are transfers, 150 of
    each at the start; and runs of the program through an initialisation, a pairing and a connection.

  \<^item> \<open>Server_Program\<close>, \<open>Server_Program_Props\<close>: the command sender, \<open>find_dev\<close> and the end of
    \<open>main\<close> of \<open>hci_test.cpp\<close>: what has happened when the event loop is entered, what is
    released on each way out, and what a refused command does to the pending one.

  \<^item> \<open>Usb_Names\<close>, \<open>Usb_Devices\<close>: the database of vendor and product names with its parser, equal
    to a search in the text; the classes of \<open>usb/\<close>, and the start of \<open>main\<close>, which opens every
    device it can and closes none.

  \<^item> \<open>Pcap\<close>: the headers and records of \<open>libpcap.h\<close> as \<open>hci_test.cpp\<close> writes them, against a
    reader of the format.

  \<^item> \<open>Sdp_Tests\<close>: the test functions of \<open>sdp_test.cpp\<close>, run on the model of the serializer and of
    the reader: which of them pass.

  \<^item> \<open>Libusb_Test\<close>: the program \<open>libusb_test.cpp\<close>; when its loop over the extra descriptors of
    an endpoint returns, and that all it opens is closed.

  Beside the stack the repository holds a loader for the firmware of Cypress USB controllers,
  \<open>ezusb/ezusb.cpp\<close>.

  \<^item> \<open>Ezusb_Image\<close>, \<open>Ezusb_Segments\<close>: the parsers of Intel HEX, binary and IIC images, and the
    interface \<open>image_source\<close>: a parser hands over a list of segments that does not depend on
    what is done with them.

  \<^item> \<open>Ezusb_Hex\<close>, \<open>Ezusb_Image_Props\<close>: the parsers against writers of the three formats, and the
    memory that the Intel HEX parser touches.

  \<^item> \<open>Ezusb_Loader\<close>, \<open>Ezusb_Loader_Props\<close>: vendor requests, \<open>ram_poke\<close> and \<open>ezusb_load_ram\<close>: which
    requests an upload in one or two stages has sent when it succeeds, and when it fails.

  \<^item> \<open>Ezusb_Fx3\<close>, \<open>Ezusb_Fx3_Props\<close>: \<open>fx3_load_ram\<close>; a reported success means that every chunk was
    written and read back.

  \<^item> \<open>Xgetopt\<close>: \<open>getopt\<close> of \<open>xgetopt/XGetopt.cpp\<close>, equal to a reference on the structure of the
    command line.

  \<^item> \<open>Fxload\<close>, \<open>Fxload_Props\<close>: \<open>main_deactivated\<close> of \<open>fxload.cpp\<close>, from the arguments to the upload;
    the only way in which it succeeds.

  The interfaces are locales, each interpreted on the code's definitions: \<open>block_codec\<close>
  (values of a fixed number of bytes in packets) on addresses and link keys, \<open>key_store\<close> on
  the link key database, \<open>packet_sender\<close> (a sender whose result nobody looks at) on the two
  senders, \<open>framing\<close> (records one after the other in a file) on the packet log and on pcap
  records, \<open>channel_table\<close> (numbered entries) on the channel map, \<open>image_source\<close> (segments
  handed to a function that may refuse) on each image format and on the choice between them.

  Bounds. The buffers have the sizes of the source: 259 bytes and the setup packet for a
  command, 1699 for an event, 256 for a serialized element, 1024 for a packet under
  construction. \<open>take_all\<close> reads as many records as its number says; one more than the
  records in the file is enough, as the round trip shows. The loop of
  \<open>usb_send_acl_packet\<close> recurses on its own retry counter. The width of an \<open>unsigned long\<close> is
  the parameter \<open>w\<close> of the Intel HEX parser, and the old content of its line buffer the
  parameter \<open>g\<close>.

  Not modelled: libusb's event handling, in particular the nested call of
  \<open>libusb_handle_events_timeout\<close> at the start of the callbacks, which runs other callbacks
  first; the life time of buffers (packets are built in local arrays that are gone when the
  transfer completes, and are marked to be freed); the text of error messages. The
  files \<open>spp_client.cpp\<close> and \<open>link_key_database_test.cpp\<close> are commented out as a whole. The
  second copy of \<open>ezusb.cpp\<close> under \<open>hci_test/ezusb\<close> and the copies of \<open>libusb.h\<close> for the other
  systems are not modelled again.
\<close>

end
